(* ===== verification/Prelude.thy ===== *)
theory Prelude
  imports Main "HOL-Library.State_Monad"
begin

text \<open>
  The prelude of the development: a weakest-precondition reading of the state monad in which
  the services and handlers of the program are written, a frame calculus for relations between
  the state before and the state after a computation, and the facts on lists that the database
  tables (lists of rows) share.
\<close>

named_theorems wp \<open>equations that compute the weakest precondition of a computation\<close>

named_theorems tables \<open>facts about tables as lists of rows\<close>


section \<open>Computations\<close>

text \<open>
  A Go function with effects is a computation of \<^typ>\<open>('s, 'a) state\<close>. An early
  return is a branch of the case distinction on the error result that the call before it
  returned.
\<close>

abbreviation ret :: "'a \<Rightarrow> ('s, 'a) state" where
  "ret \<equiv> State_Monad.return"

text \<open>The state after a computation, and its result.\<close>

definition exec :: "('s, 'a) state \<Rightarrow> 's \<Rightarrow> 's" where
  "exec m s = snd (run_state m s)"

definition result :: "('s, 'a) state \<Rightarrow> 's \<Rightarrow> 'a" where
  "result m s = fst (run_state m s)"

text \<open>
  Reading a component of the state, and changing the state.
\<close>

definition gets :: "('s \<Rightarrow> 'a) \<Rightarrow> ('s, 'a) state" where
  "gets f = State (\<lambda>s. (f s, s))"

definition modify :: "('s \<Rightarrow> 's) \<Rightarrow> ('s, unit) state" where
  "modify f = State (\<lambda>s. ((), f s))"

definition wlp :: "('s, 'a) state \<Rightarrow> ('a \<Rightarrow> 's \<Rightarrow> bool) \<Rightarrow> 's \<Rightarrow> bool" where
  "wlp m Q s = (case run_state m s of (a, t) \<Rightarrow> Q a t)"

text \<open>A loop that runs a computation for each element, as \<open>for _, x := range xs\<close> does.\<close>

primrec for_each :: "'a list \<Rightarrow> ('a \<Rightarrow> ('s, unit) state) \<Rightarrow> ('s, unit) state" where
  "for_each [] f = ret ()"
| "for_each (x # xs) f = do { f x; for_each xs f }"

lemma run_state_gets [simp]: "run_state (gets f) s = (f s, s)"
  by (simp add: gets_def)

lemma run_state_modify [simp]: "run_state (modify f) s = ((), f s)"
  by (simp add: modify_def)

lemma exec_gets [simp]: "exec (gets f) s = s"
  by (simp add: exec_def)

lemma result_gets [simp]: "result (gets f) s = f s"
  by (simp add: result_def)

lemma wlp_ret [wp]: "wlp (ret x) Q = Q x"
  by (simp add: wlp_def fun_eq_iff)

lemma wlp_bind [wp]: "wlp (State_Monad.bind m f) Q = wlp m (\<lambda>a. wlp (f a) Q)"
  by (simp add: wlp_def fun_eq_iff split: prod.splits)

lemma wlp_gets [wp]: "wlp (gets f) Q s = Q (f s) s"
  by (simp add: wlp_def)

lemma wlp_modify [wp]: "wlp (modify f) Q s = Q () (f s)"
  by (simp add: wlp_def)

lemma wlp_if [wp]: "wlp (if b then m else n) Q s = (if b then wlp m Q s else wlp n Q s)"
  by simp

lemma wlp_sum [wp]:
  "wlp (case x of Inl e \<Rightarrow> f e | Inr y \<Rightarrow> g y) Q s =
     (case x of Inl e \<Rightarrow> wlp (f e) Q s | Inr y \<Rightarrow> wlp (g y) Q s)"
  by (cases x) simp_all

lemma wlp_option [wp]:
  "wlp (case x of None \<Rightarrow> m | Some y \<Rightarrow> g y) Q s =
     (case x of None \<Rightarrow> wlp m Q s | Some y \<Rightarrow> wlp (g y) Q s)"
  by (cases x) simp_all

lemma wlp_prod [wp]:
  "wlp (case x of (a, b) \<Rightarrow> f a b) Q s = (case x of (a, b) \<Rightarrow> wlp (f a b) Q s)"
  by (cases x) simp

lemma wlp_Let [wp]: "wlp (let x = e in f x) Q s = (let x = e in wlp (f x) Q s)"
  by simp

lemma wlp_const [wp]: "wlp m (\<lambda>_ _. P) s = P"
  by (simp add: wlp_def split: prod.splits)

lemma wlp_mono: "wlp m P s \<Longrightarrow> (\<And>a t. P a t \<Longrightarrow> Q a t) \<Longrightarrow> wlp m Q s"
  by (auto simp: wlp_def split: prod.splits)

lemma wlp_exec: "wlp m (\<lambda>_. P) s \<longleftrightarrow> P (exec m s)"
  by (simp add: wlp_def exec_def split: prod.splits)

lemma wlp_result: "wlp m (\<lambda>a _. P a) s \<longleftrightarrow> P (result m s)"
  by (simp add: wlp_def result_def split: prod.splits)

lemma wlp_run: "wlp m Q s \<longleftrightarrow> Q (result m s) (exec m s)"
  by (simp add: wlp_def result_def exec_def split: prod.splits)

lemma run_state_split: "run_state m w = (result m w, exec m w)"
  by (simp add: result_def exec_def)

lemma run_state_bind: "run_state (State_Monad.bind m f) w = run_state (f (result m w)) (exec m w)"
  by (simp add: run_state_split [of m])

lemma result_ret [simp]: "result (ret x) w = x"
  by (simp add: result_def)

lemma exec_ret [simp]: "exec (ret x) w = w"
  by (simp add: exec_def)

lemma result_bind: "result (State_Monad.bind m f) w = result (f (result m w)) (exec m w)"
  unfolding result_def [of "State_Monad.bind m f"] run_state_bind by (simp add: result_def)

lemma exec_bind: "exec (State_Monad.bind m f) w = exec (f (result m w)) (exec m w)"
  unfolding exec_def [of "State_Monad.bind m f"] run_state_bind by (simp add: exec_def)

lemma result_eqI: "wlp m (\<lambda>r _. r = x) w \<Longrightarrow> result m w = x"
  by (simp add: wlp_result)


section \<open>Frames\<close>

text \<open>
  What a computation may do to the state is a reflexive and transitive relation between the
  state before and the state after: "this table is not touched", "revoked stays revoked",
  "the schema's constraints hold again". A relation of this kind composes along the
  monad's operations, whatever it is; each of them is an interpretation.
\<close>

locale frame =
  fixes R :: "'s \<Rightarrow> 's \<Rightarrow> bool"
  assumes frame_refl: "R s s"
    and frame_trans: "R s t \<Longrightarrow> R t u \<Longrightarrow> R s u"
begin

lemma frame_ret: "state_io_rel R (ret x)"
  by (auto simp: state_io_rel_def frame_refl)

lemma frame_gets: "state_io_rel R (gets f)"
  by (auto simp: state_io_rel_def frame_refl)

lemma frame_bind:
  "state_io_rel R m \<Longrightarrow> (\<And>a. state_io_rel R (f a)) \<Longrightarrow>
     state_io_rel R (State_Monad.bind m f)"
  unfolding state_io_rel_def
  by (auto split: prod.splits) (metis frame_trans snd_conv)

lemma frame_if:
  "state_io_rel R m \<Longrightarrow> state_io_rel R n \<Longrightarrow> state_io_rel R (if b then m else n)"
  by simp

lemma frame_sum:
  "(\<And>e. state_io_rel R (f e)) \<Longrightarrow> (\<And>y. state_io_rel R (g y)) \<Longrightarrow>
     state_io_rel R (case x of Inl e \<Rightarrow> f e | Inr y \<Rightarrow> g y)"
  by (cases x) simp_all

lemma frame_option:
  "state_io_rel R m \<Longrightarrow> (\<And>y. state_io_rel R (g y)) \<Longrightarrow>
     state_io_rel R (case x of None \<Rightarrow> m | Some y \<Rightarrow> g y)"
  by (cases x) simp_all

lemma frame_prod:
  "(\<And>a b. state_io_rel R (f a b)) \<Longrightarrow> state_io_rel R (case x of (a, b) \<Rightarrow> f a b)"
  by (cases x) simp

lemma frame_Let:
  "(\<And>x. state_io_rel R (f x)) \<Longrightarrow> state_io_rel R (let x = e in f x)"
  by simp

lemma frame_for_each:
  "(\<And>x. state_io_rel R (f x)) \<Longrightarrow> state_io_rel R (for_each xs f)"
  by (induction xs) (auto intro: frame_ret frame_bind)

lemmas frame_intros = frame_ret frame_gets frame_bind frame_if frame_sum frame_option
  frame_prod frame_Let frame_for_each

lemma frame_execD: "state_io_rel R m \<Longrightarrow> R s (exec m s)"
  by (simp add: state_io_rel_def exec_def)

end


section \<open>Tables\<close>

text \<open>
  A table is a list of rows. A row is looked up by a column (a primary key or a unique
  column), rows are inserted at the end, updated in place and deleted by a condition.
\<close>

definition select_one :: "('r \<Rightarrow> bool) \<Rightarrow> 'r list \<Rightarrow> 'r option" where
  "select_one p t = List.find p t"

definition update_where :: "('r \<Rightarrow> bool) \<Rightarrow> ('r \<Rightarrow> 'r) \<Rightarrow> 'r list \<Rightarrow> 'r list" where
  "update_where p f t = map (\<lambda>r. if p r then f r else r) t"

definition delete_where :: "('r \<Rightarrow> bool) \<Rightarrow> 'r list \<Rightarrow> 'r list" where
  "delete_where p t = filter (\<lambda>r. \<not> p r) t"

text \<open>How many rows a statement matches: \<open>RowsAffected\<close>.\<close>

definition rows_affected :: "('r \<Rightarrow> bool) \<Rightarrow> 'r list \<Rightarrow> nat" where
  "rows_affected p t = length (filter p t)"

lemma select_one_None [tables]: "select_one p t = None \<longleftrightarrow> (\<forall>r \<in> set t. \<not> p r)"
  by (auto simp: select_one_def find_None_iff)

lemma select_one_SomeD: "select_one p t = Some r \<Longrightarrow> r \<in> set t \<and> p r"
  by (auto simp: select_one_def find_Some_iff)

lemma select_one_append [tables]:
  "select_one p (t @ u) = (case select_one p t of None \<Rightarrow> select_one p u | Some r \<Rightarrow> Some r)"
  by (induction t) (auto simp: select_one_def)

lemma select_one_single [tables]: "select_one p [r] = (if p r then Some r else None)"
  by (simp add: select_one_def)

lemma select_one_Nil [tables]: "select_one p [] = None"
  by (simp add: select_one_def)

lemma select_one_delete [tables]: "(\<And>r. p r \<Longrightarrow> q r) \<Longrightarrow> select_one p (delete_where q t) = None"
  by (auto simp: select_one_None delete_where_def)

lemma select_one_delete_other [tables]:
  "(\<And>r. p r \<Longrightarrow> \<not> q r) \<Longrightarrow> select_one p (delete_where q t) = select_one p t"
  by (induction t) (auto simp: select_one_def delete_where_def)

lemma select_one_update [tables]:
  "(\<And>r. p (f r) = p r) \<Longrightarrow>
     select_one p (update_where q f t) = map_option (\<lambda>r. if q r then f r else r) (select_one p t)"
  by (induction t) (auto simp: select_one_def update_where_def)

lemma select_one_cong: "(\<And>r. r \<in> set t \<Longrightarrow> p r = q r) \<Longrightarrow> select_one p t = select_one q t"
  by (induction t) (auto simp: select_one_def)

text \<open>With a key column that is distinct, the row found is the only one.\<close>

lemma select_one_key:
  "distinct (map k t) \<Longrightarrow> r \<in> set t \<Longrightarrow> select_one (\<lambda>x. k x = k r) t = Some r"
  by (induction t) (auto simp: select_one_def)

lemma distinct_key_eq: "distinct (map k t) \<Longrightarrow> r \<in> set t \<Longrightarrow> s \<in> set t \<Longrightarrow> k r = k s \<Longrightarrow> r = s"
  by (meson distinct_map inj_onD)

lemma set_update_where [tables]:
  "set (update_where p f t) = (\<lambda>r. if p r then f r else r) ` set t"
  by (simp add: update_where_def)

lemma set_delete_where [tables]: "set (delete_where p t) = {r \<in> set t. \<not> p r}"
  by (auto simp: delete_where_def)

lemma map_update_where [tables]:
  "(\<And>r. k (f r) = k r) \<Longrightarrow> map k (update_where p f t) = map k t"
  by (simp add: update_where_def)

lemma distinct_delete_where [tables]:
  "distinct (map k t) \<Longrightarrow> distinct (map k (delete_where p t))"
  by (auto simp: delete_where_def distinct_map_filter)

lemma update_where_none [tables]:
  "(\<And>r. r \<in> set t \<Longrightarrow> \<not> p r) \<Longrightarrow> update_where p f t = t"
  by (simp add: update_where_def map_idI)

lemma delete_where_none [tables]:
  "(\<And>r. r \<in> set t \<Longrightarrow> \<not> p r) \<Longrightarrow> delete_where p t = t"
  by (simp add: delete_where_def)

lemma rows_affected_zero [tables]: "rows_affected p t = 0 \<longleftrightarrow> (\<forall>r \<in> set t. \<not> p r)"
  by (auto simp: rows_affected_def filter_empty_conv)

end
