(* ===== verification/GoStd.thy ===== *)
theory GoStd
  imports Prelude "HOL-Library.Word"
begin

text \<open>
  What the program uses of Go and its standard library: error values, fixed-width integers,
  the string functions of \<open>strings\<close> and \<open>strconv\<close>, times, and the values that
  \<open>encoding/json\<close> reads and writes. Strings are byte strings; the case and space tests
  are those of the ASCII range.
\<close>


section \<open>Errors\<close>

text \<open>
  The \<open>error\<close> values the program compares or passes on. \<open>ErrNotFound\<close> carries the
  package that declares it; \<open>Errorf\<close> is a message formatted by the program,
  \<open>Wrapf\<close> is \<open>fmt.Errorf("...: %w", err)\<close>; the constraint violations and \<open>DriverError\<close> come from the database driver, \<open>LibError\<close> from a
  third-party client.
\<close>

datatype goerror =
    ErrNoRows
  | ErrEmailInUse
  | ErrInvalidLogin
  | ErrNotFound string
  | ErrResetTokenInvalid
  | ErrTokenInvalidClaims
  | UniqueViolation string
  | ForeignKeyViolation string
  | DriverError string
  | LibError string
  | Errorf string
  | Wrapf string goerror

text \<open>\<open>errors.Is(err, sql.ErrNoRows)\<close>: looks through wrapped errors.\<close>

fun is_no_rows :: "goerror \<Rightarrow> bool" where
  "is_no_rows ErrNoRows = True"
| "is_no_rows (Wrapf _ e) = is_no_rows e"
| "is_no_rows _ = False"

text \<open>\<open>err.Error()\<close>: the message.\<close>

fun Error :: "goerror \<Rightarrow> string" where
  "Error ErrNoRows = ''sql: no rows in result set''"
| "Error ErrEmailInUse = ''email already in use''"
| "Error ErrInvalidLogin = ''invalid email or password''"
| "Error (ErrNotFound pkg) = pkg @ '' not found''"
| "Error ErrResetTokenInvalid = ''invalid or expired reset token''"
| "Error ErrTokenInvalidClaims = ''token has invalid claims''"
| "Error (UniqueViolation c) = ''ERROR: duplicate key value violates unique constraint '' @ c"
| "Error (ForeignKeyViolation c) = ''ERROR: insert or update violates foreign key constraint '' @ c"
| "Error (DriverError s) = s"
| "Error (LibError s) = s"
| "Error (Errorf s) = s"
| "Error (Wrapf s e) = s @ '': '' @ Error e"


section \<open>Integers\<close>

text \<open>
  Conversion to \<open>int32\<close> and the wrap-around of \<open>int\<close> and \<open>int64\<close> arithmetic
  (64 bits).
\<close>

definition int32 :: "int \<Rightarrow> int" where
  "int32 x = sint (word_of_int x :: 32 word)"

definition int64 :: "int \<Rightarrow> int" where
  "int64 x = sint (word_of_int x :: 64 word)"

lemma int32_signed: "int32 x = signed_take_bit 31 x"
  by (simp add: int32_def sint_sbintrunc')

lemma int64_signed: "int64 x = signed_take_bit 63 x"
  by (simp add: int64_def sint_sbintrunc')

lemma int32_range: "- (2 ^ 31) \<le> int32 x" "int32 x < 2 ^ 31"
  using sint_range_size [of "word_of_int x :: 32 word"]
  by (simp_all add: int32_def word_size)

lemma int64_range: "- (2 ^ 63) \<le> int64 x" "int64 x < 2 ^ 63"
  using sint_range_size [of "word_of_int x :: 64 word"]
  by (simp_all add: int64_def word_size)

lemma int32_id: "- (2 ^ 31) \<le> x \<Longrightarrow> x < 2 ^ 31 \<Longrightarrow> int32 x = x"
  by (simp add: int32_signed signed_take_bit_int_eq_self_iff)

lemma int64_id: "- (2 ^ 63) \<le> x \<Longrightarrow> x < 2 ^ 63 \<Longrightarrow> int64 x = x"
  by (simp add: int64_signed signed_take_bit_int_eq_self_iff)


section \<open>Strings\<close>

definition HasPrefix :: "string \<Rightarrow> string \<Rightarrow> bool" where
  "HasPrefix s p \<longleftrightarrow> take (length p) s = p"

definition lower_char :: "char \<Rightarrow> char" where
  "lower_char c = (let n = (of_char c :: nat) in if 65 \<le> n \<and> n \<le> 90 then char_of (n + 32) else c)"

definition ToLower :: "string \<Rightarrow> string" where
  "ToLower s = map lower_char s"

definition is_space :: "char \<Rightarrow> bool" where
  "is_space c \<longleftrightarrow> (let n = (of_char c :: nat) in n = 32 \<or> 9 \<le> n \<and> n \<le> 13)"

definition TrimSpace :: "string \<Rightarrow> string" where
  "TrimSpace s = rev (dropWhile is_space (rev (dropWhile is_space s)))"

definition TrimLeft :: "string \<Rightarrow> char \<Rightarrow> string" where
  "TrimLeft s c = dropWhile (\<lambda>x. x = c) s"

definition EqualFold :: "string \<Rightarrow> string \<Rightarrow> bool" where
  "EqualFold s t \<longleftrightarrow> ToLower s = ToLower t"

fun Split :: "string \<Rightarrow> char \<Rightarrow> string list" where
  "Split [] c = [[]]"
| "Split (x # xs) c =
     (if x = c then [] # Split xs c
      else (case Split xs c of [] \<Rightarrow> [[x]] | p # ps \<Rightarrow> (x # p) # ps))"

text \<open>\<open>strconv.Atoi\<close>: an optional sign, then decimal digits, in the range of \<open>int\<close>.\<close>

definition digit_of :: "char \<Rightarrow> int option" where
  "digit_of c = (let n = (of_char c :: nat) in if 48 \<le> n \<and> n \<le> 57 then Some (int n - 48) else None)"

fun digits_value :: "int \<Rightarrow> string \<Rightarrow> int option" where
  "digits_value acc [] = Some acc"
| "digits_value acc (c # cs) =
     (case digit_of c of None \<Rightarrow> None | Some d \<Rightarrow> digits_value (acc * 10 + d) cs)"

definition Atoi :: "string \<Rightarrow> int option" where
  "Atoi s =
     (let neg = (take 1 s = ''-'');
          ds = (if neg \<or> take 1 s = ''+'' then drop 1 s else s)
      in if ds = [] then None
         else (case digits_value 0 ds of
                 None \<Rightarrow> None
               | Some n \<Rightarrow>
                   (let v = (if neg then - n else n)
                    in if - (2 ^ 63) \<le> v \<and> v < 2 ^ 63 then Some v else None)))"

text \<open>\<open>strconv.ParseBool\<close>.\<close>

definition ParseBool :: "string \<Rightarrow> bool option" where
  "ParseBool s =
     (if s \<in> set [''1'', ''t'', ''T'', ''TRUE'', ''true'', ''True''] then Some True
      else if s \<in> set [''0'', ''f'', ''F'', ''FALSE'', ''false'', ''False''] then Some False
      else None)"

text \<open>\<open>strconv.Itoa\<close>.\<close>

fun nat_digits :: "nat \<Rightarrow> string" where
  "nat_digits n =
     (if n < 10 then [char_of (48 + n)] else nat_digits (n div 10) @ [char_of (48 + n mod 10)])"

declare nat_digits.simps [simp del]

definition Itoa :: "int \<Rightarrow> string" where
  "Itoa x = (if x < 0 then ''-'' @ nat_digits (nat (- x)) else nat_digits (nat x))"

lemma HasPrefix_append [simp]: "HasPrefix (p @ s) p"
  by (simp add: HasPrefix_def)

lemma HasPrefix_iff: "HasPrefix s p \<longleftrightarrow> (\<exists>t. s = p @ t)"
  by (metis HasPrefix_append HasPrefix_def append_take_drop_id)

lemma ToLower_append [simp]: "ToLower (s @ t) = ToLower s @ ToLower t"
  by (simp add: ToLower_def)

lemma length_ToLower [simp]: "length (ToLower s) = length s"
  by (simp add: ToLower_def)

lemma dropWhile_none: "\<forall>x \<in> set xs. \<not> p x \<Longrightarrow> dropWhile p xs = xs"
  by (cases xs) auto

lemma TrimSpace_no_space: "\<forall>c \<in> set s. \<not> is_space c \<Longrightarrow> TrimSpace s = s"
  by (simp add: TrimSpace_def dropWhile_none)

lemma Split_nonempty [simp]: "Split s c \<noteq> []"
  by (cases s) (auto split: list.splits)

lemma Split_no_sep: "p \<in> set (Split s c) \<Longrightarrow> c \<notin> set p"
  by (induction s arbitrary: p) (auto split: if_splits list.splits)

lemma digit_of_digit: "d < 10 \<Longrightarrow> digit_of (char_of (48 + d)) = Some (int d)"
  by (simp add: digit_of_def of_char_of)

lemma digits_value_append:
  "digits_value a (xs @ ys) =
     (case digits_value a xs of None \<Rightarrow> None | Some b \<Rightarrow> digits_value b ys)"
  by (induction xs arbitrary: a) (auto split: option.splits)

lemma digits_value_nat_digits: "digits_value 0 (nat_digits n) = Some (int n)"
proof (induction n rule: nat_digits.induct)
  case (1 n)
  show ?case
  proof (cases "n < 10")
    case True
    then show ?thesis by (simp add: nat_digits.simps [of n] digit_of_digit)
  next
    case False
    with "1.IH" have ih: "digits_value 0 (nat_digits (n div 10)) = Some (int (n div 10))"
      by simp
    have split: "int n = int (n div 10) * 10 + int (n mod 10)"
      by (metis div_mult_mod_eq of_nat_add of_nat_mult of_nat_numeral)
    show ?thesis
      using False ih
      by (simp add: nat_digits.simps [of n] digits_value_append digit_of_digit flip: split)
  qed
qed

lemma nat_digits_nonempty [simp]: "nat_digits n \<noteq> []"
  by (subst nat_digits.simps) simp

lemma nat_digits_head: "take 1 (nat_digits n) \<noteq> ''-''" "take 1 (nat_digits n) \<noteq> ''+''"
proof -
  obtain c cs where nd: "nat_digits n = c # cs"
    by (meson nat_digits_nonempty neq_Nil_conv)
  with digits_value_nat_digits [of n] have "digit_of c \<noteq> None"
    by (auto split: option.splits)
  with nd show "take 1 (nat_digits n) \<noteq> ''-''" "take 1 (nat_digits n) \<noteq> ''+''"
    by (auto simp: digit_of_def)
qed

text \<open>\<open>Atoi\<close> reads back what \<open>Itoa\<close> prints.\<close>

lemma Atoi_Itoa: "- (2 ^ 63) \<le> x \<Longrightarrow> x < 2 ^ 63 \<Longrightarrow> Atoi (Itoa x) = Some x"
  using nat_digits_head [of "nat x"]
  by (auto simp: Atoi_def Itoa_def digits_value_nat_digits Let_def)


section \<open>Times\<close>

text \<open>
  A \<open>time.Time\<close> is its number of nanoseconds since the Unix epoch; \<open>time.Time{}\<close> is
  the first instant of year 1. A \<open>time.Duration\<close> is a number of nanoseconds.
\<close>

type_synonym time = int

definition zero_time :: time where
  "zero_time = - 62135596800 * 10 ^ 9"

definition Second :: int where "Second = 10 ^ 9"

definition Minute :: int where "Minute = 60 * Second"

definition Hour :: int where "Hour = 60 * Minute"

text \<open>
  \<open>Time.Sub\<close>, which saturates, and \<open>Duration.String\<close>: \<open>fmtFrac\<close> prints the fraction of
  \<open>v / 10 ^ prec\<close> without trailing zeros, and units below a second are chosen by size.
\<close>

definition time_Sub :: "time \<Rightarrow> time \<Rightarrow> int" where
  "time_Sub t u = max (- (2 ^ 63)) (min (2 ^ 63 - 1) (t - u))"

fun fmtFrac_digits :: "nat \<Rightarrow> nat \<Rightarrow> string" where
  "fmtFrac_digits v 0 = ''.''"
| "fmtFrac_digits v (Suc prec) = fmtFrac_digits (v div 10) prec @ [char_of (48 + v mod 10)]"

fun fmtFrac :: "nat \<Rightarrow> nat \<Rightarrow> string" where
  "fmtFrac v 0 = []"
| "fmtFrac v (Suc prec) =
     (if v mod 10 = 0 then fmtFrac (v div 10) prec
      else fmtFrac_digits (v div 10) prec @ [char_of (48 + v mod 10)])"

definition Duration_String :: "int \<Rightarrow> string" where
  "Duration_String d =
     (let u = nat \<bar>d\<bar>;
          frac = (\<lambda>prec. fmtFrac u prec);
          whole = (\<lambda>prec. nat_digits (u div 10 ^ prec));
          body = (if u = 0 then ''0s''
                  else if u < 10 ^ 3 then nat_digits u @ ''ns''
                  else if u < 10 ^ 6 then whole 3 @ frac 3 @ [CHR 0xC2, CHR 0xB5, CHR ''s'']
                  else if u < 10 ^ 9 then whole 6 @ frac 6 @ ''ms''
                  else (let s = u div 10 ^ 9; m = s div 60; h = m div 60
                        in (if 0 < h then nat_digits h @ ''h'' else []) @
                           (if 0 < m then nat_digits (m mod 60) @ ''m'' else []) @
                           nat_digits (s mod 60) @ frac 9 @ ''s''))
      in if d < 0 then CHR ''-'' # body else body)"


section \<open>JSON\<close>

text \<open>
  The values \<open>encoding/json\<close> reads and writes. \<open>JTime\<close> is a time in its RFC 3339
  form, a JSON string whose spelling nothing here depends on. Objects keep the order of their members.
\<close>

datatype json =
    JNull
  | JBool bool
  | JInt int
  | JStr string
  | JTime time
  | JList "json list"
  | JObj "(string \<times> json) list"

text \<open>A member with the option \<open>omitempty\<close>.\<close>

definition omit_empty_str :: "string \<Rightarrow> string \<Rightarrow> (string \<times> json) list" where
  "omit_empty_str k s = (if s = [] then [] else [(k, JStr s)])"

definition omit_nil :: "string \<Rightarrow> ('a \<Rightarrow> json) \<Rightarrow> 'a option \<Rightarrow> (string \<times> json) list" where
  "omit_nil k f x = (case x of None \<Rightarrow> [] | Some v \<Rightarrow> [(k, f v)])"

text \<open>
  Decoding into a struct: the members are read in order, a name matches a field without regard
  to case, \<open>null\<close> leaves the field as it is, and a value of another type is an error.
\<close>

fun decode_field :: "(json \<Rightarrow> 'a option) \<Rightarrow> string \<Rightarrow> (string \<times> json) list \<Rightarrow> 'a \<Rightarrow> 'a option" where
  "decode_field f k [] cur = Some cur"
| "decode_field f k ((k', v) # kvs) cur =
     (if EqualFold k' k \<and> v \<noteq> JNull
      then (case f v of None \<Rightarrow> None | Some x \<Rightarrow> decode_field f k kvs x)
      else decode_field f k kvs cur)"

definition as_string :: "json \<Rightarrow> string option" where
  "as_string v = (case v of JStr s \<Rightarrow> Some s | _ \<Rightarrow> None)"

definition as_int64 :: "json \<Rightarrow> int option" where
  "as_int64 v = (case v of JInt n \<Rightarrow> if - (2 ^ 63) \<le> n \<and> n < 2 ^ 63 then Some n else None | _ \<Rightarrow> None)"

definition as_bool :: "json \<Rightarrow> bool option" where
  "as_bool v = (case v of JBool b \<Rightarrow> Some b | _ \<Rightarrow> None)"

definition as_time :: "json \<Rightarrow> time option" where
  "as_time v = (case v of JTime t \<Rightarrow> Some t | _ \<Rightarrow> None)"

fun as_string_list :: "json list \<Rightarrow> string list option" where
  "as_string_list [] = Some []"
| "as_string_list (v # vs) =
     (case (if v = JNull then Some [] else as_string v) of None \<Rightarrow> None
      | Some s \<Rightarrow> map_option ((#) s) (as_string_list vs))"

text \<open>The members of the object a request body or a JSONB value holds; \<open>null\<close> has none.\<close>

definition members :: "json \<Rightarrow> (string \<times> json) list option" where
  "members v = (case v of JObj kvs \<Rightarrow> Some kvs | JNull \<Rightarrow> Some [] | _ \<Rightarrow> None)"

lemma decode_field_exact:
  "f v = Some x \<Longrightarrow> v \<noteq> JNull \<Longrightarrow> decode_field f k [(k, v)] cur = Some x"
  by (simp add: EqualFold_def)

end
