(* ===== verification/Float64.thy ===== *)
theory Float64
  imports Complex_Main "HOL-Library.Log_Nat"
begin

text \<open>
  The arithmetic of Go's \<open>float64\<close>, as far as the rate limiter uses it: every operation is
  the exact rational result rounded to 53 significant bits, ties to even. Overflow, NaN and
  subnormal numbers are left out: the limiter's values are either zero or of a magnitude
  between \<open>10\<^sup>-\<^sup>9\<close> and \<open>10\<^sup>1\<^sup>9\<close>.
\<close>

definition round_even :: "rat \<Rightarrow> int" where
  "round_even y =
     (let f = \<lfloor>y\<rfloor>; r = y - of_int f
      in if r < 1 / 2 then f else if r > 1 / 2 then f + 1 else if even f then f else f + 1)"

text \<open>The exponent of a positive rational: \<open>2 ^ e \<le> x < 2 ^ (e + 1)\<close>.\<close>

definition exponent :: "rat \<Rightarrow> int" where
  "exponent x =
     (let (p, q) = quotient_of x;
          e = int (floorlog 2 (nat p)) - int (floorlog 2 (nat q))
      in if power_int 2 e \<le> x then e else e - 1)"

definition round_pos :: "rat \<Rightarrow> rat" where
  "round_pos x =
     (let u = power_int 2 (exponent x - 52) in of_int (round_even (x / u)) * u)"

definition float64 :: "rat \<Rightarrow> rat" where
  "float64 x = (if x = 0 then 0 else if x > 0 then round_pos x else - round_pos (- x))"

text \<open>What a client of the arithmetic relies on.\<close>

locale rounding =
  fixes fl :: "rat \<Rightarrow> rat"
  assumes fl_mono: "x \<le> y \<Longrightarrow> fl x \<le> fl y"
    and fl_int: "\<bar>n\<bar> \<le> 2 ^ 53 \<Longrightarrow> fl (of_int n) = of_int n"
begin

lemma fl_zero: "fl 0 = 0"
  using fl_int [of 0] by simp

lemma fl_nonneg: "0 \<le> x \<Longrightarrow> 0 \<le> fl x"
  using fl_mono [of 0 x] by (simp add: fl_zero)

lemma fl_le_int: "x \<le> of_int n \<Longrightarrow> \<bar>n\<bar> \<le> 2 ^ 53 \<Longrightarrow> fl x \<le> of_int n"
  by (metis fl_int fl_mono)

end

lemma round_even_bounds: "\<lfloor>y\<rfloor> \<le> round_even y" "round_even y \<le> \<lfloor>y\<rfloor> + 1"
  by (auto simp: round_even_def Let_def)

lemma round_even_mono: "x \<le> y \<Longrightarrow> round_even x \<le> round_even y"
proof (cases "\<lfloor>x\<rfloor> = \<lfloor>y\<rfloor>")
  case True
  moreover assume "x \<le> y"
  ultimately show ?thesis by (auto simp: round_even_def Let_def)
next
  case False
  moreover assume "x \<le> y"
  ultimately have "\<lfloor>x\<rfloor> + 1 \<le> \<lfloor>y\<rfloor>" by (meson floor_mono add1_zle_eq order_le_imp_less_or_eq)
  then show ?thesis using round_even_bounds(2) [of x] round_even_bounds(1) [of y] by linarith
qed

lemma round_even_int [simp]: "round_even (of_int n) = n"
  by (simp add: round_even_def)

lemma floorlog_int:
  assumes "0 < r"
  shows "2 ^ (floorlog 2 (nat r) - 1) \<le> (of_int r :: rat)"
    "(of_int r :: rat) < 2 ^ floorlog 2 (nat r)"
proof -
  have "2 ^ (floorlog 2 (nat r) - 1) \<le> nat r" "nat r < 2 ^ floorlog 2 (nat r)"
    using floorlog_bounds [of "nat r" 2] assms by auto
  then have "of_nat (2 ^ (floorlog 2 (nat r) - 1)) \<le> (of_nat (nat r) :: rat)"
    "of_nat (nat r) < (of_nat (2 ^ floorlog 2 (nat r)) :: rat)"
    by (simp_all only: of_nat_le_iff of_nat_less_iff)
  with assms show "2 ^ (floorlog 2 (nat r) - 1) \<le> (of_int r :: rat)"
    "(of_int r :: rat) < 2 ^ floorlog 2 (nat r)"
    by simp_all
qed

lemma power_int_2_less: "power_int (2 :: rat) a < power_int 2 b \<Longrightarrow> a < b"
  by (meson linorder_not_less one_le_numeral power_int_increasing)

lemma exponent_bounds:
  assumes "0 < x"
  shows "power_int 2 (exponent x) \<le> x" "x < power_int 2 (exponent x + 1)"
proof -
  obtain p q where pq: "quotient_of x = (p, q)" by fastforce
  then have q: "0 < q" and x: "x = of_int p / of_int q"
    by (auto intro: quotient_of_denom_pos simp: quotient_of_div)
  with assms have p: "0 < p" by (simp add: zero_less_divide_iff)
  define a where "a = floorlog 2 (nat p)"
  define b where "b = floorlog 2 (nat q)"
  have ab: "0 < a" "0 < b"
    using p q by (auto simp: a_def b_def floorlog_def)
  note P = floorlog_int [OF p, folded a_def] and Q = floorlog_int [OF q, folded b_def]
  define e where "e = int a - int b"
  have lo: "power_int 2 (e - 1) \<le> x"
  proof -
    have "power_int 2 (e - 1) * (of_int q :: rat) \<le> power_int 2 (e - 1) * 2 ^ b"
      using Q by (intro mult_left_mono) auto
    also have "\<dots> = 2 ^ (a - 1)"
      using ab by (simp add: e_def of_nat_diff flip: power_int_of_nat power_int_add)
    also have "\<dots> \<le> of_int p" by (rule P)
    finally show ?thesis using q by (simp add: x pos_le_divide_eq)
  qed
  have hi: "x < power_int 2 (e + 1)"
  proof -
    have "of_int p < (2 :: rat) ^ a" by (rule P)
    also have "\<dots> = power_int 2 (e + 1) * 2 ^ (b - 1)"
      using ab by (simp add: e_def of_nat_diff flip: power_int_of_nat power_int_add)
    also have "\<dots> \<le> power_int 2 (e + 1) * (of_int q :: rat)"
      using Q by (intro mult_left_mono) auto
    finally show ?thesis using q by (simp add: x pos_divide_less_eq)
  qed
  have ex: "exponent x = (if power_int 2 e \<le> x then e else e - 1)"
    by (simp add: exponent_def pq a_def b_def e_def)
  from lo show "power_int 2 (exponent x) \<le> x" by (simp add: ex)
  from hi show "x < power_int 2 (exponent x + 1)" by (simp add: ex not_le)
qed

lemma exponent_mono:
  assumes "0 < x" "x \<le> y"
  shows "exponent x \<le> exponent y"
proof (rule ccontr)
  assume "\<not> exponent x \<le> exponent y"
  then have "power_int (2 :: rat) (exponent y + 1) \<le> power_int 2 (exponent x)"
    by (intro power_int_increasing) auto
  with exponent_bounds(1) [OF assms(1)] exponent_bounds(2) [of y] assms show False by linarith
qed

text \<open>A rounded value stays in its binade, or is the power of two that ends it.\<close>

lemma round_pos_bounds:
  assumes "0 < x"
  shows "power_int 2 (exponent x) \<le> round_pos x" "round_pos x \<le> power_int 2 (exponent x + 1)"
proof -
  define u :: rat where "u = power_int 2 (exponent x - 52)"
  have u: "0 < u" by (simp add: u_def)
  have e: "power_int (2 :: rat) (exponent x) = 2 ^ 52 * u"
    "power_int (2 :: rat) (exponent x + 1) = 2 ^ 53 * u"
    by (simp_all add: u_def power_int_diff power_int_add)
  have "of_int (2 ^ 52) \<le> x / u" "x / u \<le> of_int (2 ^ 53)"
    using exponent_bounds [OF assms] u by (simp_all add: e pos_le_divide_eq pos_divide_le_eq)
  then have "2 ^ 52 \<le> round_even (x / u)" "round_even (x / u) \<le> 2 ^ 53"
    by (metis round_even_int round_even_mono)+
  then have "(2 ^ 52 :: rat) \<le> of_int (round_even (x / u))" "of_int (round_even (x / u)) \<le> (2 ^ 53 :: rat)"
    by (metis of_int_le_iff of_int_numeral of_int_power)+
  with u show "power_int 2 (exponent x) \<le> round_pos x" "round_pos x \<le> power_int 2 (exponent x + 1)"
    by (simp_all add: round_pos_def e flip: u_def)
qed

lemma round_pos_pos: "0 < x \<Longrightarrow> 0 < round_pos x"
  using round_pos_bounds(1) [of x] by (meson less_le_trans zero_less_power_int zero_less_numeral)

lemma round_pos_mono:
  assumes "0 < x" "x \<le> y"
  shows "round_pos x \<le> round_pos y"
proof (cases "exponent x = exponent y")
  case True
  have "round_even (x / u) \<le> round_even (y / u)" if "0 < u" for u :: rat
    using that assms by (intro round_even_mono divide_right_mono) auto
  then show ?thesis
    unfolding round_pos_def True Let_def by (intro mult_right_mono) auto
next
  case False
  with exponent_mono [OF assms] have "exponent x + 1 \<le> exponent y" by simp
  then have "power_int (2 :: rat) (exponent x + 1) \<le> power_int 2 (exponent y)"
    by (intro power_int_increasing) auto
  with round_pos_bounds(2) [OF assms(1)] round_pos_bounds(1) [of y] assms show ?thesis by linarith
qed

lemma float64_mono: "x \<le> y \<Longrightarrow> float64 x \<le> float64 y"
  using round_pos_mono [of x y] round_pos_mono [of "- y" "- x"] round_pos_pos [of y]
    round_pos_pos [of "- x"]
  by (auto simp: float64_def not_less)

lemma round_pos_int:
  assumes "0 < n" "n \<le> 2 ^ 53"
  shows "round_pos (of_int n) = of_int n"
proof (cases "n = 2 ^ 53")
  case True
  have "exponent (of_int n) = 53"
  proof (rule antisym)
    have "(of_int n :: rat) < power_int 2 54" by (simp add: True power_int_def)
    then have "power_int 2 (exponent (of_int n)) < power_int (2 :: rat) 54"
      by (rule le_less_trans [rotated]) (use exponent_bounds(1) assms in simp)
    then have "exponent (of_int n) < 54" by (rule power_int_2_less)
    then show "exponent (of_int n) \<le> 53" by simp
    have "power_int 2 53 \<le> (of_int n :: rat)" by (simp add: True power_int_def)
    then have "power_int 2 53 < power_int (2 :: rat) (exponent (of_int n) + 1)"
      by (rule le_less_trans) (use exponent_bounds(2) assms in simp)
    then have "53 < exponent (of_int n) + 1" by (rule power_int_2_less)
    then show "53 \<le> exponent (of_int n)" by simp
  qed
  then show ?thesis
    using round_even_int [of "2 ^ 52"] by (simp add: round_pos_def True power_int_def)
next
  case False
  with assms have "(of_int n :: rat) < power_int 2 53"
    by (simp add: power_int_def)
  then have "power_int 2 (exponent (of_int n)) < power_int (2 :: rat) 53"
    by (rule le_less_trans [rotated]) (use exponent_bounds(1) assms in simp)
  then have "exponent (of_int n) < 53" by (rule power_int_2_less)
  then have le: "exponent (of_int n) \<le> 52" by simp
  define k where "k = nat (52 - exponent (of_int n))"
  with le have k: "exponent (of_int n) - 52 = - int k" by simp
  have "of_int n / power_int 2 (- int k) = (of_int (n * 2 ^ k) :: rat)"
    by (simp add: power_int_minus divide_inverse)
  then have "round_pos (of_int n) = of_int (n * 2 ^ k) * power_int 2 (- int k)"
    unfolding round_pos_def k Let_def by (metis round_even_int)
  then show ?thesis by (simp add: power_int_minus)
qed

lemma float64_int:
  assumes "\<bar>n\<bar> \<le> 2 ^ 53"
  shows "float64 (of_int n) = of_int n"
proof -
  have "round_pos (- of_int n) = - (of_int n :: rat)" if "n < 0"
    using round_pos_int [of "- n"] that assms by simp
  with round_pos_int [of n] assms show ?thesis by (auto simp: float64_def)
qed

interpretation ieee: rounding float64
  by unfold_locales (auto intro: float64_mono float64_int)

text \<open>Exact arithmetic satisfies the same laws.\<close>

interpretation exact: rounding "\<lambda>x. x"
  by unfold_locales auto

end
