(* ===== verification/RateLimiter.thy ===== *)
theory RateLimiter
  imports GoStd Float64
begin

text \<open>
  The in-memory token bucket of \<open>internal/pkg/ratelimit/limiter.go\<close>. Its operations take
  the rounding \<open>fl\<close> of \<open>float64\<close> arithmetic as an argument: \<^const>\<open>float64\<close>
  for the program as it runs, the identity for exact arithmetic. The mutex makes each
  operation atomic; the clock reading of an operation is an argument.
\<close>

record bucket =
  b_tokens :: rat
  b_lastSeen :: time

text \<open>\<open>l_stopped\<close>: \<open>stopCh\<close> is closed.\<close>

record limiter =
  l_rate :: rat
  l_burst :: int
  l_buckets :: "string \<rightharpoonup> bucket"
  l_stopped :: bool

definition New :: "rat \<Rightarrow> int \<Rightarrow> limiter" where
  "New rate burst = \<lparr>l_rate = rate, l_burst = burst, l_buckets = Map.empty, l_stopped = False\<rparr>"

text \<open>
  \<open>Duration.Seconds()\<close>: the whole seconds and the rest, divided by truncation, added as
  floats.
\<close>

definition Seconds :: "(rat \<Rightarrow> rat) \<Rightarrow> int \<Rightarrow> rat" where
  "Seconds fl d =
     (let s = sgn d * (\<bar>d\<bar> div Second); n = sgn d * (\<bar>d\<bar> mod Second)
      in fl (fl (of_int s) + fl (fl (of_int n) / 10 ^ 9)))"

text \<open>The tokens of a bucket at a time: what it holds and what has been added since, capped.\<close>

definition refilled :: "(rat \<Rightarrow> rat) \<Rightarrow> limiter \<Rightarrow> bucket \<Rightarrow> time \<Rightarrow> rat" where
  "refilled fl l b now =
     (let elapsed = Seconds fl (now - b_lastSeen b);
          tokens = fl (b_tokens b + fl (elapsed * l_rate l))
      in if tokens > fl (of_int (l_burst l)) then fl (of_int (l_burst l)) else tokens)"

definition Allow :: "(rat \<Rightarrow> rat) \<Rightarrow> time \<Rightarrow> string \<Rightarrow> limiter \<Rightarrow> bool \<times> limiter" where
  "Allow fl now key l =
     (let b = (case l_buckets l key of
                 None \<Rightarrow> \<lparr>b_tokens = fl (of_int (l_burst l)), b_lastSeen = now\<rparr>
               | Some b \<Rightarrow> b);
          tokens = refilled fl l b now
      in if tokens < 1
         then (False, l\<lparr>l_buckets := (l_buckets l)(key \<mapsto> \<lparr>b_tokens = tokens, b_lastSeen = now\<rparr>)\<rparr>)
         else (True, l\<lparr>l_buckets := (l_buckets l)(key \<mapsto>
                        \<lparr>b_tokens = fl (tokens - 1), b_lastSeen = now\<rparr>)\<rparr>))"

definition Remaining :: "(rat \<Rightarrow> rat) \<Rightarrow> time \<Rightarrow> string \<Rightarrow> limiter \<Rightarrow> int" where
  "Remaining fl now key l =
     (case l_buckets l key of
        None \<Rightarrow> l_burst l
      | Some b \<Rightarrow> (let tokens = refilled fl l b now
                  in if tokens < 0 then - \<lfloor>- tokens\<rfloor> else \<lfloor>tokens\<rfloor>))"

definition Burst :: "limiter \<Rightarrow> int" where
  "Burst l = l_burst l"

definition Stop :: "limiter \<Rightarrow> limiter" where
  "Stop l = l\<lparr>l_stopped := True\<rparr>"

text \<open>
  One tick of the cleanup goroutine, and the goroutine's loop over what its \<open>select\<close>
  receives: the closed channel ends it.
\<close>

definition evict :: "time \<Rightarrow> limiter \<Rightarrow> limiter" where
  "evict now l =
     (let cutoff = now - 5 * Minute
      in l\<lparr>l_buckets := (\<lambda>k. case l_buckets l k of
                               None \<Rightarrow> None
                             | Some b \<Rightarrow> if b_lastSeen b < cutoff then None else Some b)\<rparr>)"

datatype select_case = StopCh | TickerC time

fun cleanup :: "select_case list \<Rightarrow> limiter \<Rightarrow> limiter" where
  "cleanup [] l = l"
| "cleanup (StopCh # _) l = l"
| "cleanup (TickerC now # cs) l = cleanup cs (evict now l)"

text \<open>What happens to a limiter over time: requests, ticks of the goroutine, the stop.\<close>

datatype lim_event = Request string | Tick | Halt

fun lim_step :: "(rat \<Rightarrow> rat) \<Rightarrow> time \<times> lim_event \<Rightarrow> limiter \<Rightarrow> bool \<times> limiter" where
  "lim_step fl (now, Request k) l = Allow fl now k l"
| "lim_step fl (now, Tick) l = (False, evict now l)"
| "lim_step fl (now, Halt) l = (False, Stop l)"

fun lim_run :: "(rat \<Rightarrow> rat) \<Rightarrow> (time \<times> lim_event) list \<Rightarrow> limiter \<Rightarrow> limiter" where
  "lim_run fl [] l = l"
| "lim_run fl (e # es) l = lim_run fl es (snd (lim_step fl e l))"

text \<open>How many requests of a key a run accepts.\<close>

fun accepted :: "(time \<times> lim_event \<Rightarrow> 'l \<Rightarrow> bool \<times> 'l) \<Rightarrow> string \<Rightarrow>
    (time \<times> lim_event) list \<Rightarrow> 'l \<Rightarrow> nat" where
  "accepted step k [] l = 0"
| "accepted step k (e # es) l =
     (if snd e = Request k \<and> fst (step e l) then 1 else 0) + accepted step k es (snd (step e l))"


section \<open>The invariant, for any rounding\<close>

text \<open>
  Every bucket holds between no tokens and the burst, and was seen no later than now.
\<close>

definition lim_ok :: "time \<Rightarrow> limiter \<Rightarrow> bool" where
  "lim_ok now l \<longleftrightarrow> 0 \<le> l_rate l \<and> 0 \<le> l_burst l \<and> l_burst l \<le> 2 ^ 53 \<and>
     (\<forall>k b. l_buckets l k = Some b \<longrightarrow>
        0 \<le> b_tokens b \<and> b_tokens b \<le> of_int (l_burst l) \<and> b_lastSeen b \<le> now)"

lemma lim_ok_bucket:
  "lim_ok now l \<Longrightarrow> l_buckets l k = Some b \<Longrightarrow>
     0 \<le> b_tokens b \<and> b_tokens b \<le> of_int (l_burst l) \<and> b_lastSeen b \<le> now"
  by (auto simp: lim_ok_def)

lemma lim_ok_later: "lim_ok now l \<Longrightarrow> now \<le> now' \<Longrightarrow> lim_ok now' l"
  by (force simp: lim_ok_def)

lemma lim_step_fixed [simp]:
  "l_rate (snd (lim_step fl e l)) = l_rate l" "l_burst (snd (lim_step fl e l)) = l_burst l"
  by (cases "(fl, e, l)" rule: lim_step.cases; auto simp: Allow_def Let_def evict_def Stop_def)+

lemma lim_run_fixed: "l_rate (lim_run fl es l) = l_rate l" "l_burst (lim_run fl es l) = l_burst l"
  by (induction es arbitrary: l) simp_all

lemma evict_ok: "lim_ok now l \<Longrightarrow> lim_ok now (evict now' l)"
  by (auto simp: lim_ok_def evict_def Let_def split: option.splits if_splits)

lemma Stop_ok: "lim_ok now l \<Longrightarrow> lim_ok now (Stop l)"
  by (simp add: lim_ok_def Stop_def)

text \<open>A key has whole tokens at the time of its last request, or was not seen yet.\<close>

definition holds :: "time \<Rightarrow> string \<Rightarrow> int \<Rightarrow> limiter \<Rightarrow> bool" where
  "holds now k m l =
     (case l_buckets l k of
        None \<Rightarrow> m = l_burst l
      | Some b \<Rightarrow> b_tokens b = of_int m \<and> b_lastSeen b = now)"

lemma Seconds_pos:
  "0 \<le> d \<Longrightarrow> Seconds fl d =
     fl (fl (of_int (d div Second)) + fl (fl (of_int (d mod Second)) / 10 ^ 9))"
  by (cases "d = 0") (simp_all add: Seconds_def Let_def)

context rounding
begin

lemma Seconds_nonneg: "0 \<le> d \<Longrightarrow> 0 \<le> Seconds fl d"
  by (auto simp: Seconds_pos Second_def pos_imp_zdiv_nonneg_iff
      intro!: fl_nonneg add_nonneg_nonneg divide_nonneg_nonneg)

lemma refilled_bounds:
  assumes "0 \<le> l_rate l" "0 \<le> l_burst l" "l_burst l \<le> 2 ^ 53"
    and "0 \<le> b_tokens b" "b_lastSeen b \<le> now"
  shows "0 \<le> refilled fl l b now" "refilled fl l b now \<le> of_int (l_burst l)"
proof -
  have "0 \<le> fl (b_tokens b + fl (Seconds fl (now - b_lastSeen b) * l_rate l))"
    using assms by (intro fl_nonneg add_nonneg_nonneg mult_nonneg_nonneg Seconds_nonneg) auto
  moreover have "fl (of_int (l_burst l)) = of_int (l_burst l)"
    using assms by (intro fl_int) auto
  ultimately show "0 \<le> refilled fl l b now" "refilled fl l b now \<le> of_int (l_burst l)"
    using assms(2) by (auto simp: refilled_def Let_def)
qed

lemma Allow_ok:
  assumes ok: "lim_ok t l" and "t \<le> now"
  shows "lim_ok now (snd (Allow fl now k l))"
proof -
  define b where "b = (case l_buckets l k of
      None \<Rightarrow> \<lparr>b_tokens = fl (of_int (l_burst l)), b_lastSeen = now\<rparr> | Some b \<Rightarrow> b)"
  define r where "r = refilled fl l b now"
  have l: "0 \<le> l_rate l" "0 \<le> l_burst l" "l_burst l \<le> 2 ^ 53"
    using ok by (auto simp: lim_ok_def)
  then have "0 \<le> b_tokens b" "b_lastSeen b \<le> now"
    using lim_ok_bucket [OF lim_ok_later [OF ok \<open>t \<le> now\<close>], of k]
    by (auto simp: b_def fl_nonneg split: option.splits)
  note r = refilled_bounds [OF l this, folded r_def]
  have "fl (r - 1) \<le> of_int (l_burst l)" "1 \<le> r \<Longrightarrow> 0 \<le> fl (r - 1)"
    using r l by (auto intro!: fl_le_int fl_nonneg)
  with r lim_ok_later [OF ok \<open>t \<le> now\<close>] show ?thesis
    by (auto simp: Allow_def Let_def lim_ok_def r_def b_def)
qed

lemma step_ok: "lim_ok t l \<Longrightarrow> t \<le> fst e \<Longrightarrow> lim_ok (fst e) (snd (lim_step fl e l))"
  by (cases "(fl, e, l)" rule: lim_step.cases)
     (auto simp: Allow_ok intro: evict_ok Stop_ok lim_ok_later)

lemma run_ok:
  "lim_ok t l \<Longrightarrow> sorted_wrt (\<le>) (t # map fst es) \<Longrightarrow>
     lim_ok (last (t # map fst es)) (lim_run fl es l)"
proof (induction es arbitrary: t l)
  case Nil
  then show ?case by simp
next
  case (Cons e es)
  then have "lim_ok (fst e) (snd (lim_step fl e l))" by (intro step_ok) auto
  with Cons show ?case by (auto dest: Cons.IH)
qed

text \<open>Whole seconds are counted in full, whatever the rounding, so that waiting for a token gives one.\<close>

lemma Seconds_whole:
  assumes "n * Second \<le> d" "0 \<le> n" "n \<le> 2 ^ 53"
  shows "of_int n \<le> Seconds fl d"
proof -
  have d: "0 \<le> d" "n \<le> d div Second"
    using assms by (auto simp: Second_def)
  have "of_int n = fl (of_int n)"
    using fl_int [of n] assms by simp
  also have "\<dots> \<le> fl (of_int (d div Second))"
    using d by (intro fl_mono) simp
  finally have "of_int n \<le> fl (of_int (d div Second)) + fl (fl (of_int (d mod Second)) / 10 ^ 9)"
    by (simp add: add_increasing2 fl_nonneg Second_def)
  from fl_mono [OF this] show ?thesis
    using fl_int [of n] assms d by (simp add: Seconds_pos)
qed

lemma Allow_waited:
  assumes ok: "lim_ok t l" and "t + n * Second \<le> now" "0 \<le> n" "n \<le> 2 ^ 53"
    and "1 \<le> l_burst l" "1 \<le> of_int n * l_rate l"
  shows "fst (Allow fl now k l)"
proof -
  have l: "0 \<le> l_rate l" "l_burst l \<le> 2 ^ 53" and burst: "fl (of_int (l_burst l)) = of_int (l_burst l)"
    using ok assms(5) fl_int [of "l_burst l"] by (auto simp: lim_ok_def)
  have one: "1 \<le> fl x" if "1 \<le> x" for x
    using fl_mono [OF that] fl_int [of 1] by simp
  have full: "1 \<le> fl (of_int (l_burst l) + fl (Seconds fl 0 * l_rate l))"
    using assms(5) l by (intro one add_increasing2 fl_nonneg mult_nonneg_nonneg Seconds_nonneg) auto
  have "1 \<le> fl (b_tokens b + fl (Seconds fl (now - b_lastSeen b) * l_rate l))" if "l_buckets l k = Some b" for b
  proof -
    from lim_ok_bucket [OF ok that] assms(2) have b: "0 \<le> b_tokens b" "n * Second \<le> now - b_lastSeen b"
      by auto
    have "of_int n * l_rate l \<le> Seconds fl (now - b_lastSeen b) * l_rate l"
      using Seconds_whole [OF b(2) assms(3,4)] l by (intro mult_right_mono)
    with assms(6) b(1) show ?thesis
      by (intro one add_increasing) auto
  qed
  with full show ?thesis
    using assms(5) burst by (auto simp: Allow_def refilled_def Let_def split: option.splits)
qed

text \<open>Whole tokens are counted exactly: at one instant a key gets what its bucket holds.\<close>

lemma Seconds_zero: "Seconds fl 0 = 0"
  by (simp add: Seconds_pos fl_zero)

lemma Allow_whole:
  assumes "holds now k m l" "0 \<le> m" "m \<le> l_burst l" "l_burst l \<le> 2 ^ 53"
  shows "fst (Allow fl now k l) \<longleftrightarrow> 1 \<le> m"
    and "holds now k (if 1 \<le> m then m - 1 else m) (snd (Allow fl now k l))"
proof -
  let ?b = "case l_buckets l k of None \<Rightarrow> \<lparr>b_tokens = fl (of_int (l_burst l)), b_lastSeen = now\<rparr> | Some b \<Rightarrow> b"
  have whole: "fl (of_int i) = of_int i" if "0 \<le> i" "i \<le> l_burst l" for i
    using fl_int [of i] that assms(4) by simp
  have "b_tokens ?b = of_int m \<and> b_lastSeen ?b = now"
    using assms(1-3) whole by (auto simp: holds_def split: option.splits)
  then have "refilled fl l ?b now = of_int m"
    using assms(2,3) whole by (simp add: refilled_def Let_def Seconds_zero fl_zero)
  then show "fst (Allow fl now k l) \<longleftrightarrow> 1 \<le> m"
    and "holds now k (if 1 \<le> m then m - 1 else m) (snd (Allow fl now k l))"
    using assms(2,3) whole [of "m - 1"] by (auto simp: Allow_def holds_def Let_def)
qed

lemma accepted_instant:
  "holds now k m l \<Longrightarrow> 0 \<le> m \<Longrightarrow> m \<le> l_burst l \<Longrightarrow> l_burst l \<le> 2 ^ 53 \<Longrightarrow>
     accepted (lim_step fl) k (replicate n (now, Request k)) l = min n (nat m)"
proof (induction n arbitrary: m l)
  case (Suc n)
  have "l_burst (snd (Allow fl now k l)) = l_burst l"
    using lim_step_fixed(2) [of fl "(now, Request k)" l] by simp
  with Allow_whole [OF Suc.prems] Suc.prems(2-4) show ?case
    by (cases "1 \<le> m") (auto simp: Suc.IH)
qed simp

lemma Remaining_bounds:
  assumes "lim_ok t l" "t \<le> now"
  shows "0 \<le> Remaining fl now k l" "Remaining fl now k l \<le> l_burst l"
proof -
  have l: "0 \<le> l_rate l" "0 \<le> l_burst l" "l_burst l \<le> 2 ^ 53"
    using assms by (auto simp: lim_ok_def)
  have "0 \<le> refilled fl l b now" "refilled fl l b now \<le> of_int (l_burst l)"
    if "l_buckets l k = Some b" for b
    using refilled_bounds [OF l] lim_ok_bucket [OF lim_ok_later [OF assms] that] by auto
  with l show "0 \<le> Remaining fl now k l" "Remaining fl now k l \<le> l_burst l"
    by (auto simp: Remaining_def Let_def floor_le_iff le_floor_iff split: option.splits)
qed

end


section \<open>The token bucket it implements\<close>

text \<open>
  The specification: every key has a level between zero and the burst that grows with the rate;
  a request is accepted when the level is at least one and takes one from it; nothing else
  changes a level. A client of it sees at most the level and the rate times the elapsed time
  accepted in any window.
\<close>

locale token_bucket =
  fixes good :: "time \<Rightarrow> 'l \<Rightarrow> bool"
    and level :: "'l \<Rightarrow> time \<Rightarrow> string \<Rightarrow> rat"
    and step :: "time \<times> lim_event \<Rightarrow> 'l \<Rightarrow> bool \<times> 'l"
    and rate :: rat
    and burst :: int
  assumes good_step: "good t l \<Longrightarrow> t \<le> now \<Longrightarrow> good now (snd (step (now, ev) l))"
    and level_bounds: "good t l \<Longrightarrow> t \<le> now \<Longrightarrow> 0 \<le> level l now k \<and> level l now k \<le> of_int burst"
    and level_later: "good t l \<Longrightarrow> t \<le> now \<Longrightarrow>
      level l now k \<le> level l t k + of_int (now - t) / 10 ^ 9 * rate"
    and level_step: "good t l \<Longrightarrow> t \<le> now \<Longrightarrow>
      level (snd (step (now, ev) l)) now k =
        (if ev = Request k \<and> fst (step (now, ev) l) then level l now k - 1 else level l now k)"
    and accepts: "good t l \<Longrightarrow> t \<le> now \<Longrightarrow> fst (step (now, Request k) l) \<longleftrightarrow> 1 \<le> level l now k"
begin

lemma window_bound:
  "good t l \<Longrightarrow> sorted_wrt (\<le>) (t # map fst es) \<Longrightarrow>
     of_nat (accepted step k es l) \<le>
       level l t k + of_int (last (t # map fst es) - t) / 10 ^ 9 * rate"
proof (induction es arbitrary: t l)
  case Nil
  then show ?case using level_bounds [of t l t k] by simp
next
  case (Cons e es)
  obtain now ev where e: "e = (now, ev)" by fastforce
  define l' where "l' = snd (step e l)"
  define T where "T = last (now # map fst es)"
  have tn: "t \<le> now" using Cons.prems by (simp add: e)
  define grow where "grow d = of_int d / 10 ^ 9 * rate" for d :: int
  define taken :: nat where "taken = (if ev = Request k \<and> fst (step e l) then 1 else 0)"
  have "of_nat (accepted step k es l') \<le> level l' now k + grow (T - now)"
    using Cons.IH [of now l'] Cons.prems good_step [OF _ tn] by (simp add: e l'_def T_def grow_def)
  moreover have "level l' now k + of_nat taken = level l now k"
    using level_step [OF Cons.prems(1) tn, of ev k] by (auto simp: e l'_def taken_def)
  moreover have "level l now k \<le> level l t k + grow (now - t)"
    unfolding grow_def by (rule level_later [OF Cons.prems(1) tn])
  moreover have "grow (now - t) + grow (T - now) = grow (T - t)"
    by (simp add: grow_def algebra_simps add_divide_distrib diff_divide_distrib)
  ultimately have "of_nat (taken + accepted step k es l') \<le> level l t k + grow (T - t)"
    by simp
  moreover have "last (t # map fst (e # es)) = T" by (simp add: T_def e)
  moreover have "accepted step k (e # es) l = taken + accepted step k es l'"
    by (simp add: e l'_def taken_def)
  ultimately show ?case by (simp only: grow_def)
qed

end

text \<open>The level of a key in the program's limiter.\<close>

definition lim_level :: "limiter \<Rightarrow> time \<Rightarrow> string \<Rightarrow> rat" where
  "lim_level l now k =
     (case l_buckets l k of
        None \<Rightarrow> of_int (l_burst l)
      | Some b \<Rightarrow> min (of_int (l_burst l))
          (b_tokens b + of_int (now - b_lastSeen b) / 10 ^ 9 * l_rate l))"

text \<open>
  A bucket is forgotten after five minutes; that is not visible when five minutes refill it.
\<close>

definition lim_good :: "rat \<Rightarrow> int \<Rightarrow> time \<Rightarrow> limiter \<Rightarrow> bool" where
  "lim_good rate burst now l \<longleftrightarrow>
     lim_ok now l \<and> l_rate l = rate \<and> l_burst l = burst \<and> of_int burst \<le> 300 * rate"

abbreviation (input) exactly :: "rat \<Rightarrow> rat" where "exactly \<equiv> (\<lambda>x. x)"

lemma Seconds_exactly: "0 \<le> d \<Longrightarrow> Seconds exactly d = of_int d / 10 ^ 9"
proof -
  assume "0 \<le> d"
  have "(of_int d :: rat) = of_int (d div Second * Second + d mod Second)"
    by (simp only: div_mult_mod_eq)
  also have "\<dots> = of_int (d div Second) * of_int Second + of_int (d mod Second)"
    by (simp only: of_int_add of_int_mult)
  finally have "(of_int d :: rat) = of_int (d div Second) * 10 ^ 9 + of_int (d mod Second)"
    by (simp add: Second_def)
  with \<open>0 \<le> d\<close> show ?thesis by (simp add: Seconds_pos add_divide_distrib)
qed

lemma refilled_exactly:
  "b_lastSeen b \<le> now \<Longrightarrow> refilled exactly l b now =
     min (of_int (l_burst l)) (b_tokens b + of_int (now - b_lastSeen b) / 10 ^ 9 * l_rate l)"
  by (simp add: refilled_def Let_def Seconds_exactly min_def)

lemma Allow_exactly:
  assumes "lim_ok t l" "t \<le> now"
  shows "fst (Allow exactly now k l) \<longleftrightarrow> 1 \<le> lim_level l now k"
    and "lim_level (snd (Allow exactly now k l)) now j =
      (if j = k \<and> 1 \<le> lim_level l now k then lim_level l now j - 1 else lim_level l now j)"
proof -
  define b where "b = (case l_buckets l k of
      None \<Rightarrow> \<lparr>b_tokens = of_int (l_burst l), b_lastSeen = now\<rparr> | Some b \<Rightarrow> b)"
  have "b_lastSeen b \<le> now"
    using lim_ok_bucket [OF lim_ok_later [OF assms]] by (auto simp: b_def split: option.splits)
  then have r: "refilled exactly l b now = lim_level l now k"
    by (auto simp: refilled_exactly lim_level_def b_def split: option.splits)
  have A: "Allow exactly now k l =
      (if lim_level l now k < 1
       then (False, l\<lparr>l_buckets := (l_buckets l)(k \<mapsto> \<lparr>b_tokens = lim_level l now k, b_lastSeen = now\<rparr>)\<rparr>)
       else (True, l\<lparr>l_buckets := (l_buckets l)(k \<mapsto> \<lparr>b_tokens = lim_level l now k - 1, b_lastSeen = now\<rparr>)\<rparr>))"
    by (simp add: Allow_def Let_def r [symmetric] b_def)
  have "lim_level l now k \<le> of_int (l_burst l)"
    by (simp add: lim_level_def split: option.splits)
  then show "fst (Allow exactly now k l) \<longleftrightarrow> 1 \<le> lim_level l now k"
    and "lim_level (snd (Allow exactly now k l)) now j =
      (if j = k \<and> 1 \<le> lim_level l now k then lim_level l now j - 1 else lim_level l now j)"
    by (auto simp: A lim_level_def min_def split: option.splits)
qed

lemma level_evict:
  assumes "lim_good r m t l" "t \<le> now"
  shows "lim_level (evict now l) now k = lim_level l now k"
proof (cases "l_buckets l k")
  case None
  then show ?thesis by (simp add: lim_level_def evict_def Let_def)
next
  case (Some b)
  show ?thesis
  proof (cases "b_lastSeen b < now - 5 * Minute")
    case True
    then have "(300 :: rat) \<le> of_int (now - b_lastSeen b) / 10 ^ 9"
      by (simp add: Minute_def Second_def field_simps)
    then have "300 * l_rate l \<le> of_int (now - b_lastSeen b) / 10 ^ 9 * l_rate l"
      using assms by (intro mult_right_mono) (auto simp: lim_good_def lim_ok_def)
    moreover have "0 \<le> b_tokens b"
      using assms Some lim_ok_bucket by (auto simp: lim_good_def)
    ultimately show ?thesis
      using True Some assms by (simp add: lim_level_def evict_def Let_def lim_good_def min_def)
  next
    case False
    with Some show ?thesis by (simp add: lim_level_def evict_def Let_def)
  qed
qed

lemma level_Stop: "lim_level (Stop l) now k = lim_level l now k"
  by (simp add: lim_level_def Stop_def split: option.splits)

lemma level_wait:
  assumes "lim_ok t l" "t \<le> now"
  shows "lim_level l now k \<le> lim_level l t k + of_int (now - t) / 10 ^ 9 * l_rate l"
proof -
  have w: "0 \<le> of_int (now - t) / 10 ^ 9 * l_rate l"
    using assms by (intro mult_nonneg_nonneg) (auto simp: lim_ok_def)
  define grow where "grow d = of_int d / 10 ^ 9 * l_rate l" for d :: int
  have split: "grow (now - s) = grow (t - s) + grow (now - t)" for s
    by (simp add: grow_def algebra_simps add_divide_distrib diff_divide_distrib)
  have le: "min m (x + (y + z)) \<le> min m (x + y) + z" if "0 \<le> z" for m x y z :: rat
    using that by (simp add: min_def)
  show ?thesis
  proof (cases "l_buckets l k")
    case (Some b)
    have lev: "lim_level l now' k = min (of_int (l_burst l)) (b_tokens b + grow (now' - b_lastSeen b))"
      for now' by (simp add: lim_level_def Some grow_def)
    show ?thesis
      unfolding grow_def [symmetric] lev split [of "b_lastSeen b"]
      by (rule le) (use w in \<open>simp only: grow_def\<close>)
  qed (use w in \<open>simp add: lim_level_def\<close>)
qed

lemma lim_level_bounds:
  assumes "lim_ok t l" "t \<le> now"
  shows "0 \<le> lim_level l now k" "lim_level l now k \<le> of_int (l_burst l)"
  using lim_ok_bucket [OF lim_ok_later [OF assms]] assms
  by (auto simp: lim_level_def lim_ok_def split: option.splits
      intro!: add_nonneg_nonneg mult_nonneg_nonneg)

interpretation tb: token_bucket "lim_good rate burst" lim_level "lim_step exactly" rate burst
  for rate burst
proof
  fix t l now ev k
  assume g: "lim_good rate burst t l" and tn: "t \<le> now"
  then have ok: "lim_ok t l" and r: "l_rate l = rate" "l_burst l = burst"
    by (auto simp: lim_good_def)
  show "lim_good rate burst now (snd (lim_step exactly (now, ev) l))"
    using exact.step_ok [OF ok, of "(now, ev)"] g tn by (simp add: lim_good_def)
  show "0 \<le> lim_level l now k \<and> lim_level l now k \<le> of_int burst"
    using lim_level_bounds [OF ok tn] r by simp
  show "lim_level l now k \<le> lim_level l t k + of_int (now - t) / 10 ^ 9 * rate"
    using level_wait [OF ok tn] r by simp
  show "lim_level (snd (lim_step exactly (now, ev) l)) now k =
      (if ev = Request k \<and> fst (lim_step exactly (now, ev) l) then lim_level l now k - 1
       else lim_level l now k)"
    using Allow_exactly [OF ok tn] level_evict [OF g tn] by (cases ev) (auto simp: level_Stop)
  show "fst (lim_step exactly (now, Request k) l) \<longleftrightarrow> 1 \<le> lim_level l now k"
    using Allow_exactly [OF ok tn] by simp
qed

lemma New_good:
  "0 \<le> rate \<Longrightarrow> 0 \<le> burst \<Longrightarrow> burst \<le> 2 ^ 53 \<Longrightarrow> of_int burst \<le> 300 * rate \<Longrightarrow>
     lim_good rate burst t (New rate burst)"
  by (simp add: lim_good_def lim_ok_def New_def)

lemma level_New [simp]: "lim_level (New rate burst) now k = of_int burst"
  by (simp add: lim_level_def New_def)


section \<open>Properties\<close>

text \<open>Over any run of the limiter in time order, with requests, cleanups and a stop, the
requests of one key that are accepted number at most the burst plus the rate times the time that
passed, when the rate refills the burst within the five minutes after which an idle bucket is
dropped. Arithmetic is exact here.\<close>

lemma limiter_window_bound:
  assumes "0 \<le> rate" "0 \<le> burst" "burst \<le> 2 ^ 53" "of_int burst \<le> 300 * rate"
    and "sorted_wrt (\<le>) (t # map fst es)"
  shows "of_nat (accepted (lim_step exactly) k es (New rate burst)) \<le>
           of_int burst + of_int (last (t # map fst es) - t) / 10 ^ 9 * rate"
  using tb.window_bound [OF New_good [OF assms(1-4)] assms(5), of k] by simp

lemma limiter_window_bound_witness:
  "of_nat (accepted (lim_step exactly) ''a'' [(0, Request ''a''), (0, Request ''a''), (Second, Tick), (Second, Request ''a'')]
     (New 1 2)) \<le> (of_int 2 + of_int (Second - 0) / 10 ^ 9 * 1 :: rat)"
  using limiter_window_bound [of 1 2 0
      "[(0, Request ''a''), (0, Request ''a''), (Second, Tick), (Second, Request ''a'')]" "''a''"]
  by (simp add: Second_def)

text \<open>In double precision too, a key that was not seen before is granted exactly the burst at one instant: of
\<open>n\<close> requests, the first \<open>min n burst\<close> are accepted.\<close>

lemma limiter_burst_exact:
  assumes "0 \<le> burst" "burst \<le> 2 ^ 53"
  shows "accepted (lim_step float64) k (replicate n (now, Request k)) (New rate burst) = min n (nat burst)"
  by (rule ieee.accepted_instant) (use assms in \<open>simp_all add: holds_def New_def\<close>)

text \<open>C22: In double precision, with every operation rounded, a run in time order keeps each bucket
between no tokens and the burst, and \<open>Remaining\<close> reports a number between 0 and the burst.\<close>

theorem limiter_bounds_float64:
  assumes "0 \<le> rate" "0 \<le> burst" "burst \<le> 2 ^ 53" "sorted_wrt (\<le>) (t # map fst es)"
    and "last (t # map fst es) \<le> now"
  shows "lim_ok now (lim_run float64 es (New rate burst)) \<and>
         0 \<le> Remaining float64 now k (lim_run float64 es (New rate burst)) \<and>
         Remaining float64 now k (lim_run float64 es (New rate burst)) \<le> burst"
proof -
  have "lim_ok t (New rate burst)"
    using assms by (simp add: lim_ok_def New_def)
  from ieee.run_ok [OF this assms(4)] have ok: "lim_ok now (lim_run float64 es (New rate burst))"
    using assms(5) by (rule lim_ok_later)
  have "l_burst (lim_run fl xs l) = l_burst l" for fl xs l
    by (induction xs arbitrary: l) simp_all
  then have "l_burst (lim_run float64 es (New rate burst)) = burst"
    by (simp add: New_def)
  with ok ieee.Remaining_bounds [OF ok order_refl, of k] show ?thesis
    by simp
qed

theorem limiter_bounds_float64_witness:
  "lim_ok 5 (lim_run float64 [(1, Request ''a''), (3, Request ''b'')] (New (1 / 3) 2)) \<and>
   0 \<le> Remaining float64 5 ''a'' (lim_run float64 [(1, Request ''a''), (3, Request ''b'')] (New (1 / 3) 2)) \<and>
   Remaining float64 5 ''a'' (lim_run float64 [(1, Request ''a''), (3, Request ''b'')] (New (1 / 3) 2)) \<le> 2"
  using limiter_bounds_float64 [of "1 / 3" 2 0 "[(1, Request ''a''), (3, Request ''b'')]" 5 "''a''"] by simp

text \<open>C21: No client is locked out by the limiter as it runs: in double precision, after any run in time order, a
key that waits so many whole seconds that the rate adds one token is accepted, whatever happened before.\<close>

theorem limiter_recovers:
  assumes "0 < rate" "1 \<le> burst" "burst \<le> 2 ^ 53" "sorted_wrt (\<le>) (t # map fst es)"
    and "last (t # map fst es) + n * Second \<le> now" "0 \<le> n" "n \<le> 2 ^ 53" "1 \<le> of_int n * rate"
  shows "fst (Allow float64 now k (lim_run float64 es (New rate burst)))"
proof -
  have "lim_ok t (New rate burst)"
    using assms by (simp add: lim_ok_def New_def)
  from ieee.run_ok [OF this assms(4)] show ?thesis
    by (rule ieee.Allow_waited [OF _ assms(5-7)]) (use assms in \<open>simp_all add: lim_run_fixed New_def\<close>)
qed

theorem limiter_recovers_witness:
  "fst (Allow float64 (4 * Second) ''a'' (lim_run float64 (replicate 5 (Second, Request ''a'')) (New (1 / 3) 2)))"
  using limiter_recovers [of "1 / 3" 2 0 "replicate 5 (Second, Request ''a'')" 3 "4 * Second" "''a''"]
  by (simp add: Second_def numeral_eq_Suc)

end
