(* ===== verification/Schema.thy ===== *)
theory Schema
  imports GoStd RateLimiter
begin

text \<open>
  The data layer: the rows of \<open>internal/repo/models.go\<close> (fields named after the columns
  of \<open>db/migrations\<close>, \<open>NULL\<close> as \<^const>\<open>None\<close>), the database as its
  tables, the world a request runs in, and the primitive effects: a statement sent to the
  database, a clock reading, a random draw.
\<close>


section \<open>Rows\<close>

record repo_User =
  users_id :: string
  users_email :: string
  users_password_hash :: string
  users_created_at :: time

record repo_Organization =
  organizations_id :: string
  organizations_name :: string
  organizations_owner_user_id :: string
  organizations_created_at :: time

record repo_Membership =
  memberships_org_id :: string
  memberships_user_id :: string
  memberships_role :: string

record repo_Project =
  projects_id :: string
  projects_org_id :: string
  projects_name :: string
  projects_description :: "string option"
  projects_created_by :: string
  projects_created_at :: time
  projects_updated_at :: time

record repo_RefreshToken =
  refresh_tokens_id :: string
  refresh_tokens_user_id :: string
  refresh_tokens_token_hash :: string
  refresh_tokens_expires_at :: time
  refresh_tokens_revoked_at :: "time option"
  refresh_tokens_rotated_from :: "string option"
  refresh_tokens_created_at :: time

record repo_PasswordResetToken =
  password_reset_tokens_id :: string
  password_reset_tokens_user_id :: string
  password_reset_tokens_token_hash :: string
  password_reset_tokens_expires_at :: time
  password_reset_tokens_used_at :: "time option"
  password_reset_tokens_created_at :: time

record repo_AuditLog =
  audit_logs_id :: int
  audit_logs_org_id :: string
  audit_logs_actor_id :: string
  audit_logs_action :: string
  audit_logs_entity :: string
  audit_logs_entity_id :: string
  audit_logs_created_at :: time
  audit_logs_metadata :: "json option"

record repo_UserContext =
  user_contexts_user_id :: string
  user_contexts_org_id :: string
  user_contexts_updated_at :: time

record repo_File =
  files_id :: string
  files_org_id :: string
  files_uploaded_by :: string
  files_bucket :: string
  files_object_key :: string
  files_size_bytes :: "int option"
  files_content_type :: "string option"
  files_created_at :: time
  files_metadata :: "json option"

record repo_ApiKey =
  api_keys_id :: string
  api_keys_org_id :: string
  api_keys_name :: string
  api_keys_key_prefix :: string
  api_keys_key_hash :: string
  api_keys_created_by :: string
  api_keys_created_at :: time
  api_keys_expires_at :: "time option"
  api_keys_last_used_at :: "time option"
  api_keys_revoked_at :: "time option"

record repo_Subscription =
  subscriptions_id :: string
  subscriptions_org_id :: string
  subscriptions_stripe_customer_id :: string
  subscriptions_stripe_subscription_id :: "string option"
  subscriptions_status :: string
  subscriptions_plan :: string
  subscriptions_current_period_end :: "time option"
  subscriptions_created_at :: time
  subscriptions_updated_at :: time

record repo_WebhookEndpoint =
  webhook_endpoints_id :: string
  webhook_endpoints_org_id :: string
  webhook_endpoints_url :: string
  webhook_endpoints_secret :: string
  webhook_endpoints_events :: "string list"
  webhook_endpoints_active :: bool
  webhook_endpoints_created_at :: time
  webhook_endpoints_updated_at :: time

text \<open>The payload of a delivery is a JSON document as text.\<close>

record repo_WebhookDelivery =
  webhook_deliveries_id :: string
  webhook_deliveries_endpoint_id :: string
  webhook_deliveries_event :: string
  webhook_deliveries_payload :: string
  webhook_deliveries_status_code :: "int option"
  webhook_deliveries_response :: "string option"
  webhook_deliveries_attempts :: int
  webhook_deliveries_next_retry :: "time option"
  webhook_deliveries_delivered :: bool
  webhook_deliveries_created_at :: time


section \<open>The database and the world\<close>

text \<open>
  A \<open>timestamptz\<close> counts microseconds: the driver truncates a time to them on its way in.
\<close>

definition pg_time :: "time \<Rightarrow> time" where
  "pg_time t = 1000 * (t div 1000)"

lemma pg_time_bounds: "pg_time t \<le> t" "t < pg_time t + 1000"
  unfolding pg_time_def by linarith+

lemma pg_time_idem [simp]: "pg_time (pg_time t) = pg_time t"
  by (simp add: pg_time_def)

lemma pg_time_mono: "s \<le> t \<Longrightarrow> pg_time s \<le> pg_time t"
  by (simp add: pg_time_def zdiv_mono1)

text \<open>The sequence of the \<open>BIGSERIAL\<close> column is part of the database.\<close>

record db =
  users :: "repo_User list"
  organizations :: "repo_Organization list"
  memberships :: "repo_Membership list"
  projects :: "repo_Project list"
  refresh_tokens :: "repo_RefreshToken list"
  password_reset_tokens :: "repo_PasswordResetToken list"
  audit_logs :: "repo_AuditLog list"
  audit_logs_id_seq :: int
  user_contexts :: "repo_UserContext list"
  files :: "repo_File list"
  api_keys :: "repo_ApiKey list"
  subscriptions :: "repo_Subscription list"
  webhook_endpoints :: "repo_WebhookEndpoint list"
  webhook_deliveries :: "repo_WebhookDelivery list"

text \<open>
  A call can fail before it reaches its peer, or its reply can be lost after it took effect.
\<close>

datatype fault = NotRun string | ReplyLost string

text \<open>Calls to other systems that the program makes, in order.\<close>

datatype outcall =
    HttpPost string "(string \<times> string) list" string
  | S3Delete string string
  | StripeCustomer string string
  | StripeCheckout string string string string string string

text \<open>
  The world of a run: the database, the limiter in memory, the calls made so far, and what the
  environment supplies at each step: whether a call fails, the clock, the random strings
  (UUIDs, salts, keys in hexadecimal) and the answers of HTTP peers, and the time
  \<open>startedAt\<close> at which \<open>main\<close> built the engine. The environment's
  functions are arbitrary; every effect takes the next step \<open>w_tick\<close>.
\<close>

record world =
  w_db :: db
  w_limiter :: limiter
  w_out :: "outcall list"
  w_tick :: nat
  w_fault :: "nat \<Rightarrow> fault option"
  w_clock :: "nat \<Rightarrow> time"
  w_rand :: "nat \<Rightarrow> string"
  w_http :: "nat \<Rightarrow> goerror + int"
  w_started :: time

type_synonym 'a prog = "(world, 'a) state"

definition next_tick :: "world \<Rightarrow> world" where
  "next_tick w = w\<lparr>w_tick := Suc (w_tick w)\<rparr>"

text \<open>\<open>time.Now()\<close>, \<open>uuid.NewString()\<close>, \<open>rand.Read\<close> in hexadecimal.\<close>

definition time_Now :: "time prog" where
  "time_Now = State (\<lambda>w. (w_clock w (w_tick w), next_tick w))"

definition uuid_NewString :: "string prog" where
  "uuid_NewString = State (\<lambda>w. (w_rand w (w_tick w), next_tick w))"

definition rand_Read :: "(goerror + string) prog" where
  "rand_Read = State (\<lambda>w.
     (case w_fault w (w_tick w) of
        None \<Rightarrow> Inr (w_rand w (w_tick w))
      | Some (NotRun e) \<Rightarrow> Inl (LibError e)
      | Some (ReplyLost e) \<Rightarrow> Inl (LibError e), next_tick w))"

text \<open>
  A statement is a function of the database's clock (\<open>now()\<close>), a generated identifier
  (\<open>gen_random_uuid()\<close>) and the tables; it fails and changes nothing, or returns a result
  and the new tables.
\<close>

type_synonym 'a stmt = "time \<Rightarrow> string \<Rightarrow> db \<Rightarrow> goerror + 'a \<times> db"

definition sql :: "'a stmt \<Rightarrow> (goerror + 'a) prog" where
  "sql st = State (\<lambda>w.
     let w' = next_tick w;
         r = st (pg_time (w_clock w (w_tick w))) (w_rand w (w_tick w)) (w_db w)
     in case w_fault w (w_tick w) of
          Some (NotRun e) \<Rightarrow> (Inl (DriverError e), w')
        | Some (ReplyLost e) \<Rightarrow>
            (Inl (DriverError e), (case r of Inl _ \<Rightarrow> w' | Inr (_, d) \<Rightarrow> w'\<lparr>w_db := d\<rparr>))
        | None \<Rightarrow>
            (case r of Inl e \<Rightarrow> (Inl e, w') | Inr (a, d) \<Rightarrow> (Inr a, w'\<lparr>w_db := d\<rparr>)))"

text \<open>A query: a statement that only reads. No row is \<open>sql.ErrNoRows\<close>.\<close>

definition query :: "(db \<Rightarrow> 'a) \<Rightarrow> 'a stmt" where
  "query f = (\<lambda>_ _ d. Inr (f d, d))"

definition query_row :: "(db \<Rightarrow> 'a option) \<Rightarrow> 'a stmt" where
  "query_row f = (\<lambda>_ _ d. case f d of None \<Rightarrow> Inl ErrNoRows | Some x \<Rightarrow> Inr (x, d))"

text \<open>
  A transaction: \<open>BeginTx\<close> and \<open>Commit\<close> are calls that can fail; a rollback restores
  the tables of the beginning. A commit whose reply is lost has committed.
\<close>

definition db_begin :: "(goerror + db) prog" where
  "db_begin = sql (query (\<lambda>d. d))"

definition db_rollback :: "db \<Rightarrow> unit prog" where
  "db_rollback d0 = modify (\<lambda>w. w\<lparr>w_db := d0\<rparr>)"

definition db_commit :: "db \<Rightarrow> (goerror + unit) prog" where
  "db_commit d0 = State (\<lambda>w.
     case w_fault w (w_tick w) of
       None \<Rightarrow> (Inr (), next_tick w)
     | Some (NotRun e) \<Rightarrow> (Inl (DriverError e), (next_tick w)\<lparr>w_db := d0\<rparr>)
     | Some (ReplyLost e) \<Rightarrow> (Inl (DriverError e), next_tick w))"


section \<open>How the effects compute\<close>

lemma wlp_time_Now [wp]: "wlp time_Now Q w = Q (w_clock w (w_tick w)) (next_tick w)"
  by (simp add: wlp_def time_Now_def)

lemma wlp_uuid_NewString [wp]: "wlp uuid_NewString Q w = Q (w_rand w (w_tick w)) (next_tick w)"
  by (simp add: wlp_def uuid_NewString_def)

lemma wlp_rand_Read [wp]:
  "wlp rand_Read Q w =
     (case w_fault w (w_tick w) of
        None \<Rightarrow> Q (Inr (w_rand w (w_tick w))) (next_tick w)
      | Some (NotRun e) \<Rightarrow> Q (Inl (LibError e)) (next_tick w)
      | Some (ReplyLost e) \<Rightarrow> Q (Inl (LibError e)) (next_tick w))"
  by (simp add: wlp_def rand_Read_def split: option.splits fault.splits)

text \<open>What a statement would return in a world, and the tables it would leave.\<close>

definition stmt_result :: "'a stmt \<Rightarrow> world \<Rightarrow> goerror + 'a \<times> db" where
  "stmt_result st w = st (pg_time (w_clock w (w_tick w))) (w_rand w (w_tick w)) (w_db w)"

lemma wlp_sql:
  "wlp (sql st) Q w =
     (case w_fault w (w_tick w) of
        Some (NotRun e) \<Rightarrow> Q (Inl (DriverError e)) (next_tick w)
      | Some (ReplyLost e) \<Rightarrow>
          (case stmt_result st w of
             Inl _ \<Rightarrow> Q (Inl (DriverError e)) (next_tick w)
           | Inr (_, d) \<Rightarrow> Q (Inl (DriverError e)) ((next_tick w)\<lparr>w_db := d\<rparr>))
      | None \<Rightarrow>
          (case stmt_result st w of
             Inl e \<Rightarrow> Q (Inl e) (next_tick w)
           | Inr (a, d) \<Rightarrow> Q (Inr a) ((next_tick w)\<lparr>w_db := d\<rparr>)))"
  by (simp add: wlp_def sql_def stmt_result_def Let_def split: option.splits fault.splits sum.splits prod.splits)

lemma wlp_sql_ok:
  "w_fault w (w_tick w) = None \<Longrightarrow>
     wlp (sql st) Q w =
       (case stmt_result st w of
          Inl e \<Rightarrow> Q (Inl e) (next_tick w)
        | Inr (a, d) \<Rightarrow> Q (Inr a) ((next_tick w)\<lparr>w_db := d\<rparr>))"
  by (simp add: wlp_sql)

text \<open>Reading: whatever the reply, the tables stay.\<close>

lemma wlp_query:
  "wlp (sql (query f)) Q w =
     (case w_fault w (w_tick w) of
        None \<Rightarrow> Q (Inr (f (w_db w))) (next_tick w)
      | Some (NotRun e) \<Rightarrow> Q (Inl (DriverError e)) (next_tick w)
      | Some (ReplyLost e) \<Rightarrow> Q (Inl (DriverError e)) (next_tick w))"
  by (simp add: wlp_sql stmt_result_def query_def next_tick_def split: option.splits fault.splits)

lemma wlp_query_row:
  "wlp (sql (query_row f)) Q w =
     (case w_fault w (w_tick w) of
        None \<Rightarrow> Q (case f (w_db w) of None \<Rightarrow> Inl ErrNoRows | Some x \<Rightarrow> Inr x) (next_tick w)
      | Some (NotRun e) \<Rightarrow> Q (Inl (DriverError e)) (next_tick w)
      | Some (ReplyLost e) \<Rightarrow> Q (Inl (DriverError e)) (next_tick w))"
  by (simp add: wlp_sql stmt_result_def query_row_def next_tick_def split: option.splits fault.splits)

lemma next_tick_simps [simp]:
  "w_db (next_tick w) = w_db w" "w_tick (next_tick w) = Suc (w_tick w)"
  "w_limiter (next_tick w) = w_limiter w" "w_out (next_tick w) = w_out w"
  "w_fault (next_tick w) = w_fault w" "w_clock (next_tick w) = w_clock w"
  "w_rand (next_tick w) = w_rand w" "w_http (next_tick w) = w_http w"
  by (simp_all add: next_tick_def)


section \<open>Frames of statements\<close>

text \<open>
  A relation on the tables, lifted to the world: the environment is read-only. A computation
  respects it when its statements do.
\<close>

definition tables_rel :: "(db \<Rightarrow> db \<Rightarrow> bool) \<Rightarrow> world \<Rightarrow> world \<Rightarrow> bool" where
  "tables_rel R w w' \<longleftrightarrow> R (w_db w) (w_db w')"

definition stmt_rel :: "(db \<Rightarrow> db \<Rightarrow> bool) \<Rightarrow> 'a stmt \<Rightarrow> bool" where
  "stmt_rel R st \<longleftrightarrow> (\<forall>now i d a d'. st now i d = Inr (a, d') \<longrightarrow> R d d')"

locale tables_frame =
  fixes R :: "db \<Rightarrow> db \<Rightarrow> bool"
  assumes tables_refl: "R d d"
    and tables_trans: "R d e \<Longrightarrow> R e f \<Longrightarrow> R d f"
begin

sublocale frame "tables_rel R"
  by unfold_locales (auto simp: tables_rel_def tables_refl intro: tables_trans)

lemma rel_time_Now: "state_io_rel (tables_rel R) time_Now"
  by (simp add: state_io_rel_def time_Now_def tables_rel_def tables_refl)

lemma rel_uuid_NewString: "state_io_rel (tables_rel R) uuid_NewString"
  by (simp add: state_io_rel_def uuid_NewString_def tables_rel_def tables_refl)

lemma rel_rand_Read: "state_io_rel (tables_rel R) rand_Read"
  by (simp add: state_io_rel_def rand_Read_def tables_rel_def tables_refl)

lemma rel_sql: "stmt_rel R st \<Longrightarrow> state_io_rel (tables_rel R) (sql st)"
  by (auto simp: state_io_rel_def sql_def stmt_rel_def tables_rel_def tables_refl Let_def
      split: option.splits fault.splits sum.splits)

lemma rel_query: "stmt_rel R (query f)"
  by (simp add: stmt_rel_def query_def tables_refl)

lemma rel_query_row: "stmt_rel R (query_row f)"
  by (simp add: stmt_rel_def query_row_def tables_refl split: option.splits)

lemma rel_modify: "(\<And>w. w_db (f w) = w_db w) \<Longrightarrow> state_io_rel (tables_rel R) (modify f)"
  by (simp add: state_io_rel_def tables_rel_def tables_refl)

lemmas rel_intros = frame_intros rel_time_Now rel_uuid_NewString rel_rand_Read rel_sql
  rel_query rel_query_row

end

end
