(* ===== verification/Lib.thy ===== *)
theory Lib
  imports Schema
begin

text \<open>
  The packages the program calls and does not contain: their functions are the fields of a
  record that every definition using them takes as an argument, so the theorems hold whatever
  they compute, up to the hypotheses that a theorem names. The last section gives one concrete
  instance, and a world to run in, for the examples.
\<close>

text \<open>The claims of a token, \<open>auth.Claims\<close> with its registered claims.\<close>

record Claims =
  claims_UserID :: string
  claims_TokenType :: string
  claims_ID :: string
  claims_IssuedAt :: time
  claims_ExpiresAt :: time

text \<open>
  What the billing handler reads of a Stripe event: its type, and the session or subscription
  decoded from its raw data (\<^const>\<open>None\<close> when decoding fails). A nil pointer is
  \<^const>\<open>None\<close>.
\<close>

record CheckoutSession =
  sess_ClientReferenceID :: string
  sess_Customer :: "string option"
  sess_Subscription :: "string option"

record StripeSubscription =
  ssub_ID :: string
  ssub_Status :: string
  ssub_Items :: "int list option"

record StripeEvent =
  event_Type :: string
  event_session :: "CheckoutSession option"
  event_subscription :: "StripeSubscription option"

text \<open>
  \<open>jwt_NewNumericDate\<close> gives a claim its precision, \<open>jwt_SignedString\<close> signs with
  a secret, \<open>jwt_ParseWithClaims\<close> verifies at a time and returns the claims with the
  token's \<open>Valid\<close> flag. \<open>bcrypt_GenerateFromPassword\<close> takes the salt it draws.
  \<open>pq_Array\<close> is the text a string array is sent as; \<open>jsonb\<close> the text the database
  keeps of a JSON document, none when it rejects it. \<open>http_NewRequest\<close> rejects URLs,
  \<open>validator_email\<close> is the binding rule \<open>email\<close>. \<open>stripe_ConstructEvent\<close> verifies
  at a time a body, a signature header and a secret. \<open>s3_PresignPut\<close> and
  \<open>s3_PresignGet\<close> sign for a bucket, a key (with a content type) and a duration.
  \<open>swagger_Status\<close> is the status with which \<open>ginSwagger.WrapHandler\<close> answers a path.
\<close>

record lib =
  sha256_hex :: "string \<Rightarrow> string"
  hmac_sha256_hex :: "string \<Rightarrow> string \<Rightarrow> string"
  bcrypt_GenerateFromPassword :: "string \<Rightarrow> string \<Rightarrow> goerror + string"
  bcrypt_CompareHashAndPassword :: "string \<Rightarrow> string \<Rightarrow> goerror option"
  jwt_NewNumericDate :: "time \<Rightarrow> time"
  jwt_SignedString :: "string \<Rightarrow> Claims \<Rightarrow> goerror + string"
  jwt_ParseWithClaims :: "time \<Rightarrow> string \<Rightarrow> string \<Rightarrow> goerror + Claims \<times> bool"
  pq_Array :: "string list \<Rightarrow> string"
  jsonb :: "string \<Rightarrow> string option"
  http_NewRequest :: "string \<Rightarrow> goerror option"
  validator_email :: "string \<Rightarrow> bool"
  time_Parse_RFC3339 :: "string \<Rightarrow> time option"
  stripe_ConstructEvent :: "time \<Rightarrow> string \<Rightarrow> string \<Rightarrow> string \<Rightarrow> goerror + StripeEvent"
  s3_PresignPut :: "string \<Rightarrow> string \<Rightarrow> string \<Rightarrow> int \<Rightarrow> goerror + string"
  s3_PresignGet :: "string \<Rightarrow> string \<Rightarrow> int \<Rightarrow> goerror + string"
  swagger_Status :: "string \<Rightarrow> int"


section \<open>Calls to other systems\<close>

text \<open>
  A call is recorded when it reaches its peer. The identifier or address that Stripe answers
  with is drawn by the environment; an HTTP peer answers with a status or the client fails.
\<close>

definition call_out :: "outcall \<Rightarrow> (goerror + string) prog" where
  "call_out c = State (\<lambda>w.
     let w' = (next_tick w)\<lparr>w_out := w_out w @ [c]\<rparr>
     in case w_fault w (w_tick w) of
          None \<Rightarrow> (Inr (w_rand w (w_tick w)), w')
        | Some (NotRun e) \<Rightarrow> (Inl (LibError e), next_tick w)
        | Some (ReplyLost e) \<Rightarrow> (Inl (LibError e), w'))"

definition http_Do :: "outcall \<Rightarrow> (goerror + int) prog" where
  "http_Do c = State (\<lambda>w.
     let w' = (next_tick w)\<lparr>w_out := w_out w @ [c]\<rparr>
     in case w_fault w (w_tick w) of
          None \<Rightarrow> (w_http w (w_tick w), w')
        | Some (NotRun e) \<Rightarrow> (Inl (LibError e), next_tick w)
        | Some (ReplyLost e) \<Rightarrow> (Inl (LibError e), w'))"

lemma wlp_call_out:
  "wlp (call_out c) Q w =
     (case w_fault w (w_tick w) of
        None \<Rightarrow> Q (Inr (w_rand w (w_tick w))) ((next_tick w)\<lparr>w_out := w_out w @ [c]\<rparr>)
      | Some (NotRun e) \<Rightarrow> Q (Inl (LibError e)) (next_tick w)
      | Some (ReplyLost e) \<Rightarrow> Q (Inl (LibError e)) ((next_tick w)\<lparr>w_out := w_out w @ [c]\<rparr>))"
  by (simp add: wlp_def call_out_def Let_def split: option.splits fault.splits)

lemma wlp_http_Do:
  "wlp (http_Do c) Q w =
     (case w_fault w (w_tick w) of
        None \<Rightarrow> Q (w_http w (w_tick w)) ((next_tick w)\<lparr>w_out := w_out w @ [c]\<rparr>)
      | Some (NotRun e) \<Rightarrow> Q (Inl (LibError e)) (next_tick w)
      | Some (ReplyLost e) \<Rightarrow> Q (Inl (LibError e)) ((next_tick w)\<lparr>w_out := w_out w @ [c]\<rparr>))"
  by (simp add: wlp_def http_Do_def Let_def split: option.splits fault.splits)

context tables_frame
begin

lemma rel_call_out: "state_io_rel (tables_rel R) (call_out c)"
  by (simp add: state_io_rel_def call_out_def tables_rel_def tables_refl Let_def
      split: option.splits fault.splits)

lemma rel_http_Do: "state_io_rel (tables_rel R) (http_Do c)"
  by (simp add: state_io_rel_def http_Do_def tables_rel_def tables_refl Let_def
      split: option.splits fault.splits)

end


section \<open>Documented behaviour\<close>

text \<open>
  A token signed with a secret parses with it to its claims until it expires; the claims that a
  token parses to are those it holds, at whatever time it is parsed. A password matches the hash
  generated from it.
\<close>

definition jwt_sound :: "lib \<Rightarrow> bool" where
  "jwt_sound L \<longleftrightarrow>
     (\<forall>secret c tok now. jwt_SignedString L secret c = Inr tok \<longrightarrow> now < claims_ExpiresAt c \<longrightarrow>
        jwt_ParseWithClaims L now tok secret = Inr (c, True))"

definition jwt_stable :: "lib \<Rightarrow> bool" where
  "jwt_stable L \<longleftrightarrow>
     (\<forall>secret tok t t' c c' v v'. jwt_ParseWithClaims L t tok secret = Inr (c, v) \<longrightarrow>
        jwt_ParseWithClaims L t' tok secret = Inr (c', v') \<longrightarrow> c = c')"

definition bcrypt_sound :: "lib \<Rightarrow> bool" where
  "bcrypt_sound L \<longleftrightarrow>
     (\<forall>salt pw h. bcrypt_GenerateFromPassword L salt pw = Inr h \<longrightarrow>
        bcrypt_CompareHashAndPassword L h pw = None)"


section \<open>A concrete environment\<close>

text \<open>
  Tokens spell out their claims: each character of a field is marked, \<open>|\<close> ends a field.
\<close>

definition enc :: "string \<Rightarrow> string" where
  "enc s = concat (map (\<lambda>c. [CHR ''x'', c]) s) @ ''|''"

fun dec :: "string \<Rightarrow> (string \<times> string) option" where
  "dec [] = None"
| "dec [a] = (if a = CHR ''|'' then Some ([], []) else None)"
| "dec (a # c # r) =
     (if a = CHR ''|'' then Some ([], c # r) else map_option (\<lambda>(s, t). (c # s, t)) (dec r))"

definition dec_int :: "string \<Rightarrow> int option" where
  "dec_int s = (if take 1 s = ''-'' then map_option uminus (digits_value 0 (drop 1 s))
                else digits_value 0 s)"

definition sample_sign :: "string \<Rightarrow> Claims \<Rightarrow> goerror + string" where
  "sample_sign secret c =
     Inr (enc secret @ enc (claims_UserID c) @ enc (claims_TokenType c) @ enc (claims_ID c) @
          enc (Itoa (claims_IssuedAt c)) @ enc (Itoa (claims_ExpiresAt c)))"

definition sample_claims :: "string \<Rightarrow> (string \<times> Claims) option" where
  "sample_claims tok = do {
     (secret, r) \<leftarrow> dec tok;
     (u, r) \<leftarrow> dec r;
     (t, r) \<leftarrow> dec r;
     (i, r) \<leftarrow> dec r;
     (a, r) \<leftarrow> dec r;
     (e, r) \<leftarrow> dec r;
     iat \<leftarrow> dec_int a;
     ex \<leftarrow> dec_int e;
     Some (secret, \<lparr>claims_UserID = u, claims_TokenType = t, claims_ID = i,
                    claims_IssuedAt = iat, claims_ExpiresAt = ex\<rparr>)
   }"

definition sample_parse :: "time \<Rightarrow> string \<Rightarrow> string \<Rightarrow> goerror + Claims \<times> bool" where
  "sample_parse now tok secret =
     (case sample_claims tok of
        None \<Rightarrow> Inl (LibError ''token is malformed'')
      | Some (s, c) \<Rightarrow>
          if s \<noteq> secret then Inl (LibError ''signature is invalid'')
          else if claims_ExpiresAt c \<le> now then Inl (LibError ''token is expired'')
          else Inr (c, True))"

definition sample_lib :: lib where
  "sample_lib = \<lparr>
     sha256_hex = (\<lambda>s. ''h:'' @ s),
     hmac_sha256_hex = (\<lambda>k m. k @ '':'' @ m),
     bcrypt_GenerateFromPassword = (\<lambda>salt pw. Inr (''b:'' @ pw)),
     bcrypt_CompareHashAndPassword = (\<lambda>h pw. if h = ''b:'' @ pw then None else Some (LibError ''mismatch'')),
     jwt_NewNumericDate = (\<lambda>t. Second * (t div Second)),
     jwt_SignedString = sample_sign,
     jwt_ParseWithClaims = sample_parse,
     pq_Array = (\<lambda>xs. ''{'' @ concat xs @ ''}''),
     jsonb = Some,
     http_NewRequest = (\<lambda>_. None),
     validator_email = (\<lambda>s. CHR ''@'' \<in> set s),
     time_Parse_RFC3339 = Atoi,
     stripe_ConstructEvent = (\<lambda>_ _ _ _. Inl (LibError ''signature'')),
     s3_PresignPut = (\<lambda>b k _ _. Inr (b @ ''/'' @ k)),
     s3_PresignGet = (\<lambda>b k _. Inr (b @ ''/'' @ k)),
     swagger_Status = (\<lambda>_. 200)\<rparr>"

definition empty_db :: db where
  "empty_db = \<lparr>users = [], organizations = [], memberships = [], projects = [], refresh_tokens = [],
     password_reset_tokens = [], audit_logs = [], audit_logs_id_seq = 0, user_contexts = [],
     files = [], api_keys = [], subscriptions = [], webhook_endpoints = [], webhook_deliveries = []\<rparr>"

text \<open>A world where nothing fails, the clock ticks a second a step and every draw is new.\<close>

definition sample_world :: "db \<Rightarrow> world" where
  "sample_world d = \<lparr>w_db = d, w_limiter = New 20 40, w_out = [], w_tick = 0,
     w_fault = (\<lambda>_. None), w_clock = (\<lambda>n. int n * Second), w_rand = (\<lambda>n. CHR ''r'' # nat_digits n),
     w_http = (\<lambda>_. Inr 200), w_started = 0\<rparr>"

lemma dec_enc [simp]: "dec (enc s @ t) = Some (s, t)"
proof (induction s)
  case Nil
  then show ?case by (cases t) (simp_all add: enc_def)
next
  case (Cons c s)
  then show ?case by (simp add: enc_def)
qed

lemma dec_enc_end [simp]: "dec (enc s) = Some (s, [])"
  using dec_enc [of s "[]"] by simp

lemma dec_int_Itoa [simp]: "dec_int (Itoa x) = Some x"
  using nat_digits_head [of "nat x"]
  by (auto simp: dec_int_def Itoa_def digits_value_nat_digits)

lemma jwt_sound_sample: "jwt_sound sample_lib"
  by (simp add: jwt_sound_def sample_lib_def sample_sign_def sample_parse_def sample_claims_def)

lemma jwt_stable_sample: "jwt_stable sample_lib"
  by (auto simp: jwt_stable_def sample_lib_def sample_parse_def split: option.splits if_splits)

lemma bcrypt_sound_sample: "bcrypt_sound sample_lib"
  by (simp add: bcrypt_sound_def sample_lib_def)

end
