(* ===== verification/RepoIdentity.thy ===== *)
theory RepoIdentity
  imports Schema
begin

text \<open>
  The generated queries of \<open>internal/repo\<close> for users, organizations, memberships, active
  organizations, refresh tokens and password resets, each the meaning of its SQL text on the
  tables, with the constraints that \<open>db/migrations\<close> declares (primary keys, unique
  columns, foreign keys and their cascades).
\<close>

definition user_exists :: "db \<Rightarrow> string \<Rightarrow> bool" where
  "user_exists d u \<longleftrightarrow> u \<in> set (map users_id (users d))"

definition org_exists :: "db \<Rightarrow> string \<Rightarrow> bool" where
  "org_exists d i \<longleftrightarrow> i \<in> set (map organizations_id (organizations d))"


section \<open>users.sql\<close>

text \<open>The columns \<open>id, email, password_hash\<close> that the two lookups select.\<close>

type_synonym user_cols = "string \<times> string \<times> string"

definition user_cols :: "repo_User \<Rightarrow> user_cols" where
  "user_cols r = (users_id r, users_email r, users_password_hash r)"

definition GetUserByEmail :: "string \<Rightarrow> (goerror + user_cols) prog" where
  "GetUserByEmail email =
     sql (query_row (\<lambda>d. map_option user_cols (select_one (\<lambda>r. users_email r = email) (users d))))"

definition GetUserByID :: "string \<Rightarrow> (goerror + user_cols) prog" where
  "GetUserByID i =
     sql (query_row (\<lambda>d. map_option user_cols (select_one (\<lambda>r. users_id r = i) (users d))))"

definition insert_user :: "string \<Rightarrow> string \<Rightarrow> string \<Rightarrow> time \<Rightarrow> unit stmt" where
  "insert_user i email pwhash created = (\<lambda>_ _ d.
     if user_exists d i then Inl (UniqueViolation ''users_pkey'')
     else if email \<in> set (map users_email (users d)) then Inl (UniqueViolation ''users_email_key'')
     else Inr ((), d\<lparr>users := users d @
       [\<lparr>users_id = i, users_email = email, users_password_hash = pwhash, users_created_at = pg_time created\<rparr>]\<rparr>))"

definition InsertUser :: "string \<Rightarrow> string \<Rightarrow> string \<Rightarrow> time \<Rightarrow> (goerror + unit) prog" where
  "InsertUser i email pwhash created = sql (insert_user i email pwhash created)"

definition update_user_password :: "string \<Rightarrow> string \<Rightarrow> unit stmt" where
  "update_user_password i pwhash = (\<lambda>_ _ d.
     Inr ((), d\<lparr>users := update_where (\<lambda>r. users_id r = i)
                           (\<lambda>r. r\<lparr>users_password_hash := pwhash\<rparr>) (users d)\<rparr>))"

definition UpdateUserPassword :: "string \<Rightarrow> string \<Rightarrow> (goerror + unit) prog" where
  "UpdateUserPassword i pwhash = sql (update_user_password i pwhash)"


section \<open>orgs.sql\<close>

text \<open>
  Deleting an organization cascades to its memberships, the contexts and files that name it,
  its API keys, subscription and webhook endpoints, and their deliveries; projects and audit
  logs have no foreign key and stay.
\<close>

definition delete_org :: "string \<Rightarrow> unit stmt" where
  "delete_org i = (\<lambda>_ _ d.
     let gone = map webhook_endpoints_id
                  (filter (\<lambda>e. org_exists d i \<and> webhook_endpoints_org_id e = i) (webhook_endpoints d))
     in Inr ((), if \<not> org_exists d i then d else d\<lparr>
          organizations := delete_where (\<lambda>r. organizations_id r = i) (organizations d),
          memberships := delete_where (\<lambda>r. memberships_org_id r = i) (memberships d),
          user_contexts := delete_where (\<lambda>r. user_contexts_org_id r = i) (user_contexts d),
          files := delete_where (\<lambda>r. files_org_id r = i) (files d),
          api_keys := delete_where (\<lambda>r. api_keys_org_id r = i) (api_keys d),
          subscriptions := delete_where (\<lambda>r. subscriptions_org_id r = i) (subscriptions d),
          webhook_endpoints := delete_where (\<lambda>r. webhook_endpoints_org_id r = i) (webhook_endpoints d),
          webhook_deliveries := delete_where
            (\<lambda>r. webhook_deliveries_endpoint_id r \<in> set gone) (webhook_deliveries d)\<rparr>))"

definition DeleteOrg :: "string \<Rightarrow> (goerror + unit) prog" where
  "DeleteOrg i = sql (delete_org i)"

definition GetOrg :: "string \<Rightarrow> (goerror + repo_Organization) prog" where
  "GetOrg i = sql (query_row (\<lambda>d. select_one (\<lambda>r. organizations_id r = i) (organizations d)))"

definition insert_org :: "string \<Rightarrow> string \<Rightarrow> string \<Rightarrow> time \<Rightarrow> unit stmt" where
  "insert_org i name owner created = (\<lambda>_ _ d.
     if org_exists d i then Inl (UniqueViolation ''organizations_pkey'')
     else if \<not> user_exists d owner then Inl (ForeignKeyViolation ''organizations_owner_user_id_fkey'')
     else Inr ((), d\<lparr>organizations := organizations d @
       [\<lparr>organizations_id = i, organizations_name = name, organizations_owner_user_id = owner,
         organizations_created_at = pg_time created\<rparr>]\<rparr>))"

definition InsertOrg :: "string \<Rightarrow> string \<Rightarrow> string \<Rightarrow> time \<Rightarrow> (goerror + unit) prog" where
  "InsertOrg i name owner created = sql (insert_org i name owner created)"


section \<open>memberships.sql\<close>

definition is_member_row :: "string \<Rightarrow> string \<Rightarrow> repo_Membership \<Rightarrow> bool" where
  "is_member_row orgID userID r \<longleftrightarrow> memberships_org_id r = orgID \<and> memberships_user_id r = userID"

definition delete_member :: "string \<Rightarrow> string \<Rightarrow> unit stmt" where
  "delete_member orgID userID = (\<lambda>_ _ d.
     Inr ((), d\<lparr>memberships := delete_where (is_member_row orgID userID) (memberships d)\<rparr>))"

definition DeleteMember :: "string \<Rightarrow> string \<Rightarrow> (goerror + unit) prog" where
  "DeleteMember orgID userID = sql (delete_member orgID userID)"

definition member_role :: "db \<Rightarrow> string \<Rightarrow> string \<Rightarrow> string option" where
  "member_role d orgID userID =
     map_option memberships_role (select_one (is_member_row orgID userID) (memberships d))"

definition GetMemberRole :: "string \<Rightarrow> string \<Rightarrow> (goerror + string) prog" where
  "GetMemberRole orgID userID = sql (query_row (\<lambda>d. member_role d orgID userID))"

text \<open>Returns the number of rows that were updated.\<close>

definition update_member_role :: "string \<Rightarrow> string \<Rightarrow> string \<Rightarrow> nat stmt" where
  "update_member_role orgID userID role = (\<lambda>_ _ d.
     Inr (rows_affected (is_member_row orgID userID) (memberships d),
          d\<lparr>memberships := update_where (is_member_row orgID userID)
                             (\<lambda>r. r\<lparr>memberships_role := role\<rparr>) (memberships d)\<rparr>))"

definition UpdateMemberRole :: "string \<Rightarrow> string \<Rightarrow> string \<Rightarrow> (goerror + nat) prog" where
  "UpdateMemberRole orgID userID role = sql (update_member_role orgID userID role)"

definition upsert_member :: "string \<Rightarrow> string \<Rightarrow> string \<Rightarrow> unit stmt" where
  "upsert_member orgID userID role = (\<lambda>_ _ d.
     if member_role d orgID userID \<noteq> None
     then Inr ((), d\<lparr>memberships := update_where (is_member_row orgID userID)
                                     (\<lambda>r. r\<lparr>memberships_role := role\<rparr>) (memberships d)\<rparr>)
     else if \<not> org_exists d orgID then Inl (ForeignKeyViolation ''memberships_org_id_fkey'')
     else if \<not> user_exists d userID then Inl (ForeignKeyViolation ''memberships_user_id_fkey'')
     else Inr ((), d\<lparr>memberships := memberships d @
       [\<lparr>memberships_org_id = orgID, memberships_user_id = userID, memberships_role = role\<rparr>]\<rparr>))"

definition UpsertMember :: "string \<Rightarrow> string \<Rightarrow> string \<Rightarrow> (goerror + unit) prog" where
  "UpsertMember orgID userID role = sql (upsert_member orgID userID role)"


section \<open>user\_contexts.sql\<close>

definition active_org :: "db \<Rightarrow> string \<Rightarrow> string option" where
  "active_org d userID =
     map_option user_contexts_org_id
       (select_one (\<lambda>r. user_contexts_user_id r = userID) (user_contexts d))"

definition GetActiveOrg :: "string \<Rightarrow> (goerror + string) prog" where
  "GetActiveOrg userID = sql (query_row (\<lambda>d. active_org d userID))"

definition upsert_active_org :: "string \<Rightarrow> string \<Rightarrow> unit stmt" where
  "upsert_active_org userID orgID = (\<lambda>now _ d.
     if \<not> user_exists d userID then Inl (ForeignKeyViolation ''user_contexts_user_id_fkey'')
     else if \<not> org_exists d orgID then Inl (ForeignKeyViolation ''user_contexts_org_id_fkey'')
     else if active_org d userID \<noteq> None
     then Inr ((), d\<lparr>user_contexts := update_where (\<lambda>r. user_contexts_user_id r = userID)
            (\<lambda>r. r\<lparr>user_contexts_org_id := orgID, user_contexts_updated_at := now\<rparr>) (user_contexts d)\<rparr>)
     else Inr ((), d\<lparr>user_contexts := user_contexts d @
       [\<lparr>user_contexts_user_id = userID, user_contexts_org_id = orgID,
         user_contexts_updated_at = now\<rparr>]\<rparr>))"

definition UpsertActiveOrg :: "string \<Rightarrow> string \<Rightarrow> (goerror + unit) prog" where
  "UpsertActiveOrg userID orgID = sql (upsert_active_org userID orgID)"


section \<open>refresh\_tokens.sql\<close>

definition refresh_row :: "db \<Rightarrow> string \<Rightarrow> repo_RefreshToken option" where
  "refresh_row d jti = select_one (\<lambda>r. refresh_tokens_id r = jti) (refresh_tokens d)"

definition GetRefreshToken :: "string \<Rightarrow> (goerror + repo_RefreshToken) prog" where
  "GetRefreshToken jti = sql (query_row (\<lambda>d. refresh_row d jti))"

definition insert_refresh_token ::
  "string \<Rightarrow> string \<Rightarrow> string \<Rightarrow> time \<Rightarrow> string option \<Rightarrow> unit stmt" where
  "insert_refresh_token jti userID tokenHash expiresAt rotatedFrom = (\<lambda>now _ d.
     if refresh_row d jti \<noteq> None then Inl (UniqueViolation ''refresh_tokens_pkey'')
     else if \<not> user_exists d userID then Inl (ForeignKeyViolation ''refresh_tokens_user_id_fkey'')
     else if (case rotatedFrom of None \<Rightarrow> False | Some p \<Rightarrow> p \<noteq> jti \<and> refresh_row d p = None)
     then Inl (ForeignKeyViolation ''refresh_tokens_rotated_from_fkey'')
     else Inr ((), d\<lparr>refresh_tokens := refresh_tokens d @
       [\<lparr>refresh_tokens_id = jti, refresh_tokens_user_id = userID,
         refresh_tokens_token_hash = tokenHash, refresh_tokens_expires_at = pg_time expiresAt,
         refresh_tokens_revoked_at = None, refresh_tokens_rotated_from = rotatedFrom,
         refresh_tokens_created_at = now\<rparr>]\<rparr>))"

definition InsertRefreshToken ::
  "string \<Rightarrow> string \<Rightarrow> string \<Rightarrow> time \<Rightarrow> string option \<Rightarrow> (goerror + unit) prog" where
  "InsertRefreshToken jti userID tokenHash expiresAt rotatedFrom =
     sql (insert_refresh_token jti userID tokenHash expiresAt rotatedFrom)"

definition revoke_where :: "(repo_RefreshToken \<Rightarrow> bool) \<Rightarrow> unit stmt" where
  "revoke_where p = (\<lambda>now _ d.
     Inr ((), d\<lparr>refresh_tokens := update_where (\<lambda>r. p r \<and> refresh_tokens_revoked_at r = None)
                 (\<lambda>r. r\<lparr>refresh_tokens_revoked_at := Some now\<rparr>) (refresh_tokens d)\<rparr>))"

definition RevokeAllUserTokens :: "string \<Rightarrow> (goerror + unit) prog" where
  "RevokeAllUserTokens userID = sql (revoke_where (\<lambda>r. refresh_tokens_user_id r = userID))"

definition RevokeToken :: "string \<Rightarrow> (goerror + unit) prog" where
  "RevokeToken jti = sql (revoke_where (\<lambda>r. refresh_tokens_id r = jti))"


section \<open>password\_resets.sql\<close>

definition reset_row :: "db \<Rightarrow> string \<Rightarrow> repo_PasswordResetToken option" where
  "reset_row d tokenHash =
     select_one (\<lambda>r. password_reset_tokens_token_hash r = tokenHash \<and>
                     password_reset_tokens_used_at r = None) (password_reset_tokens d)"

definition create_password_reset_token :: "string \<Rightarrow> string \<Rightarrow> time \<Rightarrow> unit stmt" where
  "create_password_reset_token userID tokenHash expiresAt = (\<lambda>now i d.
     if i \<in> set (map password_reset_tokens_id (password_reset_tokens d))
     then Inl (UniqueViolation ''password_reset_tokens_pkey'')
     else if tokenHash \<in> set (map password_reset_tokens_token_hash (password_reset_tokens d))
     then Inl (UniqueViolation ''password_reset_tokens_token_hash_key'')
     else if \<not> user_exists d userID
     then Inl (ForeignKeyViolation ''password_reset_tokens_user_id_fkey'')
     else Inr ((), d\<lparr>password_reset_tokens := password_reset_tokens d @
       [\<lparr>password_reset_tokens_id = i, password_reset_tokens_user_id = userID,
         password_reset_tokens_token_hash = tokenHash, password_reset_tokens_expires_at = pg_time expiresAt,
         password_reset_tokens_used_at = None, password_reset_tokens_created_at = now\<rparr>]\<rparr>))"

definition CreatePasswordResetToken :: "string \<Rightarrow> string \<Rightarrow> time \<Rightarrow> (goerror + unit) prog" where
  "CreatePasswordResetToken userID tokenHash expiresAt =
     sql (create_password_reset_token userID tokenHash expiresAt)"

definition GetPasswordResetByHash :: "string \<Rightarrow> (goerror + repo_PasswordResetToken) prog" where
  "GetPasswordResetByHash tokenHash = sql (query_row (\<lambda>d. reset_row d tokenHash))"

definition mark_password_reset_used :: "string \<Rightarrow> unit stmt" where
  "mark_password_reset_used i = (\<lambda>now _ d.
     Inr ((), d\<lparr>password_reset_tokens := update_where (\<lambda>r. password_reset_tokens_id r = i)
                 (\<lambda>r. r\<lparr>password_reset_tokens_used_at := Some now\<rparr>) (password_reset_tokens d)\<rparr>))"

definition MarkPasswordResetUsed :: "string \<Rightarrow> (goerror + unit) prog" where
  "MarkPasswordResetUsed i = sql (mark_password_reset_used i)"

end
