(* ===== verification/RepoTenant.thy ===== *)
theory RepoTenant
  imports Lib RepoIdentity
begin

text \<open>
  The generated queries of \<open>internal/repo\<close> for what an organization owns: projects, the
  audit log, files, API keys, the subscription and webhooks. \<open>ORDER BY\<close> is a stable sort
  (rows with the same key in the order of the table); a negative \<open>LIMIT\<close> or
  \<open>OFFSET\<close> is an error.
\<close>

definition limit_offset :: "int \<Rightarrow> int \<Rightarrow> 'r list \<Rightarrow> goerror + 'r list" where
  "limit_offset lmt off rs =
     (if lmt < 0 then Inl (DriverError ''LIMIT must not be negative'')
      else if off < 0 then Inl (DriverError ''OFFSET must not be negative'')
      else Inr (take (nat lmt) (drop (nat off) rs)))"

text \<open>A query that can fail.\<close>

definition query_or_fail :: "(db \<Rightarrow> goerror + 'a) \<Rightarrow> 'a stmt" where
  "query_or_fail f = (\<lambda>_ _ d. case f d of Inl e \<Rightarrow> Inl e | Inr x \<Rightarrow> Inr (x, d))"


section \<open>projects.sql\<close>

definition is_project :: "string \<Rightarrow> string \<Rightarrow> repo_Project \<Rightarrow> bool" where
  "is_project i orgID r \<longleftrightarrow> projects_id r = i \<and> projects_org_id r = orgID"

definition delete_project :: "string \<Rightarrow> string \<Rightarrow> nat stmt" where
  "delete_project i orgID = (\<lambda>_ _ d.
     Inr (rows_affected (is_project i orgID) (projects d),
          d\<lparr>projects := delete_where (is_project i orgID) (projects d)\<rparr>))"

definition DeleteProject :: "string \<Rightarrow> string \<Rightarrow> (goerror + nat) prog" where
  "DeleteProject i orgID = sql (delete_project i orgID)"

definition GetProject :: "string \<Rightarrow> string \<Rightarrow> (goerror + repo_Project) prog" where
  "GetProject i orgID = sql (query_row (\<lambda>d. select_one (is_project i orgID) (projects d)))"

definition insert_project ::
  "string \<Rightarrow> string \<Rightarrow> string \<Rightarrow> string option \<Rightarrow> string \<Rightarrow> repo_Project stmt" where
  "insert_project i orgID name description createdBy = (\<lambda>now _ d.
     let r = \<lparr>projects_id = i, projects_org_id = orgID, projects_name = name,
              projects_description = description, projects_created_by = createdBy,
              projects_created_at = now, projects_updated_at = now\<rparr>
     in if i \<in> set (map projects_id (projects d)) then Inl (UniqueViolation ''projects_pkey'')
        else Inr (r, d\<lparr>projects := projects d @ [r]\<rparr>))"

definition InsertProject ::
  "string \<Rightarrow> string \<Rightarrow> string \<Rightarrow> string option \<Rightarrow> string \<Rightarrow> (goerror + repo_Project) prog" where
  "InsertProject i orgID name description createdBy =
     sql (insert_project i orgID name description createdBy)"

definition ListProjects :: "string \<Rightarrow> (goerror + repo_Project list) prog" where
  "ListProjects orgID =
     sql (query (\<lambda>d. sort_key projects_created_at (filter (\<lambda>r. projects_org_id r = orgID) (projects d))))"

text \<open>\<open>COALESCE(NULLIF($3, ''), name)\<close>: an empty name keeps the old one.\<close>

definition project_set :: "time \<Rightarrow> string \<Rightarrow> string option \<Rightarrow> repo_Project \<Rightarrow> repo_Project" where
  "project_set now name description r =
     r\<lparr>projects_name := (if name = [] then projects_name r else name),
       projects_description := description, projects_updated_at := now\<rparr>"

definition update_project :: "string \<Rightarrow> string \<Rightarrow> string \<Rightarrow> string option \<Rightarrow> repo_Project stmt" where
  "update_project i orgID name description = (\<lambda>now _ d.
     case select_one (is_project i orgID) (projects d) of
       None \<Rightarrow> Inl ErrNoRows
     | Some r \<Rightarrow>
         Inr (project_set now name description r,
              d\<lparr>projects := update_where (is_project i orgID) (project_set now name description)
                              (projects d)\<rparr>))"

definition UpdateProject ::
  "string \<Rightarrow> string \<Rightarrow> string \<Rightarrow> string option \<Rightarrow> (goerror + repo_Project) prog" where
  "UpdateProject i orgID name description = sql (update_project i orgID name description)"


section \<open>audit\_logs.sql\<close>

definition insert_audit_log ::
  "string \<Rightarrow> string \<Rightarrow> string \<Rightarrow> string \<Rightarrow> string \<Rightarrow> json option \<Rightarrow> time \<Rightarrow> unit stmt" where
  "insert_audit_log orgID actorID action entity entityID metadata createdAt = (\<lambda>_ _ d.
     let i = audit_logs_id_seq d + 1
     in if 2 ^ 63 \<le> i then Inl (DriverError ''nextval: reached maximum value of sequence'')
        else Inr ((), d\<lparr>audit_logs := audit_logs d @
          [\<lparr>audit_logs_id = i, audit_logs_org_id = orgID, audit_logs_actor_id = actorID,
            audit_logs_action = action, audit_logs_entity = entity, audit_logs_entity_id = entityID,
            audit_logs_created_at = pg_time createdAt, audit_logs_metadata = metadata\<rparr>],
          audit_logs_id_seq := i\<rparr>))"

definition InsertAuditLog ::
  "string \<Rightarrow> string \<Rightarrow> string \<Rightarrow> string \<Rightarrow> string \<Rightarrow> json option \<Rightarrow> time \<Rightarrow> (goerror + unit) prog" where
  "InsertAuditLog orgID actorID action entity entityID metadata createdAt =
     sql (insert_audit_log orgID actorID action entity entityID metadata createdAt)"

record ListAuditLogsParams =
  la_OrgID :: string
  la_FilterActorID :: "string option"
  la_FilterAction :: "string option"
  la_FilterEntity :: "string option"
  la_FilterSince :: "time option"
  la_FilterUntil :: "time option"
  la_QueryOffset :: int
  la_QueryLimit :: int

text \<open>A filter that is \<open>NULL\<close> lets every row pass.\<close>

definition filter_null :: "('a \<Rightarrow> bool) \<Rightarrow> 'a option \<Rightarrow> bool" where
  "filter_null p x \<longleftrightarrow> (case x of None \<Rightarrow> True | Some v \<Rightarrow> p v)"

definition audit_matches :: "ListAuditLogsParams \<Rightarrow> repo_AuditLog \<Rightarrow> bool" where
  "audit_matches p r \<longleftrightarrow>
     audit_logs_org_id r = la_OrgID p \<and>
     filter_null (\<lambda>v. audit_logs_actor_id r = v) (la_FilterActorID p) \<and>
     filter_null (\<lambda>v. audit_logs_action r = v) (la_FilterAction p) \<and>
     filter_null (\<lambda>v. audit_logs_entity r = v) (la_FilterEntity p) \<and>
     filter_null (\<lambda>v. pg_time v \<le> audit_logs_created_at r) (la_FilterSince p) \<and>
     filter_null (\<lambda>v. audit_logs_created_at r \<le> pg_time v) (la_FilterUntil p)"

text \<open>The selected columns: the row, its metadata replaced by \<open>{}\<close> when \<open>NULL\<close>.\<close>

definition audit_cols :: "repo_AuditLog \<Rightarrow> repo_AuditLog" where
  "audit_cols r = r\<lparr>audit_logs_metadata :=
     Some (case audit_logs_metadata r of None \<Rightarrow> JObj [] | Some v \<Rightarrow> v)\<rparr>"

definition list_audit_logs :: "ListAuditLogsParams \<Rightarrow> db \<Rightarrow> goerror + repo_AuditLog list" where
  "list_audit_logs p d =
     limit_offset (la_QueryLimit p) (la_QueryOffset p)
       (map audit_cols
         (sort_key (\<lambda>r. - audit_logs_created_at r) (filter (audit_matches p) (audit_logs d))))"

definition ListAuditLogs :: "ListAuditLogsParams \<Rightarrow> (goerror + repo_AuditLog list) prog" where
  "ListAuditLogs p = sql (query_or_fail (list_audit_logs p))"


section \<open>files.sql\<close>

definition is_file :: "string \<Rightarrow> string \<Rightarrow> repo_File \<Rightarrow> bool" where
  "is_file i orgID r \<longleftrightarrow> files_id r = i \<and> files_org_id r = orgID"

definition delete_file :: "string \<Rightarrow> string \<Rightarrow> nat stmt" where
  "delete_file i orgID = (\<lambda>_ _ d.
     Inr (rows_affected (is_file i orgID) (files d),
          d\<lparr>files := delete_where (is_file i orgID) (files d)\<rparr>))"

definition repo_DeleteFile :: "string \<Rightarrow> string \<Rightarrow> (goerror + nat) prog" where
  "repo_DeleteFile i orgID = sql (delete_file i orgID)"

definition repo_GetFile :: "string \<Rightarrow> string \<Rightarrow> (goerror + repo_File) prog" where
  "repo_GetFile i orgID = sql (query_row (\<lambda>d. select_one (is_file i orgID) (files d)))"

text \<open>A file row as it is stored: the time in microseconds.\<close>

definition file_stored :: "repo_File \<Rightarrow> repo_File" where
  "file_stored r = r\<lparr>files_created_at := pg_time (files_created_at r)\<rparr>"

definition insert_file :: "repo_File \<Rightarrow> repo_File stmt" where
  "insert_file r = (\<lambda>_ _ d.
     if files_id r \<in> set (map files_id (files d)) then Inl (UniqueViolation ''files_pkey'')
     else if (files_bucket r, files_object_key r)
               \<in> set (map (\<lambda>f. (files_bucket f, files_object_key f)) (files d))
     then Inl (UniqueViolation ''uq_files_bucket_key'')
     else if \<not> org_exists d (files_org_id r) then Inl (ForeignKeyViolation ''files_org_id_fkey'')
     else if \<not> user_exists d (files_uploaded_by r)
     then Inl (ForeignKeyViolation ''files_uploaded_by_fkey'')
     else Inr (file_stored r, d\<lparr>files := files d @ [file_stored r]\<rparr>))"

definition InsertFile :: "repo_File \<Rightarrow> (goerror + repo_File) prog" where
  "InsertFile r = sql (insert_file r)"

definition list_files :: "string \<Rightarrow> int \<Rightarrow> int \<Rightarrow> db \<Rightarrow> goerror + repo_File list" where
  "list_files orgID lmt off d =
     limit_offset lmt off
       (sort_key (\<lambda>r. - files_created_at r) (filter (\<lambda>r. files_org_id r = orgID) (files d)))"

definition repo_ListFiles :: "string \<Rightarrow> int \<Rightarrow> int \<Rightarrow> (goerror + repo_File list) prog" where
  "repo_ListFiles orgID lmt off = sql (query_or_fail (list_files orgID lmt off))"


section \<open>api\_keys.sql\<close>

definition create_api_key ::
  "string \<Rightarrow> string \<Rightarrow> string \<Rightarrow> string \<Rightarrow> string \<Rightarrow> time option \<Rightarrow> repo_ApiKey stmt" where
  "create_api_key orgID name keyPrefix keyHash createdBy expiresAt = (\<lambda>now i d.
     let r = \<lparr>api_keys_id = i, api_keys_org_id = orgID, api_keys_name = name,
              api_keys_key_prefix = keyPrefix, api_keys_key_hash = keyHash,
              api_keys_created_by = createdBy, api_keys_created_at = now,
              api_keys_expires_at = map_option pg_time expiresAt,
              api_keys_last_used_at = None, api_keys_revoked_at = None\<rparr>
     in if i \<in> set (map api_keys_id (api_keys d)) then Inl (UniqueViolation ''api_keys_pkey'')
        else if keyHash \<in> set (map api_keys_key_hash (api_keys d))
        then Inl (UniqueViolation ''api_keys_key_hash_key'')
        else if \<not> org_exists d orgID then Inl (ForeignKeyViolation ''api_keys_org_id_fkey'')
        else if \<not> user_exists d createdBy then Inl (ForeignKeyViolation ''api_keys_created_by_fkey'')
        else Inr (r, d\<lparr>api_keys := api_keys d @ [r]\<rparr>))"

definition CreateAPIKey ::
  "string \<Rightarrow> string \<Rightarrow> string \<Rightarrow> string \<Rightarrow> string \<Rightarrow> time option \<Rightarrow> (goerror + repo_ApiKey) prog" where
  "CreateAPIKey orgID name keyPrefix keyHash createdBy expiresAt =
     sql (create_api_key orgID name keyPrefix keyHash createdBy expiresAt)"

definition key_by_hash :: "db \<Rightarrow> string \<Rightarrow> repo_ApiKey option" where
  "key_by_hash d keyHash =
     select_one (\<lambda>r. api_keys_key_hash r = keyHash \<and> api_keys_revoked_at r = None) (api_keys d)"

definition GetAPIKeyByHash :: "string \<Rightarrow> (goerror + repo_ApiKey) prog" where
  "GetAPIKeyByHash keyHash = sql (query_row (\<lambda>d. key_by_hash d keyHash))"

definition ListAPIKeysByOrg :: "string \<Rightarrow> (goerror + repo_ApiKey list) prog" where
  "ListAPIKeysByOrg orgID =
     sql (query (\<lambda>d. sort_key (\<lambda>r. - api_keys_created_at r)
       (filter (\<lambda>r. api_keys_org_id r = orgID \<and> api_keys_revoked_at r = None) (api_keys d))))"

definition revoke_api_key :: "string \<Rightarrow> string \<Rightarrow> unit stmt" where
  "revoke_api_key i orgID = (\<lambda>now _ d.
     Inr ((), d\<lparr>api_keys := update_where
       (\<lambda>r. api_keys_id r = i \<and> api_keys_org_id r = orgID \<and> api_keys_revoked_at r = None)
       (\<lambda>r. r\<lparr>api_keys_revoked_at := Some now\<rparr>) (api_keys d)\<rparr>))"

definition RevokeAPIKey :: "string \<Rightarrow> string \<Rightarrow> (goerror + unit) prog" where
  "RevokeAPIKey i orgID = sql (revoke_api_key i orgID)"

definition touch_api_key :: "string \<Rightarrow> unit stmt" where
  "touch_api_key i = (\<lambda>now _ d.
     Inr ((), d\<lparr>api_keys := update_where (\<lambda>r. api_keys_id r = i)
       (\<lambda>r. r\<lparr>api_keys_last_used_at := Some now\<rparr>) (api_keys d)\<rparr>))"

definition TouchAPIKeyLastUsed :: "string \<Rightarrow> (goerror + unit) prog" where
  "TouchAPIKeyLastUsed i = sql (touch_api_key i)"

end
