(* ===== verification/RepoBilling.thy ===== *)
theory RepoBilling
  imports RepoTenant
begin

text \<open>
  The generated queries of \<open>internal/repo\<close> for subscriptions, webhook endpoints and
  webhook deliveries.
\<close>


section \<open>subscriptions.sql\<close>

text \<open>A comparison with \<open>NULL\<close> holds of no row.\<close>

definition has_stripe_id :: "string option \<Rightarrow> repo_Subscription \<Rightarrow> bool" where
  "has_stripe_id sid r \<longleftrightarrow> sid \<noteq> None \<and> subscriptions_stripe_subscription_id r = sid"

definition cancel_subscription :: "string option \<Rightarrow> unit stmt" where
  "cancel_subscription sid = (\<lambda>now _ d.
     Inr ((), d\<lparr>subscriptions := update_where (has_stripe_id sid)
       (\<lambda>r. r\<lparr>subscriptions_status := ''canceled'', subscriptions_updated_at := now\<rparr>)
       (subscriptions d)\<rparr>))"

definition CancelSubscription :: "string option \<Rightarrow> (goerror + unit) prog" where
  "CancelSubscription sid = sql (cancel_subscription sid)"

definition subscription_of :: "db \<Rightarrow> string \<Rightarrow> repo_Subscription option" where
  "subscription_of d orgID = select_one (\<lambda>r. subscriptions_org_id r = orgID) (subscriptions d)"

definition GetSubscriptionByOrg :: "string \<Rightarrow> (goerror + repo_Subscription) prog" where
  "GetSubscriptionByOrg orgID = sql (query_row (\<lambda>d. subscription_of d orgID))"

definition GetSubscriptionByStripeCustomer :: "string \<Rightarrow> (goerror + repo_Subscription) prog" where
  "GetSubscriptionByStripeCustomer customerID =
     sql (query_row (\<lambda>d. select_one (\<lambda>r. subscriptions_stripe_customer_id r = customerID)
                           (subscriptions d)))"

definition update_subscription_status ::
  "string option \<Rightarrow> string \<Rightarrow> string \<Rightarrow> time option \<Rightarrow> unit stmt" where
  "update_subscription_status sid status plan periodEnd = (\<lambda>now _ d.
     Inr ((), d\<lparr>subscriptions := update_where (has_stripe_id sid)
       (\<lambda>r. r\<lparr>subscriptions_status := status, subscriptions_plan := plan,
              subscriptions_current_period_end := map_option pg_time periodEnd,
              subscriptions_updated_at := now\<rparr>)
       (subscriptions d)\<rparr>))"

definition UpdateSubscriptionStatus ::
  "string option \<Rightarrow> string \<Rightarrow> string \<Rightarrow> time option \<Rightarrow> (goerror + unit) prog" where
  "UpdateSubscriptionStatus sid status plan periodEnd =
     sql (update_subscription_status sid status plan periodEnd)"

text \<open>
  \<open>ON CONFLICT (org_id) DO UPDATE\<close>: a row of the organization is updated, else one is
  inserted; either way another row with the Stripe identifier is a violation.
\<close>

definition upsert_subscription ::
  "string \<Rightarrow> string \<Rightarrow> string option \<Rightarrow> string \<Rightarrow> string \<Rightarrow> time option \<Rightarrow> unit stmt" where
  "upsert_subscription orgID customerID sid status plan periodEnd = (\<lambda>now i d.
     if \<exists>r \<in> set (subscriptions d). has_stripe_id sid r \<and> subscriptions_org_id r \<noteq> orgID
     then Inl (UniqueViolation ''subscriptions_stripe_subscription_id_key'')
     else if subscription_of d orgID \<noteq> None
     then Inr ((), d\<lparr>subscriptions := update_where (\<lambda>r. subscriptions_org_id r = orgID)
       (\<lambda>r. r\<lparr>subscriptions_stripe_customer_id := customerID,
              subscriptions_stripe_subscription_id := sid,
              subscriptions_status := status, subscriptions_plan := plan,
              subscriptions_current_period_end := map_option pg_time periodEnd,
              subscriptions_updated_at := now\<rparr>)
       (subscriptions d)\<rparr>)
     else if i \<in> set (map subscriptions_id (subscriptions d))
     then Inl (UniqueViolation ''subscriptions_pkey'')
     else if \<not> org_exists d orgID then Inl (ForeignKeyViolation ''subscriptions_org_id_fkey'')
     else Inr ((), d\<lparr>subscriptions := subscriptions d @
       [\<lparr>subscriptions_id = i, subscriptions_org_id = orgID,
         subscriptions_stripe_customer_id = customerID,
         subscriptions_stripe_subscription_id = sid, subscriptions_status = status,
         subscriptions_plan = plan,
         subscriptions_current_period_end = map_option pg_time periodEnd,
         subscriptions_created_at = now, subscriptions_updated_at = now\<rparr>]\<rparr>))"

definition UpsertSubscription ::
  "string \<Rightarrow> string \<Rightarrow> string option \<Rightarrow> string \<Rightarrow> string \<Rightarrow> time option \<Rightarrow> (goerror + unit) prog" where
  "UpsertSubscription orgID customerID sid status plan periodEnd =
     sql (upsert_subscription orgID customerID sid status plan periodEnd)"


section \<open>webhooks.sql\<close>

text \<open>A nil slice is sent as \<open>NULL\<close>, which the column \<open>events\<close> refuses.\<close>

definition events_null :: goerror where
  "events_null = DriverError ''null value in column events''"

definition create_webhook_endpoint ::
  "string \<Rightarrow> string \<Rightarrow> string \<Rightarrow> string list option \<Rightarrow> repo_WebhookEndpoint stmt" where
  "create_webhook_endpoint orgID url secret events = (\<lambda>now i d.
     case events of
       None \<Rightarrow> Inl events_null
     | Some evs \<Rightarrow>
         (let r = \<lparr>webhook_endpoints_id = i, webhook_endpoints_org_id = orgID,
                   webhook_endpoints_url = url, webhook_endpoints_secret = secret,
                   webhook_endpoints_events = evs, webhook_endpoints_active = True,
                   webhook_endpoints_created_at = now, webhook_endpoints_updated_at = now\<rparr>
          in if i \<in> set (map webhook_endpoints_id (webhook_endpoints d))
             then Inl (UniqueViolation ''webhook_endpoints_pkey'')
             else if \<not> org_exists d orgID
             then Inl (ForeignKeyViolation ''webhook_endpoints_org_id_fkey'')
             else Inr (r, d\<lparr>webhook_endpoints := webhook_endpoints d @ [r]\<rparr>)))"

definition CreateWebhookEndpoint ::
  "string \<Rightarrow> string \<Rightarrow> string \<Rightarrow> string list option \<Rightarrow> (goerror + repo_WebhookEndpoint) prog" where
  "CreateWebhookEndpoint orgID url secret events = sql (create_webhook_endpoint orgID url secret events)"

text \<open>
  \<open>$2 = ANY(events)\<close>: the parameter is one text, and the caller passes the text of an
  array.
\<close>

definition GetActiveEndpointsForEvent ::
  "lib \<Rightarrow> string \<Rightarrow> string list \<Rightarrow> (goerror + repo_WebhookEndpoint list) prog" where
  "GetActiveEndpointsForEvent L orgID events =
     sql (query (\<lambda>d. filter (\<lambda>r. webhook_endpoints_org_id r = orgID \<and> webhook_endpoints_active r \<and>
                                 pq_Array L events \<in> set (webhook_endpoints_events r))
                       (webhook_endpoints d)))"

record GetPendingDeliveriesRow =
  pending_ID :: string
  pending_EndpointID :: string
  pending_Event :: string
  pending_Payload :: string
  pending_Attempts :: int
  pending_Url :: string
  pending_Secret :: string

definition is_pending :: "time \<Rightarrow> repo_WebhookDelivery \<Rightarrow> bool" where
  "is_pending now r \<longleftrightarrow> \<not> webhook_deliveries_delivered r \<and> webhook_deliveries_attempts r < 5 \<and>
     (case webhook_deliveries_next_retry r of None \<Rightarrow> False | Some t \<Rightarrow> t \<le> now)"

definition pending_row :: "repo_WebhookDelivery \<Rightarrow> repo_WebhookEndpoint \<Rightarrow> GetPendingDeliveriesRow" where
  "pending_row r e = \<lparr>pending_ID = webhook_deliveries_id r,
     pending_EndpointID = webhook_deliveries_endpoint_id r, pending_Event = webhook_deliveries_event r,
     pending_Payload = webhook_deliveries_payload r, pending_Attempts = webhook_deliveries_attempts r,
     pending_Url = webhook_endpoints_url e, pending_Secret = webhook_endpoints_secret e\<rparr>"

definition retry_key :: "repo_WebhookDelivery \<Rightarrow> time" where
  "retry_key r = (case webhook_deliveries_next_retry r of None \<Rightarrow> 0 | Some t \<Rightarrow> t)"

definition pending_deliveries :: "time \<Rightarrow> db \<Rightarrow> GetPendingDeliveriesRow list" where
  "pending_deliveries now d =
     concat (map (\<lambda>r. map (pending_row r)
                        (filter (\<lambda>e. webhook_endpoints_id e = webhook_deliveries_endpoint_id r)
                           (webhook_endpoints d)))
               (sort_key retry_key (filter (is_pending now) (webhook_deliveries d))))"

definition get_pending_deliveries :: "int \<Rightarrow> GetPendingDeliveriesRow list stmt" where
  "get_pending_deliveries lmt = (\<lambda>now _ d.
     case limit_offset lmt 0 (pending_deliveries now d) of Inl e \<Rightarrow> Inl e | Inr rs \<Rightarrow> Inr (rs, d))"

definition GetPendingDeliveries :: "int \<Rightarrow> (goerror + GetPendingDeliveriesRow list) prog" where
  "GetPendingDeliveries lmt = sql (get_pending_deliveries lmt)"

definition is_endpoint :: "string \<Rightarrow> string \<Rightarrow> repo_WebhookEndpoint \<Rightarrow> bool" where
  "is_endpoint i orgID r \<longleftrightarrow> webhook_endpoints_id r = i \<and> webhook_endpoints_org_id r = orgID"

definition GetWebhookEndpoint :: "string \<Rightarrow> string \<Rightarrow> (goerror + repo_WebhookEndpoint) prog" where
  "GetWebhookEndpoint i orgID =
     sql (query_row (\<lambda>d. select_one (is_endpoint i orgID) (webhook_endpoints d)))"

definition insert_delivery :: "lib \<Rightarrow> string \<Rightarrow> string \<Rightarrow> string \<Rightarrow> string stmt" where
  "insert_delivery L endpointID event payload = (\<lambda>now i d.
     case jsonb L payload of
       None \<Rightarrow> Inl (DriverError ''invalid input syntax for type json'')
     | Some doc \<Rightarrow>
         if i \<in> set (map webhook_deliveries_id (webhook_deliveries d))
         then Inl (UniqueViolation ''webhook_deliveries_pkey'')
         else if endpointID \<notin> set (map webhook_endpoints_id (webhook_endpoints d))
         then Inl (ForeignKeyViolation ''webhook_deliveries_endpoint_id_fkey'')
         else Inr (i, d\<lparr>webhook_deliveries := webhook_deliveries d @
           [\<lparr>webhook_deliveries_id = i, webhook_deliveries_endpoint_id = endpointID,
             webhook_deliveries_event = event, webhook_deliveries_payload = doc,
             webhook_deliveries_status_code = None, webhook_deliveries_response = None,
             webhook_deliveries_attempts = 0, webhook_deliveries_next_retry = Some now,
             webhook_deliveries_delivered = False, webhook_deliveries_created_at = now\<rparr>]\<rparr>))"

definition InsertDelivery :: "lib \<Rightarrow> string \<Rightarrow> string \<Rightarrow> string \<Rightarrow> (goerror + string) prog" where
  "InsertDelivery L endpointID event payload = sql (insert_delivery L endpointID event payload)"

definition ListWebhookEndpoints :: "string \<Rightarrow> (goerror + repo_WebhookEndpoint list) prog" where
  "ListWebhookEndpoints orgID =
     sql (query (\<lambda>d. sort_key (\<lambda>r. - webhook_endpoints_created_at r)
       (filter (\<lambda>r. webhook_endpoints_org_id r = orgID) (webhook_endpoints d))))"

text \<open>An update of a delivery counts the attempt, a 32-bit column.\<close>

definition count_attempt ::
  "string \<Rightarrow> (repo_WebhookDelivery \<Rightarrow> repo_WebhookDelivery) \<Rightarrow> unit stmt" where
  "count_attempt i f = (\<lambda>_ _ d.
     if \<exists>r \<in> set (webhook_deliveries d).
          webhook_deliveries_id r = i \<and> 2 ^ 31 \<le> webhook_deliveries_attempts r + 1
     then Inl (DriverError ''integer out of range'')
     else Inr ((), d\<lparr>webhook_deliveries := update_where (\<lambda>r. webhook_deliveries_id r = i)
       (\<lambda>r. f (r\<lparr>webhook_deliveries_attempts := webhook_deliveries_attempts r + 1\<rparr>))
       (webhook_deliveries d)\<rparr>))"

definition mark_delivered :: "string \<Rightarrow> int option \<Rightarrow> string option \<Rightarrow> unit stmt" where
  "mark_delivered i statusCode response =
     count_attempt i (\<lambda>r. r\<lparr>webhook_deliveries_delivered := True,
       webhook_deliveries_status_code := statusCode, webhook_deliveries_response := response\<rparr>)"

definition MarkDelivered :: "string \<Rightarrow> int option \<Rightarrow> string option \<Rightarrow> (goerror + unit) prog" where
  "MarkDelivered i statusCode response = sql (mark_delivered i statusCode response)"

definition mark_retry :: "string \<Rightarrow> int option \<Rightarrow> string option \<Rightarrow> time option \<Rightarrow> unit stmt" where
  "mark_retry i statusCode response nextRetry =
     count_attempt i (\<lambda>r. r\<lparr>webhook_deliveries_status_code := statusCode,
       webhook_deliveries_response := response,
       webhook_deliveries_next_retry := map_option pg_time nextRetry\<rparr>)"

definition MarkRetry ::
  "string \<Rightarrow> int option \<Rightarrow> string option \<Rightarrow> time option \<Rightarrow> (goerror + unit) prog" where
  "MarkRetry i statusCode response nextRetry =
     sql (mark_retry i statusCode response nextRetry)"

definition update_webhook_endpoint ::
  "string \<Rightarrow> string \<Rightarrow> string \<Rightarrow> string list option \<Rightarrow> bool \<Rightarrow> unit stmt" where
  "update_webhook_endpoint i orgID url events active = (\<lambda>now _ d.
     case events of
       None \<Rightarrow>
         if select_one (is_endpoint i orgID) (webhook_endpoints d) = None then Inr ((), d)
         else Inl events_null
     | Some evs \<Rightarrow>
         Inr ((), d\<lparr>webhook_endpoints := update_where (is_endpoint i orgID)
           (\<lambda>r. r\<lparr>webhook_endpoints_url := url, webhook_endpoints_events := evs,
                  webhook_endpoints_active := active, webhook_endpoints_updated_at := now\<rparr>)
           (webhook_endpoints d)\<rparr>))"

definition UpdateWebhookEndpoint ::
  "string \<Rightarrow> string \<Rightarrow> string \<Rightarrow> string list option \<Rightarrow> bool \<Rightarrow> (goerror + unit) prog" where
  "UpdateWebhookEndpoint i orgID url events active =
     sql (update_webhook_endpoint i orgID url events active)"

end
