(* ===== verification/Statements.thy ===== *)
theory Statements
  imports RepoBilling
begin

text \<open>
  Everything that changes the tables is one of the statements below. A reflexive and transitive
  relation on the tables that each of them respects is respected by every query of
  \<open>internal/repo\<close>, and so by every service and handler built from them; the theories of
  the services extend the lemmas of \<open>request_frame\<close> upwards, \<open>schema_frame\<close> adds
  what the webhook dispatcher does, and each relation of interest (the constraints of the schema,
  the growth of the audit log, the persistence of revocations) is an interpretation.
\<close>

lemmas stmt_defs = insert_user_def update_user_password_def delete_org_def insert_org_def
  delete_member_def update_member_role_def upsert_member_def upsert_active_org_def
  insert_refresh_token_def revoke_where_def create_password_reset_token_def
  mark_password_reset_used_def delete_project_def insert_project_def update_project_def
  insert_audit_log_def delete_file_def insert_file_def create_api_key_def revoke_api_key_def
  touch_api_key_def cancel_subscription_def update_subscription_status_def
  upsert_subscription_def create_webhook_endpoint_def insert_delivery_def mark_delivered_def
  mark_retry_def count_attempt_def update_webhook_endpoint_def

locale request_frame = tables_frame R for R +
  assumes st_insert_user: "stmt_rel R (insert_user i email h t)"
    and st_update_user_password: "stmt_rel R (update_user_password i h)"
    and st_delete_org: "stmt_rel R (delete_org i)"
    and st_insert_org: "stmt_rel R (insert_org i name owner t)"
    and st_delete_member: "stmt_rel R (delete_member o' u)"
    and st_update_member_role: "stmt_rel R (update_member_role o' u role)"
    and st_upsert_member: "stmt_rel R (upsert_member o' u role)"
    and st_upsert_active_org: "stmt_rel R (upsert_active_org u o')"
    and st_insert_refresh_token: "stmt_rel R (insert_refresh_token j u h t p)"
    and st_revoke_where: "stmt_rel R (revoke_where q)"
    and st_create_password_reset_token: "stmt_rel R (create_password_reset_token u h t)"
    and st_mark_password_reset_used: "stmt_rel R (mark_password_reset_used i)"
    and st_delete_project: "stmt_rel R (delete_project i o')"
    and st_insert_project: "stmt_rel R (insert_project i o' name descr u)"
    and st_update_project: "stmt_rel R (update_project i o' name descr)"
    and st_insert_audit_log: "stmt_rel R (insert_audit_log o' u a e ei m t)"
    and st_delete_file: "stmt_rel R (delete_file i o')"
    and st_insert_file: "stmt_rel R (insert_file f)"
    and st_create_api_key: "stmt_rel R (create_api_key o' name pre h u x)"
    and st_revoke_api_key: "stmt_rel R (revoke_api_key i o')"
    and st_touch_api_key: "stmt_rel R (touch_api_key i)"
    and st_cancel_subscription: "stmt_rel R (cancel_subscription sid)"
    and st_update_subscription_status: "stmt_rel R (update_subscription_status sid s pl x)"
    and st_upsert_subscription: "stmt_rel R (upsert_subscription o' c sid s pl x)"
    and st_create_webhook_endpoint: "stmt_rel R (create_webhook_endpoint o' url sec evs)"
    and st_insert_delivery: "stmt_rel R (insert_delivery L e ev pay)"
    and st_update_webhook_endpoint: "stmt_rel R (update_webhook_endpoint i o' url evs act)"
begin

lemma st_query_or_fail: "stmt_rel R (query_or_fail f)"
  by (simp add: stmt_rel_def query_or_fail_def tables_refl split: sum.splits)

lemma st_get_pending_deliveries: "stmt_rel R (get_pending_deliveries n)"
  by (simp add: stmt_rel_def get_pending_deliveries_def tables_refl split: sum.splits)

lemmas st_intros = rel_query rel_query_row st_query_or_fail st_get_pending_deliveries
  st_insert_user st_update_user_password st_delete_org st_insert_org st_delete_member
  st_update_member_role st_upsert_member st_upsert_active_org st_insert_refresh_token
  st_revoke_where st_create_password_reset_token st_mark_password_reset_used st_delete_project
  st_insert_project st_update_project st_insert_audit_log st_delete_file st_insert_file
  st_create_api_key st_revoke_api_key st_touch_api_key st_cancel_subscription
  st_update_subscription_status st_upsert_subscription st_create_webhook_endpoint
  st_insert_delivery st_update_webhook_endpoint

lemmas query_defs = GetUserByEmail_def GetUserByID_def InsertUser_def UpdateUserPassword_def
  DeleteOrg_def GetOrg_def InsertOrg_def DeleteMember_def GetMemberRole_def UpdateMemberRole_def
  UpsertMember_def GetActiveOrg_def UpsertActiveOrg_def GetRefreshToken_def
  InsertRefreshToken_def RevokeAllUserTokens_def RevokeToken_def CreatePasswordResetToken_def
  GetPasswordResetByHash_def MarkPasswordResetUsed_def DeleteProject_def GetProject_def
  InsertProject_def ListProjects_def UpdateProject_def InsertAuditLog_def ListAuditLogs_def
  repo_DeleteFile_def repo_GetFile_def InsertFile_def repo_ListFiles_def CreateAPIKey_def
  GetAPIKeyByHash_def ListAPIKeysByOrg_def RevokeAPIKey_def TouchAPIKeyLastUsed_def
  CancelSubscription_def GetSubscriptionByOrg_def GetSubscriptionByStripeCustomer_def
  UpdateSubscriptionStatus_def UpsertSubscription_def CreateWebhookEndpoint_def
  GetActiveEndpointsForEvent_def GetPendingDeliveries_def GetWebhookEndpoint_def
  InsertDelivery_def ListWebhookEndpoints_def UpdateWebhookEndpoint_def

text \<open>The queries, one by one.\<close>

lemma rel_identity_queries:
  "state_io_rel (tables_rel R) (GetUserByEmail email)"
  "state_io_rel (tables_rel R) (GetUserByID i)"
  "state_io_rel (tables_rel R) (InsertUser i email h t)"
  "state_io_rel (tables_rel R) (UpdateUserPassword i h)"
  "state_io_rel (tables_rel R) (DeleteOrg i)"
  "state_io_rel (tables_rel R) (GetOrg i)"
  "state_io_rel (tables_rel R) (InsertOrg i name u t)"
  "state_io_rel (tables_rel R) (DeleteMember i u)"
  "state_io_rel (tables_rel R) (GetMemberRole i u)"
  "state_io_rel (tables_rel R) (UpdateMemberRole i u role)"
  "state_io_rel (tables_rel R) (UpsertMember i u role)"
  "state_io_rel (tables_rel R) (RepoIdentity.GetActiveOrg u)"
  "state_io_rel (tables_rel R) (UpsertActiveOrg u i)"
  "state_io_rel (tables_rel R) (GetRefreshToken i)"
  "state_io_rel (tables_rel R) (InsertRefreshToken i u h t p)"
  "state_io_rel (tables_rel R) (RevokeAllUserTokens u)"
  "state_io_rel (tables_rel R) (RevokeToken i)"
  "state_io_rel (tables_rel R) (CreatePasswordResetToken u h t)"
  "state_io_rel (tables_rel R) (GetPasswordResetByHash h)"
  "state_io_rel (tables_rel R) (MarkPasswordResetUsed i)"
  by (simp_all add: query_defs rel_sql st_intros)

lemma rel_tenant_queries:
  "state_io_rel (tables_rel R) (DeleteProject i g)"
  "state_io_rel (tables_rel R) (GetProject i g)"
  "state_io_rel (tables_rel R) (InsertProject i g name descr u)"
  "state_io_rel (tables_rel R) (ListProjects g)"
  "state_io_rel (tables_rel R) (UpdateProject i g name descr)"
  "state_io_rel (tables_rel R) (InsertAuditLog g u a e ei m t)"
  "state_io_rel (tables_rel R) (ListAuditLogs p)"
  "state_io_rel (tables_rel R) (repo_DeleteFile i g)"
  "state_io_rel (tables_rel R) (repo_GetFile i g)"
  "state_io_rel (tables_rel R) (InsertFile f)"
  "state_io_rel (tables_rel R) (repo_ListFiles g n k)"
  "state_io_rel (tables_rel R) (CreateAPIKey g name pre h u x)"
  "state_io_rel (tables_rel R) (GetAPIKeyByHash h)"
  "state_io_rel (tables_rel R) (ListAPIKeysByOrg g)"
  "state_io_rel (tables_rel R) (RevokeAPIKey i g)"
  "state_io_rel (tables_rel R) (TouchAPIKeyLastUsed i)"
  by (simp_all add: query_defs rel_sql st_intros)

lemma rel_billing_queries:
  "state_io_rel (tables_rel R) (CancelSubscription sid)"
  "state_io_rel (tables_rel R) (GetSubscriptionByOrg g)"
  "state_io_rel (tables_rel R) (GetSubscriptionByStripeCustomer c)"
  "state_io_rel (tables_rel R) (UpdateSubscriptionStatus sid s pl x)"
  "state_io_rel (tables_rel R) (UpsertSubscription g c sid s pl x)"
  "state_io_rel (tables_rel R) (CreateWebhookEndpoint g url sec evs)"
  "state_io_rel (tables_rel R) (GetActiveEndpointsForEvent L g es)"
  "state_io_rel (tables_rel R) (GetPendingDeliveries n)"
  "state_io_rel (tables_rel R) (GetWebhookEndpoint i g)"
  "state_io_rel (tables_rel R) (InsertDelivery L e ev pay)"
  "state_io_rel (tables_rel R) (ListWebhookEndpoints g)"
  "state_io_rel (tables_rel R) (UpdateWebhookEndpoint i g url evs act)"
  by (simp_all add: query_defs rel_sql st_intros)

lemmas rel_queries = rel_identity_queries rel_tenant_queries rel_billing_queries

end

text \<open>The dispatcher alone counts attempts.\<close>

locale schema_frame = request_frame R for R +
  assumes st_mark_delivered: "stmt_rel R (mark_delivered i sc resp)"
    and st_mark_retry: "stmt_rel R (mark_retry i sc resp x)"
begin

lemma rel_marks:
  "state_io_rel (tables_rel R) (MarkDelivered i sc resp)"
  "state_io_rel (tables_rel R) (MarkRetry i sc resp x)"
  by (simp_all add: MarkDelivered_def MarkRetry_def rel_sql st_mark_delivered st_mark_retry)

end

end
