(* ===== verification/Integrity.thy ===== *)
theory Integrity
  imports Statements
begin

text \<open>
  The constraints of the schema as a predicate on the tables, and that every statement keeps
  them: a query that would break one fails instead.
\<close>

definition uids :: "db \<Rightarrow> string set" where
  "uids d = set (map users_id (users d))"

definition oids :: "db \<Rightarrow> string set" where
  "oids d = set (map organizations_id (organizations d))"

definition eids :: "repo_WebhookEndpoint list \<Rightarrow> string set" where
  "eids t = set (map webhook_endpoints_id t)"

text \<open>One predicate per table, given the users and organizations that its rows may name.\<close>

definition users_ok :: "repo_User list \<Rightarrow> bool" where
  "users_ok t \<longleftrightarrow> distinct (map users_id t) \<and> distinct (map users_email t)"

definition orgs_ok :: "string set \<Rightarrow> repo_Organization list \<Rightarrow> bool" where
  "orgs_ok U t \<longleftrightarrow> distinct (map organizations_id t) \<and> (\<forall>r \<in> set t. organizations_owner_user_id r \<in> U)"

definition members_ok :: "string set \<Rightarrow> string set \<Rightarrow> repo_Membership list \<Rightarrow> bool" where
  "members_ok U G t \<longleftrightarrow>
     distinct (map (\<lambda>r. (memberships_org_id r, memberships_user_id r)) t) \<and>
     (\<forall>r \<in> set t. memberships_org_id r \<in> G \<and> memberships_user_id r \<in> U)"

definition refresh_ok :: "string set \<Rightarrow> repo_RefreshToken list \<Rightarrow> bool" where
  "refresh_ok U t \<longleftrightarrow> distinct (map refresh_tokens_id t) \<and>
     (\<forall>r \<in> set t. refresh_tokens_user_id r \<in> U \<and>
        (case refresh_tokens_rotated_from r of None \<Rightarrow> True | Some p \<Rightarrow> p \<in> set (map refresh_tokens_id t)))"

definition resets_ok :: "string set \<Rightarrow> repo_PasswordResetToken list \<Rightarrow> bool" where
  "resets_ok U t \<longleftrightarrow> distinct (map password_reset_tokens_id t) \<and>
     distinct (map password_reset_tokens_token_hash t) \<and>
     (\<forall>r \<in> set t. password_reset_tokens_user_id r \<in> U)"

definition audit_ok :: "int \<Rightarrow> repo_AuditLog list \<Rightarrow> bool" where
  "audit_ok n t \<longleftrightarrow> distinct (map audit_logs_id t) \<and> (\<forall>r \<in> set t. audit_logs_id r \<le> n)"

definition contexts_ok :: "string set \<Rightarrow> string set \<Rightarrow> repo_UserContext list \<Rightarrow> bool" where
  "contexts_ok U G t \<longleftrightarrow> distinct (map user_contexts_user_id t) \<and>
     (\<forall>r \<in> set t. user_contexts_org_id r \<in> G \<and> user_contexts_user_id r \<in> U)"

definition files_ok :: "string set \<Rightarrow> string set \<Rightarrow> repo_File list \<Rightarrow> bool" where
  "files_ok U G t \<longleftrightarrow> distinct (map files_id t) \<and>
     distinct (map (\<lambda>r. (files_bucket r, files_object_key r)) t) \<and>
     (\<forall>r \<in> set t. files_org_id r \<in> G \<and> files_uploaded_by r \<in> U)"

definition keys_ok :: "string set \<Rightarrow> string set \<Rightarrow> repo_ApiKey list \<Rightarrow> bool" where
  "keys_ok U G t \<longleftrightarrow> distinct (map api_keys_id t) \<and> distinct (map api_keys_key_hash t) \<and>
     (\<forall>r \<in> set t. api_keys_org_id r \<in> G \<and> api_keys_created_by r \<in> U)"

definition stripe_unique :: "repo_Subscription list \<Rightarrow> bool" where
  "stripe_unique t \<longleftrightarrow> (\<forall>r \<in> set t. \<forall>s \<in> set t.
     has_stripe_id (subscriptions_stripe_subscription_id r) s \<longrightarrow>
     subscriptions_org_id r = subscriptions_org_id s)"

definition subs_ok :: "string set \<Rightarrow> repo_Subscription list \<Rightarrow> bool" where
  "subs_ok G t \<longleftrightarrow> distinct (map subscriptions_id t) \<and> distinct (map subscriptions_org_id t) \<and>
     (\<forall>r \<in> set t. subscriptions_org_id r \<in> G) \<and>
     stripe_unique t"

definition endpoints_ok :: "string set \<Rightarrow> repo_WebhookEndpoint list \<Rightarrow> bool" where
  "endpoints_ok G t \<longleftrightarrow> distinct (map webhook_endpoints_id t) \<and>
     (\<forall>r \<in> set t. webhook_endpoints_org_id r \<in> G)"

definition deliveries_ok :: "string set \<Rightarrow> repo_WebhookDelivery list \<Rightarrow> bool" where
  "deliveries_ok E t \<longleftrightarrow> distinct (map webhook_deliveries_id t) \<and>
     (\<forall>r \<in> set t. webhook_deliveries_endpoint_id r \<in> E \<and> 0 \<le> webhook_deliveries_attempts r \<and>
        webhook_deliveries_attempts r < 2 ^ 31)"

definition db_ok :: "db \<Rightarrow> bool" where
  "db_ok d \<longleftrightarrow>
     users_ok (users d) \<and> orgs_ok (uids d) (organizations d) \<and>
     members_ok (uids d) (oids d) (memberships d) \<and>
     distinct (map projects_id (projects d)) \<and>
     refresh_ok (uids d) (refresh_tokens d) \<and> resets_ok (uids d) (password_reset_tokens d) \<and>
     audit_ok (audit_logs_id_seq d) (audit_logs d) \<and>
     contexts_ok (uids d) (oids d) (user_contexts d) \<and>
     files_ok (uids d) (oids d) (files d) \<and> keys_ok (uids d) (oids d) (api_keys d) \<and>
     subs_ok (oids d) (subscriptions d) \<and> endpoints_ok (oids d) (webhook_endpoints d) \<and>
     deliveries_ok (eids (webhook_endpoints d)) (webhook_deliveries d)"

lemmas table_oks = users_ok_def orgs_ok_def members_ok_def refresh_ok_def resets_ok_def
  audit_ok_def contexts_ok_def files_ok_def keys_ok_def subs_ok_def endpoints_ok_def
  deliveries_ok_def

lemma user_exists_uids: "user_exists d u \<longleftrightarrow> u \<in> uids d"
  by (simp add: user_exists_def uids_def)

lemma org_exists_oids: "org_exists d i \<longleftrightarrow> i \<in> oids d"
  by (simp add: org_exists_def oids_def)

text \<open>More users or organizations break no reference.\<close>

lemma tables_mono:
  assumes "U \<subseteq> U'" "G \<subseteq> G'"
  shows "orgs_ok U t1 \<Longrightarrow> orgs_ok U' t1"
    and "members_ok U G t2 \<Longrightarrow> members_ok U' G' t2"
    and "refresh_ok U t3 \<Longrightarrow> refresh_ok U' t3"
    and "resets_ok U t4 \<Longrightarrow> resets_ok U' t4"
    and "contexts_ok U G t5 \<Longrightarrow> contexts_ok U' G' t5"
    and "files_ok U G t6 \<Longrightarrow> files_ok U' G' t6"
    and "keys_ok U G t7 \<Longrightarrow> keys_ok U' G' t7"
    and "subs_ok G t8 \<Longrightarrow> subs_ok G' t8"
    and "endpoints_ok G t9 \<Longrightarrow> endpoints_ok G' t9"
  using assms by (auto simp: table_oks)

text \<open>Deleting the rows of an organization leaves references to the others only.\<close>

lemma tables_without:
  shows "members_ok U G t2 \<Longrightarrow> members_ok U (G - {i}) (delete_where (\<lambda>r. memberships_org_id r = i) t2)"
    and "contexts_ok U G t5 \<Longrightarrow> contexts_ok U (G - {i}) (delete_where (\<lambda>r. user_contexts_org_id r = i) t5)"
    and "files_ok U G t6 \<Longrightarrow> files_ok U (G - {i}) (delete_where (\<lambda>r. files_org_id r = i) t6)"
    and "keys_ok U G t7 \<Longrightarrow> keys_ok U (G - {i}) (delete_where (\<lambda>r. api_keys_org_id r = i) t7)"
    and "subs_ok G t8 \<Longrightarrow> subs_ok (G - {i}) (delete_where (\<lambda>r. subscriptions_org_id r = i) t8)"
    and "endpoints_ok G t9 \<Longrightarrow>
           endpoints_ok (G - {i}) (delete_where (\<lambda>r. webhook_endpoints_org_id r = i) t9)"
  by (auto simp: table_oks stripe_unique_def tables)


section \<open>Every statement keeps the constraints\<close>

definition keeps_ok :: "db \<Rightarrow> db \<Rightarrow> bool" where
  "keeps_ok d d' \<longleftrightarrow> (db_ok d \<longrightarrow> db_ok d')"

lemmas keeps = stmt_rel_def keeps_ok_def db_ok_def uids_def oids_def user_exists_uids org_exists_oids

lemma keeps_insert_user: "stmt_rel keeps_ok (insert_user i email h t)"
  by (auto simp: keeps insert_user_def users_ok_def split: if_splits
      elim!: tables_mono [rotated 2])

lemma keeps_update_user_password: "stmt_rel keeps_ok (update_user_password i h)"
proof -
  have "map users_id (update_where (\<lambda>r. users_id r = i) (\<lambda>r. r\<lparr>users_password_hash := h\<rparr>) t) =
        map users_id t" for t
    by (simp add: tables)
  then show ?thesis
    by (simp add: keeps update_user_password_def users_ok_def map_update_where flip: set_map)
qed

lemma keeps_insert_org: "stmt_rel keeps_ok (insert_org i name u t)"
  by (auto simp: keeps insert_org_def orgs_ok_def split: if_splits elim!: tables_mono [rotated 2])

lemma keeps_delete_member: "stmt_rel keeps_ok (delete_member g u)"
  by (auto simp: keeps delete_member_def members_ok_def tables)

lemma keeps_update_member_role: "stmt_rel keeps_ok (update_member_role g u role)"
  by (auto simp: keeps update_member_role_def members_ok_def tables)

lemma member_role_None:
  "member_role d g u = None \<longleftrightarrow> (\<forall>r \<in> set (memberships d). \<not> is_member_row g u r)"
  by (simp add: member_role_def tables)

lemma keeps_upsert_member: "stmt_rel keeps_ok (upsert_member g u role)"
  by (auto simp: keeps upsert_member_def members_ok_def member_role_None is_member_row_def tables
      split: if_splits)

lemma active_org_None:
  "active_org d u = None \<longleftrightarrow> (\<forall>r \<in> set (user_contexts d). user_contexts_user_id r \<noteq> u)"
  by (simp add: active_org_def tables)

lemma keeps_upsert_active_org: "stmt_rel keeps_ok (upsert_active_org u g)"
  by (auto simp: keeps upsert_active_org_def contexts_ok_def active_org_None tables
      split: if_splits)

lemma refresh_row_None:
  "refresh_row d j = None \<longleftrightarrow> (\<forall>r \<in> set (refresh_tokens d). refresh_tokens_id r \<noteq> j)"
  by (simp add: refresh_row_def tables)

lemma keeps_insert_refresh_token: "stmt_rel keeps_ok (insert_refresh_token j u h t p)"
  by (auto simp: keeps insert_refresh_token_def refresh_ok_def refresh_row_None
      split: if_splits option.splits)

lemma keeps_revoke_where: "stmt_rel keeps_ok (revoke_where q)"
  by (auto simp: keeps revoke_where_def refresh_ok_def tables split: option.splits)

lemma keeps_create_password_reset_token: "stmt_rel keeps_ok (create_password_reset_token u h t)"
  by (auto simp: keeps create_password_reset_token_def resets_ok_def split: if_splits)

lemma keeps_mark_password_reset_used: "stmt_rel keeps_ok (mark_password_reset_used i)"
  by (auto simp: keeps mark_password_reset_used_def resets_ok_def tables)

lemma keeps_delete_project: "stmt_rel keeps_ok (delete_project i g)"
  by (auto simp: keeps delete_project_def tables)

lemma keeps_insert_project: "stmt_rel keeps_ok (insert_project i g name descr u)"
  by (auto simp: keeps insert_project_def Let_def split: if_splits)

lemma keeps_update_project: "stmt_rel keeps_ok (update_project i g name descr)"
  by (auto simp: keeps update_project_def project_set_def tables split: option.splits)

lemma keeps_insert_audit_log: "stmt_rel keeps_ok (insert_audit_log g u a e ei m t)"
  by (fastforce simp: keeps insert_audit_log_def audit_ok_def Let_def split: if_splits)

lemma keeps_delete_file: "stmt_rel keeps_ok (delete_file i g)"
  by (auto simp: keeps delete_file_def files_ok_def tables)

lemma keeps_insert_file: "stmt_rel keeps_ok (insert_file f)"
  by (auto simp: keeps insert_file_def file_stored_def files_ok_def split: if_splits)

lemma keeps_create_api_key: "stmt_rel keeps_ok (create_api_key g name pre h u x)"
  by (auto simp: keeps create_api_key_def keys_ok_def Let_def split: if_splits)

lemma keeps_revoke_api_key: "stmt_rel keeps_ok (revoke_api_key i g)"
  by (auto simp: keeps revoke_api_key_def keys_ok_def tables)

lemma keeps_touch_api_key: "stmt_rel keeps_ok (touch_api_key i)"
  by (auto simp: keeps touch_api_key_def keys_ok_def tables)

lemma stripe_uniqueD:
  "stripe_unique t \<Longrightarrow> r \<in> set t \<Longrightarrow> s \<in> set t \<Longrightarrow>
     subscriptions_stripe_subscription_id r = Some i \<Longrightarrow>
     subscriptions_stripe_subscription_id s = Some i \<Longrightarrow>
     subscriptions_org_id r = subscriptions_org_id s"
  unfolding stripe_unique_def by (metis has_stripe_id_def option.distinct(1))

lemma stripe_uniqueI:
  assumes "\<And>r s i. r \<in> set t \<Longrightarrow> s \<in> set t \<Longrightarrow> subscriptions_stripe_subscription_id r = Some i \<Longrightarrow>
      subscriptions_stripe_subscription_id s = Some i \<Longrightarrow>
      subscriptions_org_id r = subscriptions_org_id s"
  shows "stripe_unique t"
  unfolding stripe_unique_def has_stripe_id_def
proof (intro ballI impI, elim conjE)
  fix r s
  assume rs: "r \<in> set t" "s \<in> set t" "subscriptions_stripe_subscription_id r \<noteq> None"
    "subscriptions_stripe_subscription_id s = subscriptions_stripe_subscription_id r"
  from rs(3) obtain i where "subscriptions_stripe_subscription_id r = Some i" by blast
  with rs show "subscriptions_org_id r = subscriptions_org_id s"
    by (intro assms) simp_all
qed

lemma stripe_unique_update_same:
  assumes "stripe_unique t"
    and "\<And>r. subscriptions_org_id (f r) = subscriptions_org_id r"
    and "\<And>r. subscriptions_stripe_subscription_id (f r) = subscriptions_stripe_subscription_id r"
  shows "stripe_unique (update_where p f t)"
proof (rule stripe_uniqueI)
  fix x y i
  assume "x \<in> set (update_where p f t)" "y \<in> set (update_where p f t)"
  then obtain r s where "r \<in> set t" "s \<in> set t" "x = (if p r then f r else r)" "y = (if p s then f s else s)"
    by (auto simp: set_update_where)
  moreover assume "subscriptions_stripe_subscription_id x = Some i"
    "subscriptions_stripe_subscription_id y = Some i"
  ultimately show "subscriptions_org_id x = subscriptions_org_id y"
    using stripe_uniqueD [OF assms(1), of r s i] assms(2,3) by (simp split: if_splits)
qed

lemma stripe_unique_update:
  assumes "stripe_unique t"
    and "\<And>r. subscriptions_org_id (f r) = subscriptions_org_id r"
    and "\<And>r. subscriptions_stripe_subscription_id (f r) = sid"
    and "\<And>r. r \<in> set t \<Longrightarrow> has_stripe_id sid r \<Longrightarrow> subscriptions_org_id r = g"
  shows "stripe_unique (update_where (\<lambda>r. subscriptions_org_id r = g) f t)"
proof (rule stripe_uniqueI)
  let ?u = "\<lambda>r. if subscriptions_org_id r = g then f r else r"
  fix x y i
  assume "x \<in> set (update_where (\<lambda>r. subscriptions_org_id r = g) f t)"
    and "y \<in> set (update_where (\<lambda>r. subscriptions_org_id r = g) f t)"
  then obtain r s where rs: "r \<in> set t" "s \<in> set t" "x = ?u r" "y = ?u s"
    by (auto simp: set_update_where)
  assume "subscriptions_stripe_subscription_id x = Some i"
    and "subscriptions_stripe_subscription_id y = Some i"
  then show "subscriptions_org_id x = subscriptions_org_id y"
    using rs assms(2,3) assms(4) [of r] assms(4) [of s] stripe_uniqueD [OF assms(1), of r s i]
    by (simp add: has_stripe_id_def split: if_splits)
qed

lemma stripe_unique_insert:
  assumes "stripe_unique t"
    and "\<And>s. s \<in> set t \<Longrightarrow> \<not> has_stripe_id (subscriptions_stripe_subscription_id r) s"
  shows "stripe_unique (t @ [r])"
proof (rule stripe_uniqueI)
  fix x y i
  assume "x \<in> set (t @ [r])" "y \<in> set (t @ [r])"
    "subscriptions_stripe_subscription_id x = Some i" "subscriptions_stripe_subscription_id y = Some i"
  then show "subscriptions_org_id x = subscriptions_org_id y"
    using assms(2) [of x] assms(2) [of y] stripe_uniqueD [OF assms(1), of x y i]
    by (auto simp: has_stripe_id_def)
qed

lemma keeps_cancel_subscription: "stmt_rel keeps_ok (cancel_subscription sid)"
  by (auto simp: keeps cancel_subscription_def subs_ok_def tables intro!: stripe_unique_update_same)

lemma keeps_update_subscription_status: "stmt_rel keeps_ok (update_subscription_status sid st pl x)"
  by (auto simp: keeps update_subscription_status_def subs_ok_def tables
      intro!: stripe_unique_update_same)

lemma subscription_of_None:
  "subscription_of d g = None \<longleftrightarrow> (\<forall>r \<in> set (subscriptions d). subscriptions_org_id r \<noteq> g)"
  by (simp add: subscription_of_def tables)

lemma keeps_upsert_subscription: "stmt_rel keeps_ok (upsert_subscription g c sid st pl x)"
proof -
  have "keeps_ok d d'" if up: "upsert_subscription g c sid st pl x now i d = Inr (a, d')"
    for now i d a d'
  proof (cases "subscription_of d g = None")
    case True
    with up have no: "\<forall>r \<in> set (subscriptions d). \<not> has_stripe_id sid r \<and> subscriptions_org_id r \<noteq> g"
      and new: "g \<in> oids d" "i \<notin> set (map subscriptions_id (subscriptions d))"
      by (auto simp: subscription_of_None org_exists_oids upsert_subscription_def split: if_splits)
    then have "subs_ok (oids d) (subscriptions d @ [r])"
      if "subs_ok (oids d) (subscriptions d)" "subscriptions_id r = i" "subscriptions_org_id r = g"
        "subscriptions_stripe_subscription_id r = sid" for r
      using that by (auto simp: subs_ok_def intro!: stripe_unique_insert)
    with up True no new show ?thesis
      by (auto simp: keeps_ok_def db_ok_def uids_def oids_def org_exists_oids upsert_subscription_def
          split: if_splits)
  next
    case False
    with up show ?thesis
      by (auto simp: keeps upsert_subscription_def subs_ok_def tables split: if_splits
          intro!: stripe_unique_update [where sid = sid])
  qed
  then show ?thesis by (simp add: stmt_rel_def)
qed

lemma keeps_create_webhook_endpoint: "stmt_rel keeps_ok (create_webhook_endpoint g url sec evs)"
  by (auto simp: keeps create_webhook_endpoint_def endpoints_ok_def deliveries_ok_def eids_def Let_def
      split: if_splits option.splits)

lemma keeps_insert_delivery: "stmt_rel keeps_ok (insert_delivery L e ev pay)"
  by (auto simp: keeps insert_delivery_def deliveries_ok_def eids_def split: if_splits option.splits)

lemma keeps_mark_delivered: "stmt_rel keeps_ok (mark_delivered i sc resp)"
  by (auto simp: keeps mark_delivered_def count_attempt_def deliveries_ok_def tables
      split: if_splits)

lemma keeps_mark_retry: "stmt_rel keeps_ok (mark_retry i sc resp x)"
  by (auto simp: keeps mark_retry_def count_attempt_def deliveries_ok_def tables
      split: if_splits)

lemma eids_update:
  "(\<And>r. webhook_endpoints_id (f r) = webhook_endpoints_id r) \<Longrightarrow> eids (update_where p f t) = eids t"
  by (simp add: eids_def map_update_where del: set_map)

lemma keeps_update_webhook_endpoint: "stmt_rel keeps_ok (update_webhook_endpoint i g url evs act)"
  by (auto simp: keeps update_webhook_endpoint_def endpoints_ok_def eids_update tables
      split: option.splits if_splits)

text \<open>The cascade of a deleted organization.\<close>

lemma deliveries_without:
  assumes "deliveries_ok (eids es) t"
  shows "deliveries_ok (eids (delete_where (\<lambda>e. webhook_endpoints_org_id e = i) es))
           (delete_where (\<lambda>r. webhook_deliveries_endpoint_id r \<in>
              set (map webhook_endpoints_id (filter (\<lambda>e. webhook_endpoints_org_id e = i) es))) t)"
  using assms by (fastforce simp: deliveries_ok_def eids_def tables)

lemma keeps_delete_org: "stmt_rel keeps_ok (delete_org i)"
proof -
  have "keeps_ok d (d\<lparr>
          organizations := delete_where (\<lambda>r. organizations_id r = i) (organizations d),
          memberships := delete_where (\<lambda>r. memberships_org_id r = i) (memberships d),
          user_contexts := delete_where (\<lambda>r. user_contexts_org_id r = i) (user_contexts d),
          files := delete_where (\<lambda>r. files_org_id r = i) (files d),
          api_keys := delete_where (\<lambda>r. api_keys_org_id r = i) (api_keys d),
          subscriptions := delete_where (\<lambda>r. subscriptions_org_id r = i) (subscriptions d),
          webhook_endpoints := delete_where (\<lambda>r. webhook_endpoints_org_id r = i) (webhook_endpoints d),
          webhook_deliveries := delete_where
            (\<lambda>r. webhook_deliveries_endpoint_id r \<in> set (map webhook_endpoints_id
               (filter (\<lambda>e. webhook_endpoints_org_id e = i) (webhook_endpoints d))))
            (webhook_deliveries d)\<rparr>)" (is "keeps_ok d ?d") for d
  proof -
    have ids: "uids ?d = uids d" "oids ?d = oids d - {i}"
      by (auto simp: uids_def oids_def tables)
    show ?thesis
      unfolding keeps_ok_def db_ok_def ids
      by (simp add: tables_without deliveries_without orgs_ok_def tables del: set_map set_filter)
  qed
  then show ?thesis
    by (auto simp: stmt_rel_def delete_org_def Let_def keeps_ok_def)
qed


interpretation integrity: schema_frame keeps_ok
  by unfold_locales (auto simp: keeps_ok_def intro: keeps_insert_user keeps_update_user_password
      keeps_delete_org keeps_insert_org keeps_delete_member keeps_update_member_role
      keeps_upsert_member keeps_upsert_active_org keeps_insert_refresh_token keeps_revoke_where
      keeps_create_password_reset_token keeps_mark_password_reset_used keeps_delete_project
      keeps_insert_project keeps_update_project keeps_insert_audit_log keeps_delete_file
      keeps_insert_file keeps_create_api_key keeps_revoke_api_key keeps_touch_api_key
      keeps_cancel_subscription keeps_update_subscription_status keeps_upsert_subscription
      keeps_create_webhook_endpoint keeps_insert_delivery keeps_mark_delivered keeps_mark_retry
      keeps_update_webhook_endpoint)

end
