(* ===== verification/Tokens.thy ===== *)
theory Tokens
  imports Integrity
begin

text \<open>
  \<open>internal/auth\<close>: signed tokens (\<open>jwt.go\<close>), the store of refresh tokens
  (\<open>store_pg.go\<close>) and of password-reset tokens (\<open>reset.go\<close>).
\<close>


section \<open>jwt.go\<close>

definition NewAccessToken :: "lib \<Rightarrow> string \<Rightarrow> string \<Rightarrow> int \<Rightarrow> (goerror + string) prog" where
  "NewAccessToken L userID secret ttlMinutes = do {
     now \<leftarrow> time_Now;
     i \<leftarrow> uuid_NewString;
     ret (jwt_SignedString L secret
       \<lparr>claims_UserID = userID, claims_TokenType = ''access'', claims_ID = i,
        claims_IssuedAt = jwt_NewNumericDate L now,
        claims_ExpiresAt = jwt_NewNumericDate L (now + int64 (ttlMinutes * Minute))\<rparr>)
   }"

text \<open>\<open>time.Duration(ttlDays) * 24 * time.Hour\<close> wraps in 64 bits.\<close>

definition refresh_claims :: "lib \<Rightarrow> string \<Rightarrow> string \<Rightarrow> time \<Rightarrow> time \<Rightarrow> Claims" where
  "refresh_claims L userID jti now ex =
     \<lparr>claims_UserID = userID, claims_TokenType = ''refresh'', claims_ID = jti,
      claims_IssuedAt = jwt_NewNumericDate L now, claims_ExpiresAt = jwt_NewNumericDate L ex\<rparr>"

definition NewRefreshToken ::
  "lib \<Rightarrow> string \<Rightarrow> string \<Rightarrow> int \<Rightarrow> (goerror + string \<times> string \<times> time) prog" where
  "NewRefreshToken L userID secret ttlDays = do {
     now \<leftarrow> time_Now;
     let ex = now + int64 (int64 (ttlDays * 24) * Hour);
     jti \<leftarrow> uuid_NewString;
     ret (case jwt_SignedString L secret (refresh_claims L userID jti now ex) of
            Inl e \<Rightarrow> Inl e
          | Inr tok \<Rightarrow> Inr (tok, jti, ex))
   }"

definition Parse :: "lib \<Rightarrow> string \<Rightarrow> string \<Rightarrow> (goerror + Claims) prog" where
  "Parse L tokenStr secret = do {
     now \<leftarrow> time_Now;
     ret (case jwt_ParseWithClaims L now tokenStr secret of
            Inl e \<Rightarrow> Inl e
          | Inr (c, valid) \<Rightarrow> if valid then Inr c else Inl ErrTokenInvalidClaims)
   }"


section \<open>store\_pg.go\<close>

definition SaveRefresh ::
  "lib \<Rightarrow> string \<Rightarrow> string \<Rightarrow> string \<Rightarrow> time \<Rightarrow> string option \<Rightarrow> (goerror + unit) prog" where
  "SaveRefresh L jti userID token expiresAt rotatedFrom =
     InsertRefreshToken jti userID (sha256_hex L token) expiresAt rotatedFrom"

definition IsValid :: "lib \<Rightarrow> string \<Rightarrow> string \<Rightarrow> (goerror + bool \<times> string \<times> time) prog" where
  "IsValid L jti token = do {
     r \<leftarrow> GetRefreshToken jti;
     case r of
       Inl e \<Rightarrow> ret (if is_no_rows e then Inr (False, '''', zero_time) else Inl e)
     | Inr row \<Rightarrow>
         if refresh_tokens_revoked_at row \<noteq> None then ret (Inr (False, '''', zero_time))
         else do {
           now \<leftarrow> time_Now;
           ret (if refresh_tokens_expires_at row < now then Inr (False, '''', zero_time)
                else if refresh_tokens_token_hash row \<noteq> sha256_hex L token
                then Inr (False, '''', zero_time)
                else Inr (True, refresh_tokens_user_id row, refresh_tokens_expires_at row))
         }
   }"

definition Revoke :: "string \<Rightarrow> (goerror + unit) prog" where
  "Revoke jti = RevokeToken jti"

definition RevokeAllForUser :: "string \<Rightarrow> (goerror + unit) prog" where
  "RevokeAllForUser userID = RevokeAllUserTokens userID"


section \<open>reset.go\<close>

definition generateResetToken :: "(goerror + string) prog" where
  "generateResetToken = rand_Read"

definition hashResetToken :: "lib \<Rightarrow> string \<Rightarrow> string" where
  "hashResetToken L token = sha256_hex L token"

definition CreateResetToken :: "lib \<Rightarrow> string \<Rightarrow> (goerror + string) prog" where
  "CreateResetToken L userID = do {
     r \<leftarrow> generateResetToken;
     case r of
       Inl e \<Rightarrow> ret (Inl e)
     | Inr plain \<Rightarrow> do {
         now \<leftarrow> time_Now;
         s \<leftarrow> CreatePasswordResetToken userID (hashResetToken L plain) (now + 1 * Hour);
         case s of Inl e \<Rightarrow> ret (Inl e) | Inr _ \<Rightarrow> ret (Inr plain)
       }
   }"

definition ValidateAndConsume :: "lib \<Rightarrow> string \<Rightarrow> (goerror + string) prog" where
  "ValidateAndConsume L token = do {
     r \<leftarrow> GetPasswordResetByHash (hashResetToken L token);
     case r of
       Inl e \<Rightarrow> ret (Inl (if is_no_rows e then ErrResetTokenInvalid else e))
     | Inr row \<Rightarrow> do {
         now \<leftarrow> time_Now;
         if password_reset_tokens_expires_at row < now then ret (Inl ErrResetTokenInvalid)
         else do {
           _ \<leftarrow> MarkPasswordResetUsed (password_reset_tokens_id row);
           ret (Inr (password_reset_tokens_user_id row))
         }
       }
   }"


section \<open>What the operations may change\<close>

context request_frame
begin

lemma rel_tokens:
  "state_io_rel (tables_rel R) (NewAccessToken L u s n)"
  "state_io_rel (tables_rel R) (NewRefreshToken L u s n)"
  "state_io_rel (tables_rel R) (Parse L tok s)"
  "state_io_rel (tables_rel R) (SaveRefresh L j u tok t p)"
  "state_io_rel (tables_rel R) (IsValid L j tok)"
  "state_io_rel (tables_rel R) (Revoke j)"
  "state_io_rel (tables_rel R) (RevokeAllForUser u)"
  "state_io_rel (tables_rel R) (CreateResetToken L u)"
  "state_io_rel (tables_rel R) (ValidateAndConsume L tok)"
  unfolding NewAccessToken_def NewRefreshToken_def Parse_def SaveRefresh_def IsValid_def Revoke_def
    RevokeAllForUser_def CreateResetToken_def ValidateAndConsume_def generateResetToken_def
  by (intro rel_intros rel_queries)+

end


section \<open>Credentials that die\<close>

text \<open>
  A credential that is dead in the tables is rejected, and no statement brings it back: whatever
  runs afterwards, it is rejected. Revoked refresh tokens and used reset tokens are of this kind.
\<close>

locale credential =
  fixes dead :: "db \<Rightarrow> 'k \<Rightarrow> bool"
    and accepts :: "'k \<Rightarrow> world \<Rightarrow> bool"
  assumes persists: "schema_frame (\<lambda>d d'. \<forall>k. dead d k \<longrightarrow> dead d' k)"
    and rejects: "dead (w_db w) k \<Longrightarrow> \<not> accepts k w"
begin

sublocale life: schema_frame "\<lambda>d d'. \<forall>k. dead d k \<longrightarrow> dead d' k"
  by (rule persists)

lemma stays_rejected:
  assumes "state_io_rel (tables_rel (\<lambda>d d'. \<forall>k. dead d k \<longrightarrow> dead d' k)) m" "dead (w_db w) k"
  shows "\<not> accepts k (exec m w)"
  using assms life.frame_execD [OF assms(1), of w] rejects by (auto simp: tables_rel_def)

end

definition refresh_revoked :: "db \<Rightarrow> string \<Rightarrow> bool" where
  "refresh_revoked d jti \<longleftrightarrow>
     (case refresh_row d jti of None \<Rightarrow> False | Some r \<Rightarrow> refresh_tokens_revoked_at r \<noteq> None)"

definition refresh_accepted :: "lib \<Rightarrow> string \<Rightarrow> world \<Rightarrow> bool" where
  "refresh_accepted L jti w \<longleftrightarrow> (\<exists>tok u t. result (IsValid L jti tok) w = Inr (True, u, t))"

text \<open>A reset token is spent when a row has its hash and none with the hash is unused.\<close>

definition reset_spent :: "db \<Rightarrow> string \<Rightarrow> bool" where
  "reset_spent d h \<longleftrightarrow>
     h \<in> set (map password_reset_tokens_token_hash (password_reset_tokens d)) \<and> reset_row d h = None"

definition reset_accepted :: "lib \<Rightarrow> string \<Rightarrow> world \<Rightarrow> bool" where
  "reset_accepted L h w \<longleftrightarrow>
     (\<exists>tok u. hashResetToken L tok = h \<and> result (ValidateAndConsume L tok) w = Inr u)"

text \<open>What \<open>IsValid\<close> and \<open>ValidateAndConsume\<close> answer.\<close>

lemma IsValid_result:
  "result (IsValid L jti tok) w =
     (case w_fault w (w_tick w) of
        Some (NotRun e) \<Rightarrow> Inl (DriverError e)
      | Some (ReplyLost e) \<Rightarrow> Inl (DriverError e)
      | None \<Rightarrow>
          (case refresh_row (w_db w) jti of
             None \<Rightarrow> Inr (False, '''', zero_time)
           | Some row \<Rightarrow>
               if refresh_tokens_revoked_at row = None \<and>
                  w_clock w (Suc (w_tick w)) \<le> refresh_tokens_expires_at row \<and>
                  refresh_tokens_token_hash row = sha256_hex L tok
               then Inr (True, refresh_tokens_user_id row, refresh_tokens_expires_at row)
               else Inr (False, '''', zero_time)))"
  unfolding wlp_result [of _ "\<lambda>a. a = _", symmetric] IsValid_def GetRefreshToken_def
  by (simp add: wp wlp_query_row split: option.splits fault.splits)

lemma ValidateAndConsume_result:
  "result (ValidateAndConsume L tok) w =
     (case w_fault w (w_tick w) of
        Some (NotRun e) \<Rightarrow> Inl (DriverError e)
      | Some (ReplyLost e) \<Rightarrow> Inl (DriverError e)
      | None \<Rightarrow>
          (case reset_row (w_db w) (hashResetToken L tok) of
             None \<Rightarrow> Inl ErrResetTokenInvalid
           | Some row \<Rightarrow>
               if password_reset_tokens_expires_at row < w_clock w (Suc (w_tick w))
               then Inl ErrResetTokenInvalid
               else Inr (password_reset_tokens_user_id row)))"
  unfolding wlp_result [of _ "\<lambda>a. a = _", symmetric] ValidateAndConsume_def
    GetPasswordResetByHash_def MarkPasswordResetUsed_def
  by (simp add: wp wlp_query_row split: option.splits fault.splits sum.splits)

text \<open>The statements that touch the two tables; the others leave them as they are.\<close>

lemma revoked_insert:
  "stmt_rel (\<lambda>d d'. \<forall>k. refresh_revoked d k \<longrightarrow> refresh_revoked d' k) (insert_refresh_token j u h t p)"
  by (auto simp: stmt_rel_def insert_refresh_token_def refresh_revoked_def refresh_row_def
      select_one_append split: if_splits option.splits)

lemma revoked_revoke:
  "stmt_rel (\<lambda>d d'. \<forall>k. refresh_revoked d k \<longrightarrow> refresh_revoked d' k) (revoke_where q)"
  by (auto simp: stmt_rel_def revoke_where_def refresh_revoked_def refresh_row_def select_one_update
      split: option.splits)

lemma spent_create:
  "stmt_rel (\<lambda>d d'. \<forall>h. reset_spent d h \<longrightarrow> reset_spent d' h) (create_password_reset_token u k t)"
  by (auto simp: stmt_rel_def create_password_reset_token_def reset_spent_def reset_row_def
      select_one_None split: if_splits)

lemma spent_mark:
  "stmt_rel (\<lambda>d d'. \<forall>h. reset_spent d h \<longrightarrow> reset_spent d' h) (mark_password_reset_used i)"
  by (auto simp: stmt_rel_def mark_password_reset_used_def reset_spent_def reset_row_def
      select_one_None set_update_where map_update_where simp del: set_map)

lemma revoked_frame: "schema_frame (\<lambda>d d'. \<forall>k. refresh_revoked d k \<longrightarrow> refresh_revoked d' k)"
  by (unfold_locales; (rule revoked_insert revoked_revoke |
      auto simp: stmt_rel_def stmt_defs refresh_revoked_def refresh_row_def Let_def
        split: if_splits option.splits))

lemma spent_frame: "schema_frame (\<lambda>d d'. \<forall>h. reset_spent d h \<longrightarrow> reset_spent d' h)"
  by (unfold_locales; (rule spent_create spent_mark |
      auto simp: stmt_rel_def stmt_defs reset_spent_def reset_row_def Let_def
        split: if_splits option.splits))

interpretation refresh: credential refresh_revoked "refresh_accepted L" for L
proof (rule credential.intro [OF revoked_frame])
  show "\<not> refresh_accepted L jti w" if "refresh_revoked (w_db w) jti" for w jti
    using that by (auto simp: refresh_accepted_def refresh_revoked_def IsValid_result
        split: option.splits fault.splits)
qed

interpretation reset: credential reset_spent "reset_accepted L" for L
proof (rule credential.intro [OF spent_frame])
  show "\<not> reset_accepted L h w" if "reset_spent (w_db w) h" for w h
    using that by (auto simp: reset_accepted_def reset_spent_def ValidateAndConsume_result
        split: option.splits fault.splits)
qed


section \<open>Properties\<close>

text \<open>\<open>IsValid\<close> accepts a refresh token exactly when the database answers, its identifier
has a row that is not revoked, the row has not expired at the time of the check, and the row holds
the token's hash; it then returns the row's user and expiry.\<close>

lemma refresh_token_valid_iff:
  "result (IsValid L jti tok) w = Inr (True, u, ex) \<longleftrightarrow>
     w_fault w (w_tick w) = None \<and>
     (\<exists>row. refresh_row (w_db w) jti = Some row \<and> refresh_tokens_revoked_at row = None \<and>
        w_clock w (Suc (w_tick w)) \<le> refresh_tokens_expires_at row \<and>
        refresh_tokens_token_hash row = sha256_hex L tok \<and>
        refresh_tokens_user_id row = u \<and> refresh_tokens_expires_at row = ex)"
  by (auto simp: IsValid_result split: option.splits fault.splits)

text \<open>A refresh token that was saved for an existing user under a new identifier is valid until
it expires, with the expiry in microseconds; another token under the same identifier, whose hash
differs, is not.\<close>

lemma refresh_save_then_valid:
  assumes "w_fault w = (\<lambda>_. None)" "user_exists (w_db w) u" "refresh_row (w_db w) jti = None"
    and "w_clock w (Suc (Suc (w_tick w))) \<le> pg_time ex" "sha256_hex L other \<noteq> sha256_hex L tok"
  shows "result (SaveRefresh L jti u tok ex None) w = Inr () \<and>
         result (IsValid L jti tok) (exec (SaveRefresh L jti u tok ex None) w) = Inr (True, u, pg_time ex) \<and>
         result (IsValid L jti other) (exec (SaveRefresh L jti u tok ex None) w) = Inr (False, '''', zero_time)"
proof -
  have "wlp (SaveRefresh L jti u tok ex None) (\<lambda>r w'. r = Inr () \<and>
          result (IsValid L jti tok) w' = Inr (True, u, pg_time ex) \<and>
          result (IsValid L jti other) w' = Inr (False, '''', zero_time)) w"
    using assms
    by (simp add: SaveRefresh_def InsertRefreshToken_def wlp_sql_ok stmt_result_def
        insert_refresh_token_def IsValid_result refresh_row_def select_one_append select_one_single)
  then show ?thesis
    by (simp add: wlp_run)
qed

definition one_user_db :: db where
  "one_user_db = empty_db\<lparr>users := [\<lparr>users_id = ''u1'', users_email = ''a@x'',
     users_password_hash = ''b:secret'', users_created_at = 0\<rparr>]\<rparr>"

lemma refresh_save_then_valid_witness:
  "result (IsValid sample_lib ''j'' ''tok'')
     (exec (SaveRefresh sample_lib ''j'' ''u1'' ''tok'' (5 * Second) None) (sample_world one_user_db)) =
   Inr (True, ''u1'', 5 * Second)"
  using refresh_save_then_valid [of "sample_world one_user_db" "''u1''" "''j''" "5 * Second" sample_lib
      "''other''" "''tok''"]
  by (simp add: sample_world_def one_user_db_def empty_db_def sample_lib_def user_exists_def
      refresh_row_def select_one_Nil pg_time_def Second_def)

end
