(* ===== verification/Users.thy ===== *)
theory Users
  imports Tokens
begin

text \<open>
  \<open>internal/domain/user\<close>: the service on Postgres (\<open>service_pg.go\<close>), the one in memory
  (\<open>service.go\<close>), and the contract both keep: a directory of users by e-mail address.
\<close>

record User =
  user_ID :: string
  user_Email :: string
  user_PasswordHash :: string

text \<open>\<open>bcrypt.GenerateFromPassword\<close> draws its salt.\<close>

definition bcrypt_hash :: "lib \<Rightarrow> string \<Rightarrow> (goerror + string) prog" where
  "bcrypt_hash L password =
     State (\<lambda>w. (bcrypt_GenerateFromPassword L (w_rand w (w_tick w)) password, next_tick w))"

lemma wlp_bcrypt_hash [wp]:
  "wlp (bcrypt_hash L pw) Q w =
     Q (bcrypt_GenerateFromPassword L (w_rand w (w_tick w)) pw) (next_tick w)"
  by (simp add: wlp_def bcrypt_hash_def)


section \<open>service\_pg.go\<close>

definition user_of_cols :: "user_cols \<Rightarrow> User" where
  "user_of_cols c = (case c of (i, email, h) \<Rightarrow> \<lparr>user_ID = i, user_Email = email, user_PasswordHash = h\<rparr>)"

definition user_Signup :: "lib \<Rightarrow> string \<Rightarrow> string \<Rightarrow> (goerror + User) prog" where
  "user_Signup L email password = do {
     h \<leftarrow> bcrypt_hash L password;
     case h of
       Inl e \<Rightarrow> ret (Inl e)
     | Inr hash \<Rightarrow> do {
         i \<leftarrow> uuid_NewString;
         now \<leftarrow> time_Now;
         r \<leftarrow> InsertUser i email hash now;
         case r of
           Inl e \<Rightarrow> ret (Inl e)
         | Inr _ \<Rightarrow> ret (Inr \<lparr>user_ID = i, user_Email = email, user_PasswordHash = hash\<rparr>)
       }
   }"

definition user_Login :: "lib \<Rightarrow> string \<Rightarrow> string \<Rightarrow> (goerror + User) prog" where
  "user_Login L email password = do {
     r \<leftarrow> GetUserByEmail email;
     case r of
       Inl e \<Rightarrow> ret (Inl (if is_no_rows e then ErrInvalidLogin else e))
     | Inr row \<Rightarrow>
         (case bcrypt_CompareHashAndPassword L (user_PasswordHash (user_of_cols row)) password of
            Some _ \<Rightarrow> ret (Inl ErrInvalidLogin)
          | None \<Rightarrow> ret (Inr (user_of_cols row)))
   }"

definition user_GetByID :: "string \<Rightarrow> (goerror + User) prog" where
  "user_GetByID i = do {
     r \<leftarrow> GetUserByID i;
     case r of
       Inl e \<Rightarrow> ret (Inl (if is_no_rows e then ErrNotFound ''user'' else e))
     | Inr row \<Rightarrow> ret (Inr (user_of_cols row))
   }"

definition user_GetByEmail :: "string \<Rightarrow> (goerror + User) prog" where
  "user_GetByEmail email = do {
     r \<leftarrow> GetUserByEmail email;
     case r of
       Inl e \<Rightarrow> ret (Inl (if is_no_rows e then ErrNotFound ''user'' else e))
     | Inr row \<Rightarrow> ret (Inr (user_of_cols row))
   }"

definition user_UpdatePassword :: "string \<Rightarrow> string \<Rightarrow> (goerror + unit) prog" where
  "user_UpdatePassword userID newPasswordHash = UpdateUserPassword userID newPasswordHash"

context request_frame
begin

lemma rel_bcrypt_hash: "state_io_rel (tables_rel R) (bcrypt_hash L pw)"
  by (simp add: state_io_rel_def bcrypt_hash_def tables_rel_def tables_refl)

lemma rel_users:
  "state_io_rel (tables_rel R) (user_Signup L email pw)"
  "state_io_rel (tables_rel R) (user_Login L email pw)"
  "state_io_rel (tables_rel R) (user_GetByID i)"
  "state_io_rel (tables_rel R) (user_GetByEmail email)"
  "state_io_rel (tables_rel R) (user_UpdatePassword i h)"
  unfolding user_Signup_def user_Login_def user_GetByID_def user_GetByEmail_def
    user_UpdatePassword_def
  by (intro rel_intros rel_queries rel_bcrypt_hash)+

end


section \<open>service.go\<close>

text \<open>The maps of \<open>memoryRepo\<close>, with the randomness its operations draw.\<close>

record memoryRepo =
  byID :: "string \<Rightarrow> User option"
  byEmail :: "string \<Rightarrow> string option"
  m_rand :: "nat \<Rightarrow> string"
  m_tick :: nat

definition NewMemoryService :: "(nat \<Rightarrow> string) \<Rightarrow> memoryRepo" where
  "NewMemoryService rnd = \<lparr>byID = Map.empty, byEmail = Map.empty, m_rand = rnd, m_tick = 0\<rparr>"

text \<open>The error of \<open>bcrypt\<close> is dropped: the hash is then empty.\<close>

definition mem_Signup :: "lib \<Rightarrow> string \<Rightarrow> string \<Rightarrow> (memoryRepo, goerror + User) state" where
  "mem_Signup L email password = State (\<lambda>m.
     case byEmail m email of
       Some _ \<Rightarrow> (Inl ErrEmailInUse, m)
     | None \<Rightarrow>
         (let i = m_rand m (m_tick m);
              hash = (case bcrypt_GenerateFromPassword L (m_rand m (Suc (m_tick m))) password of
                        Inl _ \<Rightarrow> [] | Inr h \<Rightarrow> h);
              u = \<lparr>user_ID = i, user_Email = email, user_PasswordHash = hash\<rparr>
          in (Inr u, m\<lparr>byID := (byID m)(i \<mapsto> u), byEmail := (byEmail m)(email \<mapsto> i),
                       m_tick := m_tick m + 2\<rparr>)))"

text \<open>The zero value is read from a map without the key.\<close>

definition zero_User :: User where
  "zero_User = \<lparr>user_ID = [], user_Email = [], user_PasswordHash = []\<rparr>"

definition lookup_user :: "memoryRepo \<Rightarrow> string \<Rightarrow> User" where
  "lookup_user m i = (case byID m i of None \<Rightarrow> zero_User | Some u \<Rightarrow> u)"

definition mem_Login :: "lib \<Rightarrow> string \<Rightarrow> string \<Rightarrow> (memoryRepo, goerror + User) state" where
  "mem_Login L email password = gets (\<lambda>m.
     case byEmail m email of
       None \<Rightarrow> Inl ErrInvalidLogin
     | Some i \<Rightarrow>
         (let u = lookup_user m i
          in case bcrypt_CompareHashAndPassword L (user_PasswordHash u) password of
               Some _ \<Rightarrow> Inl ErrInvalidLogin
             | None \<Rightarrow> Inr u))"

definition mem_GetByID :: "string \<Rightarrow> (memoryRepo, goerror + User) state" where
  "mem_GetByID i = gets (\<lambda>m. case byID m i of None \<Rightarrow> Inl (ErrNotFound ''user'') | Some u \<Rightarrow> Inr u)"

definition mem_GetByEmail :: "string \<Rightarrow> (memoryRepo, goerror + User) state" where
  "mem_GetByEmail email = gets (\<lambda>m.
     case byEmail m email of
       None \<Rightarrow> Inl (ErrNotFound ''user'')
     | Some i \<Rightarrow> Inr (lookup_user m i))"

definition mem_UpdatePassword :: "string \<Rightarrow> string \<Rightarrow> (memoryRepo, goerror + unit) state" where
  "mem_UpdatePassword userID newPasswordHash = State (\<lambda>m.
     case byID m userID of
       None \<Rightarrow> (Inl (ErrNotFound ''user''), m)
     | Some u \<Rightarrow> (Inr (), m\<lparr>byID := (byID m)(userID \<mapsto> u\<lparr>user_PasswordHash := newPasswordHash\<rparr>)\<rparr>))"


section \<open>The contract\<close>

text \<open>
  A user service is, to its clients, a directory from e-mail addresses to users. The laws speak
  of states \<open>ok\<close> in which the service is consistent and its store answers.
\<close>

locale user_service =
  fixes L :: lib
    and ok :: "'s \<Rightarrow> bool"
    and dir :: "'s \<Rightarrow> string \<Rightarrow> User option"
    and signup :: "string \<Rightarrow> string \<Rightarrow> ('s, goerror + User) state"
    and login :: "string \<Rightarrow> string \<Rightarrow> ('s, goerror + User) state"
    and getByEmail :: "string \<Rightarrow> ('s, goerror + User) state"
    and updatePassword :: "string \<Rightarrow> string \<Rightarrow> ('s, goerror + unit) state"
  assumes ok_signup: "ok s \<Longrightarrow> ok (exec (signup e p) s)"
    and ok_login: "ok s \<Longrightarrow> ok (exec (login e p) s)"
    and ok_getByEmail: "ok s \<Longrightarrow> ok (exec (getByEmail e) s)"
    and ok_updatePassword: "ok s \<Longrightarrow> ok (exec (updatePassword i h) s)"
    and signup_taken: "ok s \<Longrightarrow> dir s e \<noteq> None \<Longrightarrow> \<exists>err. result (signup e p) s = Inl err"
    and signup_fails: "ok s \<Longrightarrow> result (signup e p) s = Inl err \<Longrightarrow> dir (exec (signup e p) s) = dir s"
    and signup_new: "ok s \<Longrightarrow> result (signup e p) s = Inr u \<Longrightarrow>
          dir (exec (signup e p) s) = (dir s)(e \<mapsto> u) \<and> user_Email u = e \<and>
          (\<exists>salt. bcrypt_GenerateFromPassword L salt p = Inr (user_PasswordHash u) \<or>
                  user_PasswordHash u = [] \<and> (\<exists>err. bcrypt_GenerateFromPassword L salt p = Inl err))"
    and login_result: "ok s \<Longrightarrow> result (login e p) s =
          (case dir s e of
             None \<Rightarrow> Inl ErrInvalidLogin
           | Some u \<Rightarrow> if bcrypt_CompareHashAndPassword L (user_PasswordHash u) p = None
                       then Inr u else Inl ErrInvalidLogin)"
    and login_dir: "ok s \<Longrightarrow> dir (exec (login e p) s) = dir s"
    and getByEmail_result: "ok s \<Longrightarrow> result (getByEmail e) s =
          (case dir s e of None \<Rightarrow> Inl (ErrNotFound ''user'') | Some u \<Rightarrow> Inr u)"
    and getByEmail_dir: "ok s \<Longrightarrow> dir (exec (getByEmail e) s) = dir s"
    and updatePassword_dir: "ok s \<Longrightarrow> dir (exec (updatePassword i h) s) =
          (\<lambda>e. map_option (\<lambda>u. if user_ID u = i then u\<lparr>user_PasswordHash := h\<rparr> else u) (dir s e))"
begin

text \<open>Who signs up can log in, when the password can be hashed.\<close>

lemma login_after_signup:
  assumes "ok s" "bcrypt_sound L" "\<And>salt. \<exists>h. bcrypt_GenerateFromPassword L salt p = Inr h"
    and "result (signup e p) s = Inr u"
  shows "result (login e p) (exec (signup e p) s) = Inr u"
proof -
  from assms(1,4) have dir: "dir (exec (signup e p) s) e = Some u"
    and "\<exists>salt. bcrypt_GenerateFromPassword L salt p = Inr (user_PasswordHash u) \<or>
           (\<exists>err. bcrypt_GenerateFromPassword L salt p = Inl err)"
    using signup_new [of s e p u] by auto
  then obtain salt where "bcrypt_GenerateFromPassword L salt p = Inr (user_PasswordHash u)"
    using assms(3) by (metis Inl_Inr_False)
  with assms(2) have "bcrypt_CompareHashAndPassword L (user_PasswordHash u) p = None"
    by (auto simp: bcrypt_sound_def)
  with dir show ?thesis
    by (simp add: login_result ok_signup assms(1))
qed

text \<open>An address signs up once.\<close>

lemma signup_once:
  assumes "ok s" "result (signup e p) s = Inr u"
  shows "\<exists>err. result (signup e q) (exec (signup e p) s) = Inl err"
  by (rule signup_taken) (use assms in \<open>auto simp: ok_signup signup_new\<close>)

text \<open>What one address does, the others do not see.\<close>

lemma signup_other:
  assumes "ok s" "e' \<noteq> e"
  shows "result (login e' q) (exec (signup e p) s) = result (login e' q) s"
  using assms by (cases "result (signup e p) s") (simp_all add: login_result ok_signup signup_new signup_fails)

text \<open>A new password replaces the old one.\<close>

lemma login_after_update:
  assumes "ok s" "dir s e = Some u" "user_ID u = i"
  shows "result (login e p) (exec (updatePassword i h) s) =
           (if bcrypt_CompareHashAndPassword L h p = None then Inr (u\<lparr>user_PasswordHash := h\<rparr>)
            else Inl ErrInvalidLogin)"
  using assms by (simp add: login_result ok_updatePassword updatePassword_dir)

end


section \<open>The contract kept in memory\<close>

definition mem_ok :: "memoryRepo \<Rightarrow> bool" where
  "mem_ok m \<longleftrightarrow>
     (\<forall>e i. byEmail m e = Some i \<longrightarrow> (\<exists>u. byID m i = Some u \<and> user_Email u = e \<and> user_ID u = i)) \<and>
     inj (m_rand m) \<and> (\<forall>n \<ge> m_tick m. byID m (m_rand m n) = None)"

definition mem_dir :: "memoryRepo \<Rightarrow> string \<Rightarrow> User option" where
  "mem_dir m e = (case byEmail m e of None \<Rightarrow> None | Some i \<Rightarrow> byID m i)"

lemma mem_ok_byEmail:
  "mem_ok m \<Longrightarrow> byEmail m e = Some i \<Longrightarrow>
     \<exists>u. byID m i = Some u \<and> lookup_user m i = u \<and> mem_dir m e = Some u \<and> user_ID u = i \<and> user_Email u = e"
  by (fastforce simp: mem_ok_def lookup_user_def mem_dir_def)

lemma mem_ok_fresh:
  "mem_ok m \<Longrightarrow> byID m (m_rand m (m_tick m)) = None \<and> byEmail m e \<noteq> Some (m_rand m (m_tick m))"
  by (fastforce simp: mem_ok_def)

lemma mem_ok_Signup:
  assumes "mem_ok m"
  shows "mem_ok (exec (mem_Signup L e p) m)"
proof (cases "byEmail m e")
  case None
  from assms have "inj (m_rand m)" by (simp add: mem_ok_def)
  then have "n \<noteq> m_tick m \<Longrightarrow> m_rand m n \<noteq> m_rand m (m_tick m)" for n
    by (auto dest: injD)
  with None assms mem_ok_fresh [OF assms] show ?thesis
    by (auto simp: mem_ok_def exec_def mem_Signup_def Let_def)
qed (use assms in \<open>simp add: exec_def mem_Signup_def\<close>)

lemma mem_dir_Signup:
  assumes "mem_ok m" "byEmail m e = None"
  shows "mem_dir (exec (mem_Signup L e p) m) =
           (mem_dir m)(e \<mapsto> case result (mem_Signup L e p) m of Inr u \<Rightarrow> u | Inl _ \<Rightarrow> zero_User)"
  using assms mem_ok_fresh [OF assms(1)]
  by (auto simp: mem_dir_def exec_def result_def mem_Signup_def Let_def split: option.splits)

lemma mem_ok_UpdatePassword: "mem_ok m \<Longrightarrow> mem_ok (exec (mem_UpdatePassword i h) m)"
  by (fastforce simp: mem_ok_def exec_def mem_UpdatePassword_def split: option.splits)

lemma mem_dir_UpdatePassword:
  assumes "mem_ok m"
  shows "mem_dir (exec (mem_UpdatePassword i h) m) =
     (\<lambda>e. map_option (\<lambda>u. if user_ID u = i then u\<lparr>user_PasswordHash := h\<rparr> else u) (mem_dir m e))"
proof
  fix e
  show "mem_dir (exec (mem_UpdatePassword i h) m) e =
     map_option (\<lambda>u. if user_ID u = i then u\<lparr>user_PasswordHash := h\<rparr> else u) (mem_dir m e)"
  proof (cases "byEmail m e")
    case (Some j)
    with mem_ok_byEmail [OF assms this] show ?thesis
      by (auto simp: mem_dir_def exec_def mem_UpdatePassword_def split: option.splits)
  qed (auto simp: mem_dir_def exec_def mem_UpdatePassword_def split: option.splits)
qed

interpretation mem_users: user_service L mem_ok mem_dir "mem_Signup L" "mem_Login L" mem_GetByEmail
  mem_UpdatePassword for L
proof (unfold_locales, goal_cases)
  case (5 m e p)
  then show ?case by (auto simp: mem_dir_def result_def mem_Signup_def split: option.splits)
next
  case (6 m e p err)
  then show ?case by (auto simp: exec_def result_def mem_Signup_def Let_def split: option.splits)
next
  case (7 m e p u)
  then have new: "byEmail m e = None"
    by (auto simp: result_def mem_Signup_def split: option.splits)
  have "\<exists>salt. bcrypt_GenerateFromPassword L salt p = Inr (user_PasswordHash u) \<or>
          user_PasswordHash u = [] \<and> (\<exists>err. bcrypt_GenerateFromPassword L salt p = Inl err)"
    by (rule exI [of _ "m_rand m (Suc (m_tick m))"])
      (use 7 new in \<open>auto simp: result_def mem_Signup_def Let_def split: sum.splits\<close>)
  moreover have "user_Email u = e"
    using 7 new by (auto simp: result_def mem_Signup_def Let_def)
  ultimately show ?case
    using mem_dir_Signup [OF 7(1) new] 7 by simp
next
  case (8 m e p)
  then show ?case
    using mem_ok_byEmail [OF 8, of e]
    by (cases "byEmail m e") (auto simp: result_def mem_Login_def mem_dir_def Let_def split: option.splits)
next
  case (10 m e)
  then show ?case
    using mem_ok_byEmail [OF 10, of e]
    by (cases "byEmail m e") (auto simp: result_def mem_GetByEmail_def mem_dir_def)
qed (simp_all add: mem_ok_Signup mem_ok_UpdatePassword mem_dir_UpdatePassword mem_Login_def
      mem_GetByEmail_def)


section \<open>The contract kept on Postgres\<close>

definition pg_ok :: "world \<Rightarrow> bool" where
  "pg_ok w \<longleftrightarrow> db_ok (w_db w) \<and> w_fault w = (\<lambda>_. None)"

definition pg_dir :: "world \<Rightarrow> string \<Rightarrow> User option" where
  "pg_dir w e = map_option (user_of_cols \<circ> user_cols) (select_one (\<lambda>r. users_email r = e) (users (w_db w)))"

lemma pg_dir_next_tick [simp]: "pg_dir (next_tick w) = pg_dir w"
  by (rule ext) (simp add: pg_dir_def)

lemma pg_dir_None: "pg_dir w e = None \<longleftrightarrow> e \<notin> set (map users_email (users (w_db w)))"
  by (auto simp: pg_dir_def select_one_None)

lemma select_one_new_email:
  assumes "users_email r \<notin> users_email ` set t"
  shows "select_one (\<lambda>r. users_email r = x) (t @ [r]) =
       (if x = users_email r then Some r else select_one (\<lambda>r. users_email r = x) t)"
proof -
  have "select_one (\<lambda>s. users_email s = users_email r) t = None"
    unfolding select_one_None by (metis assms image_eqI)
  then show ?thesis
    by (auto simp: select_one_append select_one_single split: option.splits)
qed

text \<open>Runs in a world without faults.\<close>

lemma user_Signup_run:
  assumes "w_fault w = (\<lambda>_. None)"
  shows "wlp (user_Signup L e p) (\<lambda>r w'. w_fault w' = (\<lambda>_. None) \<and>
     (case r of
        Inl _ \<Rightarrow> pg_dir w' = pg_dir w
      | Inr u \<Rightarrow> pg_dir w e = None \<and> pg_dir w' = (pg_dir w)(e \<mapsto> u) \<and> user_Email u = e \<and>
          (\<exists>salt. bcrypt_GenerateFromPassword L salt p = Inr (user_PasswordHash u)))) w"
  using assms
  by (simp add: user_Signup_def InsertUser_def wp wlp_sql_ok stmt_result_def insert_user_def
      pg_dir_None pg_dir_def fun_eq_iff select_one_new_email user_of_cols_def user_cols_def
      split: sum.splits) (auto simp: select_one_None)

lemma user_Login_run:
  assumes "w_fault w = (\<lambda>_. None)"
  shows "wlp (user_Login L e p) (\<lambda>r w'. w' = next_tick w \<and>
     r = (case pg_dir w e of
            None \<Rightarrow> Inl ErrInvalidLogin
          | Some u \<Rightarrow> if bcrypt_CompareHashAndPassword L (user_PasswordHash u) p = None
                      then Inr u else Inl ErrInvalidLogin)) w"
  using assms
  by (simp add: user_Login_def GetUserByEmail_def wp wlp_query_row pg_dir_def user_of_cols_def
      user_cols_def split: option.splits)

lemma user_GetByEmail_run:
  assumes "w_fault w = (\<lambda>_. None)"
  shows "wlp (user_GetByEmail e) (\<lambda>r w'. w' = next_tick w \<and>
     r = (case pg_dir w e of None \<Rightarrow> Inl (ErrNotFound ''user'') | Some u \<Rightarrow> Inr u)) w"
  using assms
  by (simp add: user_GetByEmail_def GetUserByEmail_def wp wlp_query_row pg_dir_def
      split: option.splits)

lemma user_UpdatePassword_run:
  assumes "w_fault w = (\<lambda>_. None)"
  shows "wlp (user_UpdatePassword i h) (\<lambda>r w'. w_fault w' = (\<lambda>_. None) \<and> r = Inr () \<and>
     pg_dir w' = (\<lambda>e. map_option
       (\<lambda>u. if user_ID u = i then u\<lparr>user_PasswordHash := h\<rparr> else u) (pg_dir w e))) w"
  using assms
  by (auto simp: user_UpdatePassword_def UpdateUserPassword_def wlp_sql_ok stmt_result_def
      update_user_password_def pg_dir_def fun_eq_iff select_one_update option.map_comp
      comp_def user_of_cols_def user_cols_def intro!: option.map_cong0)

lemmas pg_runs = user_Signup_run [unfolded wlp_run] user_Login_run [unfolded wlp_run]
  user_GetByEmail_run [unfolded wlp_run] user_UpdatePassword_run [unfolded wlp_run]

lemma pg_ok_exec:
  "pg_ok w \<Longrightarrow> state_io_rel (tables_rel keeps_ok) m \<Longrightarrow> w_fault (exec m w) = (\<lambda>_. None) \<Longrightarrow>
     pg_ok (exec m w)"
  using integrity.frame_execD [of m w] by (simp add: pg_ok_def tables_rel_def keeps_ok_def)

interpretation pg_users: user_service L pg_ok pg_dir "user_Signup L" "user_Login L" user_GetByEmail
  user_UpdatePassword for L
proof (unfold_locales, goal_cases)
  case (1 w e p)
  then show ?case
    by (intro pg_ok_exec integrity.rel_users) (simp_all add: pg_ok_def pg_runs)
next
  case (2 w e p)
  then show ?case by (simp add: pg_ok_def pg_runs)
next
  case (3 w e)
  then show ?case by (simp add: pg_ok_def pg_runs)
next
  case (4 w i h)
  then show ?case
    by (intro pg_ok_exec integrity.rel_users) (simp_all add: pg_ok_def pg_runs)
next
  case (5 w e p)
  then show ?case
    using user_Signup_run [of w L e p, unfolded wlp_run]
    by (cases "result (user_Signup L e p) w") (simp_all add: pg_ok_def)
next
  case (6 w e p err)
  then show ?case
    using user_Signup_run [of w L e p, unfolded wlp_run] by (simp add: pg_ok_def)
next
  case (7 w e p u)
  then show ?case
    using user_Signup_run [of w L e p, unfolded wlp_run] by (auto simp: pg_ok_def)
qed (simp_all add: pg_ok_def pg_runs)


section \<open>Properties\<close>

text \<open>C18: On Postgres, with a consistent database that answers, a user who signed up with a password
that can be hashed logs in with it and gets the same user back, and the address cannot sign up again.\<close>

theorem signup_then_login:
  assumes "db_ok (w_db w)" "w_fault w = (\<lambda>_. None)" "bcrypt_sound L"
    and "\<forall>salt. \<exists>h. bcrypt_GenerateFromPassword L salt p = Inr h"
    and "result (user_Signup L e p) w = Inr u"
  shows "result (user_Login L e p) (exec (user_Signup L e p) w) = Inr u \<and>
         (\<exists>fail. result (user_Signup L e q) (exec (user_Signup L e p) w) = Inl fail)"
proof -
  have ok: "pg_ok w" using assms(1,2) by (simp add: pg_ok_def)
  show ?thesis
    using pg_users.login_after_signup [OF ok assms(3) _ assms(5)] pg_users.signup_once [OF ok assms(5)]
      assms(4) by blast
qed

lemma db_ok_empty: "db_ok empty_db"
  by (simp add: db_ok_def empty_db_def table_oks stripe_unique_def)

theorem signup_then_login_witness:
  "result (user_Login sample_lib ''b@x'' ''hunter2'')
     (exec (user_Signup sample_lib ''b@x'' ''hunter2'') (sample_world empty_db)) =
   Inr \<lparr>user_ID = ''r1'', user_Email = ''b@x'', user_PasswordHash = ''b:hunter2''\<rparr>"
proof -
  have new: "result (user_Signup sample_lib ''b@x'' ''hunter2'') (sample_world empty_db) =
      Inr \<lparr>user_ID = ''r1'', user_Email = ''b@x'', user_PasswordHash = ''b:hunter2''\<rparr>"
    by code_simp
  have "w_db (sample_world empty_db) = empty_db" "w_fault (sample_world empty_db) = (\<lambda>_. None)"
    "\<forall>salt. \<exists>h. bcrypt_GenerateFromPassword sample_lib salt ''hunter2'' = Inr h"
    by (simp_all add: sample_world_def sample_lib_def)
  with signup_then_login [OF _ _ bcrypt_sound_sample _ new] show ?thesis
    by (simp add: db_ok_empty)
qed



end
