(* ===== verification/Orgs.thy ===== *)
theory Orgs
  imports Users
begin

text \<open>
  \<open>internal/domain/org/service_pg.go\<close>: organizations and their members; and
  \<open>internal/domain/userctx/service_pg.go\<close>: the organization a user has made active.
\<close>

record Organization =
  org_ID :: string
  org_Name :: string
  org_OwnerUser :: string
  org_CreatedAt :: time

text \<open>
  \<open>Create\<close> runs in a transaction; the deferred rollback undoes it on every path that does
  not reach the commit.
\<close>

definition org_Create :: "string \<Rightarrow> string \<Rightarrow> (goerror + Organization) prog" where
  "org_Create name ownerUserID = do {
     i \<leftarrow> uuid_NewString;
     now \<leftarrow> time_Now;
     tx \<leftarrow> db_begin;
     case tx of
       Inl e \<Rightarrow> ret (Inl e)
     | Inr d0 \<Rightarrow> do {
         r \<leftarrow> InsertOrg i name ownerUserID now;
         case r of
           Inl e \<Rightarrow> do { db_rollback d0; ret (Inl e) }
         | Inr _ \<Rightarrow> do {
             r \<leftarrow> UpsertMember i ownerUserID ''owner'';
             case r of
               Inl e \<Rightarrow> do { db_rollback d0; ret (Inl e) }
             | Inr _ \<Rightarrow> do {
                 c \<leftarrow> db_commit d0;
                 case c of
                   Inl e \<Rightarrow> ret (Inl e)
                 | Inr _ \<Rightarrow> ret (Inr \<lparr>org_ID = i, org_Name = name, org_OwnerUser = ownerUserID,
                                      org_CreatedAt = now\<rparr>)
               }
           }
       }
   }"

definition org_of_row :: "repo_Organization \<Rightarrow> Organization" where
  "org_of_row r = \<lparr>org_ID = organizations_id r, org_Name = organizations_name r,
     org_OwnerUser = organizations_owner_user_id r, org_CreatedAt = organizations_created_at r\<rparr>"

definition org_Get :: "string \<Rightarrow> (goerror + Organization) prog" where
  "org_Get i = do {
     r \<leftarrow> GetOrg i;
     case r of
       Inl e \<Rightarrow> ret (Inl (if is_no_rows e then ErrNotFound ''org'' else e))
     | Inr row \<Rightarrow> ret (Inr (org_of_row row))
   }"

definition org_AddMember :: "string \<Rightarrow> string \<Rightarrow> string \<Rightarrow> (goerror + unit) prog" where
  "org_AddMember orgID userID role = UpsertMember orgID userID role"

definition org_UpdateMember :: "string \<Rightarrow> string \<Rightarrow> string \<Rightarrow> (goerror + unit) prog" where
  "org_UpdateMember orgID userID role = do {
     r \<leftarrow> UpdateMemberRole orgID userID role;
     case r of
       Inl e \<Rightarrow> ret (Inl e)
     | Inr n \<Rightarrow> ret (if n = 0 then Inl ErrNoRows else Inr ())
   }"

definition org_RemoveMember :: "string \<Rightarrow> string \<Rightarrow> (goerror + unit) prog" where
  "org_RemoveMember orgID userID = DeleteMember orgID userID"

definition org_IsMember :: "string \<Rightarrow> string \<Rightarrow> (goerror + bool \<times> string) prog" where
  "org_IsMember orgID userID = do {
     r \<leftarrow> GetMemberRole orgID userID;
     case r of
       Inl e \<Rightarrow> ret (if is_no_rows e then Inr (False, '''') else Inl e)
     | Inr role \<Rightarrow> ret (Inr (True, role))
   }"

definition org_Delete :: "string \<Rightarrow> (goerror + unit) prog" where
  "org_Delete i = DeleteOrg i"

definition ctx_GetActiveOrg :: "string \<Rightarrow> (goerror + string \<times> bool) prog" where
  "ctx_GetActiveOrg userID = do {
     r \<leftarrow> GetActiveOrg userID;
     case r of
       Inl e \<Rightarrow> ret (if is_no_rows e then Inr ('''', False) else Inl e)
     | Inr orgID \<Rightarrow> ret (Inr (orgID, True))
   }"

definition ctx_SetActiveOrg :: "string \<Rightarrow> string \<Rightarrow> (goerror + unit) prog" where
  "ctx_SetActiveOrg userID orgID = UpsertActiveOrg userID orgID"


section \<open>Creating an organization is atomic\<close>

text \<open>The tables with the organization and its owner's membership added.\<close>

definition with_org :: "string \<Rightarrow> string \<Rightarrow> string \<Rightarrow> time \<Rightarrow> db \<Rightarrow> db" where
  "with_org i name owner now d = d\<lparr>
     organizations := organizations d @ [\<lparr>organizations_id = i, organizations_name = name,
       organizations_owner_user_id = owner, organizations_created_at = pg_time now\<rparr>],
     memberships := memberships d @ [\<lparr>memberships_org_id = i, memberships_user_id = owner,
       memberships_role = ''owner''\<rparr>]\<rparr>"

lemma insert_org_member:
  assumes "insert_org i name u t now g d = Inr (x, d1)" "upsert_member i u ''owner'' now' g' d1 = Inr (y, d2)"
    and "db_ok d"
  shows "d2 = with_org i name u t d"
proof -
  have new: "i \<notin> oids d"
    using assms(1) by (auto simp: insert_org_def org_exists_oids split: if_splits)
  then have "member_role d1 i u = None"
    using assms by (auto simp: insert_org_def member_role_None is_member_row_def db_ok_def members_ok_def
        split: if_splits)
  with assms show ?thesis
    by (auto simp: insert_org_def upsert_member_def with_org_def split: if_splits)
qed

lemma wlp_db_begin:
  "wlp db_begin Q w =
     (case w_fault w (w_tick w) of
        None \<Rightarrow> Q (Inr (w_db w)) (next_tick w)
      | Some (NotRun e) \<Rightarrow> Q (Inl (DriverError e)) (next_tick w)
      | Some (ReplyLost e) \<Rightarrow> Q (Inl (DriverError e)) (next_tick w))"
  by (simp add: db_begin_def wlp_query)

lemma wlp_db_commit:
  "wlp (db_commit d0) Q w =
     (case w_fault w (w_tick w) of
        None \<Rightarrow> Q (Inr ()) (next_tick w)
      | Some (NotRun e) \<Rightarrow> Q (Inl (DriverError e)) ((next_tick w)\<lparr>w_db := d0\<rparr>)
      | Some (ReplyLost e) \<Rightarrow> Q (Inl (DriverError e)) (next_tick w))"
  by (simp add: wlp_def db_commit_def split: option.splits fault.splits)

text \<open>
  Whatever fails: nothing is left, or both statements took effect. A success has both.
\<close>

lemma org_Create_run:
  "wlp (org_Create name u) (\<lambda>r w'.
     (w_db w' = w_db w \<and> (\<exists>e. r = Inl e)) \<or>
     (\<exists>i t now g d1 now' g' x y.
        insert_org i name u t now g (w_db w) = Inr (x, d1) \<and>
        upsert_member i u ''owner'' now' g' d1 = Inr (y, w_db w') \<and>
        (\<forall>o'. r = Inr o' \<longrightarrow> o' = \<lparr>org_ID = i, org_Name = name, org_OwnerUser = u, org_CreatedAt = t\<rparr>))) w"
  unfolding org_Create_def InsertOrg_def UpsertMember_def db_rollback_def
  by (auto simp: wp wlp_db_begin wlp_db_commit wlp_sql stmt_result_def
      split: option.splits fault.splits sum.splits) blast

lemma wlp_frame: "state_io_rel R m \<longleftrightarrow> (\<forall>w. wlp m (\<lambda>_ w'. R w w') w)"
  by (simp add: state_io_rel_def wlp_def split_beta)

context request_frame
begin

lemma rel_org_Create: "state_io_rel (tables_rel R) (org_Create name u)"
  unfolding wlp_frame tables_rel_def
proof
  fix w
  show "wlp (org_Create name u) (\<lambda>_ w'. R (w_db w) (w_db w')) w"
    by (rule wlp_mono [OF org_Create_run])
      (elim disjE conjE exE, simp add: tables_refl,
       rule tables_trans [OF st_insert_org [unfolded stmt_rel_def, rule_format]
         st_upsert_member [unfolded stmt_rel_def, rule_format]])
qed

lemma rel_orgs:
  "state_io_rel (tables_rel R) (org_Get i)"
  "state_io_rel (tables_rel R) (org_AddMember i u role)"
  "state_io_rel (tables_rel R) (org_UpdateMember i u role)"
  "state_io_rel (tables_rel R) (org_RemoveMember i u)"
  "state_io_rel (tables_rel R) (org_IsMember i u)"
  "state_io_rel (tables_rel R) (org_Delete i)"
  "state_io_rel (tables_rel R) (ctx_GetActiveOrg u)"
  "state_io_rel (tables_rel R) (ctx_SetActiveOrg u i)"
  unfolding org_Get_def org_AddMember_def org_UpdateMember_def org_RemoveMember_def
    org_IsMember_def org_Delete_def ctx_GetActiveOrg_def ctx_SetActiveOrg_def
  by (intro rel_intros rel_queries)+

end


section \<open>Membership\<close>

lemma org_IsMember_run:
  "wlp (org_IsMember g u) Q w =
     (case w_fault w (w_tick w) of
        None \<Rightarrow> Q (Inr (case member_role (w_db w) g u of None \<Rightarrow> (False, '''') | Some r \<Rightarrow> (True, r)))
                  (next_tick w)
      | Some (NotRun e) \<Rightarrow> Q (Inl (DriverError e)) (next_tick w)
      | Some (ReplyLost e) \<Rightarrow> Q (Inl (DriverError e)) (next_tick w))"
  by (simp add: org_IsMember_def GetMemberRole_def wp wlp_query_row split: option.splits fault.splits)

lemma ctx_GetActiveOrg_run:
  "wlp (ctx_GetActiveOrg u) Q w =
     (case w_fault w (w_tick w) of
        None \<Rightarrow> Q (Inr (case active_org (w_db w) u of None \<Rightarrow> ('''', False) | Some g \<Rightarrow> (g, True)))
                  (next_tick w)
      | Some (NotRun e) \<Rightarrow> Q (Inl (DriverError e)) (next_tick w)
      | Some (ReplyLost e) \<Rightarrow> Q (Inl (DriverError e)) (next_tick w))"
  by (simp add: ctx_GetActiveOrg_def GetActiveOrg_def wp wlp_query_row split: option.splits fault.splits)

text \<open>The role after the statements that write memberships.\<close>

lemma member_role_update:
  "member_role (d\<lparr>memberships := update_where (is_member_row g u) (\<lambda>r. r\<lparr>memberships_role := role\<rparr>) (memberships d)\<rparr>) h v =
     (if h = g \<and> v = u then map_option (\<lambda>_. role) (member_role d g u) else member_role d h v)"
proof -
  have "is_member_row a b (r\<lparr>memberships_role := role\<rparr>) = is_member_row a b r" for a b r
    by (simp add: is_member_row_def)
  then have sel: "select_one (is_member_row h v)
        (update_where (is_member_row g u) (\<lambda>r. r\<lparr>memberships_role := role\<rparr>) (memberships d)) =
      map_option (\<lambda>r. if is_member_row g u r then r\<lparr>memberships_role := role\<rparr> else r)
        (select_one (is_member_row h v) (memberships d))"
    by (simp add: select_one_update)
  show ?thesis
  proof (cases "select_one (is_member_row h v) (memberships d)")
    case None
    then show ?thesis by (auto simp: member_role_def sel)
  next
    case (Some r)
    with select_one_SomeD [OF this] show ?thesis
      by (auto simp: member_role_def sel is_member_row_def)
  qed
qed

lemma member_role_upsert:
  assumes "upsert_member g u role now i d = Inr (x, d')"
  shows "member_role d' h v = (if h = g \<and> v = u then Some role else member_role d h v)"
proof (cases "member_role d g u = None")
  case True
  with assms have d': "memberships d' = memberships d @
      [\<lparr>memberships_org_id = g, memberships_user_id = u, memberships_role = role\<rparr>]"
    by (auto simp: upsert_member_def split: if_splits)
  show ?thesis
    using True by (auto simp: member_role_def d' select_one_append select_one_single is_member_row_def
        split: option.splits)
next
  case False
  with assms have "d' = d\<lparr>memberships := update_where (is_member_row g u)
      (\<lambda>r. r\<lparr>memberships_role := role\<rparr>) (memberships d)\<rparr>"
    by (auto simp: upsert_member_def split: if_splits)
  with False show ?thesis by (auto simp: member_role_update)
qed

lemma member_role_delete:
  "member_role (d\<lparr>memberships := delete_where (is_member_row g u) (memberships d)\<rparr>) h v =
     (if h = g \<and> v = u then None else member_role d h v)"
proof (cases "h = g \<and> v = u")
  case True
  then show ?thesis by (simp add: member_role_def select_one_delete)
next
  case False
  then have "\<not> is_member_row g u r" if "is_member_row h v r" for r
    using that by (auto simp: is_member_row_def)
  then have "select_one (is_member_row h v) (delete_where (is_member_row g u) (memberships d)) =
      select_one (is_member_row h v) (memberships d)"
    by (rule select_one_delete_other)
  with False show ?thesis by (auto simp: member_role_def)
qed

lemma IsMember_result:
  assumes "w_fault w = (\<lambda>_. None)"
  shows "result (org_IsMember g u) w =
           Inr (case member_role (w_db w) g u of None \<Rightarrow> (False, '''') | Some r \<Rightarrow> (True, r))"
  by (rule result_eqI) (simp add: org_IsMember_run assms)

text \<open>The writes of memberships, with the database answering.\<close>

lemma org_AddMember_run:
  assumes "w_fault w = (\<lambda>_. None)" "user_exists (w_db w) u" "org_exists (w_db w) g"
  shows "w_fault (exec (org_AddMember g u role) w) = (\<lambda>_. None) \<and>
    member_role (w_db (exec (org_AddMember g u role) w)) h v =
      (if h = g \<and> v = u then Some role else member_role (w_db w) h v)"
proof -
  have "\<exists>d. upsert_member g u role now i (w_db w) = Inr ((), d)" for now i
    using assms(2,3) by (simp add: upsert_member_def)
  then have "wlp (org_AddMember g u role) (\<lambda>_ w'. w_fault w' = (\<lambda>_. None) \<and>
      member_role (w_db w') h v = (if h = g \<and> v = u then Some role else member_role (w_db w) h v)) w"
    using assms(1) member_role_upsert
    by (auto simp: org_AddMember_def UpsertMember_def wlp_sql_ok stmt_result_def split: sum.splits) (metis sum.distinct(1))+
  then show ?thesis by (simp add: wlp_exec)
qed

lemma org_UpdateMember_run:
  assumes "w_fault w = (\<lambda>_. None)"
  shows "w_fault (exec (org_UpdateMember g u role) w) = (\<lambda>_. None) \<and>
    result (org_UpdateMember g u role) w = (if member_role (w_db w) g u = None then Inl ErrNoRows else Inr ()) \<and>
    member_role (w_db (exec (org_UpdateMember g u role) w)) h v =
      (if h = g \<and> v = u then map_option (\<lambda>_. role) (member_role (w_db w) g u) else member_role (w_db w) h v)"
proof -
  have none: "rows_affected (is_member_row g u) (memberships d) = 0 \<longleftrightarrow> member_role d g u = None" for d
    by (auto simp: rows_affected_def member_role_None filter_empty_conv)
  have "wlp (org_UpdateMember g u role) (\<lambda>r w'. w_fault w' = (\<lambda>_. None) \<and>
      r = (if member_role (w_db w) g u = None then Inl ErrNoRows else Inr ()) \<and>
      member_role (w_db w') h v =
        (if h = g \<and> v = u then map_option (\<lambda>_. role) (member_role (w_db w) g u) else member_role (w_db w) h v)) w"
    using assms by (simp add: org_UpdateMember_def UpdateMemberRole_def wp wlp_sql_ok stmt_result_def
        update_member_role_def member_role_update none)
  then show ?thesis by (simp add: wlp_run)
qed

lemma org_RemoveMember_run:
  assumes "w_fault w = (\<lambda>_. None)"
  shows "w_fault (exec (org_RemoveMember g u) w) = (\<lambda>_. None) \<and>
    member_role (w_db (exec (org_RemoveMember g u) w)) h v =
      (if h = g \<and> v = u then None else member_role (w_db w) h v)"
proof -
  have "wlp (org_RemoveMember g u) (\<lambda>_ w'. w_fault w' = (\<lambda>_. None) \<and>
      member_role (w_db w') h v = (if h = g \<and> v = u then None else member_role (w_db w) h v)) w"
    using assms by (simp add: org_RemoveMember_def DeleteMember_def wlp_sql_ok stmt_result_def delete_member_def
      member_role_delete)
  then show ?thesis by (simp add: wlp_exec)
qed


section \<open>Properties\<close>

text \<open>C9: Creating an organization is atomic under every failure of the database: either no table
changes and an error is returned, or the organization and its owner's membership are both there, and a
success always has both.\<close>

theorem org_create_atomic:
  assumes "db_ok (w_db w)"
  shows "w_db (exec (org_Create name u) w) = w_db w \<and> (\<exists>e. result (org_Create name u) w = Inl e) \<or>
    (\<exists>i now. w_db (exec (org_Create name u) w) = with_org i name u now (w_db w) \<and>
       (\<forall>g. result (org_Create name u) w = Inr g \<longrightarrow>
          g = \<lparr>org_ID = i, org_Name = name, org_OwnerUser = u, org_CreatedAt = now\<rparr>))"
  using org_Create_run [of name u w, unfolded wlp_run] insert_org_member [OF _ _ assms] by blast

theorem org_create_atomic_witness:
  "w_db (exec (org_Create ''acme'' ''u1'') (sample_world one_user_db)) =
     with_org ''r0'' ''acme'' ''u1'' Second one_user_db"
proof -
  have ok: "db_ok (w_db (sample_world one_user_db))"
    by (simp add: db_ok_def one_user_db_def empty_db_def table_oks stripe_unique_def sample_world_def)
  have res: "result (org_Create ''acme'' ''u1'') (sample_world one_user_db) =
      Inr \<lparr>org_ID = ''r0'', org_Name = ''acme'', org_OwnerUser = ''u1'', org_CreatedAt = Second\<rparr>"
    by code_simp
  have db: "w_db (sample_world one_user_db) = one_user_db"
    by (simp add: sample_world_def)
  from org_create_atomic [OF ok, of "''acme''" "''u1''"] show ?thesis
    by (auto simp: res db)
qed

text \<open>Deleting an organization, when the database answers, leaves no membership, active context,
file, API key, subscription or webhook endpoint of it and no delivery of its endpoints, touches the rows of
no other organization in these tables, and leaves its projects and audit events where they are.\<close>

lemma org_delete_cascades:
  assumes "db_ok (w_db w)" "w_fault w = (\<lambda>_. None)"
    and d_def: "d = w_db w" and d'_def: "d' = w_db (exec (org_Delete i) w)"
  shows "organizations d' = delete_where (\<lambda>r. organizations_id r = i) (organizations d) \<and>
         memberships d' = delete_where (\<lambda>r. memberships_org_id r = i) (memberships d) \<and>
         user_contexts d' = delete_where (\<lambda>r. user_contexts_org_id r = i) (user_contexts d) \<and>
         files d' = delete_where (\<lambda>r. files_org_id r = i) (files d) \<and>
         api_keys d' = delete_where (\<lambda>r. api_keys_org_id r = i) (api_keys d) \<and>
         subscriptions d' = delete_where (\<lambda>r. subscriptions_org_id r = i) (subscriptions d) \<and>
         webhook_endpoints d' = delete_where (\<lambda>r. webhook_endpoints_org_id r = i) (webhook_endpoints d) \<and>
         (\<forall>r \<in> set (webhook_deliveries d'). \<forall>e \<in> set (webhook_endpoints d).
            webhook_deliveries_endpoint_id r = webhook_endpoints_id e \<longrightarrow> webhook_endpoints_org_id e \<noteq> i) \<and>
         projects d' = projects d \<and> audit_logs d' = audit_logs d"
proof -
  have d': "Inr ((), d') = delete_org i (pg_time (w_clock w (w_tick w))) (w_rand w (w_tick w)) d"
    using assms(2) by (simp add: d'_def d_def exec_def org_Delete_def DeleteOrg_def sql_def delete_org_def Let_def)
  show ?thesis
  proof (cases "i \<in> oids d")
    case True
    with d' show ?thesis
      by (auto simp: delete_org_def Let_def org_exists_oids tables)
  next
    case False
    with d' have same: "d' = d" by (simp add: delete_org_def Let_def org_exists_oids)
    from assms(1) have "members_ok (uids d) (oids d) (memberships d)"
      "contexts_ok (uids d) (oids d) (user_contexts d)" "files_ok (uids d) (oids d) (files d)"
      "keys_ok (uids d) (oids d) (api_keys d)" "subs_ok (oids d) (subscriptions d)"
      "endpoints_ok (oids d) (webhook_endpoints d)"
      by (simp_all add: d_def db_ok_def)
    with False have
      "\<And>r. r \<in> set (memberships d) \<Longrightarrow> memberships_org_id r \<noteq> i"
      "\<And>r. r \<in> set (user_contexts d) \<Longrightarrow> user_contexts_org_id r \<noteq> i"
      "\<And>r. r \<in> set (files d) \<Longrightarrow> files_org_id r \<noteq> i"
      "\<And>r. r \<in> set (api_keys d) \<Longrightarrow> api_keys_org_id r \<noteq> i"
      "\<And>r. r \<in> set (subscriptions d) \<Longrightarrow> subscriptions_org_id r \<noteq> i"
      "\<And>r. r \<in> set (webhook_endpoints d) \<Longrightarrow> webhook_endpoints_org_id r \<noteq> i"
      by (auto simp: members_ok_def contexts_ok_def files_ok_def keys_ok_def subs_ok_def endpoints_ok_def)
    moreover from False have "\<And>r. r \<in> set (organizations d) \<Longrightarrow> organizations_id r \<noteq> i"
      by (auto simp: oids_def)
    ultimately show ?thesis
      unfolding same by (simp add: delete_where_none)
  qed
qed

lemma org_delete_cascades_witness:
  "memberships (w_db (exec (org_Delete ''g1'')
     (sample_world (with_org ''g1'' ''acme'' ''u1'' 0 one_user_db)))) = []"
proof -
  let ?w = "sample_world (with_org ''g1'' ''acme'' ''u1'' 0 one_user_db)"
  have "db_ok (w_db ?w)" "w_fault ?w = (\<lambda>_. None)"
    by (simp_all add: db_ok_def with_org_def one_user_db_def empty_db_def table_oks stripe_unique_def
        sample_world_def uids_def oids_def)
  from org_delete_cascades [OF this refl refl, of "''g1''"] show ?thesis
    by (simp add: sample_world_def with_org_def one_user_db_def empty_db_def delete_where_def)
qed

text \<open>C24: A membership is what was last written: adding an existing user to an existing organization gives exactly
that role, updating it changes the role, removing it ends it; the roles of all others stay, and updating somebody who
is not a member is an error.\<close>

theorem membership_lifecycle:
  assumes "w_fault w = (\<lambda>_. None)" "user_exists (w_db w) u" "org_exists (w_db w) g"
    and "add = exec (org_AddMember g u role) w" "upd = exec (org_UpdateMember g u role') add"
    and "del = exec (org_RemoveMember g u) upd"
  shows "result (org_IsMember g u) add = Inr (True, role) \<and>
         result (org_UpdateMember g u role') add = Inr () \<and> result (org_IsMember g u) upd = Inr (True, role') \<and>
         result (org_IsMember g u) del = Inr (False, '''') \<and>
         result (org_UpdateMember g u role') del = Inl ErrNoRows \<and>
         (\<forall>h v. h \<noteq> g \<or> v \<noteq> u \<longrightarrow> result (org_IsMember h v) del = result (org_IsMember h v) w)"
proof -
  have add: "w_fault add = (\<lambda>_. None)" "member_role (w_db add) h v = (if h = g \<and> v = u then Some role else member_role (w_db w) h v)"
    for h v
    using org_AddMember_run [OF assms(1-3)] by (simp_all add: assms(4))
  have upd: "w_fault upd = (\<lambda>_. None)" "result (org_UpdateMember g u role') add = Inr ()"
    "member_role (w_db upd) h v = (if h = g \<and> v = u then Some role' else member_role (w_db add) h v)" for h v
    using org_UpdateMember_run [OF add(1), of g u role'] add(2) by (simp_all add: assms(5))
  have del: "w_fault del = (\<lambda>_. None)" "member_role (w_db del) h v = (if h = g \<and> v = u then None else member_role (w_db upd) h v)"
    for h v
    using org_RemoveMember_run [OF upd(1)] by (simp_all add: assms(6))
  have "result (org_UpdateMember g u role') del = Inl ErrNoRows"
    using org_UpdateMember_run [OF del(1), of g u role'] del(2) by simp
  then show ?thesis
    using upd(2) by (simp add: IsMember_result add upd(1,3) del assms(1))
qed

theorem membership_lifecycle_witness:
  "result (org_IsMember ''g1'' ''u1'') (exec (org_AddMember ''g1'' ''u1'' ''admin'')
     (sample_world (with_org ''g1'' ''acme'' ''u1'' 0 one_user_db))) = Inr (True, ''admin'')"
proof -
  let ?w = "sample_world (with_org ''g1'' ''acme'' ''u1'' 0 one_user_db)"
  have "w_fault ?w = (\<lambda>_. None)" "user_exists (w_db ?w) ''u1''" "org_exists (w_db ?w) ''g1''"
    by (simp_all add: sample_world_def with_org_def one_user_db_def empty_db_def user_exists_def org_exists_def)
  from membership_lifecycle [OF this refl refl refl] show ?thesis by simp
qed

end
