(* ===== verification/Tenancy.thy ===== *)
theory Tenancy
  imports Orgs
begin

text \<open>
  Tables whose rows belong to an organization. To its clients such a table is one list of rows
  per organization (\<open>view\<close>): a statement with an organization's identifier reads and writes
  that list only. Projects, files, API keys and webhook endpoints are instances.
\<close>

locale tenant_table =
  fixes owner :: "'r \<Rightarrow> string"
    and key :: "'r \<Rightarrow> string"
    and row_of :: "string \<Rightarrow> string \<Rightarrow> 'r \<Rightarrow> bool"
  assumes row_of: "row_of i g r \<longleftrightarrow> key r = i \<and> owner r = g"
begin

definition view :: "'r list \<Rightarrow> string \<Rightarrow> 'r list" where
  "view t g = filter (\<lambda>r. owner r = g) t"

lemma view_insert: "view (t @ [r]) g = view t g @ (if owner r = g then [r] else [])"
  by (simp add: view_def)

lemma view_update:
  assumes "\<And>r. owner (f r) = owner r"
  shows "view (update_where (row_of i h) f t) g =
           (if g = h then update_where (\<lambda>r. key r = i) f (view t g) else view t g)"
  using assms by (induction t) (auto simp: view_def update_where_def row_of)

lemma view_delete:
  "view (delete_where (row_of i h) t) g =
     (if g = h then delete_where (\<lambda>r. key r = i) (view t g) else view t g)"
  by (induction t) (auto simp: view_def delete_where_def row_of)

lemma select_view: "select_one (row_of i g) t = select_one (\<lambda>r. key r = i) (view t g)"
  by (induction t) (auto simp: view_def select_one_def row_of)

lemma affected_view: "rows_affected (row_of i g) t = rows_affected (\<lambda>r. key r = i) (view t g)"
  by (induction t) (auto simp: view_def rows_affected_def row_of)

lemma view_keys: "set (map key (view t g)) \<subseteq> set (map key t)"
  by (auto simp: view_def)

lemma view_distinct: "distinct (map key t) \<Longrightarrow> distinct (map key (view t g))"
  by (simp add: view_def distinct_map_filter)

lemma select_other:
  assumes "select_one (row_of i g) t = Some r" "distinct (map key t)" "h \<noteq> g"
  shows "select_one (row_of i h) t = None"
proof (cases "select_one (row_of i h) t")
  case (Some s)
  with assms(1) have "r \<in> set t" "s \<in> set t" "key r = key s" "owner r = g" "owner s = h"
    by (auto dest!: select_one_SomeD simp: row_of)
  with assms(2,3) show ?thesis
    by (auto dest: distinct_key_eq)
qed

end

interpretation projects: tenant_table projects_org_id projects_id is_project
  by unfold_locales (simp add: is_project_def)

interpretation files: tenant_table files_org_id files_id is_file
  by unfold_locales (simp add: is_file_def)

interpretation endpoints: tenant_table webhook_endpoints_org_id webhook_endpoints_id is_endpoint
  by unfold_locales (simp add: is_endpoint_def)

interpretation apikeys: tenant_table api_keys_org_id api_keys_id
    "\<lambda>i g r. api_keys_id r = i \<and> api_keys_org_id r = g"
  by unfold_locales simp

end
