(* ===== verification/Projects.thy ===== *)
theory Projects
  imports Tenancy
begin

text \<open>
  \<open>internal/domain/project/service.go\<close>: the projects of an organization, and their JSON.
\<close>

record Project =
  project_ID :: string
  project_OrgID :: string
  project_Name :: string
  project_Description :: string
  project_CreatedBy :: string
  project_CreatedAt :: time
  project_UpdatedAt :: time

text \<open>\<open>NullString.String\<close> is empty when the column is \<open>NULL\<close>.\<close>

definition null_string :: "string option \<Rightarrow> string" where
  "null_string x = (case x of None \<Rightarrow> [] | Some s \<Rightarrow> s)"

definition to_null :: "string \<Rightarrow> string option" where
  "to_null s = (if s = [] then None else Some s)"

lemma null_string_to_null [simp]: "null_string (to_null s) = s"
  by (simp add: null_string_def to_null_def)

definition repoToProject :: "repo_Project \<Rightarrow> Project" where
  "repoToProject r = \<lparr>project_ID = projects_id r, project_OrgID = projects_org_id r,
     project_Name = projects_name r, project_Description = null_string (projects_description r),
     project_CreatedBy = projects_created_by r, project_CreatedAt = projects_created_at r,
     project_UpdatedAt = projects_updated_at r\<rparr>"

text \<open>The struct tags of \<open>model.go\<close> name the update time \<open>updated_by\<close>.\<close>

definition json_of_Project :: "Project \<Rightarrow> json" where
  "json_of_Project p = JObj (
     [(''id'', JStr (project_ID p)), (''org_id'', JStr (project_OrgID p)),
      (''name'', JStr (project_Name p))] @ omit_empty_str ''description'' (project_Description p) @
     [(''created_by'', JStr (project_CreatedBy p)), (''created_at'', JTime (project_CreatedAt p)),
      (''updated_by'', JTime (project_UpdatedAt p))])"

definition zero_Project :: Project where
  "zero_Project = \<lparr>project_ID = [], project_OrgID = [], project_Name = [], project_Description = [],
     project_CreatedBy = [], project_CreatedAt = zero_time, project_UpdatedAt = zero_time\<rparr>"

definition project_List :: "string \<Rightarrow> (goerror + Project list) prog" where
  "project_List orgID = do {
     r \<leftarrow> ListProjects orgID;
     case r of Inl e \<Rightarrow> ret (Inl e) | Inr rows \<Rightarrow> ret (Inr (map repoToProject rows))
   }"

definition project_Create ::
  "string \<Rightarrow> string \<Rightarrow> string \<Rightarrow> string \<Rightarrow> (goerror + Project) prog" where
  "project_Create orgID name description userID = do {
     i \<leftarrow> uuid_NewString;
     r \<leftarrow> InsertProject i orgID name (to_null description) userID;
     case r of Inl e \<Rightarrow> ret (Inl e) | Inr row \<Rightarrow> ret (Inr (repoToProject row))
   }"

definition project_Get :: "string \<Rightarrow> string \<Rightarrow> (goerror + Project) prog" where
  "project_Get orgID i = do {
     r \<leftarrow> GetProject i orgID;
     case r of
       Inl e \<Rightarrow> ret (Inl (if is_no_rows e then ErrNotFound ''project'' else e))
     | Inr row \<Rightarrow> ret (Inr (repoToProject row))
   }"

definition project_Update ::
  "string \<Rightarrow> string \<Rightarrow> string \<Rightarrow> string \<Rightarrow> (goerror + Project) prog" where
  "project_Update orgID i name description = do {
     r \<leftarrow> UpdateProject i orgID name (to_null description);
     case r of
       Inl e \<Rightarrow> ret (Inl (if is_no_rows e then ErrNotFound ''project'' else e))
     | Inr row \<Rightarrow> ret (Inr (repoToProject row))
   }"

definition project_Delete :: "string \<Rightarrow> string \<Rightarrow> (goerror + unit) prog" where
  "project_Delete orgID i = do {
     r \<leftarrow> DeleteProject i orgID;
     case r of
       Inl e \<Rightarrow> ret (Inl e)
     | Inr n \<Rightarrow> ret (if n = 0 then Inl (ErrNotFound ''project'') else Inr ())
   }"

context request_frame
begin

lemma rel_projects:
  "state_io_rel (tables_rel R) (project_List g)"
  "state_io_rel (tables_rel R) (project_Create g name descr u)"
  "state_io_rel (tables_rel R) (project_Get g i)"
  "state_io_rel (tables_rel R) (project_Update g i name descr)"
  "state_io_rel (tables_rel R) (project_Delete g i)"
  unfolding project_List_def project_Create_def project_Get_def project_Update_def
    project_Delete_def
  by (intro rel_intros rel_queries)+

end


section \<open>Each organization has its own projects\<close>

text \<open>The projects of an organization, in the order of the table.\<close>

definition org_projects :: "world \<Rightarrow> string \<Rightarrow> repo_Project list" where
  "org_projects w g = projects.view (projects (w_db w)) g"

definition same_projects :: "string \<Rightarrow> db \<Rightarrow> db \<Rightarrow> bool" where
  "same_projects g d d' \<longleftrightarrow> projects.view (projects d') g = projects.view (projects d) g"

interpretation same_projects: tables_frame "same_projects g" for g
  by unfold_locales (simp_all add: same_projects_def)

lemma project_writes_elsewhere:
  assumes "h \<noteq> g"
  shows "stmt_rel (same_projects h) (insert_project i g name descr u)"
    and "stmt_rel (same_projects h) (update_project i g name descr)"
    and "stmt_rel (same_projects h) (delete_project i g)"
  using assms
  by (auto simp: stmt_rel_def same_projects_def insert_project_def update_project_def
      delete_project_def project_set_def Let_def projects.view_insert projects.view_update
      projects.view_delete split: if_splits option.splits)

lemma project_ops_elsewhere:
  assumes "h \<noteq> g"
  shows "state_io_rel (tables_rel (same_projects h)) (project_List g)"
    and "state_io_rel (tables_rel (same_projects h)) (project_Create g name descr u)"
    and "state_io_rel (tables_rel (same_projects h)) (project_Get g i)"
    and "state_io_rel (tables_rel (same_projects h)) (project_Update g i name descr)"
    and "state_io_rel (tables_rel (same_projects h)) (project_Delete g i)"
  unfolding project_List_def project_Create_def project_Get_def project_Update_def
    project_Delete_def ListProjects_def InsertProject_def GetProject_def UpdateProject_def
    DeleteProject_def
  by (intro same_projects.rel_intros project_writes_elsewhere [OF assms])+


section \<open>What the operations return\<close>

lemma project_Get_run:
  "wlp (project_Get g i) Q w =
     (case w_fault w (w_tick w) of
        Some (NotRun e) \<Rightarrow> Q (Inl (DriverError e)) (next_tick w)
      | Some (ReplyLost e) \<Rightarrow> Q (Inl (DriverError e)) (next_tick w)
      | None \<Rightarrow>
          Q (case select_one (\<lambda>r. projects_id r = i) (org_projects w g) of
               None \<Rightarrow> Inl (ErrNotFound ''project'') | Some r \<Rightarrow> Inr (repoToProject r)) (next_tick w))"
  by (simp add: project_Get_def GetProject_def wp wlp_query_row org_projects_def projects.select_view
      split: option.splits fault.splits)

lemma project_List_run:
  "wlp (project_List g) Q w =
     (case w_fault w (w_tick w) of
        Some (NotRun e) \<Rightarrow> Q (Inl (DriverError e)) (next_tick w)
      | Some (ReplyLost e) \<Rightarrow> Q (Inl (DriverError e)) (next_tick w)
      | None \<Rightarrow> Q (Inr (map repoToProject (sort_key projects_created_at (org_projects w g)))) (next_tick w))"
  by (simp add: project_List_def ListProjects_def wp wlp_query org_projects_def projects.view_def
      split: option.splits fault.splits)

lemma project_Create_run:
  assumes "w_fault w = (\<lambda>_. None)"
  shows "wlp (project_Create g name descr u) (\<lambda>r w'. w_fault w' = (\<lambda>_. None) \<and>
     (case r of
        Inl e \<Rightarrow> w_db w' = w_db w
      | Inr p \<Rightarrow> (\<exists>row. p = repoToProject row \<and> projects (w_db w') = projects (w_db w) @ [row] \<and>
          projects_id row \<notin> set (map projects_id (projects (w_db w))) \<and>
          projects_org_id row = g \<and> projects_name row = name \<and> null_string (projects_description row) = descr \<and>
          projects_created_by row = u))) w"
  using assms
  by (auto simp: project_Create_def InsertProject_def wp wlp_sql_ok stmt_result_def insert_project_def Let_def
      split: sum.splits)

lemma project_Update_run:
  assumes "w_fault w = (\<lambda>_. None)"
  shows "wlp (project_Update g i name descr) (\<lambda>r w'. w_fault w' = (\<lambda>_. None) \<and>
     (case select_one (\<lambda>r. projects_id r = i) (org_projects w g) of
        None \<Rightarrow> r = Inl (ErrNotFound ''project'') \<and> w_db w' = w_db w
      | Some row \<Rightarrow> (\<exists>now. r = Inr (repoToProject (project_set now name (to_null descr) row)) \<and>
          org_projects w' g = update_where (\<lambda>r. projects_id r = i) (project_set now name (to_null descr))
            (org_projects w g)))) w"
  using assms
  by (auto simp: project_Update_def UpdateProject_def wp wlp_sql_ok stmt_result_def update_project_def
      org_projects_def projects.select_view projects.view_update project_set_def split: option.splits)


section \<open>Properties\<close>

text \<open>A project that was created, when the database answers, carries the organization, name,
description and author it was created with; its organization reads back exactly what was returned, and no
other organization finds it.\<close>

lemma project_create_get:
  assumes "w_fault w = (\<lambda>_. None)" "result (project_Create g name descr u) w = Inr p" "h \<noteq> g"
  shows "project_OrgID p = g \<and> project_Name p = name \<and> project_Description p = descr \<and>
         project_CreatedBy p = u \<and>
         result (project_Get g (project_ID p)) (exec (project_Create g name descr u) w) = Inr p \<and>
         result (project_Get h (project_ID p)) (exec (project_Create g name descr u) w) =
           Inl (ErrNotFound ''project'')"
proof -
  let ?w = "exec (project_Create g name descr u) w"
  from project_Create_run [OF assms(1), of g name descr u, unfolded wlp_run] assms(2)
  obtain row where ok: "w_fault ?w = (\<lambda>_. None)" and p: "p = repoToProject row"
    and ins: "projects (w_db ?w) = projects (w_db w) @ [row]"
    and new: "projects_id row \<notin> set (map projects_id (projects (w_db w)))"
    and row: "projects_org_id row = g" "projects_name row = name"
      "null_string (projects_description row) = descr" "projects_created_by row = u"
    by auto
  have old: "select_one (\<lambda>r. projects_id r = projects_id row) (projects.view (projects (w_db w)) k) = None" for k
    using new by (auto simp: select_one_None projects.view_def) (metis image_eqI)
  have "wlp (project_Get k (projects_id row))
      (\<lambda>r _. r = (if k = g then Inr p else Inl (ErrNotFound ''project''))) ?w" for k
    using row by (simp add: project_Get_run ok org_projects_def ins projects.view_insert select_one_append
        select_one_single select_one_Nil old p)
  then have "result (project_Get k (projects_id row)) ?w =
      (if k = g then Inr p else Inl (ErrNotFound ''project''))" for k
    by (simp add: wlp_result)
  with assms(3) row show ?thesis
    by (simp add: p repoToProject_def)
qed

lemma project_create_get_witness:
  "result (project_Get ''g2'' ''r0'') (exec (project_Create ''g1'' ''site'' ''main'' ''u1'')
     (sample_world one_user_db)) = Inl (ErrNotFound ''project'')"
proof -
  have "case result (project_Create ''g1'' ''site'' ''main'' ''u1'') (sample_world one_user_db) of
      Inl _ \<Rightarrow> False | Inr p \<Rightarrow> project_ID p = ''r0''"
    by code_simp
  then have "\<exists>p. result (project_Create ''g1'' ''site'' ''main'' ''u1'') (sample_world one_user_db) = Inr p \<and>
      project_ID p = ''r0''"
    by (auto split: sum.splits)
  with project_create_get [of "sample_world one_user_db" "''g1''" "''site''" "''main''" "''u1''" _ "''g2''"]
  show ?thesis by (auto simp: sample_world_def)
qed

text \<open>Updating a project, when the database answers, finds it among the organization's projects only.
It keeps the identifier, the organization, the author and the creation time, replaces the name unless the new
one is empty, and replaces the description even by an empty one; reading it back gives what was returned.\<close>

lemma project_update_get:
  assumes "w_fault w = (\<lambda>_. None)" "result (project_Get g i) w = Inr old"
  shows "\<exists>p now. result (project_Update g i name descr) w = Inr p \<and>
           p = old\<lparr>project_Name := (if name = [] then project_Name old else name),
                   project_Description := descr, project_UpdatedAt := now\<rparr> \<and>
           result (project_Get g i) (exec (project_Update g i name descr) w) = Inr p"
proof -
  let ?w = "exec (project_Update g i name descr) w"
  have "wlp (project_Get g i) (\<lambda>r _. r = Inr old) w"
    using assms(2) by (simp add: wlp_result)
  then obtain row where row: "select_one (\<lambda>r. projects_id r = i) (org_projects w g) = Some row"
    and old: "old = repoToProject row"
    by (auto simp: project_Get_run assms(1) split: option.splits)
  with project_Update_run [OF assms(1), of g i name descr, unfolded wlp_run] obtain now where
    ok: "w_fault ?w = (\<lambda>_. None)"
    and res: "result (project_Update g i name descr) w = Inr (repoToProject (project_set now name (to_null descr) row))"
    and upd: "org_projects ?w g = update_where (\<lambda>r. projects_id r = i) (project_set now name (to_null descr))
            (org_projects w g)"
    by auto
  have "wlp (project_Get g i) (\<lambda>r _. r = Inr (repoToProject (project_set now name (to_null descr) row))) ?w"
    using select_one_SomeD [OF row]
    by (simp add: project_Get_run ok upd select_one_update project_set_def row)
  with res show ?thesis
    by (intro exI [of _ "repoToProject (project_set now name (to_null descr) row)"] exI [of _ now])
      (auto simp: wlp_result old repoToProject_def project_set_def)
qed

lemma project_update_get_witness:
  "\<exists>p. result (project_Update ''g1'' ''r0'' [] [])
      (exec (project_Create ''g1'' ''site'' ''main'' ''u1'') (sample_world one_user_db)) = Inr p \<and>
    project_Name p = ''site'' \<and> project_Description p = []"
proof -
  let ?w = "exec (project_Create ''g1'' ''site'' ''main'' ''u1'') (sample_world one_user_db)"
  have "case result (project_Get ''g1'' ''r0'') ?w of Inl _ \<Rightarrow> False | Inr old \<Rightarrow> project_Name old = ''site''"
    by code_simp
  then have "\<exists>old. result (project_Get ''g1'' ''r0'') ?w = Inr old \<and> project_Name old = ''site''"
    by (auto split: sum.splits)
  moreover have "w_fault ?w = (\<lambda>_. None)"
    using project_Create_run [of "sample_world one_user_db" "''g1''" "''site''" "''main''" "''u1''", unfolded wlp_run]
    by (simp add: sample_world_def)
  ultimately show ?thesis
    using project_update_get [of ?w "''g1''" "''r0''" _ "[]" "[]"] by fastforce
qed

end
