(* ===== verification/AuditLog.thy ===== *)
theory AuditLog
  imports Projects "HOL-Library.Sublist" "HOL-Library.Multiset"
begin

text \<open>
  \<open>internal/domain/audit\<close>: recording events and listing them.
\<close>

record Metadata =
  meta_Before :: "json option"
  meta_After :: "json option"

record Event =
  ev_OrgID :: string
  ev_ActorID :: string
  ev_Action :: string
  ev_Entity :: string
  ev_EntityID :: string
  ev_Timestamp :: time
  ev_Metadata :: Metadata

definition no_metadata :: Metadata where
  "no_metadata = \<lparr>meta_Before = None, meta_After = None\<rparr>"

definition json_of_Metadata :: "Metadata \<Rightarrow> json" where
  "json_of_Metadata m = JObj (omit_nil ''before'' id (meta_Before m) @ omit_nil ''after'' id (meta_After m))"

text \<open>\<open>omitempty\<close> never omits a struct.\<close>

definition json_of_Event :: "Event \<Rightarrow> json" where
  "json_of_Event e = JObj [(''org_id'', JStr (ev_OrgID e)), (''actor_id'', JStr (ev_ActorID e)),
     (''action'', JStr (ev_Action e)), (''entity'', JStr (ev_Entity e)),
     (''entity_id'', JStr (ev_EntityID e)), (''timestamp'', JTime (ev_Timestamp e)),
     (''metadata'', json_of_Metadata (ev_Metadata e))]"

text \<open>A raw message takes the last member of its name, whatever its value.\<close>

fun raw_field :: "string \<Rightarrow> (string \<times> json) list \<Rightarrow> json option \<Rightarrow> json option" where
  "raw_field k [] cur = cur"
| "raw_field k ((k', v) # kvs) cur = raw_field k kvs (if EqualFold k' k then Some v else cur)"

definition Metadata_of_json :: "json \<Rightarrow> Metadata" where
  "Metadata_of_json v =
     (case members v of
        None \<Rightarrow> no_metadata
      | Some kvs \<Rightarrow> \<lparr>meta_Before = raw_field ''before'' kvs None, meta_After = raw_field ''after'' kvs None\<rparr>)"

lemma Metadata_round_trip: "Metadata_of_json (json_of_Metadata m) = m"
  by (cases m) (auto simp: Metadata_of_json_def json_of_Metadata_def members_def omit_nil_def
      EqualFold_def ToLower_def lower_char_def split: option.splits)

record ListParams =
  lp_OrgID :: string
  lp_ActorID :: "string option"
  lp_Action :: "string option"
  lp_Entity :: "string option"
  lp_Since :: "time option"
  lp_Until :: "time option"
  lp_Limit :: int
  lp_Offset :: int

text \<open>The time of the row is the service's clock, not the event's \<open>Timestamp\<close>.\<close>

definition audit_Record :: "Event \<Rightarrow> (goerror + unit) prog" where
  "audit_Record e = do {
     now \<leftarrow> time_Now;
     InsertAuditLog (ev_OrgID e) (ev_ActorID e) (ev_Action e) (ev_Entity e) (ev_EntityID e)
       (Some (json_of_Metadata (ev_Metadata e))) now
   }"

definition clamp_limit :: "int \<Rightarrow> int" where
  "clamp_limit n = (if n \<le> 0 \<or> n > 100 then 20 else n)"

definition clamp_offset :: "int \<Rightarrow> int" where
  "clamp_offset n = (if n < 0 then 0 else n)"

definition event_of_row :: "repo_AuditLog \<Rightarrow> Event" where
  "event_of_row r = \<lparr>ev_OrgID = audit_logs_org_id r, ev_ActorID = audit_logs_actor_id r,
     ev_Action = audit_logs_action r, ev_Entity = audit_logs_entity r,
     ev_EntityID = audit_logs_entity_id r, ev_Timestamp = audit_logs_created_at r,
     ev_Metadata = (case audit_logs_metadata r of None \<Rightarrow> no_metadata | Some v \<Rightarrow> Metadata_of_json v)\<rparr>"

definition audit_query :: "ListParams \<Rightarrow> ListAuditLogsParams" where
  "audit_query p = \<lparr>la_OrgID = lp_OrgID p, la_FilterActorID = lp_ActorID p,
     la_FilterAction = lp_Action p, la_FilterEntity = lp_Entity p, la_FilterSince = lp_Since p,
     la_FilterUntil = lp_Until p, la_QueryOffset = int32 (clamp_offset (lp_Offset p)),
     la_QueryLimit = int32 (clamp_limit (lp_Limit p))\<rparr>"

definition audit_List :: "ListParams \<Rightarrow> (goerror + Event list) prog" where
  "audit_List p = do {
     r \<leftarrow> ListAuditLogs (audit_query p);
     case r of Inl e \<Rightarrow> ret (Inl e) | Inr rows \<Rightarrow> ret (Inr (map event_of_row rows))
   }"

context request_frame
begin

lemma rel_audit:
  "state_io_rel (tables_rel R) (audit_Record e)"
  "state_io_rel (tables_rel R) (audit_List p)"
  unfolding audit_Record_def audit_List_def
  by (intro rel_intros rel_queries)+

end


section \<open>The log only grows\<close>

definition log_grows :: "db \<Rightarrow> db \<Rightarrow> bool" where
  "log_grows d d' \<longleftrightarrow> prefix (audit_logs d) (audit_logs d')"

interpretation audit: schema_frame log_grows
  by (unfold_locales; auto simp: log_grows_def stmt_rel_def stmt_defs Let_def
      split: if_splits option.splits)


section \<open>Listing\<close>

lemma wlp_query_or_fail:
  "wlp (sql (query_or_fail f)) Q w =
     (case w_fault w (w_tick w) of
        None \<Rightarrow> Q (f (w_db w)) (next_tick w)
      | Some (NotRun e) \<Rightarrow> Q (Inl (DriverError e)) (next_tick w)
      | Some (ReplyLost e) \<Rightarrow> Q (Inl (DriverError e)) (next_tick w))"
  by (simp add: wlp_sql stmt_result_def query_or_fail_def next_tick_def
      split: option.splits fault.splits sum.splits)

text \<open>The events of a list request, newest first, before they are cut to a page.\<close>

definition matching_events :: "ListParams \<Rightarrow> db \<Rightarrow> Event list" where
  "matching_events p d =
     map (event_of_row \<circ> audit_cols)
       (sort_key (\<lambda>r. - audit_logs_created_at r) (filter (audit_matches (audit_query p)) (audit_logs d)))"

lemma clamp_limit_range: "1 \<le> clamp_limit n" "clamp_limit n \<le> 100"
  by (auto simp: clamp_limit_def)

lemma int32_clamp_limit [simp]: "int32 (clamp_limit n) = clamp_limit n"
  using clamp_limit_range [of n] by (intro int32_id) simp_all

lemma audit_List_run:
  "wlp (audit_List p) Q w =
     (case w_fault w (w_tick w) of
        Some (NotRun e) \<Rightarrow> Q (Inl (DriverError e)) (next_tick w)
      | Some (ReplyLost e) \<Rightarrow> Q (Inl (DriverError e)) (next_tick w)
      | None \<Rightarrow>
          (let off = int32 (clamp_offset (lp_Offset p))
           in if off < 0 then Q (Inl (DriverError ''OFFSET must not be negative'')) (next_tick w)
              else Q (Inr (take (nat (clamp_limit (lp_Limit p))) (drop (nat off) (matching_events p (w_db w)))))
                     (next_tick w)))"
  using clamp_limit_range [of "lp_Limit p"]
  by (simp add: audit_List_def ListAuditLogs_def wp wlp_query_or_fail list_audit_logs_def limit_offset_def
      matching_events_def audit_query_def Let_def take_map drop_map
      split: option.splits fault.splits)

lemma audit_List_InrD:
  assumes "result (audit_List p) w = Inr es"
  shows "es = take (nat (clamp_limit (lp_Limit p)))
           (drop (nat (int32 (clamp_offset (lp_Offset p)))) (matching_events p (w_db w)))"
proof -
  have "wlp (audit_List p) (\<lambda>r _. r = Inr es) w"
    using assms by (simp add: wlp_result)
  then show ?thesis
    by (auto simp: audit_List_run Let_def split: option.splits fault.splits if_splits)
qed

lemma event_of_cols [simp]:
  "ev_OrgID (event_of_row (audit_cols r)) = audit_logs_org_id r"
  "ev_ActorID (event_of_row (audit_cols r)) = audit_logs_actor_id r"
  "ev_Action (event_of_row (audit_cols r)) = audit_logs_action r"
  "ev_Entity (event_of_row (audit_cols r)) = audit_logs_entity r"
  "ev_Timestamp (event_of_row (audit_cols r)) = audit_logs_created_at r"
  by (simp_all add: event_of_row_def audit_cols_def)

lemma matching_events_sorted: "sorted_wrt (\<lambda>a b. ev_Timestamp b \<le> ev_Timestamp a) (matching_events p d)"
proof -
  have "sorted (map (\<lambda>r. - audit_logs_created_at r) (sort_key (\<lambda>r. - audit_logs_created_at r) t))" for t
    by simp
  then show ?thesis
    unfolding matching_events_def sorted_map by (simp add: sorted_wrt_map)
qed

lemma matching_events_match:
  "e \<in> set (matching_events p d) \<Longrightarrow>
     ev_OrgID e = lp_OrgID p \<and> filter_null (\<lambda>v. ev_ActorID e = v) (lp_ActorID p) \<and>
     filter_null (\<lambda>v. ev_Action e = v) (lp_Action p) \<and> filter_null (\<lambda>v. ev_Entity e = v) (lp_Entity p) \<and>
     filter_null (\<lambda>v. pg_time v \<le> ev_Timestamp e) (lp_Since p) \<and>
     filter_null (\<lambda>v. ev_Timestamp e \<le> pg_time v) (lp_Until p)"
  by (auto simp: matching_events_def audit_matches_def audit_query_def)


section \<open>Properties\<close>


definition sample_params :: "string \<Rightarrow> ListParams" where
  "sample_params g = \<lparr>lp_OrgID = g, lp_ActorID = None, lp_Action = None, lp_Entity = None, lp_Since = None,
     lp_Until = None, lp_Limit = 500, lp_Offset = 0\<rparr>"

definition sample_event :: "string \<Rightarrow> Event" where
  "sample_event g = \<lparr>ev_OrgID = g, ev_ActorID = ''u1'', ev_Action = ''project.created'', ev_Entity = ''project'',
     ev_EntityID = ''p1'', ev_Timestamp = 0,
     ev_Metadata = \<lparr>meta_Before = None, meta_After = Some (JObj [(''id'', JStr ''p1'')])\<rparr>\<rparr>"


text \<open>Recording an event, when the database answers and the sequence is not used up, adds exactly that
event to the organization's unfiltered log, with the service's clock as its time and its metadata intact, and
adds nothing to any other organization's.\<close>

lemma audit_record_adds:
  assumes "w_fault w = (\<lambda>_. None)" "audit_logs_id_seq (w_db w) + 1 < 2 ^ 63"
    and "lp_ActorID p = None" "lp_Action p = None" "lp_Entity p = None" "lp_Since p = None" "lp_Until p = None"
  shows "result (audit_Record e) w = Inr () \<and>
    mset (matching_events p (w_db (exec (audit_Record e) w))) =
      (if lp_OrgID p = ev_OrgID e
       then add_mset (e\<lparr>ev_Timestamp := pg_time (w_clock w (w_tick w))\<rparr>) (mset (matching_events p (w_db w)))
       else mset (matching_events p (w_db w)))"
proof -
  have "wlp (audit_Record e) (\<lambda>r w'. r = Inr () \<and>
      mset (matching_events p (w_db w')) =
      (if lp_OrgID p = ev_OrgID e
       then add_mset (e\<lparr>ev_Timestamp := pg_time (w_clock w (w_tick w))\<rparr>) (mset (matching_events p (w_db w)))
       else mset (matching_events p (w_db w)))) w"
    using assms
    by (simp add: audit_Record_def InsertAuditLog_def wp wlp_sql_ok stmt_result_def insert_audit_log_def Let_def
        matching_events_def audit_matches_def audit_query_def filter_null_def event_of_row_def audit_cols_def
        Metadata_round_trip)
  then show ?thesis by (simp add: wlp_run)
qed

lemma audit_record_adds_witness:
  "mset (matching_events (sample_params ''g1'')
     (w_db (exec (audit_Record (sample_event ''g1'')) (sample_world one_user_db)))) =
   {#(sample_event ''g1'')\<lparr>ev_Timestamp := 0\<rparr>#}"
  using audit_record_adds [of "sample_world one_user_db" "sample_params ''g1''" "sample_event ''g1''"]
  by (simp add: sample_world_def one_user_db_def empty_db_def sample_params_def sample_event_def
      matching_events_def pg_time_def)

text \<open>An offset of at least 2 to the 31, and less than 2 to the 32, becomes negative in the 32 bits of
the query's parameter, and the listing fails in the database.\<close>

lemma audit_offset_wraps:
  assumes "w_fault w = (\<lambda>_. None)" "2 ^ 31 \<le> lp_Offset p" "lp_Offset p < 2 ^ 32"
  shows "result (audit_List p) w = Inl (DriverError ''OFFSET must not be negative'')"
proof -
  have "lp_Offset p div 2 ^ 31 = 1"
    using assms(2,3) by (intro int_div_pos_eq [of _ _ _ "lp_Offset p - 2 ^ 31"]) simp_all
  then have "bit (lp_Offset p) 31"
    by (simp add: bit_iff_odd)
  then have "int32 (clamp_offset (lp_Offset p)) < 0"
    using assms(2) by (simp add: int32_signed clamp_offset_def)
  then have "wlp (audit_List p) (\<lambda>r _. r = Inl (DriverError ''OFFSET must not be negative'')) w"
    using assms(1) by (simp add: audit_List_run Let_def)
  then show ?thesis by (simp add: wlp_result)
qed

lemma audit_offset_wraps_witness:
  "result (audit_List ((sample_params ''g1'')\<lparr>lp_Offset := 2 ^ 31\<rparr>)) (sample_world one_user_db) =
     Inl (DriverError ''OFFSET must not be negative'')"
  using audit_offset_wraps [of "sample_world one_user_db" "(sample_params ''g1'')\<lparr>lp_Offset := 2 ^ 31\<rparr>"]
  by (simp add: sample_world_def sample_params_def)

end
