(* ===== verification/Files.thy ===== *)
theory Files
  imports AuditLog
begin

text \<open>
  \<open>internal/domain/file/service_pg.go\<close>: the metadata of an organization's files.
\<close>

record File =
  file_ID :: string
  file_OrgID :: string
  file_UploadedBy :: string
  file_Bucket :: string
  file_ObjectKey :: string
  file_SizeBytes :: "int option"
  file_ContentType :: string
  file_CreatedAt :: time
  file_Metadata :: "json option"

text \<open>
  Only an object unmarshals into a \<open>map[string]any\<close>; \<open>null\<close> gives a nil map, which is
  not a nil interface and prints as \<open>null\<close>.
\<close>

definition file_metadata :: "json option \<Rightarrow> json option" where
  "file_metadata m =
     (case m of Some (JObj kvs) \<Rightarrow> Some (JObj kvs) | Some JNull \<Rightarrow> Some JNull | _ \<Rightarrow> None)"

definition repoToFile :: "repo_File \<Rightarrow> File" where
  "repoToFile r = \<lparr>file_ID = files_id r, file_OrgID = files_org_id r, file_UploadedBy = files_uploaded_by r,
     file_Bucket = files_bucket r, file_ObjectKey = files_object_key r, file_SizeBytes = files_size_bytes r,
     file_ContentType = null_string (files_content_type r), file_CreatedAt = files_created_at r,
     file_Metadata = file_metadata (files_metadata r)\<rparr>"

definition json_of_File :: "File \<Rightarrow> json" where
  "json_of_File f = JObj (
     [(''id'', JStr (file_ID f)), (''org_id'', JStr (file_OrgID f)),
      (''uploaded_by'', JStr (file_UploadedBy f)), (''bucket'', JStr (file_Bucket f)),
      (''object_key'', JStr (file_ObjectKey f))] @ omit_nil ''size_bytes'' JInt (file_SizeBytes f) @
     omit_empty_str ''content_type'' (file_ContentType f) @ [(''created_at'', JTime (file_CreatedAt f))] @
     omit_nil ''metadata'' id (file_Metadata f))"

definition file_List :: "string \<Rightarrow> int \<Rightarrow> int \<Rightarrow> (goerror + File list) prog" where
  "file_List orgID lmt off = do {
     r \<leftarrow> repo_ListFiles orgID (int32 (clamp_limit lmt)) (int32 (clamp_offset off));
     case r of Inl e \<Rightarrow> ret (Inl e) | Inr rows \<Rightarrow> ret (Inr (map repoToFile rows))
   }"

definition file_Create ::
  "string \<Rightarrow> string \<Rightarrow> string \<Rightarrow> string \<Rightarrow> int option \<Rightarrow> string \<Rightarrow> json option \<Rightarrow> (goerror + File) prog" where
  "file_Create orgID userID bucket key sizeBytes contentType metadata = do {
     i \<leftarrow> uuid_NewString;
     now \<leftarrow> time_Now;
     r \<leftarrow> InsertFile \<lparr>files_id = i, files_org_id = orgID, files_uploaded_by = userID,
            files_bucket = bucket, files_object_key = key, files_size_bytes = sizeBytes,
            files_content_type = to_null contentType, files_created_at = now, files_metadata = metadata\<rparr>;
     case r of Inl e \<Rightarrow> ret (Inl e) | Inr row \<Rightarrow> ret (Inr (repoToFile row))
   }"

definition file_Get :: "string \<Rightarrow> string \<Rightarrow> (goerror + File) prog" where
  "file_Get orgID i = do {
     r \<leftarrow> repo_GetFile i orgID;
     case r of
       Inl e \<Rightarrow> ret (Inl (if is_no_rows e then ErrNotFound ''file'' else e))
     | Inr row \<Rightarrow> ret (Inr (repoToFile row))
   }"

definition file_Delete :: "string \<Rightarrow> string \<Rightarrow> (goerror + unit) prog" where
  "file_Delete orgID i = do {
     r \<leftarrow> repo_DeleteFile i orgID;
     case r of
       Inl e \<Rightarrow> ret (Inl e)
     | Inr n \<Rightarrow> ret (if n = 0 then Inl (ErrNotFound ''file'') else Inr ())
   }"

context request_frame
begin

lemma rel_files:
  "state_io_rel (tables_rel R) (file_List g n k)"
  "state_io_rel (tables_rel R) (file_Create g u b key sz ct md)"
  "state_io_rel (tables_rel R) (file_Get g i)"
  "state_io_rel (tables_rel R) (file_Delete g i)"
  unfolding file_List_def file_Create_def file_Get_def file_Delete_def
  by (intro rel_intros rel_queries)+

end

section \<open>Each organization has its own files\<close>

definition same_files :: "string \<Rightarrow> db \<Rightarrow> db \<Rightarrow> bool" where
  "same_files g d d' \<longleftrightarrow> files.view (files d') g = files.view (files d) g"

interpretation same_files: tables_frame "same_files g" for g
  by unfold_locales (simp_all add: same_files_def)

lemma file_writes_elsewhere:
  assumes "h \<noteq> g"
  shows "files_org_id f = g \<Longrightarrow> stmt_rel (same_files h) (insert_file f)"
    and "stmt_rel (same_files h) (delete_file i g)"
  using assms
  by (auto simp: stmt_rel_def same_files_def insert_file_def delete_file_def file_stored_def
      files.view_insert files.view_delete split: if_splits)

lemma file_ops_elsewhere:
  assumes "h \<noteq> g"
  shows "state_io_rel (tables_rel (same_files h)) (file_Create g u b key sz ct md)"
    and "state_io_rel (tables_rel (same_files h)) (file_Get g i)"
    and "state_io_rel (tables_rel (same_files h)) (file_Delete g i)"
  unfolding file_Create_def file_Get_def file_Delete_def InsertFile_def repo_GetFile_def
    repo_DeleteFile_def
  by (intro same_files.rel_intros file_writes_elsewhere [OF assms]; simp)+

end
