(* ===== verification/ApiKeys.thy ===== *)
theory ApiKeys
  imports Files
begin

text \<open>
  \<open>internal/domain/apikey/service.go\<close>: creating, listing, revoking and validating API keys.
\<close>

record APIKey =
  apikey_ID :: string
  apikey_OrgID :: string
  apikey_Name :: string
  apikey_KeyPrefix :: string
  apikey_CreatedBy :: string
  apikey_CreatedAt :: time
  apikey_ExpiresAt :: "time option"
  apikey_LastUsedAt :: "time option"

definition generateKey :: "(goerror + string) prog" where
  "generateKey = do {
     r \<leftarrow> rand_Read;
     case r of Inl e \<Rightarrow> ret (Inl e) | Inr b \<Rightarrow> ret (Inr (''sk_'' @ b))
   }"

definition hashKey :: "lib \<Rightarrow> string \<Rightarrow> string" where
  "hashKey L key = sha256_hex L key"

text \<open>The row that is returned on creation has no last use yet.\<close>

definition key_of_row :: "repo_ApiKey \<Rightarrow> APIKey" where
  "key_of_row r = \<lparr>apikey_ID = api_keys_id r, apikey_OrgID = api_keys_org_id r,
     apikey_Name = api_keys_name r, apikey_KeyPrefix = api_keys_key_prefix r,
     apikey_CreatedBy = api_keys_created_by r, apikey_CreatedAt = api_keys_created_at r,
     apikey_ExpiresAt = api_keys_expires_at r, apikey_LastUsedAt = api_keys_last_used_at r\<rparr>"

definition apikey_fields :: "APIKey \<Rightarrow> (string \<times> json) list" where
  "apikey_fields k =
     [(''id'', JStr (apikey_ID k)), (''org_id'', JStr (apikey_OrgID k)), (''name'', JStr (apikey_Name k)),
      (''key_prefix'', JStr (apikey_KeyPrefix k)), (''created_by'', JStr (apikey_CreatedBy k)),
      (''created_at'', JTime (apikey_CreatedAt k))] @ omit_nil ''expires_at'' JTime (apikey_ExpiresAt k) @
     omit_nil ''last_used_at'' JTime (apikey_LastUsedAt k)"

text \<open>
  \<open>Create\<close> returns the key and its plaintext. \<open>plaintext[:12]\<close> panics on a shorter
  string; the 32 random bytes are 64 hexadecimal digits.
\<close>

definition apikey_Create ::
  "lib \<Rightarrow> string \<Rightarrow> string \<Rightarrow> string \<Rightarrow> time option \<Rightarrow> (goerror + APIKey \<times> string) prog" where
  "apikey_Create L orgID userID name expiresAt = do {
     k \<leftarrow> generateKey;
     case k of
       Inl e \<Rightarrow> ret (Inl (Wrapf ''generate key'' e))
     | Inr plaintext \<Rightarrow> do {
         r \<leftarrow> CreateAPIKey orgID name (take 12 plaintext) (hashKey L plaintext) userID expiresAt;
         case r of
           Inl e \<Rightarrow> ret (Inl (Wrapf ''insert api key'' e))
         | Inr row \<Rightarrow> ret (Inr (key_of_row row, plaintext))
       }
   }"

definition apikey_List :: "string \<Rightarrow> (goerror + APIKey list) prog" where
  "apikey_List orgID = do {
     r \<leftarrow> ListAPIKeysByOrg orgID;
     case r of Inl e \<Rightarrow> ret (Inl e) | Inr rows \<Rightarrow> ret (Inr (map key_of_row rows))
   }"

definition apikey_Revoke :: "string \<Rightarrow> string \<Rightarrow> (goerror + unit) prog" where
  "apikey_Revoke orgID keyID = RevokeAPIKey keyID orgID"

text \<open>
  \<open>Validate\<close> returns the key's identifier and organization, or nil. The update of the last
  use, which a goroutine makes, is taken to run at once; it may fail.
\<close>

definition apikey_Validate :: "lib \<Rightarrow> string \<Rightarrow> (goerror + (string \<times> string) option) prog" where
  "apikey_Validate L key = do {
     r \<leftarrow> GetAPIKeyByHash (hashKey L key);
     case r of
       Inl e \<Rightarrow> ret (if is_no_rows e then Inr None else Inl e)
     | Inr row \<Rightarrow> do {
         expired \<leftarrow> (case api_keys_expires_at row of
                       None \<Rightarrow> ret False
                     | Some t \<Rightarrow> do { now \<leftarrow> time_Now; ret (t < now) });
         if expired then ret (Inr None)
         else do {
           _ \<leftarrow> TouchAPIKeyLastUsed (api_keys_id row);
           ret (Inr (Some (api_keys_id row, api_keys_org_id row)))
         }
       }
   }"

context request_frame
begin

lemma rel_apikeys:
  "state_io_rel (tables_rel R) (apikey_Create L g u name x)"
  "state_io_rel (tables_rel R) (apikey_List g)"
  "state_io_rel (tables_rel R) (apikey_Revoke g i)"
  "state_io_rel (tables_rel R) (apikey_Validate L key)"
  unfolding apikey_Create_def apikey_List_def apikey_Revoke_def apikey_Validate_def generateKey_def
  by (intro rel_intros rel_queries)+

end


section \<open>What Validate accepts\<close>

lemma apikey_Validate_result:
  "result (apikey_Validate L key) w =
     (case w_fault w (w_tick w) of
        Some (NotRun e) \<Rightarrow> Inl (DriverError e)
      | Some (ReplyLost e) \<Rightarrow> Inl (DriverError e)
      | None \<Rightarrow>
          (case key_by_hash (w_db w) (hashKey L key) of
             None \<Rightarrow> Inr None
           | Some row \<Rightarrow>
               if (case api_keys_expires_at row of
                     None \<Rightarrow> False | Some t \<Rightarrow> t < w_clock w (Suc (w_tick w)))
               then Inr None
               else Inr (Some (api_keys_id row, api_keys_org_id row))))"
  unfolding wlp_result [of _ "\<lambda>a. a = _", symmetric] apikey_Validate_def GetAPIKeyByHash_def
  by (simp add: wp wlp_query_row split: option.splits fault.splits)

lemma select_one_new_hash:
  assumes "h \<notin> api_keys_key_hash ` set t" "api_keys_key_hash r = h" "api_keys_revoked_at r = None"
  shows "select_one (\<lambda>r. api_keys_key_hash r = h \<and> api_keys_revoked_at r = None) (t @ [r]) = Some r"
proof -
  have "select_one (\<lambda>r. api_keys_key_hash r = h \<and> api_keys_revoked_at r = None) t = None"
    using assms(1) by (auto simp: select_one_None)
  with assms show ?thesis by (simp add: select_one_append select_one_single)
qed

lemma apikey_Revoke_exec:
  assumes "w_fault w = (\<lambda>_. None)"
  shows "w_fault (exec (apikey_Revoke g i) w) = (\<lambda>_. None) \<and>
    api_keys (w_db (exec (apikey_Revoke g i) w)) =
      update_where (\<lambda>r. api_keys_id r = i \<and> api_keys_org_id r = g \<and> api_keys_revoked_at r = None)
        (\<lambda>r. r\<lparr>api_keys_revoked_at := Some (pg_time (w_clock w (w_tick w)))\<rparr>) (api_keys (w_db w))"
proof -
  have "wlp (apikey_Revoke g i) (\<lambda>_ w'. w_fault w' = (\<lambda>_. None) \<and> api_keys (w_db w') =
      update_where (\<lambda>r. api_keys_id r = i \<and> api_keys_org_id r = g \<and> api_keys_revoked_at r = None)
        (\<lambda>r. r\<lparr>api_keys_revoked_at := Some (pg_time (w_clock w (w_tick w)))\<rparr>) (api_keys (w_db w))) w"
    using assms by (simp add: apikey_Revoke_def RevokeAPIKey_def wlp_sql_ok stmt_result_def revoke_api_key_def)
  then show ?thesis by (simp add: wlp_run)
qed


section \<open>Properties\<close>

text \<open>C29: An API key that was created, when the database answers, starts with \<open>sk_\<close>, is listed with
its first twelve characters, and validates, as a key of its organization, until it expires.\<close>

theorem apikey_create_validate:
  assumes "w_fault w = (\<lambda>_. None)" "result (apikey_Create L g u name x) w = Inr (k, plain)"
    and "\<forall>t. x = Some t \<longrightarrow> w_clock w (w_tick w + 3) \<le> pg_time t"
  shows "HasPrefix plain ''sk_'' \<and> apikey_KeyPrefix k = take 12 plain \<and> apikey_OrgID k = g \<and>
         result (apikey_Validate L plain) (exec (apikey_Create L g u name x) w) = Inr (Some (apikey_ID k, g))"
proof -
  have "wlp (apikey_Create L g u name x) (\<lambda>r w'. r = Inr (k, plain) \<longrightarrow>
      HasPrefix plain ''sk_'' \<and> apikey_KeyPrefix k = take 12 plain \<and> apikey_OrgID k = g \<and>
      result (apikey_Validate L plain) w' = Inr (Some (apikey_ID k, g))) w"
    using assms(1,3)
    by (auto simp: apikey_Create_def generateKey_def CreateAPIKey_def wp wlp_sql_ok stmt_result_def
        create_api_key_def Let_def apikey_Validate_result key_by_hash_def select_one_new_hash key_of_row_def
        HasPrefix_def numeral_3_eq_3 split: option.splits)
  with assms(2) show ?thesis by (simp add: wlp_run)
qed

theorem apikey_create_validate_witness:
  "result (apikey_Validate sample_lib ''sk_r0'')
     (exec (apikey_Create sample_lib ''g1'' ''u1'' ''ci'' None) (sample_world (with_org ''g1'' ''acme'' ''u1'' 0 one_user_db))) =
   Inr (Some (''r1'', ''g1''))"
proof -
  let ?w = "sample_world (with_org ''g1'' ''acme'' ''u1'' 0 one_user_db)"
  have "case result (apikey_Create sample_lib ''g1'' ''u1'' ''ci'' None) ?w of
      Inl _ \<Rightarrow> False | Inr (k, plain) \<Rightarrow> apikey_ID k = ''r1'' \<and> plain = ''sk_r0''"
    by code_simp
  then obtain k where "result (apikey_Create sample_lib ''g1'' ''u1'' ''ci'' None) ?w = Inr (k, ''sk_r0'')"
    "apikey_ID k = ''r1''"
    by (auto split: sum.splits prod.splits)
  with apikey_create_validate [of ?w sample_lib "''g1''" "''u1''" "''ci''" None k "''sk_r0''"] show ?thesis
    by (simp add: sample_world_def)
qed

text \<open>Revoking a key through its own organization makes it invalid; revoking it through another
organization leaves it as it was.\<close>

lemma apikey_revoke_scoped:
  assumes "w_fault w = (\<lambda>_. None)" "db_ok (w_db w)"
    and "key_by_hash (w_db w) (hashKey L key) = Some row" "h \<noteq> api_keys_org_id row"
  shows "result (apikey_Validate L key) (exec (apikey_Revoke (api_keys_org_id row) (api_keys_id row)) w) = Inr None \<and>
         key_by_hash (w_db (exec (apikey_Revoke h (api_keys_id row)) w)) (hashKey L key) = Some row"
proof
  let ?t = "api_keys (w_db w)"
  from assms(3) have row: "row \<in> set ?t" "api_keys_key_hash row = hashKey L key" "api_keys_revoked_at row = None"
    by (auto simp: key_by_hash_def dest: select_one_SomeD)
  from assms(2) have keys: "distinct (map api_keys_id ?t)" "distinct (map api_keys_key_hash ?t)"
    by (simp_all add: db_ok_def keys_ok_def)
  have only: "r = row" if "r \<in> set ?t" "api_keys_key_hash r = hashKey L key" for r
    using distinct_key_eq [OF keys(2) that(1) row(1)] that(2) row(2) by simp
  have "key_by_hash (w_db (exec (apikey_Revoke (api_keys_org_id row) (api_keys_id row)) w)) (hashKey L key) = None"
    using only apikey_Revoke_exec [OF assms(1), of "api_keys_org_id row" "api_keys_id row"]
    by (auto simp: key_by_hash_def select_one_None set_update_where split: if_splits)
  then show "result (apikey_Validate L key) (exec (apikey_Revoke (api_keys_org_id row) (api_keys_id row)) w) = Inr None"
    using apikey_Revoke_exec [OF assms(1)] by (simp add: apikey_Validate_result)
  have "r = row" if "r \<in> set ?t" "api_keys_id r = api_keys_id row" for r
    using distinct_key_eq [OF keys(1) that(1) row(1)] that(2) by simp
  then have "api_keys (w_db (exec (apikey_Revoke h (api_keys_id row)) w)) = ?t"
    using apikey_Revoke_exec [OF assms(1), of h "api_keys_id row"] assms(4)
    by (auto intro!: update_where_none)
  with assms(3) show "key_by_hash (w_db (exec (apikey_Revoke h (api_keys_id row)) w)) (hashKey L key) = Some row"
    by (simp add: key_by_hash_def)
qed

definition sample_key :: repo_ApiKey where
  "sample_key = \<lparr>api_keys_id = ''k1'', api_keys_org_id = ''g1'', api_keys_name = ''ci'', api_keys_key_prefix = ''sk_a'',
     api_keys_key_hash = ''h:sk_a'', api_keys_created_by = ''u1'', api_keys_created_at = 0,
     api_keys_expires_at = None, api_keys_last_used_at = None, api_keys_revoked_at = None\<rparr>"

definition one_key_db :: db where
  "one_key_db = (with_org ''g1'' ''acme'' ''u1'' 0 one_user_db)\<lparr>api_keys := [sample_key]\<rparr>"

lemma one_key_db_ok: "db_ok one_key_db"
  by (simp add: db_ok_def one_key_db_def sample_key_def with_org_def one_user_db_def empty_db_def table_oks
      stripe_unique_def uids_def oids_def)

lemma apikey_revoke_scoped_witness:
  "result (apikey_Validate sample_lib ''sk_a'') (exec (apikey_Revoke ''g1'' ''k1'') (sample_world one_key_db)) = Inr None"
  using apikey_revoke_scoped [of "sample_world one_key_db" sample_lib "''sk_a''" sample_key "''g2''"] one_key_db_ok
  by (simp add: sample_world_def key_by_hash_def one_key_db_def sample_key_def sample_lib_def hashKey_def
      select_one_single)

end
