(* ===== verification/Billing.thy ===== *)
theory Billing
  imports ApiKeys
begin

text \<open>
  \<open>internal/domain/billing\<close>: the plans (\<open>plans.go\<close>) and the subscription of an
  organization (\<open>service.go\<close>).
\<close>

record PlanLimits =
  MaxProjects :: int
  MaxMembers :: int
  MaxStorageMB :: int

definition Plans :: "string \<Rightarrow> PlanLimits option" where
  "Plans = [''free'' \<mapsto> \<lparr>MaxProjects = 3, MaxMembers = 5, MaxStorageMB = 100\<rparr>,
            ''pro'' \<mapsto> \<lparr>MaxProjects = 50, MaxMembers = 50, MaxStorageMB = 10240\<rparr>,
            ''enterprise'' \<mapsto> \<lparr>MaxProjects = -1, MaxMembers = -1, MaxStorageMB = -1\<rparr>]"

definition GetLimits :: "string \<Rightarrow> PlanLimits" where
  "GetLimits plan =
     (case Plans plan of
        Some l \<Rightarrow> l
      | None \<Rightarrow>
          (case Plans ''free'' of
             Some l \<Rightarrow> l
           | None \<Rightarrow> \<lparr>MaxProjects = 0, MaxMembers = 0, MaxStorageMB = 0\<rparr>))"

definition json_of_limits :: "PlanLimits \<Rightarrow> json" where
  "json_of_limits l = JObj [(''max_projects'', JInt (MaxProjects l)),
     (''max_members'', JInt (MaxMembers l)), (''max_storage_mb'', JInt (MaxStorageMB l))]"

record Subscription =
  sub_ID :: string
  sub_OrgID :: string
  sub_Status :: string
  sub_Plan :: string
  sub_CurrentPeriodEnd :: "time option"
  sub_StripeSubscriptionID :: string

definition json_of_Subscription :: "Subscription \<Rightarrow> json" where
  "json_of_Subscription s = JObj (
     [(''id'', JStr (sub_ID s)), (''org_id'', JStr (sub_OrgID s)), (''status'', JStr (sub_Status s)),
      (''plan'', JStr (sub_Plan s))] @ omit_nil ''current_period_end'' JTime (sub_CurrentPeriodEnd s) @
     omit_empty_str ''stripe_subscription_id'' (sub_StripeSubscriptionID s))"

definition checkout_for ::
  "string \<Rightarrow> string \<Rightarrow> string \<Rightarrow> string \<Rightarrow> string \<Rightarrow> (goerror + string) prog" where
  "checkout_for customerID orgID successURL cancelURL priceID = do {
     r \<leftarrow> call_out (StripeCheckout customerID ''subscription'' successURL cancelURL orgID priceID);
     case r of Inl e \<Rightarrow> ret (Inl (Wrapf ''stripe checkout'' e)) | Inr url \<Rightarrow> ret (Inr url)
   }"

definition billing_CreateCheckoutSession ::
  "string \<Rightarrow> string \<Rightarrow> string \<Rightarrow> string \<Rightarrow> string \<Rightarrow> (goerror + string) prog" where
  "billing_CreateCheckoutSession orgID orgName successURL cancelURL priceID = do {
     r \<leftarrow> GetSubscriptionByOrg orgID;
     case r of
       Inr sub \<Rightarrow> checkout_for (subscriptions_stripe_customer_id sub) orgID successURL cancelURL priceID
     | Inl e \<Rightarrow>
         if is_no_rows e then do {
           c \<leftarrow> call_out (StripeCustomer orgName orgID);
           case c of
             Inl e \<Rightarrow> ret (Inl (Wrapf ''stripe customer'' e))
           | Inr customerID \<Rightarrow> do {
               _ \<leftarrow> UpsertSubscription orgID customerID None ''incomplete'' ''free'' None;
               checkout_for customerID orgID successURL cancelURL priceID
             }
         }
         else ret (Inl e)
   }"

definition sub_of_row :: "repo_Subscription \<Rightarrow> Subscription" where
  "sub_of_row r = \<lparr>sub_ID = subscriptions_id r, sub_OrgID = subscriptions_org_id r,
     sub_Status = subscriptions_status r, sub_Plan = subscriptions_plan r,
     sub_CurrentPeriodEnd = subscriptions_current_period_end r,
     sub_StripeSubscriptionID = null_string (subscriptions_stripe_subscription_id r)\<rparr>"

definition no_subscription :: "string \<Rightarrow> Subscription" where
  "no_subscription orgID = \<lparr>sub_ID = [], sub_OrgID = orgID, sub_Status = ''none'', sub_Plan = ''free'',
     sub_CurrentPeriodEnd = None, sub_StripeSubscriptionID = []\<rparr>"

definition billing_GetSubscription :: "string \<Rightarrow> (goerror + Subscription) prog" where
  "billing_GetSubscription orgID = do {
     r \<leftarrow> GetSubscriptionByOrg orgID;
     case r of
       Inl e \<Rightarrow> ret (if is_no_rows e then Inr (no_subscription orgID) else Inl e)
     | Inr row \<Rightarrow> ret (Inr (sub_of_row row))
   }"

text \<open>A zero time is \<open>NULL\<close>.\<close>

definition null_time :: "time \<Rightarrow> time option" where
  "null_time t = (if t = zero_time then None else Some t)"

definition billing_HandleCheckoutCompleted ::
  "string \<Rightarrow> string \<Rightarrow> string \<Rightarrow> string \<Rightarrow> time \<Rightarrow> string \<Rightarrow> (goerror + unit) prog" where
  "billing_HandleCheckoutCompleted stripeCustomerID stripeSubID status plan periodEnd orgID =
     UpsertSubscription orgID stripeCustomerID (to_null stripeSubID) status plan (null_time periodEnd)"

definition billing_HandleSubscriptionUpdated ::
  "string \<Rightarrow> string \<Rightarrow> string \<Rightarrow> time \<Rightarrow> (goerror + unit) prog" where
  "billing_HandleSubscriptionUpdated stripeSubID status plan periodEnd =
     UpdateSubscriptionStatus (Some stripeSubID) status plan (null_time periodEnd)"

definition billing_HandleSubscriptionDeleted :: "string \<Rightarrow> (goerror + unit) prog" where
  "billing_HandleSubscriptionDeleted stripeSubID = CancelSubscription (Some stripeSubID)"

context request_frame
begin

lemma rel_billing:
  "state_io_rel (tables_rel R) (billing_CreateCheckoutSession g name su ca pr)"
  "state_io_rel (tables_rel R) (billing_GetSubscription g)"
  "state_io_rel (tables_rel R) (billing_HandleCheckoutCompleted c sid st pl t g)"
  "state_io_rel (tables_rel R) (billing_HandleSubscriptionUpdated sid st pl t)"
  "state_io_rel (tables_rel R) (billing_HandleSubscriptionDeleted sid)"
  unfolding billing_CreateCheckoutSession_def checkout_for_def billing_GetSubscription_def
    billing_HandleCheckoutCompleted_def billing_HandleSubscriptionUpdated_def
    billing_HandleSubscriptionDeleted_def
  by (intro rel_intros rel_queries rel_call_out)+

end

lemma billing_GetSubscription_run:
  "wlp (billing_GetSubscription g) Q w =
     (case w_fault w (w_tick w) of
        Some (NotRun e) \<Rightarrow> Q (Inl (DriverError e)) (next_tick w)
      | Some (ReplyLost e) \<Rightarrow> Q (Inl (DriverError e)) (next_tick w)
      | None \<Rightarrow>
          Q (Inr (case subscription_of (w_db w) g of
                    None \<Rightarrow> no_subscription g | Some r \<Rightarrow> sub_of_row r)) (next_tick w))"
  by (simp add: billing_GetSubscription_def GetSubscriptionByOrg_def wp wlp_query_row
      split: option.splits fault.splits)

lemma upsert_subscription_of:
  assumes "upsert_subscription g cust sid st pl t now i d = Inr ((), d')"
  shows "\<exists>row. subscription_of d' g = Some row \<and> subscriptions_status row = st \<and>
           subscriptions_plan row = pl \<and> subscriptions_org_id row = g \<and>
           subscriptions_stripe_subscription_id row = sid \<and>
           subscriptions_current_period_end row = map_option pg_time t"
proof (cases "subscription_of d g")
  case None
  then show ?thesis
    using assms
    by (auto simp: upsert_subscription_def subscription_of_def select_one_append select_one_single split: if_splits)
next
  case (Some r)
  then have "subscriptions_org_id r = g"
    by (auto simp: subscription_of_def dest: select_one_SomeD)
  with Some assms show ?thesis
    by (auto simp: upsert_subscription_def subscription_of_def select_one_update split: if_splits)
qed

section \<open>Properties\<close>

text \<open>After a completed checkout, when the database answers and accepts the subscription, the
organization's subscription is read back with the Stripe identifier, status and plan of the checkout; a zero
period end is read back as none and any other one to the microsecond.\<close>

lemma checkout_then_subscription:
  assumes "w_fault w = (\<lambda>_. None)"
    and "result (billing_HandleCheckoutCompleted cust sid st pl t g) w = Inr ()"
  shows "\<exists>s. result (billing_GetSubscription g)
               (exec (billing_HandleCheckoutCompleted cust sid st pl t g) w) = Inr s \<and>
             sub_Status s = st \<and> sub_Plan s = pl \<and> sub_OrgID s = g \<and> sub_StripeSubscriptionID s = sid \<and>
             sub_CurrentPeriodEnd s = (if t = zero_time then None else Some (pg_time t))"
proof -
  let ?m = "billing_HandleCheckoutCompleted cust sid st pl t g"
  have "wlp ?m (\<lambda>r w'. r = Inr () \<longrightarrow> w_fault w' = (\<lambda>_. None) \<and>
      (\<exists>row. subscription_of (w_db w') g = Some row \<and> subscriptions_status row = st \<and>
         subscriptions_plan row = pl \<and> subscriptions_org_id row = g \<and>
         subscriptions_stripe_subscription_id row = to_null sid \<and>
         subscriptions_current_period_end row = map_option pg_time (null_time t))) w"
    using assms(1) upsert_subscription_of
    by (auto simp: billing_HandleCheckoutCompleted_def UpsertSubscription_def wlp_sql_ok stmt_result_def
        split: sum.splits)
  then obtain row where ok: "w_fault (exec ?m w) = (\<lambda>_. None)"
    and row: "subscription_of (w_db (exec ?m w)) g = Some row" "subscriptions_status row = st"
      "subscriptions_plan row = pl" "subscriptions_org_id row = g"
      "subscriptions_stripe_subscription_id row = to_null sid"
      "subscriptions_current_period_end row = map_option pg_time (null_time t)"
    using assms(2) by (auto simp: wlp_run)
  have "wlp (billing_GetSubscription g) (\<lambda>r _. r = Inr (sub_of_row row)) (exec ?m w)"
    by (simp add: billing_GetSubscription_run ok row)
  then show ?thesis
    by (simp add: wlp_result sub_of_row_def row null_time_def)
qed

lemma checkout_then_subscription_witness:
  "\<exists>s. result (billing_GetSubscription ''g1'')
     (exec (billing_HandleCheckoutCompleted ''cus'' ''sub'' ''active'' ''pro'' zero_time ''g1'') (sample_world one_key_db)) = Inr s \<and>
     sub_Plan s = ''pro''"
proof -
  have "result (billing_HandleCheckoutCompleted ''cus'' ''sub'' ''active'' ''pro'' zero_time ''g1'')
      (sample_world one_key_db) = Inr ()"
    by code_simp
  with checkout_then_subscription [of "sample_world one_key_db" "''cus''" "''sub''" "''active''" "''pro''"
      zero_time "''g1''"] show ?thesis
    by (auto simp: sample_world_def)
qed

text \<open>When Stripe deletes a subscription, its row is marked canceled but keeps its plan, so the
organization still reads the limits of that plan.\<close>

lemma canceled_keeps_plan:
  assumes "w_fault w = (\<lambda>_. None)" "subscription_of (w_db w) g = Some row"
    and "subscriptions_stripe_subscription_id row = Some sid"
  shows "\<exists>s. result (billing_GetSubscription g) (exec (billing_HandleSubscriptionDeleted sid) w) = Inr s \<and>
             sub_Status s = ''canceled'' \<and> sub_Plan s = subscriptions_plan row \<and>
             GetLimits (sub_Plan s) = GetLimits (subscriptions_plan row)"
proof -
  let ?m = "billing_HandleSubscriptionDeleted sid"
  have "wlp ?m (\<lambda>_ w'. w_fault w' = (\<lambda>_. None) \<and>
      (\<exists>row'. subscription_of (w_db w') g = Some row' \<and> subscriptions_status row' = ''canceled'' \<and>
         subscriptions_plan row' = subscriptions_plan row)) w"
    using assms
    by (simp add: billing_HandleSubscriptionDeleted_def CancelSubscription_def wlp_sql_ok stmt_result_def
        cancel_subscription_def subscription_of_def select_one_update has_stripe_id_def)
  then obtain row' where "w_fault (exec ?m w) = (\<lambda>_. None)" "subscription_of (w_db (exec ?m w)) g = Some row'"
    "subscriptions_status row' = ''canceled''" "subscriptions_plan row' = subscriptions_plan row"
    by (auto simp: wlp_run)
  then have "wlp (billing_GetSubscription g) (\<lambda>r _. \<exists>s. r = Inr s \<and> sub_Status s = ''canceled'' \<and>
      sub_Plan s = subscriptions_plan row) (exec ?m w)"
    by (simp add: billing_GetSubscription_run sub_of_row_def)
  then show ?thesis
    by (auto simp: wlp_result)
qed

definition sample_subscription :: repo_Subscription where
  "sample_subscription = \<lparr>subscriptions_id = ''s1'', subscriptions_org_id = ''g1'',
     subscriptions_stripe_customer_id = ''cus'', subscriptions_stripe_subscription_id = Some ''sub'',
     subscriptions_status = ''active'', subscriptions_plan = ''pro'', subscriptions_current_period_end = None,
     subscriptions_created_at = 0, subscriptions_updated_at = 0\<rparr>"

lemma canceled_keeps_plan_witness:
  "\<exists>s. result (billing_GetSubscription ''g1'') (exec (billing_HandleSubscriptionDeleted ''sub'')
      (sample_world (one_key_db\<lparr>subscriptions := [sample_subscription]\<rparr>))) = Inr s \<and>
     sub_Status s = ''canceled'' \<and> sub_Plan s = ''pro''"
  using canceled_keeps_plan [of "sample_world (one_key_db\<lparr>subscriptions := [sample_subscription]\<rparr>)" "''g1''"
      sample_subscription "''sub''"]
  by (auto simp: sample_world_def subscription_of_def select_one_single sample_subscription_def)

end
