(* ===== verification/Webhooks.thy ===== *)
theory Webhooks
  imports Billing
begin

text \<open>
  \<open>internal/domain/webhook\<close>: the endpoints of an organization (\<open>service.go\<close>) and the
  dispatcher of pending deliveries (\<open>dispatcher.go\<close>).
\<close>

record Endpoint =
  ep_ID :: string
  ep_OrgID :: string
  ep_URL :: string
  ep_Events :: "string list"
  ep_Active :: bool
  ep_CreatedAt :: time
  ep_UpdatedAt :: time

definition endpoint_of_row :: "repo_WebhookEndpoint \<Rightarrow> Endpoint" where
  "endpoint_of_row r = \<lparr>ep_ID = webhook_endpoints_id r, ep_OrgID = webhook_endpoints_org_id r,
     ep_URL = webhook_endpoints_url r, ep_Events = webhook_endpoints_events r,
     ep_Active = webhook_endpoints_active r, ep_CreatedAt = webhook_endpoints_created_at r,
     ep_UpdatedAt = webhook_endpoints_updated_at r\<rparr>"

definition json_of_Endpoint :: "Endpoint \<Rightarrow> json" where
  "json_of_Endpoint e = JObj [(''id'', JStr (ep_ID e)), (''org_id'', JStr (ep_OrgID e)),
     (''url'', JStr (ep_URL e)), (''events'', JList (map JStr (ep_Events e))),
     (''active'', JBool (ep_Active e)), (''created_at'', JTime (ep_CreatedAt e)),
     (''updated_at'', JTime (ep_UpdatedAt e))]"

definition generateSecret :: "(goerror + string) prog" where
  "generateSecret = do {
     r \<leftarrow> rand_Read;
     case r of Inl e \<Rightarrow> ret (Inl e) | Inr b \<Rightarrow> ret (Inr (''whsec_'' @ b))
   }"

definition sign :: "lib \<Rightarrow> string \<Rightarrow> string \<Rightarrow> string" where
  "sign L payload secret = hmac_sha256_hex L secret payload"

definition webhook_CreateEndpoint ::
  "string \<Rightarrow> string \<Rightarrow> string list option \<Rightarrow> (goerror + Endpoint) prog" where
  "webhook_CreateEndpoint orgID url events = do {
     s \<leftarrow> generateSecret;
     case s of
       Inl e \<Rightarrow> ret (Inl (Wrapf ''generate secret'' e))
     | Inr secret \<Rightarrow> do {
         r \<leftarrow> CreateWebhookEndpoint orgID url secret events;
         case r of Inl e \<Rightarrow> ret (Inl e) | Inr row \<Rightarrow> ret (Inr (endpoint_of_row row))
       }
   }"

definition webhook_ListEndpoints :: "string \<Rightarrow> (goerror + Endpoint list) prog" where
  "webhook_ListEndpoints orgID = do {
     r \<leftarrow> ListWebhookEndpoints orgID;
     case r of Inl e \<Rightarrow> ret (Inl e) | Inr rows \<Rightarrow> ret (Inr (map endpoint_of_row rows))
   }"

definition webhook_UpdateEndpoint ::
  "string \<Rightarrow> string \<Rightarrow> string \<Rightarrow> string list option \<Rightarrow> bool \<Rightarrow> (goerror + unit) prog" where
  "webhook_UpdateEndpoint orgID i url events active = UpdateWebhookEndpoint i orgID url events active"

definition webhook_Dispatch :: "lib \<Rightarrow> string \<Rightarrow> string \<Rightarrow> string \<Rightarrow> (goerror + unit) prog" where
  "webhook_Dispatch L orgID event payload = do {
     r \<leftarrow> GetActiveEndpointsForEvent L orgID [event];
     case r of
       Inl e \<Rightarrow> ret (Inl e)
     | Inr endpoints \<Rightarrow> do {
         for_each endpoints (\<lambda>ep. do {
           _ \<leftarrow> InsertDelivery L (webhook_endpoints_id ep) event payload;
           ret ()
         });
         ret (Inr ())
       }
   }"

definition delivery_call :: "lib \<Rightarrow> string \<Rightarrow> string \<Rightarrow> string \<Rightarrow> string \<Rightarrow> outcall" where
  "delivery_call L url secret event payload =
     HttpPost url [(''Content-Type'', ''application/json''), (''X-Webhook-Event'', event),
       (''X-Webhook-Signature'', ''sha256='' @ sign L payload secret)] payload"

definition deliver :: "lib \<Rightarrow> string \<Rightarrow> string \<Rightarrow> string \<Rightarrow> string \<Rightarrow> (goerror + unit) prog" where
  "deliver L url secret event payload =
     (case http_NewRequest L url of
        Some e \<Rightarrow> ret (Inl e)
      | None \<Rightarrow> do {
          r \<leftarrow> http_Do (delivery_call L url secret event payload);
          case r of
            Inl e \<Rightarrow> ret (Inl (Wrapf ''http'' e))
          | Inr code \<Rightarrow>
              ret (if 200 \<le> code \<and> code < 300 then Inr ()
                   else Inl (Errorf (''webhook returned '' @ Itoa code)))
        })"

definition test_payload :: "string \<Rightarrow> string" where
  "test_payload orgID = ''{'' @ [CHR 34] @ ''type'' @ [CHR 34] @ '':'' @ [CHR 34] @ ''webhook.test'' @ [CHR 34] @
     '','' @ [CHR 34] @ ''org_id'' @ [CHR 34] @ '':'' @ [CHR 34] @ orgID @ [CHR 34] @ ''}''"

definition webhook_TestEndpoint :: "lib \<Rightarrow> string \<Rightarrow> string \<Rightarrow> (goerror + unit) prog" where
  "webhook_TestEndpoint L orgID endpointID = do {
     r \<leftarrow> GetWebhookEndpoint endpointID orgID;
     case r of
       Inl e \<Rightarrow> ret (Inl e)
     | Inr ep \<Rightarrow>
         deliver L (webhook_endpoints_url ep) (webhook_endpoints_secret ep) ''webhook.test''
           (test_payload orgID)
   }"


section \<open>dispatcher.go\<close>

text \<open>\<open>time.Duration(1<<uint(n)) * time.Minute\<close>: a shift by 64 or more gives 0.\<close>

definition backoff :: "int \<Rightarrow> int" where
  "backoff n = int64 ((if 0 \<le> n \<and> n < 64 then int64 (2 ^ nat n) else 0) * Minute)"

definition process_one :: "lib \<Rightarrow> GetPendingDeliveriesRow \<Rightarrow> unit prog" where
  "process_one L r = do {
     e \<leftarrow> deliver L (pending_Url r) (pending_Secret r) (pending_Event r) (pending_Payload r);
     case e of
       Inr _ \<Rightarrow> do { _ \<leftarrow> MarkDelivered (pending_ID r) (Some 200) None; ret () }
     | Inl err \<Rightarrow> do {
         now \<leftarrow> time_Now;
         _ \<leftarrow> MarkRetry (pending_ID r) None (Some (Error err))
                (Some (now + backoff (int32 (pending_Attempts r + 1))));
         ret ()
       }
   }"

definition ProcessPending :: "lib \<Rightarrow> unit prog" where
  "ProcessPending L = do {
     r \<leftarrow> GetPendingDeliveries 50;
     case r of
       Inl e \<Rightarrow> ret ()
     | Inr rows \<Rightarrow> for_each rows (process_one L)
   }"

context request_frame
begin

lemma rel_deliver: "state_io_rel (tables_rel R) (deliver L url sec ev pay)"
  unfolding deliver_def by (intro rel_intros rel_http_Do)

lemma rel_webhooks:
  "state_io_rel (tables_rel R) (webhook_CreateEndpoint g url evs)"
  "state_io_rel (tables_rel R) (webhook_ListEndpoints g)"
  "state_io_rel (tables_rel R) (webhook_UpdateEndpoint g i url evs act)"
  "state_io_rel (tables_rel R) (webhook_Dispatch L g ev pay)"
  "state_io_rel (tables_rel R) (webhook_TestEndpoint L g i)"
  unfolding webhook_CreateEndpoint_def generateSecret_def webhook_ListEndpoints_def
    webhook_UpdateEndpoint_def webhook_Dispatch_def webhook_TestEndpoint_def
  by (intro rel_intros rel_queries rel_deliver)+

end

context schema_frame
begin

lemma rel_process_one: "state_io_rel (tables_rel R) (process_one L r)"
  unfolding process_one_def by (intro rel_intros rel_marks rel_deliver)

lemma rel_ProcessPending: "state_io_rel (tables_rel R) (ProcessPending L)"
  unfolding ProcessPending_def by (intro rel_intros rel_queries rel_process_one)

end


section \<open>A delivery is tried at most five times\<close>

definition attempts_bounded :: "db \<Rightarrow> bool" where
  "attempts_bounded d \<longleftrightarrow> (\<forall>r \<in> set (webhook_deliveries d). webhook_deliveries_attempts r \<le> 5)"

text \<open>A delivery that still has attempts left, by its identifier.\<close>

definition attempts_left :: "db \<Rightarrow> string \<Rightarrow> bool" where
  "attempts_left d i \<longleftrightarrow>
     (\<forall>r \<in> set (webhook_deliveries d). webhook_deliveries_id r = i \<longrightarrow> webhook_deliveries_attempts r < 5)"

text \<open>The relation of one attempt at delivery \<open>i\<close> to the tables.\<close>

definition one_attempt :: "string \<Rightarrow> db \<Rightarrow> db \<Rightarrow> bool" where
  "one_attempt i d d' \<longleftrightarrow>
     (attempts_bounded d \<and> attempts_left d i \<longrightarrow> attempts_bounded d') \<and>
     (\<forall>j. j \<noteq> i \<longrightarrow> attempts_left d j \<longrightarrow> attempts_left d' j)"

lemma one_attempt_marks:
  "stmt_rel (one_attempt i) (mark_delivered i sc resp)"
  "stmt_rel (one_attempt i) (mark_retry i sc resp x)"
  by (auto simp: stmt_rel_def one_attempt_def attempts_bounded_def attempts_left_def mark_delivered_def
      mark_retry_def count_attempt_def set_update_where split: if_splits)

lemma one_attempt_refl: "one_attempt i d d"
  by (simp add: one_attempt_def)

lemma deliver_tables: "wlp (deliver L url sec ev pay) (\<lambda>_ w'. w_db w' = w_db w) w"
  by (auto simp: deliver_def wp wlp_http_Do split: option.splits fault.splits sum.splits)

lemma sql_attempt:
  assumes "stmt_rel (one_attempt i) st" "w_db u = d"
  shows "wlp (sql st) (\<lambda>_ w'. one_attempt i d (w_db w')) u"
  using assms by (auto simp: wlp_sql stmt_result_def stmt_rel_def one_attempt_refl
      split: option.splits fault.splits sum.splits)

lemma process_one_attempt: "wlp (process_one L r) (\<lambda>_ w'. one_attempt (pending_ID r) (w_db w) (w_db w')) w"
  unfolding process_one_def MarkDelivered_def MarkRetry_def wlp_bind
proof (rule wlp_mono [OF deliver_tables], goal_cases)
  case (1 e w')
  then show ?case
    by (cases e) (simp_all add: wp sql_attempt one_attempt_marks)
qed

lemma process_all_attempts:
  assumes "distinct (map pending_ID rows)" "attempts_bounded (w_db w)"
    and "\<And>r. r \<in> set rows \<Longrightarrow> attempts_left (w_db w) (pending_ID r)"
  shows "wlp (for_each rows (process_one L)) (\<lambda>_ w'. attempts_bounded (w_db w')) w"
  using assms
proof (induction rows arbitrary: w)
  case Nil
  then show ?case by (simp add: wp)
next
  case (Cons r rows)
  have "wlp (for_each rows (process_one L)) (\<lambda>_ w''. attempts_bounded (w_db w'')) w'"
    if "one_attempt (pending_ID r) (w_db w) (w_db w')" for w'
  proof (rule Cons.IH)
    fix r'
    assume r': "r' \<in> set rows"
    then have "pending_ID r' \<noteq> pending_ID r"
      using Cons.prems(1) by (metis distinct.simps(2) image_eqI list.set_map list.simps(9))
    with r' that Cons.prems(3) show "attempts_left (w_db w') (pending_ID r')"
      by (simp add: one_attempt_def)
  qed (use that Cons.prems in \<open>auto simp: one_attempt_def\<close>)
  then show ?case
    by (simp add: wlp_bind) (rule wlp_mono [OF process_one_attempt])
qed

text \<open>With the schema's keys, a batch holds each delivery once, and only deliveries with attempts left.\<close>

lemma pending_ids:
  assumes "distinct (map webhook_endpoints_id es)"
  shows "map pending_ID (concat (map (\<lambda>r. map (pending_row r)
           (filter (\<lambda>e. webhook_endpoints_id e = webhook_deliveries_endpoint_id r) es)) ds)) =
         map webhook_deliveries_id
           (filter (\<lambda>r. webhook_deliveries_endpoint_id r \<in> set (map webhook_endpoints_id es)) ds)"
proof (induction ds)
  case (Cons r ds)
  have "map (\<lambda>e. webhook_deliveries_id r)
          (filter (\<lambda>e. webhook_endpoints_id e = webhook_deliveries_endpoint_id r) es) =
        (if webhook_deliveries_endpoint_id r \<in> set (map webhook_endpoints_id es)
         then [webhook_deliveries_id r] else [])"
    using assms by (induction es) (auto simp: filter_empty_conv)
  with Cons show ?case
    by (simp add: pending_row_def comp_def)
qed simp

lemma pending_batch:
  assumes "db_ok d"
  shows "distinct (map pending_ID (pending_deliveries now d))"
    and "r \<in> set (pending_deliveries now d) \<Longrightarrow> attempts_left d (pending_ID r)"
proof -
  from assms have keys: "distinct (map webhook_endpoints_id (webhook_endpoints d))"
    "distinct (map webhook_deliveries_id (webhook_deliveries d))"
    by (simp_all add: db_ok_def endpoints_ok_def deliveries_ok_def)
  have "distinct (map webhook_deliveries_id (sort_key retry_key (filter (is_pending now) (webhook_deliveries d))))"
    using keys(2) by (auto simp: distinct_map intro: inj_on_subset)
  then show "distinct (map pending_ID (pending_deliveries now d))"
    by (simp add: pending_deliveries_def pending_ids [OF keys(1)] distinct_map_filter)
  show "attempts_left d (pending_ID r)" if "r \<in> set (pending_deliveries now d)"
  proof -
    from that obtain s where "s \<in> set (webhook_deliveries d)" "is_pending now s"
      "pending_ID r = webhook_deliveries_id s"
      by (auto simp: pending_deliveries_def pending_row_def)
    then show ?thesis
      using keys(2) by (auto simp: attempts_left_def is_pending_def dest: distinct_key_eq)
  qed
qed

lemma ProcessPending_attempts:
  assumes "db_ok (w_db w)" "attempts_bounded (w_db w)"
  shows "wlp (ProcessPending L) (\<lambda>_ w'. attempts_bounded (w_db w')) w"
proof -
  have "wlp (for_each (take 50 (pending_deliveries now (w_db w))) (process_one L))
          (\<lambda>_ w'. attempts_bounded (w_db w')) u" if "w_db u = w_db w" for u now
    using assms that pending_batch [OF assms(1)]
    by (intro process_all_attempts) (auto simp: take_map [symmetric] dest: in_set_takeD)
  then show ?thesis
    using assms
    by (auto simp: ProcessPending_def GetPendingDeliveries_def wp wlp_sql stmt_result_def
        get_pending_deliveries_def limit_offset_def split: option.splits fault.splits sum.splits)
qed
section \<open>One delivery\<close>

text \<open>The delays are below a day, so the 64-bit product does not wrap.\<close>

lemma backoff_small:
  assumes "0 \<le> n" "n < 5"
  shows "backoff (int32 (n + 1)) = 2 ^ nat (n + 1) * Minute"
proof -
  have n: "n \<in> {0, 1, 2, 3, 4}"
    using assms by auto
  then have "int32 (n + 1) = n + 1"
    by (auto simp: int32_def)
  with n show ?thesis
    by (auto simp: backoff_def int64_def Minute_def Second_def)
qed

text \<open>What one attempt makes of the delivery's row.\<close>

definition attempted :: "world \<Rightarrow> repo_WebhookDelivery \<Rightarrow> repo_WebhookDelivery" where
  "attempted w r =
     (let n = webhook_deliveries_attempts r + 1;
          retry = Some (pg_time (w_clock w (Suc (w_tick w)) + 2 ^ nat n * Minute))
      in case w_http w (w_tick w) of
           Inr code \<Rightarrow>
             if 200 \<le> code \<and> code < 300
             then r\<lparr>webhook_deliveries_attempts := n, webhook_deliveries_delivered := True,
                    webhook_deliveries_status_code := Some 200, webhook_deliveries_response := None\<rparr>
             else r\<lparr>webhook_deliveries_attempts := n, webhook_deliveries_status_code := None,
                    webhook_deliveries_response := Some (''webhook returned '' @ Itoa code),
                    webhook_deliveries_next_retry := retry\<rparr>
         | Inl e \<Rightarrow>
             r\<lparr>webhook_deliveries_attempts := n, webhook_deliveries_status_code := None,
               webhook_deliveries_response := Some (''http: '' @ Error e),
               webhook_deliveries_next_retry := retry\<rparr>)"

lemma select_delivery_update:
  assumes "select_one (\<lambda>r. webhook_deliveries_id r = i) t = Some r"
    and "\<And>x. webhook_deliveries_id (f x) = webhook_deliveries_id x"
  shows "select_one (\<lambda>r. webhook_deliveries_id r = i)
           (update_where (\<lambda>r. webhook_deliveries_id r = i) f t) = Some (f r)"
  using select_one_SomeD [OF assms(1)] by (simp add: select_one_update assms)


section \<open>Properties\<close>

text \<open>C23: One attempt at a pending delivery, when the database answers, posts the payload to the endpoint
exactly once, with the event and the HMAC-SHA256 signature of the payload under the endpoint's secret. On a 2xx
answer the row is marked delivered; otherwise it keeps the error and is due again in \<open>2^n\<close> minutes, where
\<open>n\<close> is the number of attempts made, with no overflow. Either way the attempt is counted.\<close>

theorem webhook_attempt:
  assumes "w_fault w = (\<lambda>_. None)" "http_NewRequest L (webhook_endpoints_url e) = None"
    and "db_ok (w_db w)" "r \<in> set (webhook_deliveries (w_db w))"
    and "0 \<le> webhook_deliveries_attempts r" "webhook_deliveries_attempts r < 5"
    and "w' = exec (process_one L (pending_row r e)) w"
  shows "w_out w' = w_out w @
           [HttpPost (webhook_endpoints_url e)
              [(''Content-Type'', ''application/json''), (''X-Webhook-Event'', webhook_deliveries_event r),
               (''X-Webhook-Signature'',
                ''sha256='' @ hmac_sha256_hex L (webhook_endpoints_secret e) (webhook_deliveries_payload r))]
              (webhook_deliveries_payload r)] \<and>
         select_one (\<lambda>x. webhook_deliveries_id x = webhook_deliveries_id r) (webhook_deliveries (w_db w')) =
           Some (attempted w r)"
proof -
  let ?i = "webhook_deliveries_id r" and ?t = "webhook_deliveries (w_db w)"
  have keys: "distinct (map webhook_deliveries_id ?t)"
    using assms(3) by (simp add: db_ok_def deliveries_ok_def)
  have row: "select_one (\<lambda>x. webhook_deliveries_id x = ?i) ?t = Some r"
    by (rule select_one_key [OF keys assms(4)])
  have small: "\<not> (\<exists>x \<in> set ?t. webhook_deliveries_id x = ?i \<and> 2147483648 \<le> webhook_deliveries_attempts x + 1)"
    using assms(6) distinct_key_eq [OF keys _ assms(4)] by fastforce
  have "wlp (process_one L (pending_row r e)) (\<lambda>_ w'.
      w_out w' = w_out w @ [delivery_call L (webhook_endpoints_url e) (webhook_endpoints_secret e)
        (webhook_deliveries_event r) (webhook_deliveries_payload r)] \<and>
      select_one (\<lambda>x. webhook_deliveries_id x = ?i) (webhook_deliveries (w_db w')) = Some (attempted w r)) w"
    using assms(1,2) small backoff_small [OF assms(5,6)]
    by (auto simp: process_one_def deliver_def pending_row_def wp wlp_http_Do MarkDelivered_def MarkRetry_def
        wlp_sql_ok stmt_result_def mark_delivered_def mark_retry_def count_attempt_def attempted_def Let_def
        select_delivery_update [OF row] split: sum.splits)
  then show ?thesis
    by (simp add: wlp_exec assms(7) delivery_call_def sign_def)
qed

definition sample_endpoint :: repo_WebhookEndpoint where
  "sample_endpoint = \<lparr>webhook_endpoints_id = ''e1'', webhook_endpoints_org_id = ''g1'',
     webhook_endpoints_url = ''https://x'', webhook_endpoints_secret = ''whsec_1'',
     webhook_endpoints_events = [''org.created''], webhook_endpoints_active = True,
     webhook_endpoints_created_at = 0, webhook_endpoints_updated_at = 0\<rparr>"

definition sample_delivery :: repo_WebhookDelivery where
  "sample_delivery = \<lparr>webhook_deliveries_id = ''d1'', webhook_deliveries_endpoint_id = ''e1'',
     webhook_deliveries_event = ''org.created'', webhook_deliveries_payload = ''{}'',
     webhook_deliveries_status_code = None, webhook_deliveries_response = None,
     webhook_deliveries_attempts = 0, webhook_deliveries_next_retry = Some 0,
     webhook_deliveries_delivered = False, webhook_deliveries_created_at = 0\<rparr>"

definition one_delivery_db :: db where
  "one_delivery_db = (with_org ''g1'' ''acme'' ''u1'' 0 one_user_db)\<lparr>
     webhook_endpoints := [sample_endpoint], webhook_deliveries := [sample_delivery]\<rparr>"

lemma one_delivery_db_ok: "db_ok one_delivery_db"
  by (simp add: db_ok_def one_delivery_db_def sample_endpoint_def sample_delivery_def with_org_def
      one_user_db_def empty_db_def table_oks stripe_unique_def uids_def oids_def eids_def)

theorem webhook_attempt_witness:
  "map_option webhook_deliveries_next_retry
     (select_one (\<lambda>x. webhook_deliveries_id x = ''d1'') (webhook_deliveries (w_db
        (exec (process_one sample_lib (pending_row sample_delivery sample_endpoint))
           ((sample_world one_delivery_db)\<lparr>w_http := (\<lambda>_. Inr 500)\<rparr>))))) =
   Some (Some (Second + 2 * Minute))"
  using webhook_attempt [of "(sample_world one_delivery_db)\<lparr>w_http := (\<lambda>_. Inr 500)\<rparr>" sample_lib
      sample_endpoint sample_delivery, OF _ _ _ _ _ _ refl] one_delivery_db_ok
  by (simp add: sample_world_def sample_lib_def one_delivery_db_def sample_delivery_def attempted_def
      pg_time_def Second_def Minute_def)

text \<open>C38: \<open>Dispatch\<close> compares the text of a PostgreSQL array, which starts with a brace, with the
event names of an endpoint: when no event name starts with a brace it finds no endpoint and queues nothing,
whatever the endpoints subscribe to.\<close>

theorem dispatch_queues_nothing:
  assumes "\<forall>xs. \<exists>s. pq_Array L xs = CHR ''{'' # s"
    and "\<forall>r \<in> set (webhook_endpoints (w_db w)). \<forall>v \<in> set (webhook_endpoints_events r). take 1 v \<noteq> ''{''"
  shows "w_db (exec (webhook_Dispatch L g event payload) w) = w_db w"
proof -
  obtain s where s: "pq_Array L [event] = CHR ''{'' # s"
    using assms(1) by blast
  have none: "filter (\<lambda>r. webhook_endpoints_org_id r = g \<and> webhook_endpoints_active r \<and>
      pq_Array L [event] \<in> set (webhook_endpoints_events r)) (webhook_endpoints (w_db w)) = []"
    using assms(2) by (fastforce simp: filter_empty_conv s)
  have "wlp (webhook_Dispatch L g event payload) (\<lambda>_ w'. w_db w' = w_db w) w"
    by (auto simp: webhook_Dispatch_def GetActiveEndpointsForEvent_def wp wlp_query none
        split: option.splits fault.splits)
  then show ?thesis
    by (simp add: wlp_exec)
qed

theorem dispatch_queues_nothing_witness:
  "w_db (exec (webhook_Dispatch sample_lib ''g1'' ''org.created'' ''{}'') (sample_world one_delivery_db)) =
     one_delivery_db"
  using dispatch_queues_nothing [of sample_lib "sample_world one_delivery_db"]
  by (simp add: sample_lib_def sample_world_def one_delivery_db_def sample_endpoint_def)

end
