(* ===== verification/Config.thy ===== *)
theory Config
  imports GoStd
begin

text \<open>
  \<open>internal/pkg/config/config.go\<close>: the settings and their defaults. The environment is a
  function from names to values, empty when unset.
\<close>

type_synonym env = "string \<Rightarrow> string"

record Config =
  AppPort :: int
  AppEnv :: string
  AppVersion :: string
  JWTAccessTTLMinutes :: int
  JWTRefreshTTLDays :: int
  JWTAccessSecret :: string
  JWTRefreshSecret :: string
  DBHost :: string
  DBPort :: int
  DBUser :: string
  DBPass :: string
  DBName :: string
  DBSSL :: string
  S3Region :: string
  S3Bucket :: string
  S3Endpoint :: string
  S3ForcePathStyle :: bool
  S3AccessKeyID :: string
  S3SecretAccessKey :: string
  AWSSessionToken :: string
  StorageAllowedTypes :: "string list"
  StorageMaxMB :: int
  RateLimitRPS :: int
  RateLimitBurst :: int
  OTLPEndpoint :: string
  OTLPInsecure :: bool
  MetricsPort :: int
  StripeSecretKey :: string
  StripeWebhookSecret :: string

definition getenv :: "env \<Rightarrow> string \<Rightarrow> string \<Rightarrow> string" where
  "getenv env key def = (if env key \<noteq> [] then env key else def)"

definition getint :: "env \<Rightarrow> string \<Rightarrow> int \<Rightarrow> int" where
  "getint env key def =
     (if env key \<noteq> [] then (case Atoi (env key) of Some i \<Rightarrow> i | None \<Rightarrow> def) else def)"

definition getbool :: "env \<Rightarrow> string \<Rightarrow> bool \<Rightarrow> bool" where
  "getbool env key def =
     (if env key \<noteq> [] then (case ParseBool (env key) of Some b \<Rightarrow> b | None \<Rightarrow> def) else def)"

definition splitCSV :: "string \<Rightarrow> string list" where
  "splitCSV s = (if s = [] then [] else filter (\<lambda>p. p \<noteq> []) (map TrimSpace (Split s (CHR '',''))))"

definition Load :: "env \<Rightarrow> Config" where
  "Load env = \<lparr>
     AppPort = getint env ''APP_PORT'' 8080,
     AppEnv = getenv env ''APP_ENV'' ''dev'',
     AppVersion = getenv env ''APP_VERSION'' ''0.1.0'',
     JWTAccessTTLMinutes = getint env ''JWT_ACCESS_TTL_MINUTES'' 15,
     JWTRefreshTTLDays = getint env ''JWT_REFRESH_TTL_DAYS'' 14,
     JWTAccessSecret = getenv env ''JWT_ACCESS_SECRET'' ''dev-access'',
     JWTRefreshSecret = getenv env ''JWT_REFRESH_SECRET'' ''dev-refresh'',
     DBHost = getenv env ''DB_HOST'' ''localhost'',
     DBPort = getint env ''DB_PORT'' 5432,
     DBUser = getenv env ''DB_USER'' ''app'',
     DBPass = getenv env ''DB_PASSWORD'' ''app'',
     DBName = getenv env ''DB_NAME'' ''vergo'',
     DBSSL = getenv env ''DB_SSLMODE'' ''disable'',
     S3Region = getenv env ''S3_REGION'' ''us-east-1'',
     S3Bucket = getenv env ''S3_BUCKET'' '''',
     S3Endpoint = getenv env ''S3_ENDPOINT'' '''',
     S3ForcePathStyle = getbool env ''S3_FORCE_PATH_STYLE'' False,
     S3AccessKeyID = getenv env ''S3_ACCESS_KEY_ID'' '''',
     S3SecretAccessKey = getenv env ''S3_SECRET_ACCESS_KEY'' '''',
     AWSSessionToken = getenv env ''AWS_SESSION_TOKEN'' '''',
     StorageAllowedTypes = splitCSV (getenv env ''STORAGE_ALLOWED_TYPES'' ''''),
     StorageMaxMB = getint env ''STORAGE_MAX_MB'' 25,
     RateLimitRPS = getint env ''RATE_LIMIT_RPS'' 20,
     RateLimitBurst = getint env ''RATE_LIMIT_BURST'' 40,
     OTLPEndpoint = getenv env ''OTEL_EXPORTER_OTLP_ENDPOINT'' '''',
     OTLPInsecure = getbool env ''OTEL_EXPORTER_OTLP_INSECURE'' True,
     MetricsPort = getint env ''METRICS_PORT'' 0,
     StripeSecretKey = getenv env ''STRIPE_SECRET_KEY'' '''',
     StripeWebhookSecret = getenv env ''STRIPE_WEBHOOK_SECRET'' ''''\<rparr>"

text \<open>
  Joining values that have no comma and no space at their ends, and are not empty, and splitting
  again gives them back.
\<close>

fun join_comma :: "string list \<Rightarrow> string" where
  "join_comma [] = []"
| "join_comma [x] = x"
| "join_comma (x # y # xs) = x @ '','' @ join_comma (y # xs)"

lemma Split_append: "CHR '','' \<notin> set x \<Longrightarrow> Split (x @ CHR '','' # s) (CHR '','') = x # Split s (CHR '','')"
  by (induction x) (auto split: list.splits)

lemma Split_single: "CHR '','' \<notin> set x \<Longrightarrow> Split x (CHR '','') = [x]"
  by (induction x) (auto split: list.splits)

lemma Split_join_comma:
  "xs \<noteq> [] \<Longrightarrow> \<forall>x \<in> set xs. CHR '','' \<notin> set x \<Longrightarrow> Split (join_comma xs) (CHR '','') = xs"
  by (induction xs rule: join_comma.induct) (auto simp: Split_append Split_single)

lemma TrimSpace_no_ends: "TrimSpace (TrimSpace s) = TrimSpace s"
proof -
  have drop: "dropWhile p (rev (dropWhile p (rev (dropWhile p s)))) = rev (dropWhile p (rev (dropWhile p s)))"
    for p :: "char \<Rightarrow> bool" and s
  proof (cases "dropWhile p s")
    case (Cons a xs)
    then have "\<not> p a" by (metis hd_dropWhile list.distinct(1) list.sel(1))
    then have "rev (dropWhile p (rev (a # xs))) = a # rev (dropWhile p (rev xs))"
      by (simp add: dropWhile_append3)
    with Cons \<open>\<not> p a\<close> show ?thesis by simp
  next
    case Nil
    show ?thesis unfolding Nil by simp
  qed
  show ?thesis
    unfolding TrimSpace_def by (simp add: drop)
qed

lemma splitCSV_parts: "p \<in> set (splitCSV s) \<Longrightarrow> p \<noteq> [] \<and> TrimSpace p = p"
  by (auto simp: splitCSV_def TrimSpace_no_ends split: if_splits)
lemma set_TrimSpace: "set (TrimSpace s) \<subseteq> set s"
  unfolding TrimSpace_def by (metis set_dropWhileD set_rev subsetI)

lemma splitCSV_no_comma: "p \<in> set (splitCSV s) \<Longrightarrow> CHR '','' \<notin> set p"
  using set_TrimSpace Split_no_sep by (fastforce simp: splitCSV_def split: if_splits)

lemma join_comma_nonempty: "[] \<notin> set ps \<Longrightarrow> ps \<noteq> [] \<Longrightarrow> join_comma ps \<noteq> []"
  by (induction ps rule: join_comma.induct) auto

lemma splitCSV_join_comma:
  assumes "\<And>p. p \<in> set ps \<Longrightarrow> p \<noteq> [] \<and> TrimSpace p = p \<and> CHR '','' \<notin> set p"
  shows "splitCSV (join_comma ps) = ps"
proof (cases "ps = []")
  case False
  have "map TrimSpace ps = ps" "filter (\<lambda>p. p \<noteq> []) ps = ps"
    using assms by (auto simp: map_idI filter_id_conv)
  moreover have "join_comma ps \<noteq> []"
    using False assms by (intro join_comma_nonempty) auto
  ultimately show ?thesis
    using False assms by (simp add: splitCSV_def Split_join_comma)
qed (simp add: splitCSV_def)


section \<open>Properties\<close>



end
