(* ===== verification/Gin.thy ===== *)
theory Gin
  imports Webhooks Config
begin

text \<open>
  What the handlers use of the \<open>gin\<close> context: the request, the keys that middleware sets,
  and what is written in response, recorded as the calls made. A chain of middleware passes the
  context to the next function as a continuation; not calling it is \<open>Abort\<close>.
\<close>

datatype gval = GStr string | GBool bool

datatype reply =
    Header string string
  | JSON int json
  | SetStatus int
  | AbortJSON int json

text \<open>
  \<open>g_body\<close> is the request's body as JSON, none when it is not; its strings are
  \<^const>\<open>JStr\<close>. \<open>g_raw\<close> is the body's bytes. \<open>g_panic\<close> is set where the program
  panics.
\<close>

record gctx =
  g_headers :: "(string \<times> string) list"
  g_query :: "(string \<times> string) list"
  g_params :: "(string \<times> string) list"
  g_body :: "json option"
  g_raw :: string
  g_ip :: string
  g_keys :: "string \<Rightarrow> gval option"
  g_out :: "reply list"
  g_panic :: bool

type_synonym handler = "gctx \<Rightarrow> gctx prog"
type_synonym middleware = "gctx \<Rightarrow> handler \<Rightarrow> gctx prog"

definition GetHeader :: "gctx \<Rightarrow> string \<Rightarrow> string" where
  "GetHeader c k = (case List.find (\<lambda>kv. EqualFold (fst kv) k) (g_headers c) of None \<Rightarrow> [] | Some kv \<Rightarrow> snd kv)"

definition Query :: "gctx \<Rightarrow> string \<Rightarrow> string" where
  "Query c k = (case map_of (g_query c) k of None \<Rightarrow> [] | Some v \<Rightarrow> v)"

definition Param :: "gctx \<Rightarrow> string \<Rightarrow> string" where
  "Param c k = (case map_of (g_params c) k of None \<Rightarrow> [] | Some v \<Rightarrow> v)"

definition ctx_set :: "string \<Rightarrow> gval \<Rightarrow> gctx \<Rightarrow> gctx" where
  "ctx_set k v c = c\<lparr>g_keys := (g_keys c)(k \<mapsto> v)\<rparr>"

definition emit :: "reply \<Rightarrow> gctx \<Rightarrow> gctx" where
  "emit r c = c\<lparr>g_out := g_out c @ [r]\<rparr>"

text \<open>\<open>v, ok := c.Get(k); id, _ := v.(string); return id, id != ""\<close>.\<close>

definition get_string :: "string \<Rightarrow> gctx \<Rightarrow> string \<times> bool" where
  "get_string k c = (case g_keys c k of Some (GStr s) \<Rightarrow> (s, s \<noteq> []) | _ \<Rightarrow> ([], False))"

text \<open>\<open>gin.H{"error": s}\<close>, and with the detail of an error.\<close>

definition error_json :: "string \<Rightarrow> json" where
  "error_json s = JObj [(''error'', JStr s)]"

definition error_detail :: "string \<Rightarrow> goerror \<Rightarrow> json" where
  "error_detail s e = JObj [(''error'', JStr s), (''detail'', JStr (Error e))]"

text \<open>
  The status of the response: that of the first body written, else the last status set, else 200.
\<close>

fun body_status :: "reply list \<Rightarrow> int option" where
  "body_status [] = None"
| "body_status (JSON code _ # _) = Some code"
| "body_status (AbortJSON code _ # _) = Some code"
| "body_status (_ # rs) = body_status rs"

fun last_status :: "reply list \<Rightarrow> int \<Rightarrow> int" where
  "last_status [] n = n"
| "last_status (SetStatus code # rs) n = last_status rs code"
| "last_status (_ # rs) n = last_status rs n"

definition response_status :: "gctx \<Rightarrow> int" where
  "response_status c = (case body_status (g_out c) of Some code \<Rightarrow> code | None \<Rightarrow> last_status (g_out c) 200)"

fun run_chain :: "middleware list \<Rightarrow> handler \<Rightarrow> handler" where
  "run_chain [] h c = h c"
| "run_chain (m # ms) h c = m c (run_chain ms h)"


section \<open>Binding\<close>

text \<open>
  A pointer, slice or interface field: \<open>null\<close> sets it to nil.
\<close>

fun decode_ptr :: "(json \<Rightarrow> 'a option) \<Rightarrow> string \<Rightarrow> (string \<times> json) list \<Rightarrow> 'a option \<Rightarrow> 'a option option" where
  "decode_ptr f k [] cur = Some cur"
| "decode_ptr f k ((k', v) # kvs) cur =
     (if EqualFold k' k
      then (if v = JNull then decode_ptr f k kvs None
            else (case f v of None \<Rightarrow> None | Some x \<Rightarrow> decode_ptr f k kvs (Some x)))
      else decode_ptr f k kvs cur)"

definition as_strings :: "json \<Rightarrow> string list option" where
  "as_strings v = (case v of JList vs \<Rightarrow> as_string_list vs | _ \<Rightarrow> None)"

definition as_rfc3339 :: "lib \<Rightarrow> json \<Rightarrow> time option" where
  "as_rfc3339 L v = (case v of JStr s \<Rightarrow> time_Parse_RFC3339 L s | _ \<Rightarrow> None)"

text \<open>The rule \<open>min=6\<close> counts runes, that is bytes that do not continue one.\<close>

definition rune_count :: "string \<Rightarrow> nat" where
  "rune_count s = length (filter (\<lambda>c. \<not> (128 \<le> (of_char c :: nat) \<and> (of_char c :: nat) < 192)) s)"

text \<open>The members of the body, when it is an object.\<close>

definition body_members :: "gctx \<Rightarrow> (string \<times> json) list option" where
  "body_members c = Option.bind (g_body c) members"

text \<open>A string field, and a string field with \<open>binding:"required"\<close>.\<close>

definition bind_string :: "string \<Rightarrow> gctx \<Rightarrow> string option" where
  "bind_string k c = do { kvs \<leftarrow> body_members c; decode_field as_string k kvs [] }"

definition bind_required :: "string \<Rightarrow> gctx \<Rightarrow> string option" where
  "bind_required k c = do { s \<leftarrow> bind_string k c; if s = [] then None else Some s }"


section \<open>Handlers respect what their calls respect\<close>

context tables_frame
begin

definition respectful :: "handler \<Rightarrow> bool" where
  "respectful h \<longleftrightarrow> (\<forall>c. state_io_rel (tables_rel R) (h c))"

definition respectful_mw :: "middleware \<Rightarrow> bool" where
  "respectful_mw m \<longleftrightarrow> (\<forall>h. respectful h \<longrightarrow> (\<forall>c. state_io_rel (tables_rel R) (m c h)))"

lemma respectful_chain: "\<forall>m \<in> set ms. respectful_mw m \<Longrightarrow> respectful h \<Longrightarrow> respectful (run_chain ms h)"
  by (induction ms) (auto simp: respectful_def respectful_mw_def)

end

end
