(* ===== verification/Middleware.thy ===== *)
theory Middleware
  imports Gin
begin

text \<open>
  \<open>internal/http/middleware\<close>: authentication, the tenant check, roles, plans, rate limiting,
  recovery from panics and request logging.
\<close>


section \<open>auth.go and tenant.go\<close>

definition middleware_UserID :: "gctx \<Rightarrow> string \<times> bool" where
  "middleware_UserID c = get_string ''user_id'' c"

definition middleware_OrgID :: "gctx \<Rightarrow> string \<times> bool" where
  "middleware_OrgID c = get_string ''org_id'' c"

text \<open>The token after \<open>Bearer\<close>, if there is one.\<close>

definition bearer :: "gctx \<Rightarrow> string option" where
  "bearer c =
     (let h = GetHeader c ''Authorization''
      in if \<not> HasPrefix (ToLower h) ''bearer '' then None
         else (let token = TrimSpace (drop 7 h) in if token = [] then None else Some token))"

text \<open>\<open>keySvc\<close> says whether a key service was given (\<open>keySvc != nil\<close>).\<close>

definition AuthWithAPIKeys :: "lib \<Rightarrow> Config \<Rightarrow> bool \<Rightarrow> middleware" where
  "AuthWithAPIKeys L cfg keySvc = (\<lambda>c next.
     case bearer c of
       None \<Rightarrow> ret (emit (AbortJSON 401 (error_json ''missing_bearer'')) c)
     | Some token \<Rightarrow>
         if HasPrefix token ''sk_'' \<and> keySvc then do {
           r \<leftarrow> apikey_Validate L token;
           case r of
             Inl e \<Rightarrow> ret (emit (AbortJSON 500 (error_json ''key_validation_failed'')) c)
           | Inr None \<Rightarrow> ret (emit (AbortJSON 401 (error_json ''invalid_api_key'')) c)
           | Inr (Some (keyID, orgID)) \<Rightarrow>
               next (ctx_set ''api_key_auth'' (GBool True)
                      (ctx_set ''org_id'' (GStr orgID) (ctx_set ''user_id'' (GStr keyID) c)))
         }
         else do {
           r \<leftarrow> Parse L token (JWTAccessSecret cfg);
           case r of
             Inl e \<Rightarrow> ret (emit (AbortJSON 401 (error_json ''invalid_token'')) c)
           | Inr claims \<Rightarrow> next (ctx_set ''user_id'' (GStr (claims_UserID claims)) c)
         })"

definition Auth :: "lib \<Rightarrow> Config \<Rightarrow> middleware" where
  "Auth L cfg = AuthWithAPIKeys L cfg False"

text \<open>The organization a request names: the header, else the user's active one.\<close>

definition requested_org :: "string \<Rightarrow> gctx \<Rightarrow> string prog" where
  "requested_org uid c =
     (let orgID = TrimSpace (GetHeader c ''X-Org-ID'')
      in if orgID = [] then do {
           r \<leftarrow> ctx_GetActiveOrg uid;
           case r of Inr (i, True) \<Rightarrow> ret i | _ \<Rightarrow> ret orgID
         }
         else ret orgID)"

definition Tenant :: middleware where
  "Tenant = (\<lambda>c next.
     case middleware_UserID c of (uid, ok) \<Rightarrow>
       if \<not> ok \<or> uid = [] then ret (emit (AbortJSON 401 (error_json ''missing_user'')) c)
       else do {
         orgID \<leftarrow> requested_org uid c;
         if orgID = [] then ret (emit (AbortJSON 400 (error_json ''missing_org_id'')) c)
         else do {
           r \<leftarrow> org_IsMember orgID uid;
           case r of
             Inl e \<Rightarrow> ret (emit (AbortJSON 500 (error_json ''tenant_check_failed'')) c)
           | Inr (okM, role) \<Rightarrow>
               if \<not> okM then ret (emit (AbortJSON 403 (error_json ''not_a_member'')) c)
               else (let c' = ctx_set ''org_id'' (GStr orgID) c
                     in next (if role \<noteq> [] then ctx_set ''role'' (GStr role) c' else c'))
         }
       })"


section \<open>rbac.go and plan.go\<close>

text \<open>A map read at an absent key gives 0.\<close>

definition roleOrder :: "string \<Rightarrow> int" where
  "roleOrder r = (if r = ''member'' then 1 else if r = ''admin'' then 2 else if r = ''owner'' then 3 else 0)"

definition RequireRole :: "string \<Rightarrow> middleware" where
  "RequireRole minRole = (\<lambda>c next.
     case g_keys c ''role'' of
       None \<Rightarrow> ret (emit (AbortJSON 403 (error_json ''forbidden'')) c)
     | Some v \<Rightarrow>
         (let role = (case v of GStr s \<Rightarrow> s | _ \<Rightarrow> [])
          in if roleOrder role < roleOrder minRole
             then ret (emit (AbortJSON 403 (error_json ''insufficient_role'')) c)
             else next c))"

definition planOrder :: "string \<Rightarrow> int" where
  "planOrder p = (if p = ''free'' then 0 else if p = ''pro'' then 1 else if p = ''enterprise'' then 2 else 0)"

definition RequirePlan :: "string \<Rightarrow> middleware" where
  "RequirePlan minPlan = (\<lambda>c next.
     case middleware_OrgID c of (orgID, ok) \<Rightarrow>
       if \<not> ok then ret (emit (AbortJSON 400 (error_json ''missing_org_id'')) c)
       else do {
         r \<leftarrow> billing_GetSubscription orgID;
         case r of
           Inl e \<Rightarrow> ret (emit (AbortJSON 500 (error_json ''plan_check_failed'')) c)
         | Inr sub \<Rightarrow>
             if planOrder (sub_Plan sub) < planOrder minPlan
             then ret (emit (AbortJSON 402 (JObj [(''error'', JStr ''plan_required''),
                    (''required_plan'', JStr minPlan), (''current_plan'', JStr (sub_Plan sub))])) c)
             else next c
       })"


section \<open>ratelimit.go\<close>

definition rateLimitKey :: "gctx \<Rightarrow> string" where
  "rateLimitKey c =
     (case middleware_OrgID c of (orgID, ok) \<Rightarrow> if ok then ''tenant:'' @ orgID else ''ip:'' @ g_ip c)"

text \<open>The limiter's methods read the clock; \<open>Allow\<close> updates the bucket.\<close>

definition limiter_Allow :: "string \<Rightarrow> bool prog" where
  "limiter_Allow key = State (\<lambda>w.
     case Allow float64 (w_clock w (w_tick w)) key (w_limiter w) of
       (ok, l) \<Rightarrow> (ok, (next_tick w)\<lparr>w_limiter := l\<rparr>))"

definition limiter_Remaining :: "string \<Rightarrow> int prog" where
  "limiter_Remaining key =
     State (\<lambda>w. (Remaining float64 (w_clock w (w_tick w)) key (w_limiter w), next_tick w))"

definition RateLimit :: middleware where
  "RateLimit = (\<lambda>c next. do {
     let key = rateLimitKey c;
     ok \<leftarrow> limiter_Allow key;
     remaining \<leftarrow> limiter_Remaining key;
     burst \<leftarrow> gets (\<lambda>w. Burst (w_limiter w));
     let c' = emit (Header ''X-RateLimit-Remaining'' (Itoa remaining))
                (emit (Header ''X-RateLimit-Limit'' (Itoa burst)) c);
     if \<not> ok
     then ret (emit (AbortJSON 429 (error_json ''rate_limit_exceeded'')) (emit (Header ''Retry-After'' ''1'') c'))
     else next c'
   })"


section \<open>recover.go and logging.go\<close>

definition Recover :: middleware where
  "Recover = (\<lambda>c next. do {
     c' \<leftarrow> next c;
     ret (if g_panic c'
          then emit (AbortJSON 500 (error_json ''internal_server_error'')) (c'\<lparr>g_panic := False\<rparr>)
          else c')
   })"

datatype level = LevelDebug | LevelInfo | LevelWarn | LevelError

definition log_level :: "int \<Rightarrow> level" where
  "log_level status =
     (if status \<ge> 500 then LevelError else if status \<ge> 400 then LevelWarn else LevelInfo)"

text \<open>The middleware reads the clock before and after; the record it logs is in \<open>Logs\<close>.\<close>

definition Logging :: middleware where
  "Logging = (\<lambda>c next. do {
     _ \<leftarrow> time_Now;
     c' \<leftarrow> next c;
     if g_panic c' then ret c' else do { _ \<leftarrow> time_Now; ret c' }
   })"


section \<open>What the middleware may change\<close>

context tables_frame
begin

lemma rel_limiter:
  "state_io_rel (tables_rel R) (limiter_Allow k)"
  "state_io_rel (tables_rel R) (limiter_Remaining k)"
  by (simp_all add: state_io_rel_def limiter_Allow_def limiter_Remaining_def tables_rel_def tables_refl
      split: prod.splits)

lemma respectful_plain:
  "respectful_mw (RequireRole role)" "respectful_mw RateLimit" "respectful_mw Recover"
  "respectful_mw Logging"
  unfolding respectful_mw_def respectful_def RequireRole_def RateLimit_def Recover_def Logging_def
  by (auto intro!: rel_intros rel_limiter)

end

context request_frame
begin

lemma rel_requested_org: "state_io_rel (tables_rel R) (requested_org u c)"
  unfolding requested_org_def by (auto intro!: rel_intros rel_orgs split: bool.splits)

lemma respectful_auth:
  "respectful_mw (AuthWithAPIKeys L cfg k)" "respectful_mw (Auth L cfg)" "respectful_mw Tenant"
  "respectful_mw (RequirePlan p)"
  unfolding respectful_mw_def respectful_def Auth_def AuthWithAPIKeys_def Tenant_def RequirePlan_def
  by (auto intro!: rel_intros rel_tokens rel_apikeys rel_orgs rel_billing rel_requested_org)

end

end
