(* ===== verification/AuthHandlers.thy ===== *)
theory AuthHandlers
  imports Middleware
begin

text \<open>
  \<open>internal/http/handlers/auth.go\<close>: signing up, logging in, rotating and revoking refresh
  tokens, and resetting a password.
\<close>

definition bind_creds :: "lib \<Rightarrow> gctx \<Rightarrow> (string \<times> string) option" where
  "bind_creds L c = do {
     email \<leftarrow> bind_string ''email'' c;
     password \<leftarrow> bind_string ''password'' c;
     if email = [] \<or> \<not> validator_email L email \<or> password = [] \<or> rune_count password < 6 then None
     else Some (email, password)
   }"

text \<open>
  The part that \<open>Signup\<close>, \<open>Login\<close> and \<open>Refresh\<close> share: a new pair of tokens, the
  refresh token stored; a failure is the error to answer with.
\<close>

definition issue_pair ::
  "lib \<Rightarrow> Config \<Rightarrow> string \<Rightarrow> string option \<Rightarrow> (string + string \<times> string) prog" where
  "issue_pair L cfg userID rotatedFrom = do {
     a \<leftarrow> NewAccessToken L userID (JWTAccessSecret cfg) (JWTAccessTTLMinutes cfg);
     case a of
       Inl _ \<Rightarrow> ret (Inl ''token_error'')
     | Inr acc \<Rightarrow> do {
         r \<leftarrow> NewRefreshToken L userID (JWTRefreshSecret cfg) (JWTRefreshTTLDays cfg);
         case r of
           Inl _ \<Rightarrow> ret (Inl ''token_error'')
         | Inr (rt, jti, ex) \<Rightarrow> do {
             s \<leftarrow> SaveRefresh L jti userID rt ex rotatedFrom;
             case s of Inl _ \<Rightarrow> ret (Inl ''store_error'') | Inr _ \<Rightarrow> ret (Inr (acc, rt))
           }
       }
   }"

definition auth_response :: "User \<Rightarrow> string \<Rightarrow> string \<Rightarrow> json" where
  "auth_response u acc rt = JObj [
     (''user'', JObj [(''id'', JStr (user_ID u)), (''email'', JStr (user_Email u))]),
     (''access_token'', JStr acc), (''refresh_token'', JStr rt)]"

definition auth_Signup :: "lib \<Rightarrow> Config \<Rightarrow> handler" where
  "auth_Signup L cfg c =
     (case bind_creds L c of
        None \<Rightarrow> ret (emit (JSON 422 (error_json ''invalid_payload'')) c)
      | Some (email, password) \<Rightarrow> do {
          r \<leftarrow> user_Signup L email password;
          case r of
            Inl e \<Rightarrow> ret (emit (JSON 409 (error_json (Error e))) c)
          | Inr u \<Rightarrow> do {
              p \<leftarrow> issue_pair L cfg (user_ID u) None;
              case p of
                Inl e \<Rightarrow> ret (emit (JSON 500 (error_json e)) c)
              | Inr (acc, rt) \<Rightarrow> ret (emit (JSON 201 (auth_response u acc rt)) c)
            }
        })"

definition auth_Login :: "lib \<Rightarrow> Config \<Rightarrow> handler" where
  "auth_Login L cfg c =
     (case bind_creds L c of
        None \<Rightarrow> ret (emit (JSON 422 (error_json ''invalid_payload'')) c)
      | Some (email, password) \<Rightarrow> do {
          r \<leftarrow> user_Login L email password;
          case r of
            Inl e \<Rightarrow> ret (emit (JSON 401 (error_json ''invalid_credentials'')) c)
          | Inr u \<Rightarrow> do {
              p \<leftarrow> issue_pair L cfg (user_ID u) None;
              case p of
                Inl e \<Rightarrow> ret (emit (JSON 500 (error_json e)) c)
              | Inr (acc, rt) \<Rightarrow> ret (emit (JSON 200 (auth_response u acc rt)) c)
            }
        })"

definition auth_Refresh :: "lib \<Rightarrow> Config \<Rightarrow> handler" where
  "auth_Refresh L cfg c =
     (case bind_required ''refresh_token'' c of
        None \<Rightarrow> ret (emit (JSON 422 (error_json ''invalid_payload'')) c)
      | Some token \<Rightarrow> do {
          r \<leftarrow> Parse L token (JWTRefreshSecret cfg);
          case r of
            Inl e \<Rightarrow> ret (emit (JSON 401 (error_json ''invalid_refresh'')) c)
          | Inr claims \<Rightarrow>
              if claims_TokenType claims \<noteq> ''refresh''
              then ret (emit (JSON 401 (error_json ''invalid_refresh'')) c)
              else do {
                v \<leftarrow> IsValid L (claims_ID claims) token;
                case v of
                  Inl e \<Rightarrow> ret (emit (JSON 401 (error_json ''invalid_refresh'')) c)
                | Inr (ok, userID, _) \<Rightarrow>
                    if \<not> ok then ret (emit (JSON 401 (error_json ''invalid_refresh'')) c)
                    else do {
                      _ \<leftarrow> Revoke (claims_ID claims);
                      p \<leftarrow> issue_pair L cfg userID (Some (claims_ID claims));
                      case p of
                        Inl e \<Rightarrow> ret (emit (JSON 500 (error_json e)) c)
                      | Inr (acc, newRT) \<Rightarrow>
                          ret (emit (JSON 200 (JObj [(''access_token'', JStr acc),
                                 (''refresh_token'', JStr newRT)])) c)
                    }
              }
        })"

definition auth_Logout :: "lib \<Rightarrow> Config \<Rightarrow> handler" where
  "auth_Logout L cfg c =
     (case bind_required ''refresh_token'' c of
        None \<Rightarrow> ret (emit (JSON 422 (error_json ''invalid_payload'')) c)
      | Some token \<Rightarrow> do {
          r \<leftarrow> Parse L token (JWTRefreshSecret cfg);
          case r of
            Inl e \<Rightarrow> ret (emit (JSON 401 (error_json ''invalid_refresh'')) c)
          | Inr claims \<Rightarrow>
              if claims_TokenType claims \<noteq> ''refresh''
              then ret (emit (JSON 401 (error_json ''invalid_refresh'')) c)
              else do {
                _ \<leftarrow> Revoke (claims_ID claims);
                ret (emit (SetStatus 204) c)
              }
        })"

definition auth_LogoutAll :: "handler" where
  "auth_LogoutAll c =
     (case middleware_UserID c of (uid, ok) \<Rightarrow>
        if \<not> ok then ret (emit (JSON 401 (error_json ''missing_user'')) c)
        else do {
          _ \<leftarrow> RevokeAllForUser uid;
          ret (emit (SetStatus 204) c)
        })"

definition reset_sent :: json where
  "reset_sent = JObj [(''message'', JStr ''if the email exists, a reset link was sent'')]"

text \<open>The token is written to the log only; the answer never depends on it.\<close>

definition auth_ForgotPassword :: "lib \<Rightarrow> handler" where
  "auth_ForgotPassword L c =
     (case bind_required ''email'' c of
        None \<Rightarrow> ret (emit (JSON 422 (error_json ''invalid_payload'')) c)
      | Some email \<Rightarrow>
          if \<not> validator_email L email
          then ret (emit (JSON 422 (error_json ''invalid_payload'')) c)
          else do {
            r \<leftarrow> user_GetByEmail email;
            case r of
              Inl e \<Rightarrow> ret (emit (JSON 200 reset_sent) c)
            | Inr u \<Rightarrow> do {
                t \<leftarrow> CreateResetToken L (user_ID u);
                case t of
                  Inl e \<Rightarrow> ret (emit (JSON 200 reset_sent) c)
                | Inr token \<Rightarrow> ret (emit (JSON 200 reset_sent) c)
              }
          })"

definition bind_reset :: "gctx \<Rightarrow> (string \<times> string) option" where
  "bind_reset c = do {
     token \<leftarrow> bind_required ''token'' c;
     pw \<leftarrow> bind_required ''new_password'' c;
     if rune_count pw < 6 then None else Some (token, pw)
   }"

definition auth_ResetPassword :: "lib \<Rightarrow> handler" where
  "auth_ResetPassword L c =
     (case bind_reset c of
        None \<Rightarrow> ret (emit (JSON 422 (error_json ''invalid_payload'')) c)
      | Some (token, newPassword) \<Rightarrow> do {
          v \<leftarrow> ValidateAndConsume L token;
          case v of
            Inl e \<Rightarrow> ret (emit (JSON 401 (error_json ''invalid_or_expired_token'')) c)
          | Inr userID \<Rightarrow> do {
              h \<leftarrow> bcrypt_hash L newPassword;
              case h of
                Inl e \<Rightarrow> ret (emit (JSON 500 (error_json ''hash_error'')) c)
              | Inr hash \<Rightarrow> do {
                  r \<leftarrow> user_UpdatePassword userID hash;
                  case r of
                    Inl e \<Rightarrow> ret (emit (JSON 500 (error_json ''update_failed'')) c)
                  | Inr _ \<Rightarrow> do {
                      _ \<leftarrow> RevokeAllForUser userID;
                      ret (emit (JSON 200 (JObj [(''message'', JStr ''password_reset_successful'')])) c)
                    }
                }
            }
        })"

context request_frame
begin

lemma rel_issue_pair: "state_io_rel (tables_rel R) (issue_pair L cfg u p)"
  unfolding issue_pair_def by (intro rel_intros rel_tokens)

lemma respectful_auth_handlers:
  "respectful (auth_Signup L cfg)" "respectful (auth_Login L cfg)" "respectful (auth_Refresh L cfg)"
  "respectful (auth_Logout L cfg)" "respectful auth_LogoutAll" "respectful (auth_ForgotPassword L)"
  "respectful (auth_ResetPassword L)"
  unfolding respectful_def auth_Signup_def auth_Login_def auth_Refresh_def auth_Logout_def
    auth_LogoutAll_def auth_ForgotPassword_def auth_ResetPassword_def
  by (intro allI rel_intros rel_users rel_tokens rel_issue_pair rel_bcrypt_hash)+

end

end
