(* ===== verification/OrgHandlers.thy ===== *)
theory OrgHandlers
  imports AuthHandlers
begin

text \<open>
  \<open>internal/http/handlers\<close>: \<open>orgs.go\<close>, \<open>context.go\<close>, \<open>me.go\<close>,
  \<open>projects.go\<close> and \<open>audit.go\<close>. The result of recording an audit event is dropped, as
  in the source.
\<close>

definition audit_event ::
  "string \<Rightarrow> string \<Rightarrow> string \<Rightarrow> string \<Rightarrow> string \<Rightarrow> time \<Rightarrow> json option \<Rightarrow> json option \<Rightarrow> Event" where
  "audit_event orgID actorID action entity entityID ts before after =
     \<lparr>ev_OrgID = orgID, ev_ActorID = actorID, ev_Action = action, ev_Entity = entity,
      ev_EntityID = entityID, ev_Timestamp = ts,
      ev_Metadata = \<lparr>meta_Before = before, meta_After = after\<rparr>\<rparr>"

text \<open>\<open>_ = h.as.Record(audit.Event ... Timestamp: time.Now() ...)\<close>.\<close>

definition record_now ::
  "string \<Rightarrow> string \<Rightarrow> string \<Rightarrow> string \<Rightarrow> string \<Rightarrow> json option \<Rightarrow> json option \<Rightarrow> unit prog" where
  "record_now orgID actorID action entity entityID before after = do {
     now \<leftarrow> time_Now;
     _ \<leftarrow> audit_Record (audit_event orgID actorID action entity entityID now before after);
     ret ()
   }"


section \<open>orgs.go\<close>

definition json_of_Organization :: "Organization \<Rightarrow> json" where
  "json_of_Organization g = JObj [(''id'', JStr (org_ID g)), (''name'', JStr (org_Name g)),
     (''owner_user_id'', JStr (org_OwnerUser g)), (''created_at'', JTime (org_CreatedAt g))]"

definition orgs_Create :: handler where
  "orgs_Create c =
     (case middleware_UserID c of (uid, ok) \<Rightarrow>
        if \<not> ok then ret (emit (JSON 401 (error_json ''missing_user'')) c)
        else (case bind_required ''name'' c of
          None \<Rightarrow> ret (emit (JSON 422 (error_json ''invalid_payload'')) c)
        | Some name \<Rightarrow> do {
            r \<leftarrow> org_Create name uid;
            case r of
              Inl e \<Rightarrow> ret (emit (JSON 500 (error_json ''create_failed'')) c)
            | Inr g \<Rightarrow> do {
                record_now (org_ID g) uid ''org.created'' ''org'' (org_ID g) None
                  (Some (json_of_Organization g));
                ret (emit (JSON 201 (json_of_Organization g)) c)
              }
          }))"

definition orgs_Get :: handler where
  "orgs_Get c = do {
     r \<leftarrow> org_Get (Param c ''id'');
     case r of
       Inl e \<Rightarrow> ret (emit (JSON 404 (error_json ''not_found'')) c)
     | Inr g \<Rightarrow> ret (emit (JSON 200 (json_of_Organization g)) c)
   }"

definition bind_member :: "gctx \<Rightarrow> (string \<times> string) option" where
  "bind_member c = do {
     userID \<leftarrow> bind_required ''user_id'' c;
     role \<leftarrow> bind_required ''role'' c;
     Some (userID, role)
   }"

definition orgs_AddMember :: handler where
  "orgs_AddMember c =
     (let orgID = Param c ''id''; actorID = fst (middleware_UserID c)
      in case bind_member c of
           None \<Rightarrow> ret (emit (JSON 422 (error_json ''invalid_payload'')) c)
         | Some (userID, role) \<Rightarrow> do {
             r \<leftarrow> org_AddMember orgID userID role;
             case r of
               Inl e \<Rightarrow> ret (emit (JSON 500 (error_json ''add_failed'')) c)
             | Inr _ \<Rightarrow> do {
                 record_now orgID actorID ''member.added'' ''membership'' userID None
                   (Some (JObj [(''role'', JStr role), (''user_id'', JStr userID)]));
                 ret (emit (SetStatus 204) c)
               }
           })"

text \<open>The handlers read the parameter \<open>userID\<close>.\<close>

definition orgs_UpdateMember :: handler where
  "orgs_UpdateMember c =
     (let orgID = Param c ''id''; userID = Param c ''userID''; actorID = fst (middleware_UserID c)
      in case bind_required ''role'' c of
           None \<Rightarrow> ret (emit (JSON 422 (error_json ''invalid_payload'')) c)
         | Some role \<Rightarrow> do {
             r \<leftarrow> org_UpdateMember orgID userID role;
             case r of
               Inl e \<Rightarrow> ret (emit (JSON 404 (error_detail ''updated_failed'' e)) c)
             | Inr _ \<Rightarrow> do {
                 record_now orgID actorID ''member.updated'' ''membership'' userID None
                   (Some (JObj [(''role'', JStr role), (''user_id'', JStr userID)]));
                 ret (emit (SetStatus 204) c)
               }
           })"

definition orgs_RemoveMember :: handler where
  "orgs_RemoveMember c =
     (let orgID = Param c ''id''; userID = Param c ''userID''; actorID = fst (middleware_UserID c)
      in do {
        r \<leftarrow> org_RemoveMember orgID userID;
        case r of
          Inl e \<Rightarrow> ret (emit (JSON 404 (error_detail ''failed_remove_member'' e)) c)
        | Inr _ \<Rightarrow> do {
            record_now orgID actorID ''member.removed'' ''membership'' userID
              (Some (JObj [(''user_id'', JStr userID)])) None;
            ret (emit (SetStatus 204) c)
          }
      })"

definition orgs_Delete :: handler where
  "orgs_Delete c =
     (let orgID = Param c ''id''; actorID = fst (middleware_UserID c)
      in do {
        r \<leftarrow> org_Delete orgID;
        case r of
          Inl e \<Rightarrow> ret (emit (JSON 404 (error_detail ''failed_delete_organization'' e)) c)
        | Inr _ \<Rightarrow> do {
            record_now orgID actorID ''org.deleted'' ''org'' orgID
              (Some (JObj [(''org_id'', JStr orgID)])) None;
            ret (emit (SetStatus 204) c)
          }
      })"


section \<open>context.go and me.go\<close>

text \<open>The branch of a missing user does not return.\<close>

definition context_Get :: handler where
  "context_Get c0 =
     (case middleware_UserID c0 of (uid, ok) \<Rightarrow>
        let c = (if \<not> ok then emit (JSON 401 (error_json ''missing_user'')) c0 else c0)
        in do {
          r \<leftarrow> ctx_GetActiveOrg uid;
          case r of
            Inl e \<Rightarrow> ret (emit (JSON 500 (JObj [(''error'', JStr ''get_failed''),
                       (''details'', JStr (Error e))])) c)
          | Inr (orgID, ok) \<Rightarrow>
              if \<not> ok then ret (emit (SetStatus 204) c)
              else do {
                m \<leftarrow> org_IsMember orgID uid;
                let role = (case m of Inr (True, r) \<Rightarrow> r | _ \<Rightarrow> []);
                ret (emit (JSON 200 (JObj [(''org_id'', JStr orgID), (''role'', JStr role)])) c)
              }
        })"

definition context_Set :: handler where
  "context_Set c =
     (case middleware_UserID c of (uid, ok) \<Rightarrow>
        if \<not> ok then ret (emit (JSON 401 (error_json ''missing_user'')) c)
        else (case bind_required ''org_id'' c of
          None \<Rightarrow> ret (emit (JSON 422 (error_json ''invalid_payload'')) c)
        | Some orgID \<Rightarrow> do {
            m \<leftarrow> org_IsMember orgID uid;
            case m of
              Inl e \<Rightarrow> ret (emit (JSON 500 (error_detail ''checkfailed'' e)) c)
            | Inr (okM, _) \<Rightarrow>
                if \<not> okM then ret (emit (JSON 403 (error_json ''not_a_member'')) c)
                else do {
                  r \<leftarrow> ctx_SetActiveOrg uid orgID;
                  case r of
                    Inl e \<Rightarrow> ret (emit (JSON 500 (error_detail ''set_failed'' e)) c)
                  | Inr _ \<Rightarrow> ret (emit (SetStatus 204) c)
                }
          }))"

definition me_Get :: handler where
  "me_Get c =
     (case middleware_UserID c of (uid, ok) \<Rightarrow>
        if \<not> ok \<or> uid = [] then ret (emit (JSON 401 (error_json ''missing_user'')) c)
        else do {
          r \<leftarrow> user_GetByID uid;
          case r of
            Inl e \<Rightarrow> ret (emit (JSON 401 (error_json ''invalid_user'')) c)
          | Inr u \<Rightarrow> do {
              let orgID = GetHeader c ''X-Org-ID'';
              let base = [(''email'', JStr (user_Email u)), (''id'', JStr (user_ID u))];
              out \<leftarrow> (if orgID \<noteq> [] then do {
                       m \<leftarrow> org_IsMember orgID uid;
                       ret (case m of
                              Inr (True, role) \<Rightarrow> base @ [(''org_id'', JStr orgID), (''role'', JStr role)]
                            | _ \<Rightarrow> base)
                     } else ret base);
              ret (emit (JSON 200 (JObj [(''user'', JObj out)])) c)
            }
        })"

context request_frame
begin

lemma rel_record_now: "state_io_rel (tables_rel R) (record_now g u a e i b f)"
  unfolding record_now_def by (intro rel_intros rel_audit)

lemma respectful_org_handlers:
  "respectful orgs_Create" "respectful orgs_Get" "respectful orgs_AddMember"
  "respectful orgs_UpdateMember" "respectful orgs_RemoveMember" "respectful orgs_Delete"
  "respectful context_Get" "respectful context_Set" "respectful me_Get"
  unfolding respectful_def orgs_Create_def orgs_Get_def orgs_AddMember_def orgs_UpdateMember_def
    orgs_RemoveMember_def orgs_Delete_def context_Get_def context_Set_def me_Get_def
  by (intro allI rel_intros rel_org_Create rel_orgs rel_users rel_record_now)+

end

end
