(* ===== verification/TenantHandlers.thy ===== *)
theory TenantHandlers
  imports OrgHandlers
begin

text \<open>
  \<open>internal/http/handlers\<close>: \<open>projects.go\<close>, \<open>audit.go\<close>, \<open>apikeys.go\<close> and
  \<open>webhooks.go\<close>.
\<close>


section \<open>projects.go\<close>

definition projects_List :: handler where
  "projects_List c =
     (case middleware_OrgID c of (orgID, ok) \<Rightarrow>
        if \<not> ok then ret (emit (JSON 400 (error_json ''missing_org_id'')) c)
        else do {
          r \<leftarrow> project_List orgID;
          case r of
            Inl e \<Rightarrow> ret (emit (JSON 500 (error_detail ''list_failed'' e)) c)
          | Inr items \<Rightarrow> ret (emit (JSON 200 (JObj [(''items'', JList (map json_of_Project items))])) c)
        })"

definition bind_project :: "gctx \<Rightarrow> (string \<times> string) option" where
  "bind_project c = do {
     name \<leftarrow> bind_required ''name'' c;
     description \<leftarrow> bind_string ''description'' c;
     Some (name, description)
   }"

definition projects_Create :: handler where
  "projects_Create c =
     (case middleware_OrgID c of (orgID, ok) \<Rightarrow>
        if \<not> ok then ret (emit (JSON 400 (error_json ''missing_org_id'')) c)
        else (case middleware_UserID c of (userID, ok) \<Rightarrow>
          if \<not> ok then ret (emit (JSON 401 (error_json ''missing_user'')) c)
          else (case bind_project c of
            None \<Rightarrow> ret (emit (JSON 422 (error_json ''invalid_payload'')) c)
          | Some (name, description) \<Rightarrow> do {
              r \<leftarrow> project_Create orgID name description userID;
              case r of
                Inl e \<Rightarrow> ret (emit (JSON 500 (error_detail ''create_fail'' e)) c)
              | Inr p \<Rightarrow> do {
                  record_now orgID userID ''project.created'' ''project'' (project_ID p) None
                    (Some (json_of_Project p));
                  ret (emit (JSON 201 (json_of_Project p)) c)
                }
            })))"

definition projects_Get :: handler where
  "projects_Get c =
     (case middleware_OrgID c of (orgID, ok) \<Rightarrow>
        if \<not> ok then ret (emit (JSON 400 (error_json ''missing_org_id'')) c)
        else do {
          r \<leftarrow> project_Get orgID (Param c ''id'');
          case r of
            Inl e \<Rightarrow> ret (emit (JSON 404 (error_json ''not_found'')) c)
          | Inr p \<Rightarrow> ret (emit (JSON 200 (json_of_Project p)) c)
        })"

text \<open>\<open>old, _ := h.ps.Get(orgID, id)\<close>: the zero project on an error.\<close>

definition project_or_zero :: "goerror + Project \<Rightarrow> Project" where
  "project_or_zero r = (case r of Inl _ \<Rightarrow> zero_Project | Inr p \<Rightarrow> p)"

definition projects_Update :: handler where
  "projects_Update c =
     (case middleware_OrgID c of (orgID, ok) \<Rightarrow>
        if \<not> ok then ret (emit (JSON 400 (error_json ''missing_org_id'')) c)
        else do {
          let userID = fst (middleware_UserID c);
          let i = Param c ''id'';
          old \<leftarrow> project_Get orgID i;
          (case bind_project c of
             None \<Rightarrow> ret (emit (JSON 422 (error_json ''invalid_payload'')) c)
           | Some (name, description) \<Rightarrow> do {
               r \<leftarrow> project_Update orgID i name description;
               case r of
                 Inl e \<Rightarrow> ret (emit (JSON 500 (error_detail ''not_found'' e)) c)
               | Inr p \<Rightarrow> do {
                   record_now orgID userID ''project.updated'' ''project'' i
                     (Some (json_of_Project (project_or_zero old))) (Some (json_of_Project p));
                   ret (emit (JSON 200 (json_of_Project p)) c)
                 }
             })
        })"

definition projects_Delete :: handler where
  "projects_Delete c =
     (case middleware_OrgID c of (orgID, ok) \<Rightarrow>
        if \<not> ok then ret (emit (JSON 400 (error_json ''missing_org_id'')) c)
        else do {
          let userID = fst (middleware_UserID c);
          let i = Param c ''id'';
          old \<leftarrow> project_Get orgID i;
          r \<leftarrow> project_Delete orgID i;
          case r of
            Inl e \<Rightarrow> ret (emit (JSON 404 (error_json ''not_found'')) c)
          | Inr _ \<Rightarrow> do {
              record_now orgID userID ''project.deleted'' ''project'' i
                (Some (json_of_Project (project_or_zero old))) None;
              ret (emit (SetStatus 204) c)
            }
        })"


section \<open>audit.go\<close>

definition parseInt :: "string \<Rightarrow> int \<Rightarrow> int" where
  "parseInt s def = (if s = [] then def else (case Atoi s of Some n \<Rightarrow> n | None \<Rightarrow> def))"

text \<open>The page and its size, as the handler limits them.\<close>

definition audit_page :: "gctx \<Rightarrow> int" where
  "audit_page c = (let p = parseInt (Query c ''page'') 1 in if p < 1 then 1 else p)"

definition audit_page_size :: "gctx \<Rightarrow> int" where
  "audit_page_size c =
     (let n = parseInt (Query c ''page_size'') 20
      in if n < 1 then 20 else if n > 100 then 100 else n)"

definition opt_query :: "gctx \<Rightarrow> string \<Rightarrow> string option" where
  "opt_query c k = to_null (Query c k)"

definition audit_params :: "lib \<Rightarrow> string \<Rightarrow> gctx \<Rightarrow> ListParams" where
  "audit_params L orgID c =
     \<lparr>lp_OrgID = orgID, lp_ActorID = opt_query c ''actor_id'', lp_Action = opt_query c ''action'',
      lp_Entity = opt_query c ''entity'',
      lp_Since = Option.bind (opt_query c ''since'') (time_Parse_RFC3339 L),
      lp_Until = Option.bind (opt_query c ''until'') (time_Parse_RFC3339 L),
      lp_Limit = audit_page_size c,
      lp_Offset = int64 (int64 (audit_page c - 1) * audit_page_size c)\<rparr>"

definition audit_list_handler :: "lib \<Rightarrow> handler" where
  "audit_list_handler L c =
     (case middleware_OrgID c of (orgID, ok) \<Rightarrow>
        if \<not> ok \<or> orgID = [] then ret (emit (JSON 400 (error_json ''missing_org_id'')) c)
        else do {
          let p = audit_params L orgID c;
          r \<leftarrow> audit_List p;
          case r of
            Inl e \<Rightarrow> ret (emit (JSON 500 (error_json ''list_failed'')) c)
          | Inr items \<Rightarrow>
              ret (emit (JSON 200 (JObj [(''items'', JList (map json_of_Event items)),
                (''next_offset'', JInt (int64 (lp_Offset p + int (length items)))),
                (''page'', JInt (audit_page c)), (''page_size'', JInt (audit_page_size c))])) c)
        })"


section \<open>apikeys.go\<close>

definition bind_key :: "lib \<Rightarrow> gctx \<Rightarrow> (string \<times> time option) option" where
  "bind_key L c = do {
     name \<leftarrow> bind_required ''name'' c;
     kvs \<leftarrow> body_members c;
     x \<leftarrow> decode_ptr (as_rfc3339 L) ''expires_at'' kvs None;
     Some (name, x)
   }"

definition apikeys_Create :: "lib \<Rightarrow> handler" where
  "apikeys_Create L c =
     (let uid = fst (middleware_UserID c); orgID = fst (middleware_OrgID c)
      in case bind_key L c of
           None \<Rightarrow> ret (emit (JSON 422 (error_json ''invalid_payload'')) c)
         | Some (name, expiresAt) \<Rightarrow> do {
             r \<leftarrow> apikey_Create L orgID uid name expiresAt;
             case r of
               Inl e \<Rightarrow> ret (emit (JSON 500 (error_json ''create_failed'')) c)
             | Inr (k, plaintext) \<Rightarrow> do {
                 _ \<leftarrow> audit_Record (audit_event orgID uid ''api_key.created'' ''api_key'' (apikey_ID k)
                        zero_time None (Some (JObj [(''name'', JStr name)])));
                 ret (emit (JSON 201 (JObj (apikey_fields k @ [(''key'', JStr plaintext)]))) c)
               }
           })"

definition apikeys_List :: handler where
  "apikeys_List c = do {
     r \<leftarrow> apikey_List (fst (middleware_OrgID c));
     case r of
       Inl e \<Rightarrow> ret (emit (JSON 500 (error_json ''list_failed'')) c)
     | Inr keys \<Rightarrow> ret (emit (JSON 200 (JList (map (\<lambda>k. JObj (apikey_fields k)) keys))) c)
   }"

definition apikeys_Revoke :: handler where
  "apikeys_Revoke c =
     (let uid = fst (middleware_UserID c); orgID = fst (middleware_OrgID c); keyID = Param c ''id''
      in do {
        r \<leftarrow> apikey_Revoke orgID keyID;
        case r of
          Inl e \<Rightarrow> ret (emit (JSON 500 (error_json ''revoke_failed'')) c)
        | Inr _ \<Rightarrow> do {
            _ \<leftarrow> audit_Record (audit_event orgID uid ''api_key.revoked'' ''api_key'' keyID zero_time
                   None None);
            ret (emit (SetStatus 204) c)
          }
      })"


section \<open>webhooks.go\<close>

text \<open>\<open>required\<close> on a slice asks that it is not nil.\<close>

definition bind_endpoint :: "gctx \<Rightarrow> (string \<times> string list) option" where
  "bind_endpoint c = do {
     url \<leftarrow> bind_required ''url'' c;
     kvs \<leftarrow> body_members c;
     evs \<leftarrow> decode_ptr as_strings ''events'' kvs None;
     evs \<leftarrow> evs;
     Some (url, evs)
   }"

definition webhooks_CreateEndpoint :: handler where
  "webhooks_CreateEndpoint c =
     (let orgID = fst (middleware_OrgID c)
      in case bind_endpoint c of
           None \<Rightarrow> ret (emit (JSON 422 (error_json ''invalid_payload'')) c)
         | Some (url, events) \<Rightarrow> do {
             r \<leftarrow> webhook_CreateEndpoint orgID url (Some events);
             case r of
               Inl e \<Rightarrow> ret (emit (JSON 500 (error_json ''create_failed'')) c)
             | Inr ep \<Rightarrow> ret (emit (JSON 201 (json_of_Endpoint ep)) c)
           })"

definition webhooks_ListEndpoints :: handler where
  "webhooks_ListEndpoints c = do {
     r \<leftarrow> webhook_ListEndpoints (fst (middleware_OrgID c));
     case r of
       Inl e \<Rightarrow> ret (emit (JSON 500 (error_json ''list_failed'')) c)
     | Inr eps \<Rightarrow> ret (emit (JSON 200 (JList (map json_of_Endpoint eps))) c)
   }"

definition bind_active :: "gctx \<Rightarrow> bool option" where
  "bind_active c = do { kvs \<leftarrow> body_members c; decode_field as_bool ''active'' kvs False }"

definition webhooks_UpdateEndpoint :: handler where
  "webhooks_UpdateEndpoint c =
     (let orgID = fst (middleware_OrgID c)
      in case (bind_endpoint c, bind_active c) of
           (Some (url, events), Some active) \<Rightarrow> do {
             r \<leftarrow> webhook_UpdateEndpoint orgID (Param c ''id'') url (Some events) active;
             case r of
               Inl e \<Rightarrow> ret (emit (JSON 500 (error_json ''update_failed'')) c)
             | Inr _ \<Rightarrow> ret (emit (SetStatus 204) c)
           }
         | _ \<Rightarrow> ret (emit (JSON 422 (error_json ''invalid_payload'')) c))"

definition webhooks_Test :: "lib \<Rightarrow> handler" where
  "webhooks_Test L c =
     (let orgID = fst (middleware_OrgID c); epID = Query c ''endpoint_id''
      in if epID = [] then ret (emit (JSON 422 (error_json ''missing_endpoint_id'')) c)
         else do {
           r \<leftarrow> webhook_TestEndpoint L orgID epID;
           case r of
             Inl e \<Rightarrow> ret (emit (JSON 500 (error_detail ''test_failed'' e)) c)
           | Inr _ \<Rightarrow> ret (emit (JSON 200 (JObj [(''status'', JStr ''delivered'')])) c)
         })"

context request_frame
begin

lemma respectful_project_handlers:
  "respectful projects_List" "respectful projects_Create" "respectful projects_Get"
  "respectful projects_Update" "respectful projects_Delete"
  unfolding respectful_def projects_List_def projects_Create_def projects_Get_def
    projects_Update_def projects_Delete_def
  by (intro allI rel_intros rel_projects rel_record_now)+

lemma respectful_tenant_handlers:
  "respectful (audit_list_handler L)" "respectful (apikeys_Create L)" "respectful apikeys_List"
  "respectful apikeys_Revoke" "respectful webhooks_CreateEndpoint" "respectful webhooks_ListEndpoints"
  "respectful webhooks_UpdateEndpoint" "respectful (webhooks_Test L)"
  unfolding respectful_def audit_list_handler_def apikeys_Create_def apikeys_List_def
    apikeys_Revoke_def webhooks_CreateEndpoint_def webhooks_ListEndpoints_def
    webhooks_UpdateEndpoint_def webhooks_Test_def
  by (intro allI rel_intros rel_audit rel_apikeys rel_webhooks)+

end

end
