(* ===== verification/StorageHandlers.thy ===== *)
theory StorageHandlers
  imports TenantHandlers
begin

text \<open>
  \<open>internal/storage/s3/client.go\<close> and \<open>internal/http/handlers\<close>: \<open>billing.go\<close> and
  \<open>storage.go\<close>.
\<close>


section \<open>billing.go\<close>

definition bind_checkout :: "gctx \<Rightarrow> (string \<times> string \<times> string) option" where
  "bind_checkout c = do {
     s \<leftarrow> bind_required ''success_url'' c;
     x \<leftarrow> bind_required ''cancel_url'' c;
     p \<leftarrow> bind_required ''price_id'' c;
     Some (s, x, p)
   }"

definition billing_checkout :: handler where
  "billing_checkout c =
     (let orgID = fst (middleware_OrgID c)
      in case bind_checkout c of
           None \<Rightarrow> ret (emit (JSON 422 (error_json ''invalid_payload'')) c)
         | Some (successURL, cancelURL, priceID) \<Rightarrow> do {
             r \<leftarrow> billing_CreateCheckoutSession orgID orgID successURL cancelURL priceID;
             case r of
               Inl e \<Rightarrow> ret (emit (JSON 500 (error_json ''checkout_failed'')) c)
             | Inr url \<Rightarrow> ret (emit (JSON 200 (JObj [(''url'', JStr url)])) c)
           })"

definition billing_subscription :: handler where
  "billing_subscription c = do {
     r \<leftarrow> billing_GetSubscription (fst (middleware_OrgID c));
     case r of
       Inl e \<Rightarrow> ret (emit (JSON 500 (error_json ''fetch_failed'')) c)
     | Inr s \<Rightarrow> ret (emit (JSON 200 (json_of_Subscription s)) c)
   }"

definition billing_usage :: handler where
  "billing_usage c = do {
     r \<leftarrow> billing_GetSubscription (fst (middleware_OrgID c));
     case r of
       Inl e \<Rightarrow> ret (emit (JSON 500 (error_json ''fetch_failed'')) c)
     | Inr s \<Rightarrow>
         ret (emit (JSON 200 (JObj [(''limits'', json_of_limits (GetLimits (sub_Plan s))),
           (''plan'', JStr (sub_Plan s)), (''status'', JStr (sub_Status s))])) c)
   }"

text \<open>
  The handlers of Stripe's events; the result says whether the handler panicked on a nil
  pointer.
\<close>

definition handleCheckoutCompleted :: "StripeEvent \<Rightarrow> bool prog" where
  "handleCheckoutCompleted event =
     (case event_session event of
        None \<Rightarrow> ret False
      | Some sess \<Rightarrow>
          if sess_ClientReferenceID sess = [] then ret False
          else (case (sess_Customer sess, sess_Subscription sess) of
            (Some customer, Some sub) \<Rightarrow> do {
              _ \<leftarrow> billing_HandleCheckoutCompleted customer sub ''active'' ''pro'' zero_time
                     (sess_ClientReferenceID sess);
              ret False
            }
          | _ \<Rightarrow> ret True))"

definition stripe_plan :: "string \<Rightarrow> string" where
  "stripe_plan status = (if status = ''active'' \<or> status = ''trialing'' then ''pro'' else ''free'')"

definition stripe_period_end :: "StripeSubscription \<Rightarrow> time" where
  "stripe_period_end sub = (case ssub_Items sub of Some (t # _) \<Rightarrow> t * Second | _ \<Rightarrow> zero_time)"

definition handleSubscriptionUpdated :: "StripeEvent \<Rightarrow> bool prog" where
  "handleSubscriptionUpdated event =
     (case event_subscription event of
        None \<Rightarrow> ret False
      | Some sub \<Rightarrow> do {
          _ \<leftarrow> billing_HandleSubscriptionUpdated (ssub_ID sub) (ssub_Status sub)
                 (stripe_plan (ssub_Status sub)) (stripe_period_end sub);
          ret False
        })"

definition handleSubscriptionDeleted :: "StripeEvent \<Rightarrow> bool prog" where
  "handleSubscriptionDeleted event =
     (case event_subscription event of
        None \<Rightarrow> ret False
      | Some sub \<Rightarrow> do {
          _ \<leftarrow> billing_HandleSubscriptionDeleted (ssub_ID sub);
          ret False
        })"

text \<open>Reading the request's body can fail.\<close>

definition read_body :: "gctx \<Rightarrow> (goerror + string) prog" where
  "read_body c = State (\<lambda>w.
     (case w_fault w (w_tick w) of
        None \<Rightarrow> Inr (take 65536 (g_raw c))
      | Some (NotRun e) \<Rightarrow> Inl (LibError e)
      | Some (ReplyLost e) \<Rightarrow> Inl (LibError e), next_tick w))"

definition stripe_event :: "StripeEvent \<Rightarrow> bool prog" where
  "stripe_event event =
     (if event_Type event = ''checkout.session.completed'' then handleCheckoutCompleted event
      else if event_Type event = ''invoice.paid'' then handleSubscriptionUpdated event
      else if event_Type event = ''customer.subscription.updated'' then handleSubscriptionUpdated event
      else if event_Type event = ''customer.subscription.deleted'' then handleSubscriptionDeleted event
      else ret False)"

definition billing_Webhook :: "lib \<Rightarrow> string \<Rightarrow> handler" where
  "billing_Webhook L webhookSecret c = do {
     b \<leftarrow> read_body c;
     case b of
       Inl e \<Rightarrow> ret (emit (JSON 400 (error_json ''read_body'')) c)
     | Inr body \<Rightarrow> do {
         now \<leftarrow> time_Now;
         (case stripe_ConstructEvent L now body (GetHeader c ''Stripe-Signature'') webhookSecret of
            Inl e \<Rightarrow> ret (emit (JSON 400 (error_json ''invalid_signature'')) c)
          | Inr event \<Rightarrow> do {
              panicked \<leftarrow> stripe_event event;
              ret (if panicked then c\<lparr>g_panic := True\<rparr>
                   else emit (JSON 200 (JObj [(''received'', JBool True)])) c)
            })
       }
   }"


section \<open>client.go\<close>

definition s3_bucket :: "Config \<Rightarrow> string \<Rightarrow> string" where
  "s3_bucket cfg bucket = (if bucket = [] then S3Bucket cfg else bucket)"

definition s3_expires :: "int \<Rightarrow> int" where
  "s3_expires n = (if n \<le> 0 \<or> n > 3600 then 300 else n)"

definition S3_PresignPut ::
  "lib \<Rightarrow> Config \<Rightarrow> string \<Rightarrow> string \<Rightarrow> string \<Rightarrow> int \<Rightarrow> goerror + string \<times> (string \<times> string) list" where
  "S3_PresignPut L cfg bucket key contentType expiresSeconds =
     (case s3_PresignPut L (s3_bucket cfg bucket) key contentType (s3_expires expiresSeconds * Second) of
        Inl e \<Rightarrow> Inl e
      | Inr url \<Rightarrow> Inr (url, [(''Content-Type'', contentType)]))"

definition S3_PresignGet :: "lib \<Rightarrow> Config \<Rightarrow> string \<Rightarrow> string \<Rightarrow> int \<Rightarrow> goerror + string" where
  "S3_PresignGet L cfg bucket key expiresSeconds =
     s3_PresignGet L (s3_bucket cfg bucket) key (s3_expires expiresSeconds * Second)"

definition S3_DeleteObject :: "Config \<Rightarrow> string \<Rightarrow> string \<Rightarrow> (goerror + string) prog" where
  "S3_DeleteObject cfg bucket key = call_out (S3Delete (s3_bucket cfg bucket) key)"


section \<open>storage.go\<close>

definition bind_int64 :: "string \<Rightarrow> gctx \<Rightarrow> int option" where
  "bind_int64 k c = do { kvs \<leftarrow> body_members c; decode_field as_int64 k kvs 0 }"

definition storage_PresignPut :: "lib \<Rightarrow> Config \<Rightarrow> handler" where
  "storage_PresignPut L cfg c =
     (case do { bucket \<leftarrow> bind_string ''bucket'' c; key \<leftarrow> bind_required ''key'' c;
                ct \<leftarrow> bind_required ''content_type'' c; x \<leftarrow> bind_int64 ''expires'' c;
                Some (bucket, key, ct, x) } of
        None \<Rightarrow> ret (emit (JSON 422 (error_json ''invalid_payload'')) c)
      | Some (bucket, key, ct, x) \<Rightarrow>
          (case S3_PresignPut L cfg bucket key ct x of
             Inl e \<Rightarrow> ret (emit (JSON 500 (error_detail ''presign_failed'' e)) c)
           | Inr (url, headers) \<Rightarrow>
               ret (emit (JSON 200 (JObj [
                 (''headers'', JObj (map (\<lambda>(k, v). (k, JStr v)) headers)),
                 (''method'', JStr ''PUT''), (''url'', JStr url)])) c)))"

definition storage_PresignGet :: "lib \<Rightarrow> Config \<Rightarrow> handler" where
  "storage_PresignGet L cfg c =
     (case do { bucket \<leftarrow> bind_string ''bucket'' c; key \<leftarrow> bind_required ''key'' c;
                x \<leftarrow> bind_int64 ''expires'' c; Some (bucket, key, x) } of
        None \<Rightarrow> ret (emit (JSON 422 (error_json ''invalid_payload'')) c)
      | Some (bucket, key, x) \<Rightarrow>
          (case S3_PresignGet L cfg bucket key x of
             Inl e \<Rightarrow> ret (emit (JSON 500 (error_detail ''presign_failed'' e)) c)
           | Inr url \<Rightarrow> ret (emit (JSON 200 (JObj [(''method'', JStr ''GET''), (''url'', JStr url)])) c)))"

record fileCreateIn =
  fc_Bucket :: string
  fc_Key :: string
  fc_SizeBytes :: "int option"
  fc_ContentType :: string
  fc_Metadata :: "json option"

definition bind_file :: "gctx \<Rightarrow> fileCreateIn option" where
  "bind_file c = do {
     kvs \<leftarrow> body_members c;
     bucket \<leftarrow> bind_string ''bucket'' c;
     key \<leftarrow> bind_required ''key'' c;
     sz \<leftarrow> decode_ptr as_int64 ''size_bytes'' kvs None;
     ct \<leftarrow> bind_string ''content_type'' c;
     md \<leftarrow> decode_ptr Some ''metadata'' kvs None;
     Some \<lparr>fc_Bucket = bucket, fc_Key = key, fc_SizeBytes = sz, fc_ContentType = ct, fc_Metadata = md\<rparr>
   }"

text \<open>The key a file is stored under.\<close>

definition object_key :: "string \<Rightarrow> string \<Rightarrow> string \<Rightarrow> string" where
  "object_key orgID uid key =
     (if HasPrefix key ''org/'' then key
      else ''org/'' @ orgID @ ''/users/'' @ uid @ ''/'' @ TrimLeft key (CHR ''/''))"

definition storage_CreateFile :: "env \<Rightarrow> handler" where
  "storage_CreateFile env c =
     (case middleware_OrgID c of (orgID, ok) \<Rightarrow>
        if \<not> ok then ret (emit (JSON 400 (error_json ''missing_org_id'')) c)
        else (case middleware_UserID c of (uid, ok) \<Rightarrow>
          if \<not> ok then ret (emit (JSON 401 (error_json ''missing_user'')) c)
          else (case bind_file c of
            None \<Rightarrow> ret (emit (JSON 422 (error_json ''invalid_payload'')) c)
          | Some x \<Rightarrow>
              (let cfg = Load env
               in if StorageAllowedTypes cfg \<noteq> [] \<and> fc_ContentType x \<noteq> [] \<and>
                     fc_ContentType x \<notin> set (StorageAllowedTypes cfg)
                  then ret (emit (JSON 400 (error_json ''unsupported_content_type'')) c)
                  else if (case fc_SizeBytes x of
                             None \<Rightarrow> False
                           | Some n \<Rightarrow> 0 < StorageMaxMB cfg \<and>
                               int64 (int64 (StorageMaxMB cfg * 1024) * 1024) < n)
                  then ret (emit (JSON 400 (JObj [(''error'', JStr ''file_too_large''),
                         (''max_mb'', JInt (StorageMaxMB cfg))])) c)
                  else do {
                    r \<leftarrow> file_Create orgID uid (fc_Bucket x) (object_key orgID uid (fc_Key x))
                           (fc_SizeBytes x) (fc_ContentType x) (fc_Metadata x);
                    case r of
                      Inl e \<Rightarrow> ret (emit (JSON 500 (error_json ''create_failed'')) c)
                    | Inr f \<Rightarrow> ret (emit (JSON 201 (json_of_File f)) c)
                  }))))"

definition storage_ListFiles :: handler where
  "storage_ListFiles c =
     (case middleware_OrgID c of (orgID, ok) \<Rightarrow>
        if \<not> ok then ret (emit (JSON 400 (error_json ''missing_org_id'')) c)
        else do {
          let lmt = (case Atoi (Query c ''limit'') of
                       Some n \<Rightarrow> if 0 < n \<and> n \<le> 100 then n else 20 | None \<Rightarrow> 20);
          let off = (case Atoi (Query c ''offset'') of Some n \<Rightarrow> if 0 \<le> n then n else 0 | None \<Rightarrow> 0);
          r \<leftarrow> file_List orgID lmt off;
          case r of
            Inl e \<Rightarrow> ret (emit (JSON 500 (error_json ''list_failed'')) c)
          | Inr items \<Rightarrow>
              ret (emit (JSON 200 (JObj [(''items'', JList (map json_of_File items)),
                (''next_offset'', JInt (int64 (off + int (length items))))])) c)
        })"

definition storage_GetFile :: handler where
  "storage_GetFile c =
     (case middleware_OrgID c of (orgID, ok) \<Rightarrow>
        if \<not> ok then ret (emit (JSON 400 (error_json ''missing_org_id'')) c)
        else do {
          r \<leftarrow> file_Get orgID (Param c ''id'');
          case r of
            Inl e \<Rightarrow> ret (emit (JSON 404 (error_json ''not_found'')) c)
          | Inr f \<Rightarrow> ret (emit (JSON 200 (json_of_File f)) c)
        })"

definition storage_DeleteFile :: "Config \<Rightarrow> handler" where
  "storage_DeleteFile cfg c =
     (case middleware_OrgID c of (orgID, ok) \<Rightarrow>
        if \<not> ok then ret (emit (JSON 400 (error_json ''missing_org_id'')) c)
        else do {
          r \<leftarrow> file_Get orgID (Param c ''id'');
          case r of
            Inl e \<Rightarrow> ret (emit (JSON 404 (error_json ''not_found'')) c)
          | Inr f \<Rightarrow> do {
              _ \<leftarrow> S3_DeleteObject cfg (file_Bucket f) (file_ObjectKey f);
              d \<leftarrow> file_Delete orgID (Param c ''id'');
              case d of
                Inl e \<Rightarrow> ret (emit (JSON 500 (error_json ''delete_failed'')) c)
              | Inr _ \<Rightarrow> ret (emit (SetStatus 204) c)
            }
        })"

context request_frame
begin

lemma rel_read_body: "state_io_rel (tables_rel R) (read_body c)"
  by (simp add: state_io_rel_def read_body_def tables_rel_def tables_refl)

lemma rel_stripe_event: "state_io_rel (tables_rel R) (stripe_event ev)"
  unfolding stripe_event_def handleCheckoutCompleted_def handleSubscriptionUpdated_def
    handleSubscriptionDeleted_def
  by (intro rel_intros rel_billing)

lemma respectful_billing_handlers:
  "respectful billing_checkout" "respectful billing_subscription" "respectful billing_usage"
  "respectful (billing_Webhook L s)"
  unfolding respectful_def billing_checkout_def billing_subscription_def billing_usage_def
    billing_Webhook_def
  by (intro allI rel_intros rel_billing rel_read_body rel_stripe_event)+

lemma respectful_storage_handlers:
  "respectful (storage_PresignPut L cfg)" "respectful (storage_PresignGet L cfg)"
  "respectful (storage_CreateFile ev)" "respectful storage_ListFiles" "respectful storage_GetFile"
  "respectful (storage_DeleteFile cfg)"
  unfolding respectful_def storage_PresignPut_def storage_PresignGet_def storage_CreateFile_def
    storage_ListFiles_def storage_GetFile_def storage_DeleteFile_def S3_DeleteObject_def
  by (intro allI rel_intros rel_files rel_call_out)+

end

end
