(* ===== verification/Router.thy ===== *)
theory Router
  imports StorageHandlers
begin

text \<open>
  \<open>internal/http/router/router.go\<close> and the engine that \<open>cmd/api/main.go\<close> sets up: the
  table of routes with their middleware, the dispatch of a request, and the system that serves
  requests while the webhook dispatcher and the limiter's cleanup run beside it.
\<close>

datatype meth = GET | POST | PATCH | DELETE

datatype seg = Lit string | Par string | Rest string

record route =
  rt_method :: meth
  rt_path :: "seg list"
  rt_chain :: "middleware list"
  rt_handler :: handler

text \<open>A parameter matches one segment, which is not empty; a catch-all the rest of the path, with its slashes.\<close>

fun match_path :: "seg list \<Rightarrow> string list \<Rightarrow> (string \<times> string) list option" where
  "match_path [] [] = Some []"
| "match_path (Lit s # ps) (x # xs) = (if s = x then match_path ps xs else None)"
| "match_path (Par n # ps) (x # xs) =
     (if x = [] then None else map_option (\<lambda>b. (n, x) # b) (match_path ps xs))"
| "match_path [Rest n] (x # xs) = Some [(n, concat (map ((#) CHR ''/'') (x # xs)))]"
| "match_path _ _ = None"

definition mk_route :: "meth \<Rightarrow> seg list \<Rightarrow> middleware list \<Rightarrow> handler \<Rightarrow> route" where
  "mk_route m p ch h = \<lparr>rt_method = m, rt_path = Lit ''v1'' # p, rt_chain = ch, rt_handler = h\<rparr>"

definition public_routes :: "lib \<Rightarrow> Config \<Rightarrow> route list" where
  "public_routes L cfg = [
     mk_route POST [Lit ''auth'', Lit ''signup''] [] (auth_Signup L cfg),
     mk_route POST [Lit ''auth'', Lit ''login''] [] (auth_Login L cfg),
     mk_route POST [Lit ''auth'', Lit ''refresh''] [] (auth_Refresh L cfg),
     mk_route POST [Lit ''auth'', Lit ''logout''] [] (auth_Logout L cfg),
     mk_route POST [Lit ''auth'', Lit ''forgot-password''] [] (auth_ForgotPassword L),
     mk_route POST [Lit ''auth'', Lit ''reset-password''] [] (auth_ResetPassword L),
     mk_route POST [Lit ''billing'', Lit ''webhook''] [] (billing_Webhook L (StripeWebhookSecret cfg))]"

definition auth_routes :: "lib \<Rightarrow> Config \<Rightarrow> route list" where
  "auth_routes L cfg = [
     mk_route GET [Lit ''me''] [Auth L cfg] me_Get,
     mk_route POST [Lit ''auth'', Lit ''logout-all''] [Auth L cfg] auth_LogoutAll,
     mk_route GET [Lit ''context''] [Auth L cfg] context_Get,
     mk_route POST [Lit ''context''] [Auth L cfg] context_Set,
     mk_route POST [Lit ''orgs''] [Auth L cfg] orgs_Create,
     mk_route GET [Lit ''orgs'', Par ''id''] [Auth L cfg] orgs_Get]"

definition tenant_chain :: "lib \<Rightarrow> Config \<Rightarrow> middleware list" where
  "tenant_chain L cfg = [AuthWithAPIKeys L cfg True, Tenant]"

definition org_routes :: "middleware list \<Rightarrow> route list" where
  "org_routes ch = [
     mk_route POST [Lit ''orgs'', Par ''id'', Lit ''members''] (ch @ [RequireRole ''admin'']) orgs_AddMember,
     mk_route PATCH [Lit ''orgs'', Par ''id'', Lit ''members'', Par ''userId'']
       (ch @ [RequireRole ''admin'']) orgs_UpdateMember,
     mk_route DELETE [Lit ''orgs'', Par ''id'', Lit ''members'', Par ''userId'']
       (ch @ [RequireRole ''admin'']) orgs_RemoveMember,
     mk_route DELETE [Lit ''orgs'', Par ''id''] (ch @ [RequireRole ''owner'']) orgs_Delete]"

definition project_routes :: "middleware list \<Rightarrow> route list" where
  "project_routes ch = (let m = ch @ [RequireRole ''member''] in [
     mk_route GET [Lit ''projects''] m projects_List,
     mk_route POST [Lit ''projects''] m projects_Create,
     mk_route GET [Lit ''projects'', Par ''id''] m projects_Get,
     mk_route PATCH [Lit ''projects'', Par ''id''] m projects_Update,
     mk_route DELETE [Lit ''projects'', Par ''id''] m projects_Delete])"

definition service_routes :: "lib \<Rightarrow> middleware list \<Rightarrow> route list" where
  "service_routes L ch = [
     mk_route GET [Lit ''audit''] (ch @ [RequireRole ''admin'']) (audit_list_handler L),
     mk_route POST [Lit ''api-keys''] ch (apikeys_Create L),
     mk_route GET [Lit ''api-keys''] ch apikeys_List,
     mk_route DELETE [Lit ''api-keys'', Par ''id''] ch apikeys_Revoke,
     mk_route POST [Lit ''webhooks'', Lit ''endpoints''] ch webhooks_CreateEndpoint,
     mk_route GET [Lit ''webhooks'', Lit ''endpoints''] ch webhooks_ListEndpoints,
     mk_route PATCH [Lit ''webhooks'', Lit ''endpoints'', Par ''id''] ch webhooks_UpdateEndpoint,
     mk_route POST [Lit ''webhooks'', Lit ''test''] ch (webhooks_Test L),
     mk_route POST [Lit ''billing'', Lit ''checkout-session''] ch billing_checkout,
     mk_route GET [Lit ''billing'', Lit ''subscription''] ch billing_subscription,
     mk_route GET [Lit ''billing'', Lit ''usage''] ch billing_usage]"

definition storage_routes :: "lib \<Rightarrow> env \<Rightarrow> middleware list \<Rightarrow> route list" where
  "storage_routes L env ch = (let m = ch @ [RequireRole ''member'']; cfg = Load env in [
     mk_route POST [Lit ''storage'', Lit ''presign''] m (storage_PresignPut L cfg),
     mk_route POST [Lit ''storage'', Lit ''presign-download''] m (storage_PresignGet L cfg),
     mk_route GET [Lit ''storage'', Lit ''files''] m storage_ListFiles,
     mk_route POST [Lit ''storage'', Lit ''files''] m (storage_CreateFile env),
     mk_route GET [Lit ''storage'', Lit ''files'', Par ''id''] m storage_GetFile,
     mk_route DELETE [Lit ''storage'', Lit ''files'', Par ''id''] m (storage_DeleteFile cfg)])"

text \<open>The routes behind the tenant check, all routes of \<open>Register\<close>, and those that \<open>main\<close> adds.\<close>

definition protected_routes :: "lib \<Rightarrow> env \<Rightarrow> route list" where
  "protected_routes L env = (let ch = tenant_chain L (Load env) in
     org_routes ch @ project_routes ch @ service_routes L ch @ storage_routes L env ch)"

definition register_routes :: "lib \<Rightarrow> env \<Rightarrow> route list" where
  "register_routes L env = public_routes L (Load env) @ auth_routes L (Load env) @ protected_routes L env"

definition healthz :: "Config \<Rightarrow> handler" where
  "healthz cfg c = do {
     now \<leftarrow> time_Now;
     startedAt \<leftarrow> gets w_started;
     ret (emit (JSON 200 (JObj [(''status'', JStr ''ok''),
       (''uptime'', JStr (Duration_String (time_Sub now startedAt))),
       (''version'', JStr (AppVersion cfg)), (''env'', JStr (AppEnv cfg))])) c)
   }"

definition readyz :: handler where
  "readyz c = ret (emit (SetStatus 200) c)"

definition ping :: handler where
  "ping c = ret (emit (JSON 200 (JObj [(''pong'', JBool True)])) c)"

text \<open>The page of the API document, outside production; its text is the library's.\<close>

definition swagger :: "lib \<Rightarrow> handler" where
  "swagger L c = ret (emit (SetStatus (swagger_Status L (Param c ''any''))) c)"

definition swagger_routes :: "lib \<Rightarrow> Config \<Rightarrow> route list" where
  "swagger_routes L cfg =
     (if AppEnv cfg \<noteq> ''production''
      then [\<lparr>rt_method = GET, rt_path = [Lit ''swagger'', Rest ''any''], rt_chain = [], rt_handler = swagger L\<rparr>]
      else [])"

definition main_routes :: "lib \<Rightarrow> Config \<Rightarrow> route list" where
  "main_routes L cfg = [
       \<lparr>rt_method = GET, rt_path = [Lit ''healthz''], rt_chain = [], rt_handler = healthz cfg\<rparr>,
       \<lparr>rt_method = GET, rt_path = [Lit ''readyz''], rt_chain = [], rt_handler = readyz\<rparr>] @
     swagger_routes L cfg @ [mk_route GET [Lit ''_ping''] [] ping]"

definition routes :: "lib \<Rightarrow> env \<Rightarrow> route list" where
  "routes L env = main_routes L (Load env) @ register_routes L env"

text \<open>
  \<open>r.Use(Recover, otel, RateLimit, Logging)\<close>; telemetry changes nothing here. A request that
  matches no route runs the same chain and answers 404.
\<close>

definition global_chain :: "middleware list" where
  "global_chain = [Recover, RateLimit, Logging]"

fun find_route :: "route list \<Rightarrow> meth \<Rightarrow> string list \<Rightarrow> (route \<times> (string \<times> string) list) option" where
  "find_route [] m p = None"
| "find_route (r # rs) m p =
     (if rt_method r = m
      then (case match_path (rt_path r) p of Some b \<Rightarrow> Some (r, b) | None \<Rightarrow> find_route rs m p)
      else find_route rs m p)"

definition not_found :: handler where
  "not_found c = ret (emit (SetStatus 404) c)"

definition serve :: "lib \<Rightarrow> env \<Rightarrow> meth \<Rightarrow> string list \<Rightarrow> handler" where
  "serve L env m p c =
     (case find_route (routes L env) m p of
        None \<Rightarrow> run_chain global_chain not_found c
      | Some (r, b) \<Rightarrow>
          run_chain (global_chain @ rt_chain r) (rt_handler r) (c\<lparr>g_params := b\<rparr>))"

text \<open>A request as it arrives: no keys are set and nothing is written.\<close>

definition fresh_ctx :: "gctx \<Rightarrow> bool" where
  "fresh_ctx c \<longleftrightarrow> g_keys c = Map.empty \<and> g_out c = [] \<and> \<not> g_panic c"


section \<open>The running system\<close>

text \<open>
  One step of the system: a request is served, the dispatcher's ticker fires, the limiter's
  cleanup fires or the clock moves on. Requests are taken one at a time.
\<close>

inductive sys_step :: "lib \<Rightarrow> env \<Rightarrow> world \<Rightarrow> world \<Rightarrow> bool" for L env where
  request: "fresh_ctx c \<Longrightarrow> sys_step L env w (exec (serve L env m p c) w)"
| dispatcher: "sys_step L env w (exec (ProcessPending L) w)"
| cleaner: "sys_step L env w
    ((next_tick w)\<lparr>w_limiter := evict (w_clock w (w_tick w)) (w_limiter w)\<rparr>)"
| idle: "sys_step L env w (next_tick w)"

inductive_cases sys_stepE: "sys_step L env w w'"

definition reaches :: "lib \<Rightarrow> env \<Rightarrow> world \<Rightarrow> world \<Rightarrow> bool" where
  "reaches L env = (sys_step L env)\<^sup>*\<^sup>*"

context request_frame
begin

lemma respectful_routes: "r \<in> set (routes L env) \<Longrightarrow>
    respectful (rt_handler r) \<and> (\<forall>m \<in> set (rt_chain r). respectful_mw m)"
  unfolding routes_def register_routes_def main_routes_def swagger_routes_def public_routes_def auth_routes_def
    protected_routes_def org_routes_def
    project_routes_def service_routes_def storage_routes_def tenant_chain_def mk_route_def Let_def
  by (auto simp: respectful_auth_handlers respectful_org_handlers respectful_project_handlers
      respectful_tenant_handlers respectful_billing_handlers respectful_storage_handlers
      respectful_auth respectful_plain split: if_splits)
    (auto simp: respectful_def healthz_def readyz_def ping_def swagger_def intro!: rel_intros)

lemma find_route_in: "find_route rs m p = Some (r, b) \<Longrightarrow> r \<in> set rs"
  by (induction rs) (auto split: if_splits option.splits)

lemma respectful_serve: "state_io_rel (tables_rel R) (serve L env m p c)"
proof -
  have global: "\<forall>m \<in> set global_chain. respectful_mw m"
    by (simp add: global_chain_def respectful_plain)
  have "respectful (run_chain global_chain not_found)"
    by (rule respectful_chain [OF global]) (simp add: respectful_def not_found_def frame_ret)
  moreover have "respectful (run_chain (global_chain @ rt_chain r) (rt_handler r))"
    if "find_route (routes L env) m p = Some (r, b)" for r b
    using respectful_routes [OF find_route_in [OF that]] global by (intro respectful_chain) auto
  ultimately show ?thesis
    by (auto simp: serve_def respectful_def split: option.splits)
qed

end

text \<open>What every statement respects, every run of the system respects.\<close>

context schema_frame
begin

lemma step_rel: "sys_step L env w w' \<Longrightarrow> R (w_db w) (w_db w')"
  by (erule sys_stepE)
    (use frame_execD [OF respectful_serve] frame_execD [OF rel_ProcessPending] tables_refl in
      \<open>auto simp: tables_rel_def\<close>)

lemma reaches_rel: "reaches L env w w' \<Longrightarrow> R (w_db w) (w_db w')"
  unfolding reaches_def by (induction rule: rtranclp_induct) (auto intro: tables_refl tables_trans step_rel)

end

end
