(* ===== verification/Access.thy ===== *)
theory Access
  imports Router
begin

text \<open>
  Who reaches a handler: the chain of authentication, tenant check and role check that the
  protected routes of \<open>router.go\<close> run before their handlers.
\<close>


section \<open>Chains that refuse or pass on\<close>

text \<open>
  A middleware either refuses, writing one error and changing nothing but the last use of an API
  key, or its result is that of the next function on a context and a world of which something is
  known.
\<close>

definition same_but_keys :: "world \<Rightarrow> world \<Rightarrow> bool" where
  "same_but_keys w w' \<longleftrightarrow> (\<exists>ks. w_db w' = (w_db w)\<lparr>api_keys := ks\<rparr>)"

definition refused :: "gctx \<Rightarrow> world \<Rightarrow> gctx \<Rightarrow> world \<Rightarrow> bool" where
  "refused c w c' w' \<longleftrightarrow>
     (\<exists>code \<in> {400, 401, 403, 500}. \<exists>e. g_out c' = g_out c @ [AbortJSON code (error_json e)]) \<and>
     same_but_keys w w'"

definition passes :: "gctx prog \<Rightarrow> gctx \<Rightarrow> world \<Rightarrow> handler \<Rightarrow> (gctx \<Rightarrow> world \<Rightarrow> bool) \<Rightarrow> bool" where
  "passes p c w h P \<longleftrightarrow>
     refused c w (result p w) (exec p w) \<or>
     (\<exists>c1 w1. run_state p w = run_state (h c1) w1 \<and> g_out c1 = g_out c \<and> same_but_keys w w1 \<and> P c1 w1)"

lemma same_but_keys_refl [simp]: "same_but_keys w w"
  unfolding same_but_keys_def by (rule exI [of _ "api_keys (w_db w)"]) simp

lemma same_but_keys_db: "w_db w' = w_db w \<Longrightarrow> same_but_keys w w'"
  by (metis same_but_keys_def same_but_keys_refl)

lemma g_out_ctx_set [simp]: "g_out (ctx_set k v c) = g_out c"
  by (simp add: ctx_set_def)

lemma same_but_keys_tick [simp]: "same_but_keys w (next_tick w') \<longleftrightarrow> same_but_keys w w'"
  by (simp add: same_but_keys_def)

lemma same_but_keys_trans: "same_but_keys w w1 \<Longrightarrow> same_but_keys w1 w2 \<Longrightarrow> same_but_keys w w2"
  by (auto simp: same_but_keys_def)

lemma same_but_keys_role: "same_but_keys w w1 \<Longrightarrow> member_role (w_db w1) g u = member_role (w_db w) g u"
  by (auto simp: same_but_keys_def member_role_def)

lemma passes_refuse:
  "code \<in> {400, 401, 403, 500} \<Longrightarrow> g_out c' = g_out c \<Longrightarrow>
     passes (ret (emit (AbortJSON code (error_json e)) c')) c w h P"
  by (auto simp: passes_def refused_def emit_def result_def exec_def)

lemma passes_next: "g_out c1 = g_out c \<Longrightarrow> P c1 w \<Longrightarrow> passes (h c1) c w h P"
  unfolding passes_def using same_but_keys_refl by blast

lemma passes_bind:
  assumes "same_but_keys w (exec m w)" "passes (f (result m w)) c (exec m w) h P"
  shows "passes (State_Monad.bind m f) c w h P"
proof -
  have "run_state (State_Monad.bind m f) w = run_state (f (result m w)) (exec m w)"
    by (rule run_state_bind)
  with assms show ?thesis
    unfolding passes_def refused_def result_def exec_def by (auto dest: same_but_keys_trans)
qed

lemma passes_trans:
  assumes "passes p c w h P" "\<And>c1 w1. g_out c1 = g_out c \<Longrightarrow> same_but_keys w w1 \<Longrightarrow> P c1 w1 \<Longrightarrow> passes (h c1) c1 w1 h' Q"
  shows "passes p c w h' Q"
  using assms(1) unfolding passes_def
proof (elim disjE exE conjE)
  fix c1 w1
  assume run: "run_state p w = run_state (h c1) w1" and c1: "g_out c1 = g_out c" "same_but_keys w w1" "P c1 w1"
  have "passes (h c1) c1 w1 h' Q"
    by (rule assms(2) [OF c1])
  with run c1 show "refused c w (result p w) (exec p w) \<or>
      (\<exists>c1 w1. run_state p w = run_state (h' c1) w1 \<and> g_out c1 = g_out c \<and> same_but_keys w w1 \<and> Q c1 w1)"
    unfolding passes_def refused_def result_def exec_def by (auto dest: same_but_keys_trans)
qed blast

lemma passes_mono: "passes p c w h P \<Longrightarrow> (\<And>c1 w1. P c1 w1 \<Longrightarrow> Q c1 w1) \<Longrightarrow> passes p c w h Q"
  unfolding passes_def by blast


section \<open>The three checks\<close>

text \<open>
  An identity that a bearer token proves: the user of a token signed with the access secret and
  not expired, or the identifier of an API key. Where API keys are accepted, a token that looks
  like one is not tried as a signed token.
\<close>

definition token_user :: "lib \<Rightarrow> Config \<Rightarrow> bool \<Rightarrow> gctx \<Rightarrow> string \<Rightarrow> bool" where
  "token_user L cfg k c uid \<longleftrightarrow>
     (\<exists>tok now claims. bearer c = Some tok \<and> \<not> (HasPrefix tok ''sk_'' \<and> k) \<and>
        jwt_ParseWithClaims L now tok (JWTAccessSecret cfg) = Inr (claims, True) \<and> uid = claims_UserID claims)"

definition key_user :: "lib \<Rightarrow> gctx \<Rightarrow> world \<Rightarrow> string \<Rightarrow> bool" where
  "key_user L c w uid \<longleftrightarrow>
     (\<exists>tok row. bearer c = Some tok \<and> HasPrefix tok ''sk_'' \<and>
        key_by_hash (w_db w) (hashKey L tok) = Some row \<and> uid = api_keys_id row)"

lemma touch_same: "wlp (TouchAPIKeyLastUsed i) (\<lambda>_ w'. same_but_keys w w') w"
  by (auto simp: TouchAPIKeyLastUsed_def wlp_sql stmt_result_def touch_api_key_def same_but_keys_db
      split: option.splits fault.splits) (auto simp: same_but_keys_def)

lemma Validate_same: "same_but_keys w (exec (apikey_Validate L key) w)"
proof -
  have touch: "wlp (TouchAPIKeyLastUsed i) (\<lambda>_ w'. same_but_keys w w') w1" if "same_but_keys w w1" for i w1
    using touch_same by (rule wlp_mono) (rule same_but_keys_trans [OF that])
  have "wlp (apikey_Validate L key) (\<lambda>_ w'. same_but_keys w w') w"
    by (simp add: apikey_Validate_def GetAPIKeyByHash_def wp wlp_query_row touch
        split: option.splits fault.splits)
  then show ?thesis by (simp add: wlp_exec)
qed

lemma Parse_run:
  "result (Parse L tok s) w =
     (case jwt_ParseWithClaims L (w_clock w (w_tick w)) tok s of
        Inl e \<Rightarrow> Inl e | Inr (c, valid) \<Rightarrow> if valid then Inr c else Inl ErrTokenInvalidClaims)"
  "exec (Parse L tok s) w = next_tick w"
  by (simp_all add: Parse_def result_def exec_def time_Now_def)

lemma Auth_passes:
  "passes (AuthWithAPIKeys L cfg k c h) c w h (\<lambda>c1 w1.
     (\<exists>uid. c1 = ctx_set ''user_id'' (GStr uid) c \<and> token_user L cfg k c uid) \<or>
     (\<exists>uid g. k \<and> c1 = ctx_set ''api_key_auth'' (GBool True) (ctx_set ''org_id'' (GStr g)
                       (ctx_set ''user_id'' (GStr uid) c)) \<and> key_user L c w uid))"
  (is "passes _ _ _ _ ?P")
proof (cases "bearer c")
  case None
  then show ?thesis
    by (auto simp: AuthWithAPIKeys_def intro!: passes_refuse)
next
  case (Some tok)
  show ?thesis
  proof (cases "HasPrefix tok ''sk_'' \<and> k")
    case True
    have key: "key_user L c w i" if "result (apikey_Validate L tok) w = Inr (Some (i, g))" for i g
      using that True Some
      by (auto simp: apikey_Validate_result key_user_def split: option.splits fault.splits if_splits)
    show ?thesis
      unfolding AuthWithAPIKeys_def Some using True
      by (auto intro!: passes_bind [OF Validate_same] passes_refuse passes_next
          split: sum.splits option.splits) (metis key)
  next
    case False
    have tok: "token_user L cfg k c (claims_UserID claims)"
      if "result (Parse L tok (JWTAccessSecret cfg)) w = Inr claims" for claims
      using that Some False by (auto simp: Parse_run token_user_def split: sum.splits prod.splits if_splits)
    show ?thesis
      unfolding AuthWithAPIKeys_def Some using False
      by (auto intro!: passes_bind passes_refuse passes_next
          simp: Parse_run(2) split: sum.splits) (metis tok)+
  qed
qed

lemma requested_org_same: "same_but_keys w (exec (requested_org u c) w)"
proof -
  have "wlp (requested_org u c) (\<lambda>_ w'. same_but_keys w w') w"
    by (auto simp: requested_org_def wp Let_def ctx_GetActiveOrg_run split: option.splits fault.splits bool.splits)
  then show ?thesis by (simp add: wlp_exec)
qed

lemma IsMember_run:
  "result (org_IsMember g u) w = Inr (True, role) \<Longrightarrow> member_role (w_db w) g u = Some role"
  "exec (org_IsMember g u) w = next_tick w"
proof -
  have "wlp (org_IsMember g u) (\<lambda>r w'. w' = next_tick w \<and>
      (r = Inr (True, role) \<longrightarrow> member_role (w_db w) g u = Some role)) w" for role
    by (auto simp: org_IsMember_run split: option.splits fault.splits)
  then show "result (org_IsMember g u) w = Inr (True, role) \<Longrightarrow> member_role (w_db w) g u = Some role"
    "exec (org_IsMember g u) w = next_tick w"
    by (auto simp: wlp_run)
qed

definition member_ctx :: "gctx \<Rightarrow> world \<Rightarrow> string \<Rightarrow> string \<Rightarrow> string \<Rightarrow> bool" where
  "member_ctx c w uid g role \<longleftrightarrow>
     g_keys c ''user_id'' = Some (GStr uid) \<and> g_keys c ''org_id'' = Some (GStr g) \<and>
     g_keys c ''role'' = (if role = [] then None else Some (GStr role)) \<and>
     uid \<noteq> [] \<and> g \<noteq> [] \<and> member_role (w_db w) g uid = Some role"

lemma Tenant_passes:
  assumes "g_keys c ''role'' = None"
  shows "passes (Tenant c h) c w h (\<lambda>c1 w1.
     \<exists>uid g role. g_keys c ''user_id'' = Some (GStr uid) \<and> member_ctx c1 w1 uid g role)"
proof (cases "g_keys c ''user_id''")
  case None
  then show ?thesis
    by (auto simp: Tenant_def middleware_UserID_def get_string_def intro!: passes_refuse)
next
  case (Some v)
  show ?thesis
  proof (cases v)
    case (GStr uid)
    have joined: "role \<noteq> [] \<Longrightarrow> \<exists>g' role'. member_ctx (ctx_set ''role'' (GStr role) (ctx_set ''org_id'' (GStr g) c))
          (next_tick w1) uid g' role'"
        "role = [] \<Longrightarrow> \<exists>g' role'. member_ctx (ctx_set ''org_id'' (GStr g) c) (next_tick w1) uid g' role'"
      if "result (org_IsMember g uid) w1 = Inr (True, role)" "uid \<noteq> []" "g \<noteq> []" for g role w1
      using that(2,3) IsMember_run(1) [OF that(1)] Some GStr assms
      by (auto simp: member_ctx_def ctx_set_def intro!: exI [of _ g] exI [of _ role])
    show ?thesis
      unfolding Tenant_def middleware_UserID_def get_string_def using Some GStr
      by (auto intro!: passes_bind [OF requested_org_same] passes_bind passes_refuse passes_next
          simp: IsMember_run(2) Let_def joined split: sum.splits)
  next
    case (GBool b)
    with Some show ?thesis
      by (auto simp: Tenant_def middleware_UserID_def get_string_def intro!: passes_refuse)
  qed
qed

lemma RequireRole_passes:
  "passes (RequireRole r c h) c w h (\<lambda>c1 w1. c1 = c \<and> w1 = w \<and>
     (\<exists>v. g_keys c ''role'' = Some v \<and> (\<forall>role. v = GStr role \<longrightarrow> roleOrder r \<le> roleOrder role)))"
  unfolding RequireRole_def
  by (auto intro!: passes_refuse passes_next simp: Let_def split: option.splits gval.splits)

section \<open>The chain of a protected route\<close>

text \<open>
  The context of an admitted request: it names a user whom the bearer token proves and an
  organization of which the user is a member now, with the member's role.
\<close>

definition admitted :: "lib \<Rightarrow> Config \<Rightarrow> gctx \<Rightarrow> world \<Rightarrow> gctx \<Rightarrow> world \<Rightarrow> string \<Rightarrow> bool" where
  "admitted L cfg c w c1 w1 role \<longleftrightarrow>
     (\<exists>uid g. (token_user L cfg True c uid \<or> key_user L c w uid) \<and> member_ctx c1 w1 uid g role)"

lemma tenant_chain_passes:
  assumes "g_keys c = Map.empty"
  shows "passes (run_chain (tenant_chain L cfg) h c) c w h (\<lambda>c1 w1. \<exists>role. admitted L cfg c w c1 w1 role)"
proof -
  have auth: "passes (run_chain (tenant_chain L cfg) h c) c w (\<lambda>c1. Tenant c1 h) (\<lambda>c1 w1.
      g_keys c1 ''role'' = None \<and> (\<exists>uid. g_keys c1 ''user_id'' = Some (GStr uid) \<and>
        (token_user L cfg True c uid \<or> key_user L c w uid)))"
    unfolding tenant_chain_def run_chain.simps
    by (rule passes_mono [OF Auth_passes]) (use assms in \<open>auto simp: ctx_set_def\<close>)
  show ?thesis
  proof (rule passes_trans [OF auth])
    fix c1 :: gctx and w1
    assume c1: "g_keys c1 ''role'' = None \<and> (\<exists>uid. g_keys c1 ''user_id'' = Some (GStr uid) \<and>
        (token_user L cfg True c uid \<or> key_user L c w uid))"
    show "passes (Tenant c1 h) c1 w1 h (\<lambda>c2 w2. \<exists>role. admitted L cfg c w c2 w2 role)"
      by (rule passes_mono [OF Tenant_passes]) (use c1 in \<open>fastforce simp: admitted_def\<close>)+
  qed
qed

lemma run_chain_append: "run_chain (ms @ ns) h c = run_chain ms (run_chain ns h) c"
  by (induction ms arbitrary: c) (auto intro: arg_cong2 [where f = "\<lambda>x y. x y"])

lemma role_chain_passes:
  assumes "g_keys c = Map.empty"
  shows "passes (run_chain (tenant_chain L cfg @ [RequireRole r]) h c) c w h
           (\<lambda>c1 w1. \<exists>role. admitted L cfg c w c1 w1 role \<and> roleOrder r \<le> roleOrder role)"
  unfolding run_chain_append
  by (rule passes_trans [OF tenant_chain_passes [OF assms]], unfold run_chain.simps)
    (rule passes_mono [OF RequireRole_passes],
     auto simp: admitted_def member_ctx_def split: if_splits)

text \<open>The role that a protected route asks for, none for any member.\<close>

definition min_role :: "lib \<Rightarrow> Config \<Rightarrow> route \<Rightarrow> string option \<Rightarrow> bool" where
  "min_role L cfg r m \<longleftrightarrow>
     rt_chain r = tenant_chain L cfg @ (case m of None \<Rightarrow> [] | Some role \<Rightarrow> [RequireRole role])"

lemma protected_min_role:
  assumes "r \<in> set (protected_routes L env)"
  shows "\<exists>m. min_role L (Load env) r m"
proof -
  have "rt_chain r = tenant_chain L (Load env) \<or>
      (\<exists>role. rt_chain r = tenant_chain L (Load env) @ [RequireRole role])"
    using assms unfolding protected_routes_def org_routes_def project_routes_def service_routes_def
      storage_routes_def mk_route_def Let_def by auto
  then show ?thesis
    unfolding min_role_def by (metis append_Nil2 option.simps(4) option.simps(5))
qed


section \<open>Properties\<close>


text \<open>A request of user \<open>u1\<close> for its organization \<open>g1\<close>, with a token of the concrete library.\<close>

definition sample_env :: env where
  "sample_env = (\<lambda>_. '''')"

definition sample_token :: string where
  "sample_token = (case sample_sign (JWTAccessSecret (Load sample_env))
     \<lparr>claims_UserID = ''u1'', claims_TokenType = ''access'', claims_ID = ''t'', claims_IssuedAt = 0,
      claims_ExpiresAt = 9\<rparr> of Inr tok \<Rightarrow> tok | Inl _ \<Rightarrow> '''')"

definition sample_request :: "json option \<Rightarrow> gctx" where
  "sample_request body = \<lparr>g_headers = [(''Authorization'', ''Bearer '' @ sample_token), (''X-Org-ID'', ''g1'')],
     g_query = [], g_params = [], g_body = body, g_raw = '''', g_ip = ''10.0.0.1'', g_keys = Map.empty,
     g_out = [], g_panic = False\<rparr>"

definition still_world :: "db \<Rightarrow> world" where
  "still_world d = (sample_world d)\<lparr>w_clock := (\<lambda>_. 0)\<rparr>"

definition one_org_db :: db where
  "one_org_db = with_org ''g1'' ''acme'' ''u1'' 0 one_user_db"

lemma one_org_db_ok: "db_ok one_org_db"
  by (simp add: db_ok_def one_org_db_def with_org_def one_user_db_def empty_db_def table_oks
      stripe_unique_def uids_def oids_def)

definition sample_route :: route where
  "sample_route = mk_route GET [Lit ''projects''] (tenant_chain sample_lib (Load sample_env) @ [RequireRole ''member''])
     projects_List"


end
