(* ===== verification/Isolation.thy ===== *)
theory Isolation
  imports Access
begin

text \<open>
  The handlers of projects and files work on the rows of the organization in the context, which
  the tenant check has set: they change no row of another organization, and what they read of the
  table does not depend on one.
\<close>


section \<open>Writes\<close>

lemma record_now_elsewhere:
  "state_io_rel (tables_rel (same_projects h)) (record_now g u a e i b f)"
  unfolding record_now_def audit_Record_def InsertAuditLog_def
  by (intro same_projects.rel_intros) (auto simp: stmt_rel_def same_projects_def insert_audit_log_def
      Let_def split: if_splits option.splits)

lemma file_List_elsewhere: "state_io_rel (tables_rel (same_files h)) (file_List g n k)"
  unfolding file_List_def repo_ListFiles_def
  by (intro same_files.rel_intros) (auto simp: stmt_rel_def same_files_def query_or_fail_def split: sum.splits)

definition project_handlers :: "handler set" where
  "project_handlers = {projects_List, projects_Create, projects_Get, projects_Update, projects_Delete}"

definition file_handlers :: "Config \<Rightarrow> env \<Rightarrow> handler set" where
  "file_handlers cfg env = {storage_ListFiles, storage_CreateFile env, storage_GetFile, storage_DeleteFile cfg}"

lemma project_handlers_elsewhere:
  assumes "middleware_OrgID c = (g, ok)" "h \<noteq> g" "f \<in> project_handlers"
  shows "state_io_rel (tables_rel (same_projects h)) (f c)"
proof -
  have "state_io_rel (tables_rel (same_projects h)) (projects_List c)"
    "state_io_rel (tables_rel (same_projects h)) (projects_Create c)"
    "state_io_rel (tables_rel (same_projects h)) (projects_Get c)"
    "state_io_rel (tables_rel (same_projects h)) (projects_Update c)"
    "state_io_rel (tables_rel (same_projects h)) (projects_Delete c)"
    unfolding projects_List_def projects_Create_def projects_Get_def projects_Update_def projects_Delete_def
      assms(1) prod.case
    by (intro same_projects.rel_intros project_ops_elsewhere [OF assms(2)] record_now_elsewhere)+
  with assms(3) show ?thesis by (auto simp: project_handlers_def)
qed

lemma file_handlers_elsewhere:
  assumes "middleware_OrgID c = (g, ok)" "h \<noteq> g" "f \<in> file_handlers cfg env"
  shows "state_io_rel (tables_rel (same_files h)) (f c)"
proof -
  have "state_io_rel (tables_rel (same_files h)) (storage_ListFiles c)"
    "state_io_rel (tables_rel (same_files h)) (storage_CreateFile env c)"
    "state_io_rel (tables_rel (same_files h)) (storage_GetFile c)"
    "state_io_rel (tables_rel (same_files h)) (storage_DeleteFile cfg c)"
    unfolding storage_ListFiles_def storage_CreateFile_def storage_GetFile_def storage_DeleteFile_def
      S3_DeleteObject_def assms(1) prod.case
    by (intro same_files.rel_intros same_files.rel_call_out file_ops_elsewhere [OF assms(2)] file_List_elsewhere)+
  with assms(3) show ?thesis by (auto simp: file_handlers_def)
qed


section \<open>Reads\<close>

text \<open>Worlds that differ in the rows of other organizations only.\<close>

definition alike_projects :: "string \<Rightarrow> world \<Rightarrow> world \<Rightarrow> bool" where
  "alike_projects g w w' \<longleftrightarrow>
     (\<exists>t. w' = w\<lparr>w_db := (w_db w)\<lparr>projects := t\<rparr>\<rparr> \<and> projects.view t g = projects.view (projects (w_db w)) g)"

definition alike_files :: "string \<Rightarrow> world \<Rightarrow> world \<Rightarrow> bool" where
  "alike_files g w w' \<longleftrightarrow>
     (\<exists>t. w' = w\<lparr>w_db := (w_db w)\<lparr>files := t\<rparr>\<rparr> \<and> files.view t g = files.view (files (w_db w)) g)"

lemma alike_projects_org: "alike_projects g w w' \<Longrightarrow> org_projects w' g = org_projects w g"
  by (auto simp: alike_projects_def org_projects_def)

lemma alike_fault: "alike_projects g w w' \<Longrightarrow> w_fault w' = w_fault w \<and> w_tick w' = w_tick w"
  "alike_files g w w' \<Longrightarrow> w_fault w' = w_fault w \<and> w_tick w' = w_tick w"
  by (auto simp: alike_projects_def alike_files_def)

lemma project_reads_alike:
  assumes "alike_projects g w w'"
  shows "result (project_List g) w' = result (project_List g) w"
    and "result (project_Get g i) w' = result (project_Get g i) w"
proof -
  note same = alike_projects_org [OF assms] alike_fault(1) [OF assms]
  have "wlp (project_List g) (\<lambda>r _. r = x) w' = wlp (project_List g) (\<lambda>r _. r = x) w" for x
    by (simp add: project_List_run same split: option.splits fault.splits)
  then show "result (project_List g) w' = result (project_List g) w"
    by (simp add: wlp_result)
  have "wlp (project_Get g i) (\<lambda>r _. r = x) w' = wlp (project_Get g i) (\<lambda>r _. r = x) w" for x
    by (simp add: project_Get_run same split: option.splits fault.splits)
  then show "result (project_Get g i) w' = result (project_Get g i) w"
    by (simp add: wlp_result)
qed

lemma file_reads_alike:
  assumes "alike_files g w w'"
  shows "result (file_List g n k) w' = result (file_List g n k) w"
    and "result (file_Get g i) w' = result (file_Get g i) w"
proof -
  from assms have view: "filter (\<lambda>r. files_org_id r = g) (files (w_db w')) =
      filter (\<lambda>r. files_org_id r = g) (files (w_db w))"
    by (auto simp: alike_files_def files.view_def)
  then have sel: "select_one (is_file i g) (files (w_db w')) = select_one (is_file i g) (files (w_db w))" for i
    by (simp add: files.select_view files.view_def)
  note same = alike_fault(2) [OF assms]
  have "wlp (file_List g n k) (\<lambda>r _. r = x) w' = wlp (file_List g n k) (\<lambda>r _. r = x) w" for x
    by (simp add: file_List_def repo_ListFiles_def list_files_def wp wlp_sql stmt_result_def query_or_fail_def
        view same split: option.splits fault.splits sum.splits)
  then show "result (file_List g n k) w' = result (file_List g n k) w"
    by (simp add: wlp_result)
  have "wlp (file_Get g i) (\<lambda>r _. r = x) w' = wlp (file_Get g i) (\<lambda>r _. r = x) w" for x
    by (simp add: file_Get_def repo_GetFile_def wp wlp_query_row sel same split: option.splits fault.splits)
  then show "result (file_Get g i) w' = result (file_Get g i) w"
    by (simp add: wlp_result)
qed

lemma read_handlers:
  assumes "middleware_OrgID c = (g, ok)"
  shows "result (projects_List c) w = (if ok
           then case result (project_List g) w of
             Inl e \<Rightarrow> emit (JSON 500 (error_detail ''list_failed'' e)) c
           | Inr items \<Rightarrow> emit (JSON 200 (JObj [(''items'', JList (map json_of_Project items))])) c
           else emit (JSON 400 (error_json ''missing_org_id'')) c)"
    and "result (projects_Get c) w = (if ok
           then case result (project_Get g (Param c ''id'')) w of
             Inl e \<Rightarrow> emit (JSON 404 (error_json ''not_found'')) c
           | Inr p \<Rightarrow> emit (JSON 200 (json_of_Project p)) c
           else emit (JSON 400 (error_json ''missing_org_id'')) c)"
    and "result (storage_GetFile c) w = (if ok
           then case result (file_Get g (Param c ''id'')) w of
             Inl e \<Rightarrow> emit (JSON 404 (error_json ''not_found'')) c
           | Inr f \<Rightarrow> emit (JSON 200 (json_of_File f)) c
           else emit (JSON 400 (error_json ''missing_org_id'')) c)"
  by (simp_all add: projects_List_def projects_Get_def storage_GetFile_def assms result_bind split: sum.splits)


section \<open>Properties\<close>

text \<open>C4: Projects are isolated by organization. A project handler that runs for organization \<open>g\<close>
leaves every project of another organization \<open>h\<close> as it was, under every failure of the database; and
the answers of the handlers that list and get projects are the same whatever projects the other organizations
have.\<close>

theorem project_isolation:
  assumes "middleware_OrgID c = (g, ok)" "h \<noteq> g" "f \<in> project_handlers" "alike_projects g w w'"
  shows "filter (\<lambda>r. projects_org_id r = h) (projects (w_db (exec (f c) w))) =
           filter (\<lambda>r. projects_org_id r = h) (projects (w_db w)) \<and>
         result (projects_List c) w' = result (projects_List c) w \<and>
         result (projects_Get c) w' = result (projects_Get c) w"
  using same_projects.frame_execD [OF project_handlers_elsewhere [OF assms(1-3)], of w]
    project_reads_alike [OF assms(4)]
  by (simp add: tables_rel_def same_projects_def projects.view_def read_handlers [OF assms(1)])

definition sample_project :: "string \<Rightarrow> string \<Rightarrow> repo_Project" where
  "sample_project i g = \<lparr>projects_id = i, projects_org_id = g, projects_name = ''site'',
     projects_description = None, projects_created_by = ''u1'', projects_created_at = 0,
     projects_updated_at = 0\<rparr>"

definition delete_p2 :: gctx where
  "delete_p2 = (sample_request None)\<lparr>g_params := [(''id'', ''p2'')], g_keys := [''org_id'' \<mapsto> GStr ''g1'']\<rparr>"

theorem project_isolation_witness:
  "filter (\<lambda>r. projects_org_id r = ''g2'') (projects (w_db (exec (projects_Delete delete_p2)
     (sample_world (one_org_db\<lparr>projects := [sample_project ''p2'' ''g2'']\<rparr>))))) = [sample_project ''p2'' ''g2'']"
proof -
  let ?w = "sample_world (one_org_db\<lparr>projects := [sample_project ''p2'' ''g2'']\<rparr>)"
  have "alike_projects ''g1'' ?w ?w"
    unfolding alike_projects_def by (rule exI [of _ "projects (w_db ?w)"]) simp
  with project_isolation [of delete_p2 "''g1''" True "''g2''" projects_Delete ?w ?w] show ?thesis
    by (simp add: delete_p2_def middleware_OrgID_def get_string_def project_handlers_def sample_world_def
        sample_project_def)
qed

text \<open>C27: Files are isolated by organization: a file handler that runs for organization \<open>g\<close> leaves
every file record of another organization as it was, under every failure, and reading a file by its identifier
answers the same whatever the other organizations have stored.\<close>

theorem file_isolation:
  assumes "middleware_OrgID c = (g, ok)" "h \<noteq> g" "f \<in> file_handlers cfg env" "alike_files g w w'"
  shows "filter (\<lambda>r. files_org_id r = h) (files (w_db (exec (f c) w))) =
           filter (\<lambda>r. files_org_id r = h) (files (w_db w)) \<and>
         result (storage_GetFile c) w' = result (storage_GetFile c) w"
  using same_files.frame_execD [OF file_handlers_elsewhere [OF assms(1-3)], of w]
    file_reads_alike [OF assms(4)]
  by (simp add: tables_rel_def same_files_def files.view_def read_handlers [OF assms(1)])

definition sample_file :: "string \<Rightarrow> string \<Rightarrow> repo_File" where
  "sample_file i g = \<lparr>files_id = i, files_org_id = g, files_uploaded_by = ''u1'', files_bucket = ''b'',
     files_object_key = ''k'', files_size_bytes = None, files_content_type = None, files_created_at = 0,
     files_metadata = None\<rparr>"

theorem file_isolation_witness:
  "filter (\<lambda>r. files_org_id r = ''g2'') (files (w_db (exec (storage_DeleteFile (Load sample_env) delete_p2)
     (sample_world (one_org_db\<lparr>files := [sample_file ''p2'' ''g2'']\<rparr>))))) = [sample_file ''p2'' ''g2'']"
proof -
  let ?w = "sample_world (one_org_db\<lparr>files := [sample_file ''p2'' ''g2'']\<rparr>)"
  have "alike_files ''g1'' ?w ?w"
    unfolding alike_files_def by (rule exI [of _ "files (w_db ?w)"]) simp
  with file_isolation [of delete_p2 "''g1''" True "''g2''" "storage_DeleteFile (Load sample_env)"
      "Load sample_env" sample_env ?w ?w] show ?thesis
    by (simp add: delete_p2_def middleware_OrgID_def get_string_def file_handlers_def sample_world_def
        sample_file_def)
qed

end
