(* ===== verification/Sessions.thy ===== *)
theory Sessions
  imports Isolation
begin

text \<open>
  The life of a session, over the handlers of \<open>auth.go\<close> and the running system: rotating a
  refresh token uses it up, and resetting a password replaces the hash, revokes the user's refresh
  tokens and uses up the reset token.
\<close>


section \<open>Rotation\<close>

text \<open>What the checks of a refresh token leave of the world.\<close>

lemma IsValid_exec:
  "w_db (exec (IsValid L jti tok) w) = w_db w \<and> w_fault (exec (IsValid L jti tok) w) = w_fault w"
proof -
  have "wlp (IsValid L jti tok) (\<lambda>_ w'. w_db w' = w_db w \<and> w_fault w' = w_fault w) w"
    by (auto simp: IsValid_def GetRefreshToken_def wp wlp_query_row split: option.splits fault.splits)
  then show ?thesis by (simp add: wlp_exec)
qed

lemma Revoke_revokes:
  assumes "w_fault w = (\<lambda>_. None)" "refresh_row (w_db w) jti = Some row" "refresh_tokens_revoked_at row = None"
  shows "refresh_revoked (w_db (exec (Revoke jti) w)) jti"
proof -
  have "refresh_tokens_id row = jti"
    using assms(2) by (auto simp: refresh_row_def dest: select_one_SomeD)
  then have "wlp (Revoke jti) (\<lambda>_ w'. refresh_revoked (w_db w') jti) w"
    using assms by (simp add: Revoke_def RevokeToken_def wlp_sql_ok stmt_result_def revoke_where_def
        refresh_revoked_def refresh_row_def select_one_update)
  then show ?thesis by (simp add: wlp_exec)
qed

text \<open>Once revoked, whatever a program made of the queries does, it stays so.\<close>

lemma revoked_after:
  assumes "refresh_revoked (w_db w) jti"
    and "state_io_rel (tables_rel (\<lambda>d d'. \<forall>k. refresh_revoked d k \<longrightarrow> refresh_revoked d' k)) m"
  shows "refresh_revoked (w_db (exec m w)) jti"
  using refresh.life.frame_execD [OF assms(2), of w] assms(1) by (simp add: tables_rel_def)

lemma Refresh_revokes:
  assumes "w_fault w = (\<lambda>_. None)" "body_status (g_out (result (auth_Refresh L cfg c) w)) = Some 200" "g_out c = []"
  shows "\<exists>tok claims. bind_required ''refresh_token'' c = Some tok \<and>
           jwt_ParseWithClaims L (w_clock w (w_tick w)) tok (JWTRefreshSecret cfg) = Inr (claims, True) \<and>
           refresh_revoked (w_db (exec (auth_Refresh L cfg c) w)) (claims_ID claims)"
proof -
  from assms(2,3) obtain tok where tok: "bind_required ''refresh_token'' c = Some tok"
    by (auto simp: auth_Refresh_def emit_def split: option.splits)
  from assms(2,3) tok obtain claims where claims:
    "jwt_ParseWithClaims L (w_clock w (w_tick w)) tok (JWTRefreshSecret cfg) = Inr (claims, True)"
    "claims_TokenType claims = ''refresh''"
    by (auto simp: auth_Refresh_def emit_def result_bind Parse_run split: sum.splits if_splits)
  let ?j = "claims_ID claims" and ?w1 = "next_tick w"
  let ?w2 = "exec (IsValid L ?j tok) ?w1"
  have ok: "w_fault ?w2 = (\<lambda>_. None)" "w_db ?w2 = w_db w"
    using IsValid_exec [of L ?j tok ?w1] assms(1) by simp_all
  from assms(2,3) tok claims obtain u x where valid: "result (IsValid L ?j tok) ?w1 = Inr (True, u, x)"
    by (auto simp: auth_Refresh_def emit_def result_bind Parse_run split: sum.splits if_splits)
  then obtain row where row: "refresh_row (w_db w) ?j = Some row" "refresh_tokens_revoked_at row = None"
    using assms(1) by (auto simp: IsValid_result split: option.splits if_splits)
  have rev: "refresh_revoked (w_db (exec (Revoke ?j) ?w2)) ?j"
    using Revoke_revokes [OF ok(1), of ?j row] row ok(2) by simp
  have "exec (auth_Refresh L cfg c) w = exec (issue_pair L cfg u (Some ?j)) (exec (Revoke ?j) ?w2)"
    using tok claims valid
    by (simp add: auth_Refresh_def exec_bind Parse_run split: sum.splits)
  then show ?thesis
    using tok claims revoked_after [OF rev refresh.life.rel_issue_pair] by auto
qed

lemma Refresh_rejects:
  assumes "bind_required ''refresh_token'' c = Some tok"
    and "\<And>claims. jwt_ParseWithClaims L (w_clock w (w_tick w)) tok (JWTRefreshSecret cfg) = Inr (claims, True) \<Longrightarrow>
           refresh_revoked (w_db w) (claims_ID claims)"
  shows "result (auth_Refresh L cfg c) w = emit (JSON 401 (error_json ''invalid_refresh'')) c"
proof -
  have "result (IsValid L j t) u \<noteq> Inr (True, x)" if "refresh_revoked (w_db u) j" for j t u x
    using refresh.rejects [OF that] by (cases x) (auto simp: refresh_accepted_def)
  then show ?thesis
    using assms by (auto simp: auth_Refresh_def result_bind Parse_run split: sum.splits prod.splits if_splits)
qed

section \<open>Resetting a password\<close>

text \<open>The tables after a successful reset.\<close>

lemma ResetPassword_db:
  assumes "w_fault w = (\<lambda>_. None)" "bind_reset c = Some (tok, pw)" "g_out c = []"
  shows "wlp (auth_ResetPassword L c) (\<lambda>c' w'. body_status (g_out c') = Some 200 \<longrightarrow>
     w_fault w' = (\<lambda>_. None) \<and>
     (\<exists>row salt h t1 t2. reset_row (w_db w) (hashResetToken L tok) = Some row \<and>
        bcrypt_GenerateFromPassword L salt pw = Inr h \<and>
        w_db w' = (w_db w)\<lparr>
          password_reset_tokens := update_where (\<lambda>r. password_reset_tokens_id r = password_reset_tokens_id row)
            (\<lambda>r. r\<lparr>password_reset_tokens_used_at := Some t1\<rparr>) (password_reset_tokens (w_db w)),
          users := update_where (\<lambda>r. users_id r = password_reset_tokens_user_id row)
            (\<lambda>r. r\<lparr>users_password_hash := h\<rparr>) (users (w_db w)),
          refresh_tokens := update_where
            (\<lambda>r. refresh_tokens_user_id r = password_reset_tokens_user_id row \<and> refresh_tokens_revoked_at r = None)
            (\<lambda>r. r\<lparr>refresh_tokens_revoked_at := Some t2\<rparr>) (refresh_tokens (w_db w))\<rparr>)) w"
  using assms
  by (auto simp: auth_ResetPassword_def ValidateAndConsume_def GetPasswordResetByHash_def
      MarkPasswordResetUsed_def user_UpdatePassword_def UpdateUserPassword_def RevokeAllForUser_def
      RevokeAllUserTokens_def wp wlp_query_row wlp_sql_ok stmt_result_def mark_password_reset_used_def
      update_user_password_def revoke_where_def emit_def split: option.splits sum.splits)

lemma reset_marked_spent:
  assumes "db_ok d" "reset_row d h = Some row"
    and "password_reset_tokens d' = update_where (\<lambda>r. password_reset_tokens_id r = password_reset_tokens_id row)
           (\<lambda>r. r\<lparr>password_reset_tokens_used_at := Some t\<rparr>) (password_reset_tokens d)"
  shows "reset_spent d' h"
proof -
  have row: "row \<in> set (password_reset_tokens d)" "password_reset_tokens_token_hash row = h"
    using assms(2) by (auto simp: reset_row_def dest: select_one_SomeD)
  have "r = row" if "r \<in> set (password_reset_tokens d)" "password_reset_tokens_token_hash r = h" for r
    using assms(1) that row by (auto simp: db_ok_def resets_ok_def dest: distinct_key_eq)
  then have "reset_row d' h = None"
    by (auto simp: reset_row_def select_one_None assms(3) set_update_where split: if_splits)
  moreover have "map password_reset_tokens_token_hash (password_reset_tokens d') =
      map password_reset_tokens_token_hash (password_reset_tokens d)"
    by (simp add: assms(3) map_update_where)
  then have "h \<in> set (map password_reset_tokens_token_hash (password_reset_tokens d'))"
    using row by force
  ultimately show ?thesis by (simp add: reset_spent_def)
qed

lemma login_with_hash:
  assumes "db_ok (w_db w)" "w_fault w = (\<lambda>_. None)" "r \<in> set (users (w_db w))"
    and "bcrypt_CompareHashAndPassword L (users_password_hash r) pw = None"
  shows "result (user_Login L (users_email r) pw) w =
           Inr \<lparr>user_ID = users_id r, user_Email = users_email r, user_PasswordHash = users_password_hash r\<rparr>"
proof -
  have "select_one (\<lambda>x. users_email x = users_email r) (users (w_db w)) = Some r"
    using assms(1,3) by (auto simp: db_ok_def users_ok_def intro: select_one_key)
  then have "wlp (user_Login L (users_email r) pw) (\<lambda>x _. x =
      Inr \<lparr>user_ID = users_id r, user_Email = users_email r, user_PasswordHash = users_password_hash r\<rparr>) w"
    using assms by (simp add: user_Login_def GetUserByEmail_def wp wlp_query_row user_of_cols_def user_cols_def)
  then show ?thesis by (rule result_eqI)
qed


section \<open>Properties\<close>

text \<open>C1: A refresh token is good for one rotation. Once the refresh handler has answered 200 for it, with
the database answering, every later request with the same token in any state the system reaches is answered
401, whatever requests, webhook deliveries and database failures come in between.\<close>

theorem refresh_single_use:
  assumes "jwt_stable L" "w_fault w = (\<lambda>_. None)" "g_out c = []"
    and "body_status (g_out (result (auth_Refresh L cfg c) w)) = Some 200"
    and "reaches L env (exec (auth_Refresh L cfg c) w) w'"
    and "bind_required ''refresh_token'' c' = bind_required ''refresh_token'' c"
  shows "result (auth_Refresh L cfg c') w' = emit (JSON 401 (error_json ''invalid_refresh'')) c'"
proof -
  from Refresh_revokes [OF assms(2,4,3)] obtain tok claims t where
    tok: "bind_required ''refresh_token'' c = Some tok"
    and claims: "jwt_ParseWithClaims L t tok (JWTRefreshSecret cfg) = Inr (claims, True)"
    and rev: "refresh_revoked (w_db (exec (auth_Refresh L cfg c) w)) (claims_ID claims)"
    by blast
  have later: "refresh_revoked (w_db w') (claims_ID claims)"
    using refresh.life.reaches_rel [OF assms(5)] rev by simp
  show ?thesis
  proof (rule Refresh_rejects)
    show "bind_required ''refresh_token'' c' = Some tok"
      using assms(6) tok by simp
    show "refresh_revoked (w_db w') (claims_ID claims')"
      if "jwt_ParseWithClaims L (w_clock w' (w_tick w')) tok (JWTRefreshSecret cfg) = Inr (claims', True)" for claims'
      using assms(1) claims that later unfolding jwt_stable_def by metis
  qed
qed

text \<open>A refresh token of user \<open>u1\<close> and its row; a request that carries a JSON object.\<close>

definition short_cfg :: Config where
  "short_cfg = (Load sample_env)\<lparr>JWTAccessTTLMinutes := 0, JWTRefreshTTLDays := 0\<rparr>"

definition sample_refresh :: string where
  "sample_refresh = (case sample_sign (JWTRefreshSecret short_cfg)
     \<lparr>claims_UserID = ''u1'', claims_TokenType = ''refresh'', claims_ID = ''j1'', claims_IssuedAt = 0,
      claims_ExpiresAt = 9\<rparr> of Inr tok \<Rightarrow> tok | Inl _ \<Rightarrow> [])"

definition refresh_db :: db where
  "refresh_db = one_user_db\<lparr>refresh_tokens := [\<lparr>refresh_tokens_id = ''j1'', refresh_tokens_user_id = ''u1'',
     refresh_tokens_token_hash = ''h:'' @ sample_refresh, refresh_tokens_expires_at = 9,
     refresh_tokens_revoked_at = None, refresh_tokens_rotated_from = None, refresh_tokens_created_at = 0\<rparr>]\<rparr>"

definition post :: "(string \<times> string) list \<Rightarrow> gctx" where
  "post kvs = (sample_request (Some (JObj (map (\<lambda>(k, v). (k, JStr v)) kvs))))\<lparr>g_headers := []\<rparr>"

theorem refresh_single_use_witness:
  "result (auth_Refresh sample_lib short_cfg (post [(''refresh_token'', sample_refresh)]))
     (exec (auth_Refresh sample_lib short_cfg (post [(''refresh_token'', sample_refresh)])) (still_world refresh_db)) =
   emit (JSON 401 (error_json ''invalid_refresh'')) (post [(''refresh_token'', sample_refresh)])"
proof (rule refresh_single_use [OF jwt_stable_sample])
  show "body_status (g_out (result (auth_Refresh sample_lib short_cfg (post [(''refresh_token'', sample_refresh)]))
      (still_world refresh_db))) = Some 200"
    by code_simp
  show "reaches sample_lib sample_env w w" for w
    by (simp add: reaches_def)
qed (simp_all add: still_world_def sample_world_def post_def sample_request_def)

text \<open>C5: A password reset that answers 200, with the database answering, does all it should: the user of
the token can log in with the new password, every refresh token of the user is revoked, and the reset token is
rejected in every state the system reaches from there.\<close>

theorem reset_password_complete:
  assumes "bcrypt_sound L" "w_fault w = (\<lambda>_. None)" "db_ok (w_db w)" "g_out c = []"
    and "bind_reset c = Some (tok, pw)"
    and "body_status (g_out (result (auth_ResetPassword L c) w)) = Some 200"
    and "w1 = exec (auth_ResetPassword L c) w"
  shows "\<exists>row u. reset_row (w_db w) (hashResetToken L tok) = Some row \<and>
           user_ID u = password_reset_tokens_user_id row \<and>
           result (user_Login L (user_Email u) pw) w1 = Inr u \<and>
           (\<forall>r \<in> set (refresh_tokens (w_db w1)).
              refresh_tokens_user_id r = user_ID u \<longrightarrow> refresh_tokens_revoked_at r \<noteq> None) \<and>
           (\<forall>w2. reaches L env w1 w2 \<longrightarrow> \<not> reset_accepted L (hashResetToken L tok) w2)"
proof -
  from ResetPassword_db [OF assms(2,5,4), unfolded wlp_run] assms(6)
  obtain row salt h t1 t2 where ok: "w_fault w1 = (\<lambda>_. None)"
    and row: "reset_row (w_db w) (hashResetToken L tok) = Some row"
    and h: "bcrypt_GenerateFromPassword L salt pw = Inr h"
    and db: "w_db w1 = (w_db w)\<lparr>
          password_reset_tokens := update_where (\<lambda>r. password_reset_tokens_id r = password_reset_tokens_id row)
            (\<lambda>r. r\<lparr>password_reset_tokens_used_at := Some t1\<rparr>) (password_reset_tokens (w_db w)),
          users := update_where (\<lambda>r. users_id r = password_reset_tokens_user_id row)
            (\<lambda>r. r\<lparr>users_password_hash := h\<rparr>) (users (w_db w)),
          refresh_tokens := update_where
            (\<lambda>r. refresh_tokens_user_id r = password_reset_tokens_user_id row \<and> refresh_tokens_revoked_at r = None)
            (\<lambda>r. r\<lparr>refresh_tokens_revoked_at := Some t2\<rparr>) (refresh_tokens (w_db w))\<rparr>"
    unfolding assms(7) by blast
  let ?uid = "password_reset_tokens_user_id row"
  have ok1: "db_ok (w_db w1)"
    using integrity.frame_execD [OF integrity.respectful_auth_handlers(7) [unfolded integrity.respectful_def, rule_format], of w]
      assms(3) by (simp add: assms(7) tables_rel_def keeps_ok_def)
  have "?uid \<in> uids (w_db w)"
    using assms(3) row by (auto simp: db_ok_def resets_ok_def reset_row_def dest!: select_one_SomeD)
  then obtain r where r: "r \<in> set (users (w_db w))" "users_id r = ?uid"
    by (auto simp: uids_def)
  let ?r = "r\<lparr>users_password_hash := h\<rparr>"
  have "?r \<in> set (users (w_db w1))"
    using r by (auto simp: db set_update_where image_iff intro!: bexI [of _ r])
  from login_with_hash [OF ok1 ok this, of L pw] assms(1) h
  have login: "result (user_Login L (users_email r) pw) w1 =
      Inr \<lparr>user_ID = ?uid, user_Email = users_email r, user_PasswordHash = h\<rparr>"
    using r(2) by (simp add: bcrypt_sound_def)
  have "reset_spent (w_db w1) (hashResetToken L tok)"
    by (rule reset_marked_spent [OF assms(3) row, of _ t1]) (simp add: db)
  then have "\<not> reset_accepted L (hashResetToken L tok) w2" if "reaches L env w1 w2" for w2
    using reset.life.reaches_rel [OF that] reset.rejects by blast
  moreover have "refresh_tokens_revoked_at x \<noteq> None"
    if "x \<in> set (refresh_tokens (w_db w1))" "refresh_tokens_user_id x = ?uid" for x
    using that by (auto simp: db set_update_where split: if_splits)
  ultimately show ?thesis
    using row login by (intro exI [of _ row] exI [of _ "\<lparr>user_ID = ?uid, user_Email = users_email r,
      user_PasswordHash = h\<rparr>"]) simp
qed

definition reset_db :: db where
  "reset_db = one_user_db\<lparr>password_reset_tokens := [\<lparr>password_reset_tokens_id = ''p1'',
     password_reset_tokens_user_id = ''u1'', password_reset_tokens_token_hash = ''h:tok'',
     password_reset_tokens_expires_at = 9, password_reset_tokens_used_at = None,
     password_reset_tokens_created_at = 0\<rparr>]\<rparr>"

lemma reset_db_ok: "db_ok reset_db"
  by (simp add: db_ok_def reset_db_def one_user_db_def empty_db_def table_oks stripe_unique_def uids_def)

theorem reset_password_complete_witness:
  "\<exists>u. result (user_Login sample_lib (user_Email u) ''new-secret'')
     (exec (auth_ResetPassword sample_lib (post [(''token'', ''tok''), (''new_password'', ''new-secret'')]))
        (still_world reset_db)) = Inr u \<and> user_ID u = ''u1''"
proof -
  let ?c = "post [(''token'', ''tok''), (''new_password'', ''new-secret'')]"
  have "w_fault (still_world reset_db) = (\<lambda>_. None)" "db_ok (w_db (still_world reset_db))" "g_out ?c = []"
    using reset_db_ok by (simp_all add: still_world_def sample_world_def post_def sample_request_def)
  moreover have "bind_reset ?c = Some (''tok'', ''new-secret'')"
    "body_status (g_out (result (auth_ResetPassword sample_lib ?c) (still_world reset_db))) = Some 200"
    by code_simp+
  ultimately obtain row u where u: "reset_row (w_db (still_world reset_db)) (hashResetToken sample_lib ''tok'') = Some row"
    "user_ID u = password_reset_tokens_user_id row"
    "result (user_Login sample_lib (user_Email u) ''new-secret'')
       (exec (auth_ResetPassword sample_lib ?c) (still_world reset_db)) = Inr u"
    using reset_password_complete [OF bcrypt_sound_sample, of "still_world reset_db" ?c "''tok''" "''new-secret''" _ sample_env,
        OF _ _ _ _ _ refl] by blast
  have "map_option password_reset_tokens_user_id
      (reset_row (w_db (still_world reset_db)) (hashResetToken sample_lib ''tok'')) = Some ''u1''"
    by code_simp
  with u show ?thesis by auto
qed

text \<open>C32: Asking for a password reset tells nothing about who has an account: for the same request, the
answer is the same in any two states of the system, whichever users exist and whatever fails.\<close>

theorem forgot_password_uniform:
  "g_out (result (auth_ForgotPassword L c) w) = g_out (result (auth_ForgotPassword L c) w')"
proof -
  let ?invalid = "bind_required ''email'' c = None \<or> (\<exists>e. bind_required ''email'' c = Some e \<and> \<not> validator_email L e)"
  have "g_out (result (auth_ForgotPassword L c) w) =
      (if ?invalid then g_out c @ [JSON 422 (error_json ''invalid_payload'')] else g_out c @ [JSON 200 reset_sent])"
    for w
    by (auto simp: auth_ForgotPassword_def emit_def result_bind split: option.splits sum.splits)
  then show ?thesis by simp
qed

text \<open>C33: A failed login answers the same for an address without an account and for a wrong password: 401
with the same body, and in both cases no table changes and no token is issued.\<close>

theorem login_failure_uniform:
  assumes "bind_creds L c = Some (email, pw)" "w_fault w = (\<lambda>_. None)"
    and "\<forall>r \<in> set (users (w_db w)). users_email r = email \<longrightarrow>
           bcrypt_CompareHashAndPassword L (users_password_hash r) pw \<noteq> None"
  shows "result (auth_Login L cfg c) w = emit (JSON 401 (error_json ''invalid_credentials'')) c \<and>
         w_db (exec (auth_Login L cfg c) w) = w_db w"
proof -
  have "wlp (user_Login L email pw) (\<lambda>r w'. (\<exists>e. r = Inl e) \<and> w_db w' = w_db w) w"
    using assms(2,3) by (auto simp: user_Login_def GetUserByEmail_def wp wlp_query_row user_of_cols_def
        user_cols_def split: option.splits dest!: select_one_SomeD)
  then have "wlp (auth_Login L cfg c)
      (\<lambda>c' w'. c' = emit (JSON 401 (error_json ''invalid_credentials'')) c \<and> w_db w' = w_db w) w"
    unfolding auth_Login_def assms(1) by (auto simp: wlp_bind wp elim!: wlp_mono)
  then show ?thesis by (simp add: wlp_run)
qed

theorem login_failure_uniform_witness:
  "result (auth_Login sample_lib short_cfg (post [(''email'', ''nobody@x''), (''password'', ''secret'')]))
     (still_world one_user_db) =
   emit (JSON 401 (error_json ''invalid_credentials'')) (post [(''email'', ''nobody@x''), (''password'', ''secret'')]) \<and>
   result (auth_Login sample_lib short_cfg (post [(''email'', ''a@x''), (''password'', ''guess1'')]))
     (still_world one_user_db) =
   emit (JSON 401 (error_json ''invalid_credentials'')) (post [(''email'', ''a@x''), (''password'', ''guess1'')])"
proof -
  have b: "bind_creds sample_lib (post [(''email'', ''nobody@x''), (''password'', ''secret'')]) = Some (''nobody@x'', ''secret'')"
    "bind_creds sample_lib (post [(''email'', ''a@x''), (''password'', ''guess1'')]) = Some (''a@x'', ''guess1'')"
    by code_simp+
  have w: "w_fault (still_world one_user_db) = (\<lambda>_. None)"
    by (simp add: still_world_def sample_world_def)
  show ?thesis
    using login_failure_uniform [OF b(1) w, of short_cfg] login_failure_uniform [OF b(2) w, of short_cfg]
    by (simp add: still_world_def sample_world_def one_user_db_def empty_db_def sample_lib_def)
qed

end
