(* ===== verification/Gaps.thy ===== *)
theory Gaps
  imports Sessions
begin

text \<open>
  Where the code does something else than its routes and comments suggest, stated as theorems about
  the same definitions: API keys and the tenant check, the parameter of the member routes, and the
  organization that the organization routes act on.
\<close>


section \<open>Runs of the tenant chain\<close>

lemma run_chain_fun:
  "run_chain [] h = h" "run_chain (m # ms) h = (\<lambda>c. m c (run_chain ms h))"
  by (simp_all add: fun_eq_iff)

text \<open>The names that a path binds are those of its pattern.\<close>

lemma match_path_names:
  "match_path ps xs = Some b \<Longrightarrow> map fst b = concat (map (\<lambda>s. case s of Lit _ \<Rightarrow> [] | Par n \<Rightarrow> [n] | Rest n \<Rightarrow> [n]) ps)"
  by (induction ps xs arbitrary: b rule: match_path.induct) (auto split: if_splits)

text \<open>The chain on a signed token, with the database answering.\<close>

lemma requested_org_header:
  assumes "TrimSpace (GetHeader c ''X-Org-ID'') = g" "g \<noteq> []"
  shows "requested_org u c = ret g"
  using assms by (simp add: requested_org_def)

lemma tenant_chain_run:
  assumes "bearer c = Some tok" "\<not> HasPrefix tok ''sk_''"
    and "jwt_ParseWithClaims L (w_clock w (w_tick w)) tok (JWTAccessSecret cfg) = Inr (claims, True)"
    and "claims_UserID claims = u" "u \<noteq> []"
    and "TrimSpace (GetHeader c ''X-Org-ID'') = g" "g \<noteq> []"
    and "w_fault w = (\<lambda>_. None)" "member_role (w_db w) g u = Some role" "role \<noteq> []"
  shows "run_state (run_chain (tenant_chain L cfg) h c) w =
           run_state (h (ctx_set ''role'' (GStr role) (ctx_set ''org_id'' (GStr g) (ctx_set ''user_id'' (GStr u) c))))
             (next_tick (next_tick w))"
proof -
  have hdr: "GetHeader (ctx_set ''user_id'' (GStr u) c) ''X-Org-ID'' = GetHeader c ''X-Org-ID''"
    by (simp add: GetHeader_def ctx_set_def)
  have uid: "middleware_UserID (ctx_set ''user_id'' (GStr u) c) = (u, True)"
    using assms(5) by (simp add: middleware_UserID_def get_string_def ctx_set_def)
  have "run_state (AuthWithAPIKeys L cfg True c (\<lambda>c1. Tenant c1 h)) w =
      run_state (Tenant (ctx_set ''user_id'' (GStr u) c) h) (next_tick w)"
    using assms(1-4) by (simp add: AuthWithAPIKeys_def run_state_split [of "Parse L tok s" for s] Parse_run)
  also have "\<dots> = run_state (h (ctx_set ''role'' (GStr role) (ctx_set ''org_id'' (GStr g) (ctx_set ''user_id'' (GStr u) c))))
      (next_tick (next_tick w))"
    using assms(5-10) by (simp add: Tenant_def uid requested_org_header hdr run_state_split [of "org_IsMember g u"]
        IsMember_result IsMember_run(2) Let_def)
  finally show ?thesis
    by (simp add: tenant_chain_def run_chain_fun)
qed

lemma member_user_exists:
  assumes "db_ok d" "member_role d g u = Some role"
  shows "u \<in> uids d"
  using assms by (auto simp: db_ok_def members_ok_def member_role_def is_member_row_def dest!: select_one_SomeD)


section \<open>Properties\<close>

text \<open>C37: A request with an API key is refused by every protected route: the key's identifier takes the place
of the user's, and no membership names it, since memberships name users. This holds whatever key, role or
organization, as long as no key has the identifier of a user.\<close>

theorem api_key_never_admitted:
  assumes "r \<in> set (protected_routes L env)" "g_keys c = Map.empty"
    and "bearer c = Some tok" "HasPrefix tok ''sk_''"
    and "db_ok (w_db w)" "api_keys_id ` set (api_keys (w_db w)) \<inter> uids (w_db w) = {}"
  shows "refused c w (result (run_chain (rt_chain r) (rt_handler r) c) w) (exec (run_chain (rt_chain r) (rt_handler r) c) w)"
proof -
  have no: "\<not> admitted L (Load env) c w c1 w1 role" if "same_but_keys w w1" for c1 w1 role
  proof
    assume "admitted L (Load env) c w c1 w1 role"
    then obtain uid g where uid: "key_user L c w uid" "member_role (w_db w1) g uid = Some role"
      using assms(3,4) by (auto simp: admitted_def token_user_def member_ctx_def)
    then have "uid \<in> uids (w_db w)"
      using member_user_exists [OF assms(5)] same_but_keys_role [OF that] by simp
    moreover have "uid \<in> api_keys_id ` set (api_keys (w_db w))"
      using uid(1) by (auto simp: key_user_def key_by_hash_def dest!: select_one_SomeD)
    ultimately show False
      using assms(6) by blast
  qed
  obtain m where m: "min_role L (Load env) r m"
    using protected_min_role [OF assms(1)] by blast
  have "passes (run_chain (rt_chain r) (rt_handler r) c) c w (rt_handler r)
      (\<lambda>c1 w1. \<exists>role. admitted L (Load env) c w c1 w1 role)"
  proof (cases m)
    case None
    with m show ?thesis by (simp add: min_role_def tenant_chain_passes [OF assms(2)])
  next
    case (Some least)
    with m have "rt_chain r = tenant_chain L (Load env) @ [RequireRole least]"
      by (simp add: min_role_def)
    then show ?thesis
      by (simp only:) (rule passes_mono [OF role_chain_passes [OF assms(2)]], blast)
  qed
  then show ?thesis
    using no unfolding passes_def by blast
qed

definition key_request :: gctx where
  "key_request = (sample_request None)\<lparr>g_headers := [(''Authorization'', ''Bearer sk_a''), (''X-Org-ID'', ''g1'')]\<rparr>"

theorem api_key_never_admitted_witness:
  "refused key_request (sample_world one_key_db)
     (result (run_chain (rt_chain sample_route) (rt_handler sample_route) key_request) (sample_world one_key_db))
     (exec (run_chain (rt_chain sample_route) (rt_handler sample_route) key_request) (sample_world one_key_db))"
proof (rule api_key_never_admitted)
  show "sample_route \<in> set (protected_routes sample_lib sample_env)"
    by (simp add: protected_routes_def project_routes_def sample_route_def Let_def)
  show "bearer key_request = Some ''sk_a''"
    by code_simp
  show "db_ok (w_db (sample_world one_key_db))"
    using one_key_db_ok by (simp add: sample_world_def)
qed (simp_all add: key_request_def sample_request_def HasPrefix_def sample_world_def one_key_db_def sample_key_def
    uids_def with_org_def one_user_db_def empty_db_def)

text \<open>C35: The role check and the deletion of an organization look at different organizations. The owner of one
organization, naming it in \<open>X-Org-ID\<close>, deletes any other by its identifier in the path, without being a
member of it: the answer is 204 and the organization is gone.\<close>

theorem owner_deletes_other_org:
  assumes "bearer c = Some tok" "\<not> HasPrefix tok ''sk_''"
    and "jwt_ParseWithClaims L (w_clock w (w_tick w)) tok (JWTAccessSecret cfg) = Inr (claims, True)"
    and "claims_UserID claims = u" "u \<noteq> []"
    and "TrimSpace (GetHeader c ''X-Org-ID'') = g" "g \<noteq> []"
    and "w_fault w = (\<lambda>_. None)" "member_role (w_db w) g u = Some ''owner''"
    and "Param c ''id'' = other" "other \<noteq> g" "member_role (w_db w) other u = None" "g_out c = []"
    and "p = run_chain (tenant_chain L cfg @ [RequireRole ''owner'']) orgs_Delete c"
  shows "\<not> org_exists (w_db (exec p w)) other \<and> response_status (result p w) = 204"
proof -
  let ?c = "ctx_set ''role'' (GStr ''owner'') (ctx_set ''org_id'' (GStr g) (ctx_set ''user_id'' (GStr u) c))"
  let ?w = "next_tick (next_tick w)"
  have role: "RequireRole ''owner'' ?c orgs_Delete = orgs_Delete ?c"
    by (simp add: RequireRole_def ctx_set_def)
  have "run_state p w = run_state (orgs_Delete ?c) ?w"
    using tenant_chain_run [OF assms(1-9), of "run_chain [RequireRole ''owner''] orgs_Delete"]
    by (simp add: assms(14) run_chain_append run_chain_fun role)
  then have run: "exec p w = exec (orgs_Delete ?c) ?w" "result p w = result (orgs_Delete ?c) ?w"
    by (simp_all add: exec_def result_def)
  have id: "Param ?c ''id'' = other" and out: "g_out ?c = []"
    using assms(10,13) by (simp_all add: Param_def ctx_set_def)
  have "wlp (orgs_Delete ?c) (\<lambda>c' w'. \<not> org_exists (w_db w') other \<and> response_status c' = 204) ?w"
    unfolding orgs_Delete_def id
    using assms(8) out
    by (auto simp: org_Delete_def DeleteOrg_def wp wlp_sql_ok stmt_result_def delete_org_def org_exists_def
        record_now_def audit_Record_def InsertAuditLog_def insert_audit_log_def emit_def response_status_def
        delete_where_def Let_def split: sum.splits)
  then show ?thesis
    by (simp add: wlp_run run)
qed

definition two_orgs_db :: db where
  "two_orgs_db = with_org ''g2'' ''other'' ''u2'' 0 (with_org ''g1'' ''acme'' ''u1'' 0 (one_user_db\<lparr>users :=
     users one_user_db @ [\<lparr>users_id = ''u2'', users_email = ''b@x'', users_password_hash = ''b:secret'',
       users_created_at = 0\<rparr>]\<rparr>))"

theorem owner_deletes_other_org_witness:
  "\<not> org_exists (w_db (exec (run_chain (tenant_chain sample_lib (Load sample_env) @ [RequireRole ''owner'']) orgs_Delete
     ((sample_request None)\<lparr>g_params := [(''id'', ''g2'')]\<rparr>)) (still_world two_orgs_db))) ''g2''"
proof -
  let ?c = "(sample_request None)\<lparr>g_params := [(''id'', ''g2'')]\<rparr>" and ?w = "still_world two_orgs_db"
  have b: "bearer ?c = Some sample_token" "\<not> HasPrefix sample_token ''sk_''" "TrimSpace (GetHeader ?c ''X-Org-ID'') = ''g1''"
    "Param ?c ''id'' = ''g2''" "member_role (w_db ?w) ''g1'' ''u1'' = Some ''owner''" "member_role (w_db ?w) ''g2'' ''u1'' = None"
    by code_simp+
  have "case jwt_ParseWithClaims sample_lib (w_clock ?w (w_tick ?w)) sample_token (JWTAccessSecret (Load sample_env)) of
      Inl _ \<Rightarrow> False | Inr (claims, v) \<Rightarrow> v \<and> claims_UserID claims = ''u1''"
    by code_simp
  then obtain claims where j: "jwt_ParseWithClaims sample_lib (w_clock ?w (w_tick ?w)) sample_token
      (JWTAccessSecret (Load sample_env)) = Inr (claims, True)" "claims_UserID claims = ''u1''"
    by (auto split: sum.splits prod.splits)
  show ?thesis
    using owner_deletes_other_org [OF b(1,2) j(1) j(2) _ b(3) _ _ b(5) b(4) _ b(6) _ refl]
    by (simp add: still_world_def sample_world_def sample_request_def)
qed

text \<open>C36: The route that removes a member names its parameter \<open>userId\<close> and the handler reads
\<open>userID\<close>: for every path that matches, with the database answering, the handler removes no membership of
a user with a name, and answers 204 all the same.\<close>

theorem remove_member_removes_nothing:
  assumes "match_path [Lit ''v1'', Lit ''orgs'', Par ''id'', Lit ''members'', Par ''userId''] path = Some b"
    and "w_fault w = (\<lambda>_. None)" "g_out c = []"
    and "\<forall>r \<in> set (memberships (w_db w)). memberships_user_id r \<noteq> []"
  shows "memberships (w_db (exec (orgs_RemoveMember (c\<lparr>g_params := b\<rparr>)) w)) = memberships (w_db w) \<and>
         response_status (result (orgs_RemoveMember (c\<lparr>g_params := b\<rparr>)) w) = 204"
proof -
  from assms(1) have "map fst b = [''id'', ''userId'']"
    by (auto dest: match_path_names)
  then have id: "Param (c\<lparr>g_params := b\<rparr>) ''userID'' = []"
    by (auto simp: Param_def map_of_eq_None_iff split: option.splits)
  have same: "delete_where (is_member_row g []) (memberships (w_db w)) = memberships (w_db w)" for g
    using assms(4) by (auto simp: delete_where_def filter_id_conv is_member_row_def)
  have "wlp (orgs_RemoveMember (c\<lparr>g_params := b\<rparr>))
      (\<lambda>c' w'. memberships (w_db w') = memberships (w_db w) \<and> response_status c' = 204) w"
    unfolding orgs_RemoveMember_def id Let_def
    using assms(2,3)
    by (auto simp: org_RemoveMember_def DeleteMember_def wp wlp_sql_ok stmt_result_def delete_member_def same
        record_now_def audit_Record_def InsertAuditLog_def insert_audit_log_def emit_def response_status_def
        Let_def split: sum.splits)
  then show ?thesis
    by (simp add: wlp_run)
qed

theorem remove_member_removes_nothing_witness:
  "memberships (w_db (exec (orgs_RemoveMember ((sample_request None)\<lparr>g_params := [(''id'', ''g1''), (''userId'', ''u1'')]\<rparr>))
     (sample_world one_org_db))) = memberships one_org_db"
  using remove_member_removes_nothing [of "[''v1'', ''orgs'', ''g1'', ''members'', ''u1'']"
      "[(''id'', ''g1''), (''userId'', ''u1'')]" "sample_world one_org_db" "sample_request None"]
  by (simp add: sample_world_def sample_request_def one_org_db_def with_org_def one_user_db_def empty_db_def)

end
