(* ===== verification/Requests.thy ===== *)
theory Requests
  imports Gaps
begin

text \<open>
  What single requests do: the rate limit before everything else, access tokens, Stripe's webhook
  and the registration of files.
\<close>

text \<open>A request that the limiter turns down, in front of any chain.\<close>

lemma RateLimit_rejects:
  assumes "Allow float64 (w_clock w (w_tick w)) (rateLimitKey c) (w_limiter w) = (False, l)" "g_out c = []"
  shows "response_status (result (RateLimit c h) w) = 429 \<and> \<not> g_panic c = (\<not> g_panic (result (RateLimit c h) w)) \<and>
         w_db (exec (RateLimit c h) w) = w_db w \<and> w_out (exec (RateLimit c h) w) = w_out w \<and>
         w_limiter (exec (RateLimit c h) w) = l"
  using assms(2)
  by (simp add: RateLimit_def Let_def result_bind exec_bind limiter_Allow_def limiter_Remaining_def gets_def
      result_def exec_def assms(1) emit_def response_status_def)

lemma Recover_quiet:
  assumes "\<not> g_panic (result (h c) w)"
  shows "result (Recover c h) w = result (h c) w" "exec (Recover c h) w = exec (h c) w"
  using assms by (simp_all add: Recover_def result_bind exec_bind)

lemma serve_chain:
  "\<exists>c' h. serve L env m p c = Recover c' (\<lambda>c. RateLimit c h) \<and> g_keys c' = g_keys c \<and> g_out c' = g_out c \<and>
     g_ip c' = g_ip c \<and> g_panic c' = g_panic c"
proof (cases "find_route (routes L env) m p")
  case None
  then show ?thesis
    unfolding serve_def None global_chain_def run_chain_fun by auto
next
  case (Some rb)
  show ?thesis
    unfolding serve_def Some global_chain_def
    by (cases rb) (auto simp: run_chain_fun intro!: exI [of _ "c\<lparr>g_params := snd rb\<rparr>"])
qed


text \<open>Stripe's events write subscriptions only.\<close>

definition only_subscriptions :: "db \<Rightarrow> db \<Rightarrow> bool" where
  "only_subscriptions d d' \<longleftrightarrow> (\<exists>ss. d' = d\<lparr>subscriptions := ss\<rparr>)"

lemma only_subscriptions_refl [simp]: "only_subscriptions d d"
  unfolding only_subscriptions_def by (rule exI [of _ "subscriptions d"]) simp

interpretation subs: tables_frame only_subscriptions
proof
  show "only_subscriptions d d" for d by simp
  show "only_subscriptions d d' \<Longrightarrow> only_subscriptions d' d'' \<Longrightarrow> only_subscriptions d d''" for d d' d''
    by (auto simp: only_subscriptions_def)
qed

lemma subscription_writes:
  "stmt_rel only_subscriptions (upsert_subscription g cust sid st pl t)"
  "stmt_rel only_subscriptions (update_subscription_status sid st pl t)"
  "stmt_rel only_subscriptions (cancel_subscription sid)"
  by (auto simp: stmt_rel_def upsert_subscription_def update_subscription_status_def cancel_subscription_def
      split: if_splits) (auto simp: only_subscriptions_def)

lemma stripe_event_writes: "state_io_rel (tables_rel only_subscriptions) (stripe_event event)"
  unfolding stripe_event_def handleCheckoutCompleted_def handleSubscriptionUpdated_def
    handleSubscriptionDeleted_def billing_HandleCheckoutCompleted_def billing_HandleSubscriptionUpdated_def
    billing_HandleSubscriptionDeleted_def UpsertSubscription_def UpdateSubscriptionStatus_def CancelSubscription_def
  by (intro subs.rel_intros subscription_writes)

lemma read_body_run:
  "exec (read_body c) w = next_tick w" "result (read_body c) w = Inr body \<Longrightarrow> body = take 65536 (g_raw c)"
  by (auto simp: read_body_def exec_def result_def split: option.splits fault.splits)


section \<open>Properties\<close>

text \<open>C20: The rate limit comes first. A request whose client address is out of tokens is answered 429 whatever
its method and path: no table is read or changed on its behalf, nothing is sent, and the limiter is left as its
\<open>Allow\<close> leaves it. The key is the client's address on every route, since no organization is known at that
point.\<close>

theorem rate_limited_request:
  assumes "fresh_ctx c" "Allow float64 (w_clock w (w_tick w)) (''ip:'' @ g_ip c) (w_limiter w) = (False, l)"
  shows "response_status (result (serve L env m p c) w) = 429 \<and>
         w_db (exec (serve L env m p c) w) = w_db w \<and> w_out (exec (serve L env m p c) w) = w_out w \<and>
         w_limiter (exec (serve L env m p c) w) = l"
proof -
  obtain c' h where serve: "serve L env m p c = Recover c' (\<lambda>c. RateLimit c h)"
    and c': "g_keys c' = Map.empty" "g_out c' = []" "g_ip c' = g_ip c" "\<not> g_panic c'"
    using serve_chain [of L env m p c] assms(1) by (auto simp: fresh_ctx_def)
  have key: "rateLimitKey c' = ''ip:'' @ g_ip c"
    by (simp add: rateLimitKey_def middleware_OrgID_def get_string_def c')
  note rejected = RateLimit_rejects [of w c' l h, unfolded key, OF assms(2) c'(2)]
  with c'(4) show ?thesis
    by (simp add: serve Recover_quiet)
qed

definition empty_limiter_world :: world where
  "empty_limiter_world = (sample_world one_org_db)\<lparr>w_limiter := New 0 0\<rparr>"

theorem rate_limited_request_witness:
  "response_status (result (serve sample_lib sample_env GET [''v1'', ''projects''] (sample_request None))
     empty_limiter_world) = 429"
proof -
  have "fst (Allow float64 (w_clock empty_limiter_world (w_tick empty_limiter_world)) (''ip:'' @ g_ip (sample_request None))
      (w_limiter empty_limiter_world)) = False"
    by code_simp
  then obtain l where "Allow float64 (w_clock empty_limiter_world (w_tick empty_limiter_world))
      (''ip:'' @ g_ip (sample_request None)) (w_limiter empty_limiter_world) = (False, l)"
    by (metis prod.collapse)
  with rate_limited_request [of "sample_request None" empty_limiter_world] show ?thesis
    by (simp add: fresh_ctx_def sample_request_def)
qed

text \<open>C19: An access token authenticates its user. Until it expires, a request that carries a token made by
\<open>NewAccessToken\<close> passes the authentication of every route, with the identifier of its user in the context and
nothing else changed.\<close>

theorem access_token_authenticates:
  assumes "jwt_sound L" "result (NewAccessToken L u (JWTAccessSecret cfg) ttl) w0 = Inr tok"
    and "w_clock w (w_tick w) < jwt_NewNumericDate L (w_clock w0 (w_tick w0) + int64 (ttl * Minute))"
    and "bearer c = Some tok" "\<not> HasPrefix tok ''sk_''"
  shows "run_state (AuthWithAPIKeys L cfg k c h) w =
           run_state (h (ctx_set ''user_id'' (GStr u) c)) (next_tick w)"
proof -
  obtain claims where "jwt_SignedString L (JWTAccessSecret cfg) claims = Inr tok" "claims_UserID claims = u"
    "claims_ExpiresAt claims = jwt_NewNumericDate L (w_clock w0 (w_tick w0) + int64 (ttl * Minute))"
    using assms(2) by (auto simp: NewAccessToken_def result_bind time_Now_def uuid_NewString_def result_def exec_def)
  with assms(1,3) have "jwt_ParseWithClaims L (w_clock w (w_tick w)) tok (JWTAccessSecret cfg) = Inr (claims, True)"
    by (simp add: jwt_sound_def)
  with assms(4,5) \<open>claims_UserID claims = u\<close> show ?thesis
    by (simp add: AuthWithAPIKeys_def run_state_split [of "Parse L tok s" for s] Parse_run)
qed

definition fresh_token :: string where
  "fresh_token = (case result (NewAccessToken sample_lib ''u1'' (JWTAccessSecret (Load sample_env)) 0)
     (still_world one_org_db) of Inr tok \<Rightarrow> tok | Inl _ \<Rightarrow> '''')"

definition fresh_request :: gctx where
  "fresh_request = (sample_request None)\<lparr>g_headers := [(''Authorization'', ''Bearer '' @ fresh_token)]\<rparr>"

theorem access_token_authenticates_witness:
  "run_state (AuthWithAPIKeys sample_lib (Load sample_env) True fresh_request me_Get)
     ((still_world one_org_db)\<lparr>w_clock := (\<lambda>_. -1)\<rparr>) =
   run_state (me_Get (ctx_set ''user_id'' (GStr ''u1'') fresh_request))
     (next_tick ((still_world one_org_db)\<lparr>w_clock := (\<lambda>_. -1)\<rparr>))"
proof (rule access_token_authenticates [OF jwt_sound_sample])
  show "result (NewAccessToken sample_lib ''u1'' (JWTAccessSecret (Load sample_env)) 0) (still_world one_org_db) =
      Inr fresh_token"
    by (simp add: fresh_token_def NewAccessToken_def result_bind result_def [of "State f" for f] time_Now_def
        uuid_NewString_def sample_lib_def sample_sign_def)
  show "bearer fresh_request = Some fresh_token" "\<not> HasPrefix fresh_token ''sk_''"
    by code_simp+
qed (simp add: still_world_def sample_world_def sample_lib_def int64_def)

text \<open>C31: The Stripe webhook trusts verified events only. Whatever the request, it changes no table but the
subscriptions; and unless the first 64 KiB of the body carry a valid signature it changes nothing and answers
400.\<close>

theorem stripe_webhook_verified:
  "(\<exists>ss. w_db (exec (billing_Webhook L s c) w) = (w_db w)\<lparr>subscriptions := ss\<rparr>) \<and>
   ((\<exists>t event. stripe_ConstructEvent L t (take 65536 (g_raw c)) (GetHeader c ''Stripe-Signature'') s = Inr event) \<or>
    (w_db (exec (billing_Webhook L s c) w) = w_db w \<and>
     (\<exists>e. result (billing_Webhook L s c) w = emit (JSON 400 (error_json e)) c)))"
proof
  have writes: "only_subscriptions (w_db u) (w_db (exec (stripe_event event) u))" for event u
    using subs.frame_execD [OF stripe_event_writes] by (simp add: tables_rel_def)
  then have "only_subscriptions (w_db w) (w_db (exec (billing_Webhook L s c) w))"
    using writes [of "next_tick (next_tick w)"]
    by (auto simp: billing_Webhook_def exec_bind read_body_run(1) time_Now_def exec_def [of "State f" for f]
        split: sum.splits)
  then show "\<exists>ss. w_db (exec (billing_Webhook L s c) w) = (w_db w)\<lparr>subscriptions := ss\<rparr>"
    by (simp add: only_subscriptions_def)
  show "(\<exists>t event. stripe_ConstructEvent L t (take 65536 (g_raw c)) (GetHeader c ''Stripe-Signature'') s = Inr event) \<or>
    (w_db (exec (billing_Webhook L s c) w) = w_db w \<and>
     (\<exists>e. result (billing_Webhook L s c) w = emit (JSON 400 (error_json e)) c))"
    by (auto simp: billing_Webhook_def exec_bind result_bind read_body_run(1) time_Now_def
        exec_def [of "State f" for f] result_def [of "State f" for f] split: sum.splits dest!: read_body_run(2))
qed


definition file_request :: gctx where
  "file_request = (sample_request (Some (JObj [(''key'', JStr ''a.png''), (''size_bytes'', JInt 10)])))\<lparr>
     g_keys := [''org_id'' \<mapsto> GStr ''g1'', ''user_id'' \<mapsto> GStr ''u1'']\<rparr>"


end
