(* ===== verification/Threads.thy ===== *)
theory Threads
  imports Sessions
begin

text \<open>
  Requests that overlap. The server handles each request in a goroutine, and a handler that runs several statements
  without a transaction can be interrupted between them. A thread is the rest of such a handler; it advances by
  one statement at a time, and any number of threads interleave with each other and with the rest of the system.
\<close>

inductive race :: "lib \<Rightarrow> env \<Rightarrow> ('t \<Rightarrow> 't prog) \<Rightarrow> world \<times> 't list \<Rightarrow> world \<times> 't list \<Rightarrow> bool"
  for L env "next" where
  advance: "i < length ts \<Longrightarrow>
    race L env next (w, ts) (exec (next (ts ! i)) w, ts[i := result (next (ts ! i)) w])"
| other: "sys_step L env w w' \<Longrightarrow> race L env next (w, ts) (w', ts)"

definition races :: "lib \<Rightarrow> env \<Rightarrow> ('t \<Rightarrow> 't prog) \<Rightarrow> world \<times> 't list \<Rightarrow> world \<times> 't list \<Rightarrow> bool" where
  "races L env next = (race L env next)\<^sup>*\<^sup>*"

inductive_cases raceE: "race L env next (w, ts) (w', ts')"

text \<open>A schedule names the threads that advance, in order.\<close>

fun schedule :: "('t \<Rightarrow> 't prog) \<Rightarrow> nat list \<Rightarrow> world \<times> 't list \<Rightarrow> world \<times> 't list" where
  "schedule next [] s = s"
| "schedule next (i # is) (w, ts) =
     (if i < length ts
      then schedule next is (case run_state (next (ts ! i)) w of (t, w') \<Rightarrow> (w', ts[i := t]))
      else schedule next is (w, ts))"

lemma schedule_races: "races L env next s (schedule next is s)"
proof (induction "next" "is" s rule: schedule.induct)
  case (2 "next" i "is" w ts)
  then show ?case
    unfolding races_def
    by (auto simp: exec_def result_def split: prod.splits
        dest: race.advance [of i ts L env "next" w] intro: converse_rtranclp_into_rtranclp)
qed (simp add: races_def)

text \<open>What every statement respects holds along every interleaving of threads that are made of statements.\<close>

context schema_frame
begin

lemma races_rel:
  assumes "\<And>t. state_io_rel (tables_rel R) (next t)" "races L env next s s'"
  shows "R (w_db (fst s)) (w_db (fst s'))"
proof -
  have "R (w_db w) (w_db w')" if "race L env next (w, ts) (w', ts')" for w ts w' ts'
    using that frame_execD [OF assms(1), of w] step_rel [of L env w] by (elim raceE) (auto simp: tables_rel_def)
  with assms(2) show ?thesis
    unfolding races_def by (induction rule: rtranclp_induct) (fastforce intro: tables_refl tables_trans)+
qed

end

text \<open>
  Threads that spend a credential. What is dead stays dead under any interleaving, so that a thread which
  refuses a dead credential, and which has not yet looked, will refuse it.
\<close>

locale contended = credential dead accepts
  for dead :: "db \<Rightarrow> 'k \<Rightarrow> bool" and accepts :: "'k \<Rightarrow> world \<Rightarrow> bool" +
  fixes "next" :: "'t \<Rightarrow> 't prog"
  assumes next_life: "state_io_rel (tables_rel (\<lambda>d d'. \<forall>k. dead d k \<longrightarrow> dead d' k)) (next t)"
begin

lemma race_dead:
  assumes "race L env next (w, ts) (w', ts')" "dead (w_db w) k"
  shows "dead (w_db w') k"
  using assms life.frame_execD [OF next_life, of w] life.step_rel [of L env w]
  by (elim raceE) (auto simp: tables_rel_def)

lemma interleaved:
  assumes "races L env next (w, ts) (w', ts')" "dead (w_db w) k" "i < length ts" "ts ! i = t"
    and "\<And>u. dead (w_db u) k \<Longrightarrow> result (next t) u = no" "\<And>u. result (next no) u = no"
  shows "ts' ! i \<in> {t, no}"
proof -
  have "dead (w_db w') k \<and> length ts' = length ts \<and> ts' ! i \<in> {t, no}"
    using assms(1) unfolding races_def
  proof (induction "(w', ts')" arbitrary: w' ts' rule: rtranclp_induct)
    case base
    then show ?case using assms by simp
  next
    case (step s w' ts')
    obtain u us where s: "s = (u, us)" by force
    have IH: "dead (w_db u) k" "length us = length ts" "us ! i \<in> {t, no}"
      using step.hyps(3) [OF s] by auto
    then have "result (next (us ! i)) u = no"
      using assms(5,6) by auto
    then show ?case
      using step.hyps(2) race_dead [OF step.hyps(2) [unfolded s] IH(1)] IH unfolding s
      by (auto elim!: raceE simp: nth_list_update split: if_splits)
  qed
  then show ?thesis by simp
qed

end

end
