(* ===== verification/Races.thy ===== *)
theory Races
  imports Threads
begin

text \<open>
  Overlapping refreshes and password resets. \<open>AuthHandler.Refresh\<close> runs three statements (the token is
  read, revoked, and its successor inserted) and \<open>AuthHandler.ResetPassword\<close> four (the token is read and
  marked, the password set, the sessions revoked), both without a transaction. Here they are threads;
  the handler is the thread that runs alone.
\<close>

datatype refresh_thread =
    Waiting gctx
  | Checked gctx Claims string
  | Rotating gctx Claims string
  | Answered gctx

text \<open>Up to the statement of \<open>IsValid\<close>; the statement of \<open>Revoke\<close>; that of \<open>SaveRefresh\<close>.\<close>

definition refresh_check :: "lib \<Rightarrow> Config \<Rightarrow> gctx \<Rightarrow> refresh_thread prog" where
  "refresh_check L cfg c =
     (case bind_required ''refresh_token'' c of
        None \<Rightarrow> ret (Answered (emit (JSON 422 (error_json ''invalid_payload'')) c))
      | Some token \<Rightarrow> do {
          r \<leftarrow> Parse L token (JWTRefreshSecret cfg);
          case r of
            Inl e \<Rightarrow> ret (Answered (emit (JSON 401 (error_json ''invalid_refresh'')) c))
          | Inr claims \<Rightarrow>
              if claims_TokenType claims \<noteq> ''refresh''
              then ret (Answered (emit (JSON 401 (error_json ''invalid_refresh'')) c))
              else do {
                v \<leftarrow> IsValid L (claims_ID claims) token;
                case v of
                  Inl e \<Rightarrow> ret (Answered (emit (JSON 401 (error_json ''invalid_refresh'')) c))
                | Inr (ok, userID, _) \<Rightarrow>
                    if \<not> ok then ret (Answered (emit (JSON 401 (error_json ''invalid_refresh'')) c))
                    else ret (Checked c claims userID)
              }
        })"

definition refresh_revoke :: "gctx \<Rightarrow> Claims \<Rightarrow> string \<Rightarrow> refresh_thread prog" where
  "refresh_revoke c claims userID = do {
     _ \<leftarrow> Revoke (claims_ID claims);
     ret (Rotating c claims userID)
   }"

definition refresh_issue :: "lib \<Rightarrow> Config \<Rightarrow> gctx \<Rightarrow> Claims \<Rightarrow> string \<Rightarrow> refresh_thread prog" where
  "refresh_issue L cfg c claims userID = do {
     p \<leftarrow> issue_pair L cfg userID (Some (claims_ID claims));
     case p of
       Inl e \<Rightarrow> ret (Answered (emit (JSON 500 (error_json e)) c))
     | Inr (acc, newRT) \<Rightarrow>
         ret (Answered (emit (JSON 200 (JObj [(''access_token'', JStr acc),
                (''refresh_token'', JStr newRT)])) c))
   }"

fun refresh_next :: "lib \<Rightarrow> Config \<Rightarrow> refresh_thread \<Rightarrow> refresh_thread prog" where
  "refresh_next L cfg (Waiting c) = refresh_check L cfg c"
| "refresh_next L cfg (Checked c claims u) = refresh_revoke c claims u"
| "refresh_next L cfg (Rotating c claims u) = refresh_issue L cfg c claims u"
| "refresh_next L cfg (Answered c) = ret (Answered c)"


section \<open>The handler and its threads\<close>

lemma refresh_alone:
  "State_Monad.bind (refresh_next L cfg (Waiting c)) (\<lambda>t. State_Monad.bind (refresh_next L cfg t) (refresh_next L cfg)) =
   State_Monad.bind (auth_Refresh L cfg c) (\<lambda>c'. ret (Answered c'))"
  by (rule state.expand, rule ext)
    (simp add: auth_Refresh_def refresh_check_def refresh_revoke_def refresh_issue_def
      split: option.splits sum.splits prod.splits)

context schema_frame
begin

lemma rel_refresh_next: "state_io_rel (tables_rel R) (refresh_next L cfg t)"
  by (cases t) (auto simp: refresh_check_def refresh_revoke_def refresh_issue_def
      intro!: rel_intros rel_tokens rel_issue_pair)

end

interpretation refreshes: contended refresh_revoked "refresh_accepted L" "refresh_next L cfg" for L cfg
  by unfold_locales (rule refresh.life.rel_refresh_next)

text \<open>Overlapping or not, refreshes keep the constraints of the schema and the audit log.\<close>

lemma refreshes_keep:
  assumes "races L env (refresh_next L cfg) (w, ts) (w', ts')" "db_ok (w_db w)"
  shows "db_ok (w_db w') \<and> prefix (audit_logs (w_db w)) (audit_logs (w_db w'))"
  using assms integrity.races_rel [OF integrity.rel_refresh_next assms(1)] audit.races_rel [OF audit.rel_refresh_next assms(1)]
  by (simp add: keeps_ok_def log_grows_def)

text \<open>A check that reads a revoked token refuses.\<close>

lemma check_rejects:
  assumes "bind_required ''refresh_token'' c = Some tok"
    and "\<And>claims. jwt_ParseWithClaims L (w_clock w (w_tick w)) tok (JWTRefreshSecret cfg) = Inr (claims, True) \<Longrightarrow>
           refresh_revoked (w_db w) (claims_ID claims)"
  shows "result (refresh_check L cfg c) w = Answered (emit (JSON 401 (error_json ''invalid_refresh'')) c)"
proof -
  have "result (IsValid L j t) u \<noteq> Inr (True, x)" if "refresh_revoked (w_db u) j" for j t u x
    using refresh.rejects [OF that] by (cases x) (auto simp: refresh_accepted_def)
  then show ?thesis
    using assms by (auto simp: refresh_check_def result_bind Parse_run split: sum.splits prod.splits if_splits)
qed

text \<open>Two threads that were answered 200, with two successors of a token in the table.\<close>

fun rotated_twice :: "string \<Rightarrow> world \<times> refresh_thread list \<Rightarrow> bool" where
  "rotated_twice j (w, [Answered c1, Answered c2]) =
     (body_status (g_out c1) = Some 200 \<and> body_status (g_out c2) = Some 200 \<and>
      length (filter (\<lambda>r. refresh_tokens_rotated_from r = Some j) (refresh_tokens (w_db w))) = 2)"
| "rotated_twice _ _ = False"


section \<open>Properties\<close>

text \<open>C26: Under any interleaving, a refresh token whose revocation has been written is of no use to a refresh
that has not yet read it: however many refreshes overlap and whatever else the system does, such a thread is
either still waiting or answered with 401. The window is the time between the two statements.\<close>

theorem refresh_interleaved:
  assumes "jwt_stable L" "races L env (refresh_next L cfg) (w, ts) (w', ts')"
    and "jwt_ParseWithClaims L t tok (JWTRefreshSecret cfg) = Inr (claims, True)"
    and "refresh_revoked (w_db w) (claims_ID claims)"
    and "i < length ts" "ts ! i = Waiting c" "bind_required ''refresh_token'' c = Some tok"
  shows "ts' ! i \<in> {Waiting c, Answered (emit (JSON 401 (error_json ''invalid_refresh'')) c)}"
proof (rule refreshes.interleaved [OF assms(2,4-6)])
  fix u :: world
  assume rev: "refresh_revoked (w_db u) (claims_ID claims)"
  have "claims' = claims"
    if "jwt_ParseWithClaims L (w_clock u (w_tick u)) tok (JWTRefreshSecret cfg) = Inr (claims', True)" for claims'
    using assms(1,3) that unfolding jwt_stable_def by metis
  with rev have "result (refresh_check L cfg c) u = Answered (emit (JSON 401 (error_json ''invalid_refresh'')) c)"
    by (intro check_rejects [OF assms(7)]) simp
  then show "result (refresh_next L cfg (Waiting c)) u = Answered (emit (JSON 401 (error_json ''invalid_refresh'')) c)"
    by simp
qed simp

definition sample_claims :: Claims where
  "sample_claims = \<lparr>claims_UserID = ''u1'', claims_TokenType = ''refresh'', claims_ID = ''j1'', claims_IssuedAt = 0,
     claims_ExpiresAt = 9\<rparr>"

definition rotated_world :: world where
  "rotated_world = exec (auth_Refresh sample_lib short_cfg (post [(''refresh_token'', sample_refresh)])) (still_world refresh_db)"

theorem refresh_interleaved_witness:
  "snd (schedule (refresh_next sample_lib short_cfg) [0, 1, 0, 1]
     (rotated_world, replicate 2 (Waiting (post [(''refresh_token'', sample_refresh)])))) ! 1
   \<in> {Waiting (post [(''refresh_token'', sample_refresh)]),
      Answered (emit (JSON 401 (error_json ''invalid_refresh'')) (post [(''refresh_token'', sample_refresh)]))}"
proof (rule refresh_interleaved [OF jwt_stable_sample])
  let ?ts = "replicate 2 (Waiting (post [(''refresh_token'', sample_refresh)]))"
  show "races sample_lib sample_env (refresh_next sample_lib short_cfg) (rotated_world, ?ts)
      (fst (schedule (refresh_next sample_lib short_cfg) [0, 1, 0, 1] (rotated_world, ?ts)),
       snd (schedule (refresh_next sample_lib short_cfg) [0, 1, 0, 1] (rotated_world, ?ts)))"
    by (simp add: schedule_races del: schedule.simps)
  show "jwt_ParseWithClaims sample_lib 0 sample_refresh (JWTRefreshSecret short_cfg) = Inr (sample_claims, True)"
    by code_simp
  show "refresh_revoked (w_db rotated_world) (claims_ID sample_claims)"
    by code_simp
  show "bind_required ''refresh_token'' (post [(''refresh_token'', sample_refresh)]) = Some sample_refresh"
    by code_simp
qed simp_all


end
