(* ===== verification/ResetRaces.thy ===== *)
theory ResetRaces
  imports Threads
begin

text \<open>
  Overlapping password resets: \<open>AuthHandler.ResetPassword\<close> reads the token, marks it used, sets
  the password and revokes the sessions in four statements without a transaction.
\<close>

datatype reset_thread =
    ResetWaiting gctx
  | ResetRead gctx string repo_PasswordResetToken
  | ResetMarked gctx string string
  | ResetSet gctx string
  | ResetDone gctx

definition reset_read :: "lib \<Rightarrow> gctx \<Rightarrow> reset_thread prog" where
  "reset_read L c =
     (case bind_reset c of
        None \<Rightarrow> ret (ResetDone (emit (JSON 422 (error_json ''invalid_payload'')) c))
      | Some (token, newPassword) \<Rightarrow> do {
          r \<leftarrow> GetPasswordResetByHash (hashResetToken L token);
          case r of
            Inl e \<Rightarrow> ret (ResetDone (emit (JSON 401 (error_json ''invalid_or_expired_token'')) c))
          | Inr row \<Rightarrow> do {
              now \<leftarrow> time_Now;
              if password_reset_tokens_expires_at row < now
              then ret (ResetDone (emit (JSON 401 (error_json ''invalid_or_expired_token'')) c))
              else ret (ResetRead c newPassword row)
            }
        })"

definition reset_mark :: "gctx \<Rightarrow> string \<Rightarrow> repo_PasswordResetToken \<Rightarrow> reset_thread prog" where
  "reset_mark c newPassword row = do {
     _ \<leftarrow> MarkPasswordResetUsed (password_reset_tokens_id row);
     ret (ResetMarked c newPassword (password_reset_tokens_user_id row))
   }"

definition reset_set :: "lib \<Rightarrow> gctx \<Rightarrow> string \<Rightarrow> string \<Rightarrow> reset_thread prog" where
  "reset_set L c newPassword userID = do {
     h \<leftarrow> bcrypt_hash L newPassword;
     case h of
       Inl e \<Rightarrow> ret (ResetDone (emit (JSON 500 (error_json ''hash_error'')) c))
     | Inr hash \<Rightarrow> do {
         r \<leftarrow> user_UpdatePassword userID hash;
         case r of
           Inl e \<Rightarrow> ret (ResetDone (emit (JSON 500 (error_json ''update_failed'')) c))
         | Inr _ \<Rightarrow> ret (ResetSet c userID)
       }
   }"

definition reset_revoke :: "gctx \<Rightarrow> string \<Rightarrow> reset_thread prog" where
  "reset_revoke c userID = do {
     _ \<leftarrow> RevokeAllForUser userID;
     ret (ResetDone (emit (JSON 200 (JObj [(''message'', JStr ''password_reset_successful'')])) c))
   }"

fun reset_next :: "lib \<Rightarrow> reset_thread \<Rightarrow> reset_thread prog" where
  "reset_next L (ResetWaiting c) = reset_read L c"
| "reset_next L (ResetRead c pw row) = reset_mark c pw row"
| "reset_next L (ResetMarked c pw uid) = reset_set L c pw uid"
| "reset_next L (ResetSet c uid) = reset_revoke c uid"
| "reset_next L (ResetDone c) = ret (ResetDone c)"

lemma reset_alone:
  "State_Monad.bind (reset_next L (ResetWaiting c)) (\<lambda>t. State_Monad.bind (reset_next L t)
     (\<lambda>t. State_Monad.bind (reset_next L t) (reset_next L))) =
   State_Monad.bind (auth_ResetPassword L c) (\<lambda>c'. ret (ResetDone c'))"
  by (rule state.expand, rule ext)
    (simp add: auth_ResetPassword_def ValidateAndConsume_def reset_read_def reset_mark_def reset_set_def
      reset_revoke_def split: option.splits sum.splits prod.splits)

context schema_frame
begin

lemma rel_reset_next: "state_io_rel (tables_rel R) (reset_next L t)"
  by (cases t) (auto simp: reset_read_def reset_mark_def reset_set_def reset_revoke_def
      intro!: rel_intros rel_tokens rel_queries rel_users rel_bcrypt_hash)

end

interpretation resets: contended reset_spent "reset_accepted L" "reset_next L" for L
  by unfold_locales (rule reset.life.rel_reset_next)

text \<open>Overlapping or not, resets keep the constraints of the schema and the audit log.\<close>

lemma resets_keep:
  assumes "races L env (reset_next L) (w, ts) (w', ts')" "db_ok (w_db w)"
  shows "db_ok (w_db w') \<and> prefix (audit_logs (w_db w)) (audit_logs (w_db w'))"
  using assms integrity.races_rel [OF integrity.rel_reset_next assms(1)] audit.races_rel [OF audit.rel_reset_next assms(1)]
  by (simp add: keeps_ok_def log_grows_def)

text \<open>A reset that reads a spent token refuses.\<close>

lemma read_rejects:
  assumes "bind_reset c = Some (tok, pw)" "reset_spent (w_db w) (hashResetToken L tok)"
  shows "result (reset_read L c) w = ResetDone (emit (JSON 401 (error_json ''invalid_or_expired_token'')) c)"
proof (rule result_eqI)
  show "wlp (reset_read L c) (\<lambda>r _. r = ResetDone (emit (JSON 401 (error_json ''invalid_or_expired_token'')) c)) w"
    using assms by (auto simp: reset_read_def GetPasswordResetByHash_def wp wlp_query_row reset_spent_def
        split: option.splits fault.splits)
qed

lemma reset_interleaved:
  assumes "races L env (reset_next L) (w, ts) (w', ts')"
    and "reset_spent (w_db w) (hashResetToken L tok)"
    and "i < length ts" "ts ! i = ResetWaiting c" "bind_reset c = Some (tok, pw)"
  shows "ts' ! i \<in> {ResetWaiting c, ResetDone (emit (JSON 401 (error_json ''invalid_or_expired_token'')) c)}"
  by (rule resets.interleaved [OF assms(1-4)]) (simp_all add: read_rejects [OF assms(5)])

fun reset_twice :: "world \<times> reset_thread list \<Rightarrow> bool" where
  "reset_twice (w, [ResetDone c1, ResetDone c2]) =
     (body_status (g_out c1) = Some 200 \<and> body_status (g_out c2) = Some 200 \<and>
      \<not> isl (result (user_Login sample_lib ''a@x'' ''second-secret'') w) \<and>
      isl (result (user_Login sample_lib ''a@x'' ''first-secret'') w))"
| "reset_twice _ = False"

definition reset_request :: "string \<Rightarrow> gctx" where
  "reset_request pw = post [(''token'', ''tok''), (''new_password'', pw)]"


section \<open>Properties\<close>


end
