(* ===== verification/Lifecycle.thy ===== *)
theory Lifecycle
  imports Config RateLimiter
begin

text \<open>
  The life of the process around the requests: \<open>internal/pkg/telemetry/otel.go\<close>,
  \<open>internal/pkg/db/db.go\<close>, the construction of the S3 client in
  \<open>internal/storage/s3/client.go\<close>, and the start and the shutdown in \<open>cmd/api/main.go\<close>. These parts call libraries and look at their errors only;
  the state is the list of calls made, and the environment says which of them fail. Log records
  are left out, except for the one that \<open>RunMigrations\<close> chooses by the outcome.
\<close>

text \<open>A writer of \<open>None\<close> is \<open>io.Discard\<close>. The last ones cannot fail.\<close>

datatype lib_call =
    ResourceNew string string
  | OtlpTraceNew string bool
  | StdoutTraceNew "string option"
  | PrometheusNew
  | StdoutMetricNew "string option"
  | TracerShutdown int
  | MeterShutdown int
  | SqlOpen string string string
  | DbPing
  | DbClose
  | MigrateDriver
  | MigrateSource string
  | MigrateInstance
  | MigrateUp
  | AwsLoadConfig string "(string \<times> string \<times> string) option"
  | HttpShutdown int
  | SetTracerProvider
  | SetMeterProvider
  | ListenMetrics string
  | StartTicker int
  | StopTicker
  | StopLimiter
  | SetReleaseMode
  | Info string
  | ListenHttp string

record process =
  p_calls :: "lib_call list"
  p_fail :: "nat \<Rightarrow> goerror option"

type_synonym 'a proc = "(process, 'a) state"

text \<open>A call that returns an error or nil, and one that returns nothing.\<close>

definition try_call :: "lib_call \<Rightarrow> (goerror + unit) proc" where
  "try_call c = State (\<lambda>p.
     (case p_fail p (length (p_calls p)) of None \<Rightarrow> Inr () | Some e \<Rightarrow> Inl e,
      p\<lparr>p_calls := p_calls p @ [c]\<rparr>))"

definition just_call :: "lib_call \<Rightarrow> unit proc" where
  "just_call c = modify (\<lambda>p. p\<lparr>p_calls := p_calls p @ [c]\<rparr>)"

lemma wlp_try_call [wp]:
  "wlp (try_call c) Q p =
     Q (case p_fail p (length (p_calls p)) of None \<Rightarrow> Inr () | Some e \<Rightarrow> Inl e)
       (p\<lparr>p_calls := p_calls p @ [c]\<rparr>)"
  by (simp add: wlp_def try_call_def)

lemma wlp_just_call [wp]: "wlp (just_call c) Q p = Q () (p\<lparr>p_calls := p_calls p @ [c]\<rparr>)"
  by (simp add: just_call_def wp)


section \<open>otel.go\<close>

record tel_Config =
  tc_ServiceName :: string
  tc_ServiceVersion :: string
  tc_TraceWriter :: "string option"
  tc_MetricWriter :: "string option"
  tc_OTLPEndpoint :: string
  tc_OTLPInsecure :: bool
  tc_PrometheusEnabled :: bool

definition newTraceExporter :: "tel_Config \<Rightarrow> (goerror + unit) proc" where
  "newTraceExporter cfg =
     (if tc_OTLPEndpoint cfg \<noteq> [] then try_call (OtlpTraceNew (tc_OTLPEndpoint cfg) (tc_OTLPInsecure cfg))
      else try_call (StdoutTraceNew (tc_TraceWriter cfg)))"

text \<open>The result says whether there is a Prometheus exporter.\<close>

definition newMeterProvider :: "tel_Config \<Rightarrow> (goerror + bool) proc" where
  "newMeterProvider cfg =
     (if tc_PrometheusEnabled cfg then do {
        r \<leftarrow> try_call PrometheusNew;
        case r of Inl e \<Rightarrow> ret (Inl e) | Inr _ \<Rightarrow> ret (Inr True)
      } else do {
        r \<leftarrow> try_call (StdoutMetricNew (tc_MetricWriter cfg));
        case r of Inl e \<Rightarrow> ret (Inl e) | Inr _ \<Rightarrow> ret (Inr False)
      })"

definition tel_Init :: "tel_Config \<Rightarrow> (goerror + bool) proc" where
  "tel_Init cfg0 = do {
     let cfg = (if tc_ServiceName cfg0 = [] then cfg0\<lparr>tc_ServiceName := ''vergo''\<rparr> else cfg0);
     res \<leftarrow> try_call (ResourceNew (tc_ServiceName cfg) (tc_ServiceVersion cfg));
     case res of
       Inl e \<Rightarrow> ret (Inl e)
     | Inr _ \<Rightarrow> do {
         t \<leftarrow> newTraceExporter cfg;
         case t of
           Inl e \<Rightarrow> ret (Inl e)
         | Inr _ \<Rightarrow> do {
             just_call SetTracerProvider;
             m \<leftarrow> newMeterProvider cfg;
             case m of
               Inl e \<Rightarrow> do { _ \<leftarrow> try_call (TracerShutdown 0); ret (Inl e) }
             | Inr prom \<Rightarrow> do { just_call SetMeterProvider; ret (Inr prom) }
           }
       }
   }"

text \<open>The function \<open>Shutdown\<close> of the result: both providers, the first error.\<close>

definition tel_Shutdown :: "(goerror + unit) proc" where
  "tel_Shutdown = do {
     t \<leftarrow> try_call (TracerShutdown (10 * Second));
     m \<leftarrow> try_call (MeterShutdown (10 * Second));
     ret (case t of Inl e \<Rightarrow> Inl e | Inr _ \<Rightarrow> m)
   }"


section \<open>db.go and client.go\<close>

definition dsn :: "Config \<Rightarrow> string" where
  "dsn cfg = ''host='' @ DBHost cfg @ '' port='' @ Itoa (DBPort cfg) @ '' user='' @ DBUser cfg @
     '' password='' @ DBPass cfg @ '' dbname='' @ DBName cfg @ '' sslmode='' @ DBSSL cfg"

definition db_Open :: "Config \<Rightarrow> (goerror + unit) proc" where
  "db_Open cfg = try_call (SqlOpen ''pgx'' (dsn cfg) (DBName cfg))"

definition ErrNoChange :: goerror where
  "ErrNoChange = LibError ''no change''"

text \<open>
  The error of \<open>m.Up()\<close> is bound inside the \<open>if\<close>. The comparison after it reads the variable of
  the function, which the call of \<open>NewWithInstance\<close> left nil.
\<close>

definition migrations_message :: "goerror option \<Rightarrow> string" where
  "migrations_message err =
     (if err = Some ErrNoChange then ''migrations up to date'' else ''migrations applied successfully'')"

definition RunMigrations :: "(goerror + unit) proc" where
  "RunMigrations = do {
     d \<leftarrow> try_call MigrateDriver;
     case d of
       Inl e \<Rightarrow> ret (Inl (Wrapf ''erro ao criar driver de migrations'' e))
     | Inr _ \<Rightarrow> do {
         s \<leftarrow> try_call (MigrateSource ''migrations'');
         case s of
           Inl e \<Rightarrow> ret (Inl (Wrapf ''erro ao carregar migrations do embed'' e))
         | Inr _ \<Rightarrow> do {
             m \<leftarrow> try_call MigrateInstance;
             case m of
               Inl e \<Rightarrow> ret (Inl (Wrapf (''erro ao criar inst'' @ [CHR 0xC3, CHR 0xA2] @ ''ncia de migrate'') e))
             | Inr _ \<Rightarrow> do {
                 let err = None;
                 u \<leftarrow> try_call MigrateUp;
                 if u \<noteq> Inr () \<and> u \<noteq> Inl ErrNoChange
                 then ret (map_sum (Wrapf ''erro ao executar migrations'') id u)
                 else do { just_call (Info (migrations_message err)); ret (Inr ()) }
               }
           }
       }
   }"

record S3 =
  s3_UsePathStyle :: bool
  s3_BaseEndpoint :: "string option"
  s3_DefaultBucket :: string

definition NewFromConfig :: "Config \<Rightarrow> (goerror + S3) proc" where
  "NewFromConfig cfg = do {
     r \<leftarrow> (if S3AccessKeyID cfg \<noteq> [] \<and> S3SecretAccessKey cfg \<noteq> []
           then try_call (AwsLoadConfig (S3Region cfg)
                  (Some (S3AccessKeyID cfg, S3SecretAccessKey cfg, AWSSessionToken cfg)))
           else try_call (AwsLoadConfig (S3Region cfg) None));
     ret (case r of
            Inl e \<Rightarrow> Inl e
          | Inr _ \<Rightarrow> Inr \<lparr>s3_UsePathStyle = S3ForcePathStyle cfg,
              s3_BaseEndpoint = (if S3Endpoint cfg \<noteq> [] then Some (S3Endpoint cfg) else None),
              s3_DefaultBucket = S3Bucket cfg\<rparr>)
   }"


section \<open>main.go\<close>

text \<open>The process ends with a code, panics, or serves with its limiter and S3 client.\<close>

datatype boot = Exited int | Panicked goerror | Running limiter S3

text \<open>\<open>router.Register\<close> opens a connection of its own and panics on a failure.\<close>

definition Register :: "Config \<Rightarrow> (goerror + S3) proc" where
  "Register cfg = do {
     d \<leftarrow> db_Open cfg;
     case d of Inl e \<Rightarrow> ret (Inl e) | Inr _ \<Rightarrow> NewFromConfig cfg
   }"

definition port_addr :: "int \<Rightarrow> string" where
  "port_addr n = '':'' @ Itoa n"

definition tel_config :: "Config \<Rightarrow> tel_Config" where
  "tel_config cfg = \<lparr>tc_ServiceName = ''vergo'', tc_ServiceVersion = AppVersion cfg, tc_TraceWriter = None,
     tc_MetricWriter = None, tc_OTLPEndpoint = OTLPEndpoint cfg, tc_OTLPInsecure = OTLPInsecure cfg,
     tc_PrometheusEnabled = 0 < MetricsPort cfg\<rparr>"

definition start_serving :: "Config \<Rightarrow> bool \<Rightarrow> S3 \<Rightarrow> boot proc" where
  "start_serving cfg prom s3 = do {
     (if 0 < MetricsPort cfg \<and> prom then just_call (ListenMetrics (port_addr (MetricsPort cfg))) else ret ());
     just_call (StartTicker (30 * Second));
     just_call (ListenHttp (port_addr (AppPort cfg)));
     ret (Running (New (float64 (of_int (RateLimitRPS cfg))) (RateLimitBurst cfg)) s3)
   }"

definition start :: "env \<Rightarrow> boot proc" where
  "start env = do {
     let cfg = Load env;
     t \<leftarrow> tel_Init (tel_config cfg);
     case t of
       Inl _ \<Rightarrow> ret (Exited 1)
     | Inr prom \<Rightarrow> do {
         d \<leftarrow> db_Open cfg;
         case d of
           Inl _ \<Rightarrow> ret (Exited 1)
         | Inr _ \<Rightarrow> do {
             pg \<leftarrow> try_call DbPing;
             case pg of
               Inl _ \<Rightarrow> ret (Exited 1)
             | Inr _ \<Rightarrow> do {
                 m \<leftarrow> RunMigrations;
                 case m of
                   Inl _ \<Rightarrow> ret (Exited 1)
                 | Inr _ \<Rightarrow> do {
                     (if AppEnv cfg \<noteq> ''dev'' then just_call SetReleaseMode else ret ());
                     r \<leftarrow> Register cfg;
                     case r of Inl e \<Rightarrow> ret (Panicked e) | Inr s3 \<Rightarrow> start_serving cfg prom s3
                   }
               }
           }
       }
   }"

definition gracefulShutdown :: "unit proc" where
  "gracefulShutdown = do {
     _ \<leftarrow> try_call (HttpShutdown (30 * Second));
     _ \<leftarrow> tel_Shutdown;
     _ \<leftarrow> try_call DbClose;
     ret ()
   }"

text \<open>
  On a signal the dispatcher's ticker stops before the server drains; the limiter's \<open>Stop\<close> is
  deferred to the end of \<open>main\<close>.
\<close>

definition stop :: "unit proc" where
  "stop = do { just_call StopTicker; gracefulShutdown; just_call StopLimiter }"

text \<open>What the server's goroutine does when \<open>ListenAndServe\<close> returns.\<close>

definition ErrServerClosed :: goerror where
  "ErrServerClosed = LibError ''http: Server closed''"

definition listen_returned :: "goerror option \<Rightarrow> int option" where
  "listen_returned err = (case err of
      Some e \<Rightarrow> if e \<noteq> ErrServerClosed then Some 1 else None
    | None \<Rightarrow> None)"


section \<open>What a start has done\<close>

text \<open>Every call made so far succeeded; no migration to run is a success.\<close>

fun call_ok :: "lib_call \<Rightarrow> goerror option \<Rightarrow> bool" where
  "call_ok MigrateUp r = (r = None \<or> r = Some ErrNoChange)"
| "call_ok SetTracerProvider r = True"
| "call_ok SetMeterProvider r = True"
| "call_ok SetReleaseMode r = True"
| "call_ok (Info _) r = True"
| "call_ok (ListenMetrics _) r = True"
| "call_ok (StartTicker _) r = True"
| "call_ok (ListenHttp _) r = True"
| "call_ok _ r = (r = None)"

fun calls_ok :: "(nat \<Rightarrow> goerror option) \<Rightarrow> nat \<Rightarrow> lib_call list \<Rightarrow> bool" where
  "calls_ok f n [] = True"
| "calls_ok f n (c # cs) = (call_ok c (f n) \<and> calls_ok f (Suc n) cs)"

lemma calls_ok_append [simp]: "calls_ok f n (cs @ ds) = (calls_ok f n cs \<and> calls_ok f (n + length cs) ds)"
  by (induction cs arbitrary: n) auto

lemma calls_ok_nth: "calls_ok f n cs \<longleftrightarrow> (\<forall>i < length cs. call_ok (cs ! i) (f (n + i)))"
proof (induction cs arbitrary: n)
  case (Cons c cs)
  show ?case
    by (simp add: Cons.IH All_less_Suc2)
qed simp

definition all_succeeded :: "process \<Rightarrow> bool" where
  "all_succeeded p = calls_ok (p_fail p) 0 (p_calls p)"

text \<open>Nothing serves the API yet.\<close>

definition quiet :: "process \<Rightarrow> bool" where
  "quiet p = list_all (\<lambda>c. case c of ListenHttp _ \<Rightarrow> False | _ \<Rightarrow> True) (p_calls p)"

lemma quiet_iff: "quiet p \<longleftrightarrow> (\<forall>a. ListenHttp a \<notin> set (p_calls p))"
  by (auto simp: quiet_def list_all_iff split: lib_call.splits)

lemmas start_simps = wp Let_def quiet_def all_succeeded_def

text \<open>
  On the way to serving: all calls so far succeeded, the ones of a set among them. A start that
  is down has not listened.
\<close>

definition ready :: "(nat \<Rightarrow> goerror option) \<Rightarrow> lib_call set \<Rightarrow> process \<Rightarrow> bool" where
  "ready f D p \<longleftrightarrow> p_fail p = f \<and> all_succeeded p \<and> quiet p \<and> D \<subseteq> set (p_calls p)"

definition down :: "(nat \<Rightarrow> goerror option) \<Rightarrow> process \<Rightarrow> bool" where
  "down f p \<longleftrightarrow> p_fail p = f \<and> quiet p"

lemmas step_simps = start_simps ready_def down_def

lemma tel_Init_ok:
  "ready f D p \<Longrightarrow>
     wlp (tel_Init cfg) (\<lambda>r p'. case r of Inl _ \<Rightarrow> down f p' | Inr _ \<Rightarrow> ready f D p') p"
  by (auto simp: tel_Init_def newTraceExporter_def newMeterProvider_def step_simps split: option.splits)

lemma db_Open_ok:
  "ready f D p \<Longrightarrow>
     wlp (db_Open cfg) (\<lambda>r p'. case r of Inl _ \<Rightarrow> down f p'
       | Inr _ \<Rightarrow> ready f (insert (SqlOpen ''pgx'' (dsn cfg) (DBName cfg)) D) p') p"
  by (auto simp: db_Open_def step_simps split: option.splits)

lemma Ping_ok:
  "ready f D p \<Longrightarrow>
     wlp (try_call DbPing) (\<lambda>r p'. case r of Inl _ \<Rightarrow> down f p' | Inr _ \<Rightarrow> ready f (insert DbPing D) p') p"
  by (auto simp: step_simps split: option.splits)

lemma RunMigrations_ok:
  "ready f D p \<Longrightarrow>
     wlp RunMigrations (\<lambda>r p'. case r of Inl _ \<Rightarrow> down f p' | Inr _ \<Rightarrow> ready f (insert MigrateUp D) p') p"
  by (auto simp: RunMigrations_def step_simps split: option.splits)

lemma Register_ok:
  "ready f D p \<Longrightarrow>
     wlp (Register cfg) (\<lambda>r p'. case r of Inl e \<Rightarrow> down f p' \<and> (\<exists>n. f n = Some e)
       | Inr s3 \<Rightarrow> ready f D p' \<and> s3_DefaultBucket s3 = S3Bucket cfg) p"
  by (auto simp: Register_def db_Open_def NewFromConfig_def step_simps split: option.splits)

lemma release_mode_ok: "ready f D p \<Longrightarrow> wlp (just_call SetReleaseMode) (\<lambda>_. ready f D) p"
  by (auto simp: step_simps)

definition boot_post :: "(nat \<Rightarrow> goerror option) \<Rightarrow> Config \<Rightarrow> boot \<Rightarrow> process \<Rightarrow> bool" where
  "boot_post f cfg r p \<longleftrightarrow> p_fail p = f \<and> (case r of
      Exited n \<Rightarrow> n = 1 \<and> quiet p
    | Panicked e \<Rightarrow> quiet p \<and> (\<exists>n. f n = Some e)
    | Running l s \<Rightarrow> all_succeeded p \<and>
        {SqlOpen ''pgx'' (dsn cfg) (DBName cfg), DbPing, MigrateUp, ListenHttp (port_addr (AppPort cfg))}
          \<subseteq> set (p_calls p) \<and>
        l = New (float64 (of_int (RateLimitRPS cfg))) (RateLimitBurst cfg) \<and>
        s3_DefaultBucket s = S3Bucket cfg)"

lemma start_serving_ok:
  "ready f {MigrateUp, DbPing, SqlOpen ''pgx'' (dsn cfg) (DBName cfg)} p \<Longrightarrow>
     s3_DefaultBucket s3 = S3Bucket cfg \<Longrightarrow> wlp (start_serving cfg prom s3) (boot_post f cfg) p"
  by (auto simp: start_serving_def boot_post_def step_simps)

lemma boot_exits: "down f p \<Longrightarrow> wlp (ret (Exited 1)) (boot_post f cfg) p"
  by (simp add: wp boot_post_def down_def)

lemma boot_panics: "down f p \<Longrightarrow> f n = Some e \<Longrightarrow> wlp (ret (Panicked e)) (boot_post f cfg) p"
  by (auto simp: wp boot_post_def down_def)

lemma boot_step:
  assumes "wlp m (\<lambda>r p'. case r of Inl e \<Rightarrow> A e p' | Inr x \<Rightarrow> B x p') p"
    and "\<And>e p'. A e p' \<Longrightarrow> wlp (f e) Q p'"
    and "\<And>x p'. B x p' \<Longrightarrow> wlp (g x) Q p'"
  shows "wlp (State_Monad.bind m (\<lambda>r. case r of Inl e \<Rightarrow> f e | Inr x \<Rightarrow> g x)) Q p"
  unfolding wlp_bind
  by (rule wlp_mono [OF assms(1)]) (auto simp: assms(2,3) split: sum.splits)

lemma boot_next: "wlp m (\<lambda>_. B) p \<Longrightarrow> (\<And>p'. B p' \<Longrightarrow> wlp (g ()) Q p') \<Longrightarrow> wlp (State_Monad.bind m g) Q p"
  unfolding wlp_bind by (auto elim!: wlp_mono)

lemma start_ok:
  assumes "p_calls p = []"
  shows "wlp (start env) (boot_post (p_fail p) (Load env)) p"
proof -
  have "ready (p_fail p) {} p"
    using assms by (simp add: step_simps)
  then show ?thesis
    unfolding start_def Let_def
    by (auto intro!: start_serving_ok boot_exits boot_panics
        elim!: boot_step [OF tel_Init_ok] boot_step [OF db_Open_ok] boot_step [OF Ping_ok]
          boot_step [OF RunMigrations_ok] boot_next [OF release_mode_ok] boot_step [OF Register_ok])
qed

text \<open>When no call fails, the start goes through.\<close>

definition clean :: "process \<Rightarrow> bool" where
  "clean p \<longleftrightarrow> p_fail p = (\<lambda>_. None)"

definition step_through :: "(goerror + 'a) proc \<Rightarrow> bool" where
  "step_through m \<longleftrightarrow> (\<forall>p. clean p \<longrightarrow> wlp m (\<lambda>r p'. case r of Inl _ \<Rightarrow> False | Inr _ \<Rightarrow> clean p') p)"

lemmas through_simps = step_through_def clean_def wp Let_def

lemma tel_Init_through: "step_through (tel_Init cfg)"
  by (simp add: tel_Init_def newTraceExporter_def newMeterProvider_def through_simps)

lemma db_Open_through: "step_through (db_Open cfg)"
  by (simp add: db_Open_def through_simps)

lemma try_call_through: "step_through (try_call c)"
  by (simp add: through_simps)

lemma RunMigrations_through: "step_through RunMigrations"
  by (simp add: RunMigrations_def through_simps)

lemma Register_through: "step_through (Register cfg)"
  by (simp add: Register_def db_Open_def NewFromConfig_def through_simps)

lemma step_throughD:
  "step_through m \<Longrightarrow> clean p \<Longrightarrow> (\<And>x p'. clean p' \<Longrightarrow> wlp (g x) Q p') \<Longrightarrow>
     wlp (State_Monad.bind m (\<lambda>r. case r of Inl e \<Rightarrow> f e | Inr x \<Rightarrow> g x)) Q p"
  by (rule boot_step [where A = "\<lambda>_ _. False" and B = "\<lambda>_. clean"]) (auto simp: step_through_def)

lemma release_through: "clean p \<Longrightarrow> wlp (if b then just_call SetReleaseMode else ret ()) (\<lambda>_. clean) p"
  by (simp add: wp clean_def)

lemma serving_running: "wlp (start_serving cfg prom s3) (\<lambda>r _. \<exists>l s. r = Running l s) p"
  by (simp add: start_serving_def wp)

lemma start_succeeds:
  assumes "clean p"
  shows "\<exists>l s. result (start env) p = Running l s"
proof -
  have "wlp (start env) (\<lambda>r _. \<exists>l s. r = Running l s) p"
    unfolding start_def Let_def using assms
    by (intro step_throughD tel_Init_through db_Open_through try_call_through RunMigrations_through
        Register_through boot_next [where B = clean] release_through serving_running)
  then show ?thesis
    by (simp add: wlp_result)
qed

definition fresh_process :: process where
  "fresh_process = \<lparr>p_calls = [], p_fail = (\<lambda>_. None)\<rparr>"

text \<open>A failing meter provider takes the tracer provider down with it.\<close>

lemma tel_Init_meter_failure:
  assumes "p_fail p = (\<lambda>n. if n = 3 then Some e else None)" "p_calls p = []"
  shows "result (tel_Init cfg) p = Inl e \<and> last (p_calls (exec (tel_Init cfg) p)) = TracerShutdown 0"
proof -
  have "wlp (tel_Init cfg) (\<lambda>r p'. r = Inl e \<and> last (p_calls p') = TracerShutdown 0) p"
    using assms by (simp add: tel_Init_def newTraceExporter_def newMeterProvider_def start_simps)
  then show ?thesis
    by (simp add: wlp_run)
qed

text \<open>
  When there is nothing to migrate, the message says that migrations were applied: the
  comparison with \<open>ErrNoChange\<close> never succeeds.
\<close>

lemma RunMigrations_message:
  "result RunMigrations p = Inr () \<Longrightarrow>
     last (p_calls (exec RunMigrations p)) = Info ''migrations applied successfully''"
proof -
  have "wlp RunMigrations (\<lambda>r p'. r = Inr () \<longrightarrow>
      last (p_calls p') = Info ''migrations applied successfully'') p"
    by (auto simp: RunMigrations_def migrations_message_def start_simps split: option.splits)
  then show "result RunMigrations p = Inr () \<Longrightarrow> ?thesis"
    by (simp add: wlp_run)
qed

text \<open>C25: The process serves only after everything it depends on has come up, and exits or panics
  without having listened otherwise. From a new process, for every environment and every way in
  which the library calls can fail: if the start ends in the running state, then every call made
  on the way (the resource, the exporters, the two opens, the ping, each stage of the migrations,
  the AWS configuration) succeeded, where \<open>Up\<close> may also say that there is no change, and the server
  listens on the configured port; if it ends with exit code 1 or in a panic, then no call that
  serves the API was made; and it ends in no other way.
\<close>

theorem startup_gate:
  assumes "p_calls p = []" "result (start env) p = r" "exec (start env) p = p'"
  shows "case r of
      Exited n \<Rightarrow> n = 1 \<and> (\<forall>a. ListenHttp a \<notin> set (p_calls p'))
    | Panicked e \<Rightarrow> (\<forall>a. ListenHttp a \<notin> set (p_calls p')) \<and> (\<exists>n. p_fail p n = Some e)
    | Running l s \<Rightarrow>
        ListenHttp (port_addr (AppPort (Load env))) \<in> set (p_calls p') \<and>
        (\<forall>i < length (p_calls p'). call_ok (p_calls p' ! i) (p_fail p i)) \<and>
        SqlOpen ''pgx'' (dsn (Load env)) (DBName (Load env)) \<in> set (p_calls p') \<and>
        DbPing \<in> set (p_calls p') \<and> MigrateUp \<in> set (p_calls p') \<and>
        l = New (float64 (of_int (RateLimitRPS (Load env)))) (RateLimitBurst (Load env)) \<and>
        s3_DefaultBucket s = S3Bucket (Load env)"
proof -
  have "boot_post (p_fail p) (Load env) r p'"
    using start_ok [OF assms(1), of env] assms(2,3) by (simp add: wlp_run)
  then show ?thesis
    by (auto simp: boot_post_def quiet_iff all_succeeded_def calls_ok_nth split: boot.splits)
qed

theorem startup_gate_witness:
  "ListenHttp '':8080'' \<in> set (p_calls (exec (start (\<lambda>_. [])) fresh_process)) \<and>
   MigrateUp \<in> set (p_calls (exec (start (\<lambda>_. [])) fresh_process))"
proof -
  obtain l s where "result (start (\<lambda>_. [])) fresh_process = Running l s"
    using start_succeeds [of fresh_process "\<lambda>_. []"] by (auto simp: fresh_process_def clean_def)
  moreover have "port_addr (AppPort (Load (\<lambda>_. []))) = '':8080''"
    by (simp add: Load_def getint_def port_addr_def Itoa_def nat_digits.simps char_of_def bit_0)
  ultimately show ?thesis
    using startup_gate [of fresh_process "\<lambda>_. []", OF _ refl refl] by (simp add: fresh_process_def)
qed

text \<open>
  The shutdown runs every stage in its fixed order, whatever fails. On a signal the process
  stops the dispatcher's ticker, drains the server for thirty seconds, shuts both telemetry
  providers down with ten seconds, closes the database and stops the limiter, in this order and
  once each, for every way in which these calls can fail, with nothing else in between.
\<close>

lemma shutdown_order:
  "p_calls (exec stop p) = p_calls p @
     [StopTicker, HttpShutdown (30 * Second), TracerShutdown (10 * Second), MeterShutdown (10 * Second),
      DbClose, StopLimiter]"
proof -
  have "wlp stop (\<lambda>_ p'. p_calls p' = p_calls p @
     [StopTicker, HttpShutdown (30 * Second), TracerShutdown (10 * Second), MeterShutdown (10 * Second),
      DbClose, StopLimiter]) p"
    by (simp add: stop_def gracefulShutdown_def tel_Shutdown_def wp)
  then show ?thesis
    by (simp add: wlp_exec)
qed

end
