(* ===== verification/Logs.thy ===== *)
theory Logs
  imports Middleware
begin

text \<open>
  What is logged: \<open>internal/pkg/logging/logging.go\<close>, a handler of \<open>log/slog\<close> that wraps the one that
  writes, and the record of the middleware \<open>Logging\<close>. How the wrapped handler writes a record is
  the library's; it keeps the calls of \<open>WithAttrs\<close> and \<open>WithGroup\<close> that led to it.
\<close>

datatype log_value = LString string | LInt int | LDuration int

record log_record =
  lr_level :: level
  lr_message :: string
  lr_attrs :: "(string \<times> log_value) list"

datatype log_base = TextHandler | JSONHandler

datatype with_call = Attrs "(string \<times> log_value) list" | Group string

datatype log_handler =
    Base log_base "with_call list"
  | OtelHandler log_handler


section \<open>logging.go\<close>

definition log_New :: "string \<Rightarrow> log_handler" where
  "log_New env = OtelHandler (Base (if env = ''dev'' then TextHandler else JSONHandler) [])"

text \<open>The options of both handlers that write set the level to \<open>Info\<close>.\<close>

fun log_Enabled :: "log_handler \<Rightarrow> level \<Rightarrow> bool" where
  "log_Enabled (Base _ _) l = (l \<noteq> LevelDebug)"
| "log_Enabled (OtelHandler h) l = log_Enabled h l"

text \<open>
  The identifiers of the span that the context carries, if any; the result is what reaches the
  handler that writes.
\<close>

definition otel_attrs :: "string option \<Rightarrow> string option \<Rightarrow> (string \<times> log_value) list" where
  "otel_attrs traceID spanID =
     (case traceID of Some t \<Rightarrow> [(''trace_id'', LString t)] | None \<Rightarrow> []) @
     (case spanID of Some s \<Rightarrow> [(''span_id'', LString s)] | None \<Rightarrow> [])"

fun log_Handle ::
  "string option \<Rightarrow> string option \<Rightarrow> log_handler \<Rightarrow> log_record \<Rightarrow> log_base \<times> with_call list \<times> log_record" where
  "log_Handle traceID spanID (Base b cs) r = (b, cs, r)"
| "log_Handle traceID spanID (OtelHandler h) r =
     log_Handle traceID spanID h (r\<lparr>lr_attrs := lr_attrs r @ otel_attrs traceID spanID\<rparr>)"

fun log_WithAttrs :: "log_handler \<Rightarrow> (string \<times> log_value) list \<Rightarrow> log_handler" where
  "log_WithAttrs (Base b cs) attrs = Base b (cs @ [Attrs attrs])"
| "log_WithAttrs (OtelHandler h) attrs = OtelHandler (log_WithAttrs h attrs)"

fun log_WithGroup :: "log_handler \<Rightarrow> string \<Rightarrow> log_handler" where
  "log_WithGroup (Base b cs) name = Base b (cs @ [Group name])"
| "log_WithGroup (OtelHandler h) name = OtelHandler (log_WithGroup h name)"

text \<open>A logger made from another by any calls of \<open>With\<close> and \<open>WithGroup\<close>.\<close>

fun derive :: "log_handler \<Rightarrow> with_call list \<Rightarrow> log_handler" where
  "derive h [] = h"
| "derive h (Attrs as # cs) = derive (log_WithAttrs h as) cs"
| "derive h (Group n # cs) = derive (log_WithGroup h n) cs"

lemma derive_New: "derive (OtelHandler (Base b cs)) ds = OtelHandler (Base b (cs @ ds))"
  by (induction "OtelHandler (Base b cs)" ds arbitrary: cs rule: derive.induct) simp_all

text \<open>Every logger derived from that of the program adds the identifiers of the span exactly once, writes with the
handler of the environment, and drops debug records only.\<close>

lemma derived_logger:
  "log_Handle t s (derive (log_New env) cs) r =
     (if env = ''dev'' then TextHandler else JSONHandler, cs, r\<lparr>lr_attrs := lr_attrs r @ otel_attrs t s\<rparr>)"
  "log_Enabled (derive (log_New env) cs) l \<longleftrightarrow> l \<noteq> LevelDebug"
  by (simp_all add: log_New_def derive_New)


section \<open>The record of a request\<close>

definition access_record :: "string \<Rightarrow> string \<Rightarrow> int \<Rightarrow> int \<Rightarrow> string \<Rightarrow> log_record" where
  "access_record meth path status latency ip =
     \<lparr>lr_level = log_level status, lr_message = ''http request'',
      lr_attrs = [(''method'', LString meth), (''path'', LString path), (''status'', LInt status),
        (''latency'', LDuration latency), (''client_ip'', LString ip)]\<rparr>"

text \<open>
  The middleware with the record that it logs; a panic of the handler passes it by.
\<close>

definition access_log :: "string \<Rightarrow> string \<Rightarrow> gctx \<Rightarrow> handler \<Rightarrow> (gctx \<times> log_record option) prog" where
  "access_log meth path c next = do {
     start \<leftarrow> time_Now;
     c' \<leftarrow> next c;
     if g_panic c' then ret (c', None)
     else do {
       now \<leftarrow> time_Now;
       ret (c', Some (access_record meth path (response_status c') (time_Sub now start) (g_ip c')))
     }
   }"

text \<open>\<open>Logging\<close> is this middleware with the record left out.\<close>

lemma Logging_access_log:
  "Logging c next = State_Monad.bind (access_log meth path c next) (\<lambda>r. ret (fst r))"
  by (rule state.expand, rule ext) (simp add: Logging_def access_log_def split: prod.splits)

text \<open>A request whose handler does not panic is logged once, as an error from status 500 on and as a warning from 400
on; one whose handler panics is not logged.\<close>

lemma access_logged:
  "case result (access_log meth path c next) w of
     (c', None) \<Rightarrow> g_panic c'
   | (c', Some r) \<Rightarrow> \<not> g_panic c' \<and>
       (lr_level r = LevelError \<longleftrightarrow> 500 \<le> response_status c') \<and>
       (lr_level r = LevelWarn \<longleftrightarrow> 400 \<le> response_status c' \<and> response_status c' < 500)"
  by (auto simp: access_log_def result_bind access_record_def log_level_def split: option.splits)

end
