(* ===== verification/ApiSchema.thy ===== *)
theory ApiSchema
  imports Gin
begin

text \<open>
  The types of the API document, \<open>docs/swagger/docs.go\<close>: what a JSON value of a type is, and the
  type of every definition of the document; then \<open>internal/http/handlers/responses.go\<close>, the Go
  types that the annotations name, with their encoding.

  A reference is the type it refers to. An object with properties has these and no others; one
  with \<open>additionalProperties\<close> is a map from any name. Descriptions and examples are left out.
\<close>

datatype jtype =
    TString nat
  | TInteger
  | TBoolean
  | TAny
  | TArray jtype
  | TMap jtype
  | TObject "string list" "(string \<times> jtype) list"

text \<open>The number is the least length, in runes. A time is written as a string.\<close>

fun conforms :: "jtype \<Rightarrow> json \<Rightarrow> bool" where
  "conforms (TString n) v = (case v of JStr s \<Rightarrow> n \<le> rune_count s | JTime _ \<Rightarrow> n = 0 | _ \<Rightarrow> False)"
| "conforms TInteger v = (case v of JInt _ \<Rightarrow> True | _ \<Rightarrow> False)"
| "conforms TBoolean v = (case v of JBool _ \<Rightarrow> True | _ \<Rightarrow> False)"
| "conforms TAny v = True"
| "conforms (TArray t) v = (case v of JList vs \<Rightarrow> list_all (conforms t) vs | _ \<Rightarrow> False)"
| "conforms (TMap t) v = (case v of JObj kvs \<Rightarrow> list_all (\<lambda>kv. conforms t (snd kv)) kvs | _ \<Rightarrow> False)"
| "conforms (TObject required ps) v =
     (case v of
        JObj kvs \<Rightarrow>
          list_all (\<lambda>k. k \<in> set (map fst kvs)) required \<and>
          list_all (\<lambda>kv. list_ex (\<lambda>p. fst p = fst kv \<and> conforms (snd p) (snd kv)) ps) kvs
      | _ \<Rightarrow> False)"

text \<open>Members with the option \<open>omitempty\<close>.\<close>

lemma list_all_omit_empty_str [simp]: "list_all P (omit_empty_str k s) \<longleftrightarrow> s = [] \<or> P (k, JStr s)"
  by (simp add: omit_empty_str_def)

lemma list_all_omit_nil [simp]: "list_all P (omit_nil k f x) \<longleftrightarrow> (\<forall>v. x = Some v \<longrightarrow> P (k, f v))"
  by (simp add: omit_nil_def split: option.splits)


section \<open>The definitions of docs.go\<close>

definition schema_APIKey :: jtype where
  "schema_APIKey = TObject [] [(''created_at'', TString 0), (''created_by'', TString 0), (''expires_at'', TString 0),
    (''id'', TString 0), (''key_prefix'', TString 0), (''last_used_at'', TString 0), (''name'', TString 0),
    (''org_id'', TString 0)]"

definition schema_CreateResult :: jtype where
  "schema_CreateResult = TObject [] [(''created_at'', TString 0), (''created_by'', TString 0), (''expires_at'', TString 0),
    (''id'', TString 0), (''key'', TString 0), (''key_prefix'', TString 0), (''last_used_at'', TString 0),
    (''name'', TString 0), (''org_id'', TString 0)]"

definition schema_Subscription :: jtype where
  "schema_Subscription = TObject [] [(''current_period_end'', TString 0), (''id'', TString 0), (''org_id'', TString 0),
    (''plan'', TString 0), (''status'', TString 0), (''stripe_subscription_id'', TString 0)]"

definition schema_File :: jtype where
  "schema_File = TObject [] [(''bucket'', TString 0), (''content_type'', TString 0), (''created_at'', TString 0),
    (''id'', TString 0), (''metadata'', TAny), (''object_key'', TString 0), (''org_id'', TString 0),
    (''size_bytes'', TInteger), (''uploaded_by'', TString 0)]"

definition schema_Organization :: jtype where
  "schema_Organization = TObject [] [(''created_at'', TString 0), (''id'', TString 0), (''name'', TString 0),
    (''owner_user_id'', TString 0)]"

definition schema_Project :: jtype where
  "schema_Project = TObject [] [(''created_at'', TString 0), (''created_by'', TString 0), (''description'', TString 0),
    (''id'', TString 0), (''name'', TString 0), (''org_id'', TString 0), (''updated_by'', TString 0)]"

definition schema_Endpoint :: jtype where
  "schema_Endpoint = TObject [] [(''active'', TBoolean), (''created_at'', TString 0), (''events'', TArray (TString 0)),
    (''id'', TString 0), (''org_id'', TString 0), (''updated_at'', TString 0), (''url'', TString 0)]"

definition schema_AuthUser :: jtype where
  "schema_AuthUser = TObject [] [(''email'', TString 0), (''id'', TString 0)]"

definition schema_AuthResponse :: jtype where
  "schema_AuthResponse = TObject [] [(''access_token'', TString 0), (''refresh_token'', TString 0), (''user'', schema_AuthUser)]"

definition schema_ContextResponse :: jtype where
  "schema_ContextResponse = TObject [] [(''org_id'', TString 0), (''role'', TString 0)]"

definition schema_ErrorDetailResponse :: jtype where
  "schema_ErrorDetailResponse = TObject [] [(''detail'', TString 0), (''error'', TString 0)]"

definition schema_ErrorResponse :: jtype where
  "schema_ErrorResponse = TObject [] [(''error'', TString 0)]"

definition schema_MeUser :: jtype where
  "schema_MeUser = TObject [] [(''email'', TString 0), (''id'', TString 0), (''org_id'', TString 0), (''role'', TString 0)]"

definition schema_MeResponse :: jtype where
  "schema_MeResponse = TObject [] [(''user'', schema_MeUser)]"

definition schema_PresignGetResponse :: jtype where
  "schema_PresignGetResponse = TObject [] [(''method'', TString 0), (''url'', TString 0)]"

definition schema_PresignPutResponse :: jtype where
  "schema_PresignPutResponse = TObject [] [(''headers'', TMap (TString 0)), (''method'', TString 0), (''url'', TString 0)]"

definition schema_ProjectIn :: jtype where
  "schema_ProjectIn = TObject [''name''] [(''description'', TString 0), (''name'', TString 0)]"

definition schema_TokenResponse :: jtype where
  "schema_TokenResponse = TObject [] [(''access_token'', TString 0), (''refresh_token'', TString 0)]"

definition schema_checkoutIn :: jtype where
  "schema_checkoutIn = TObject [''cancel_url'', ''price_id'', ''success_url''] [(''cancel_url'', TString 0),
    (''price_id'', TString 0), (''success_url'', TString 0)]"

definition schema_createEndpointIn :: jtype where
  "schema_createEndpointIn = TObject [''events'', ''url''] [(''events'', TArray (TString 0)), (''url'', TString 0)]"

definition schema_createKeyIn :: jtype where
  "schema_createKeyIn = TObject [''name''] [(''expires_at'', TString 0), (''name'', TString 0)]"

definition schema_createOrgIn :: jtype where
  "schema_createOrgIn = TObject [''name''] [(''name'', TString 0)]"

definition schema_creds :: jtype where
  "schema_creds = TObject [''email'', ''password''] [(''email'', TString 0), (''password'', TString 6)]"

definition schema_fileCreateIn :: jtype where
  "schema_fileCreateIn = TObject [''key''] [(''bucket'', TString 0), (''content_type'', TString 0), (''key'', TString 0),
    (''metadata'', TAny), (''size_bytes'', TInteger)]"

definition schema_forgotIn :: jtype where
  "schema_forgotIn = TObject [''email''] [(''email'', TString 0)]"

definition schema_memberIn :: jtype where
  "schema_memberIn = TObject [''role'', ''user_id''] [(''role'', TString 0), (''user_id'', TString 0)]"

definition schema_presignGetIn :: jtype where
  "schema_presignGetIn = TObject [''key''] [(''bucket'', TString 0), (''expires'', TInteger), (''key'', TString 0)]"

definition schema_presignPutIn :: jtype where
  "schema_presignPutIn = TObject [''content_type'', ''key''] [(''bucket'', TString 0), (''content_type'', TString 0),
    (''expires'', TInteger), (''key'', TString 0)]"

definition schema_refreshReq :: jtype where
  "schema_refreshReq = TObject [''refresh_token''] [(''refresh_token'', TString 0)]"

definition schema_resetIn :: jtype where
  "schema_resetIn = TObject [''new_password'', ''token''] [(''new_password'', TString 6), (''token'', TString 0)]"

definition schema_setContectIn :: jtype where
  "schema_setContectIn = TObject [''org_id''] [(''org_id'', TString 0)]"

definition schema_updateEndpointIn :: jtype where
  "schema_updateEndpointIn = TObject [''events'', ''url''] [(''active'', TBoolean), (''events'', TArray (TString 0)),
    (''url'', TString 0)]"

lemmas schema_defs = schema_APIKey_def schema_CreateResult_def schema_Subscription_def schema_File_def
  schema_Organization_def schema_Project_def schema_Endpoint_def schema_AuthUser_def
  schema_AuthResponse_def schema_ContextResponse_def schema_ErrorDetailResponse_def schema_ErrorResponse_def
  schema_MeUser_def schema_MeResponse_def schema_PresignGetResponse_def schema_PresignPutResponse_def
  schema_ProjectIn_def schema_TokenResponse_def schema_checkoutIn_def schema_createEndpointIn_def
  schema_createKeyIn_def schema_createOrgIn_def schema_creds_def schema_fileCreateIn_def
  schema_forgotIn_def schema_memberIn_def schema_presignGetIn_def schema_presignPutIn_def
  schema_refreshReq_def schema_resetIn_def schema_setContectIn_def schema_updateEndpointIn_def


section \<open>responses.go\<close>

record ErrorResponse =
  er_Error :: string

record ErrorDetailResponse =
  ed_Error :: string
  ed_Detail :: string

record AuthUser =
  au_ID :: string
  au_Email :: string

record AuthResponse =
  ar_User :: AuthUser
  ar_AccessToken :: string
  ar_RefreshToken :: string

record TokenResponse =
  tr_AccessToken :: string
  tr_RefreshToken :: string

record MeUser =
  mu_ID :: string
  mu_Email :: string
  mu_OrgID :: string
  mu_Role :: string

record MeResponse =
  mr_User :: MeUser

record ContextResponse =
  cr_OrgID :: string
  cr_Role :: string

record PresignPutResponse =
  pp_Method :: string
  pp_URL :: string
  pp_Headers :: "(string \<times> string) list"

record PresignGetResponse =
  pg_Method :: string
  pg_URL :: string

text \<open>The encoding that the tags of the fields ask for.\<close>

definition json_of_ErrorResponse :: "ErrorResponse \<Rightarrow> json" where
  "json_of_ErrorResponse x = JObj [(''error'', JStr (er_Error x))]"

definition json_of_ErrorDetailResponse :: "ErrorDetailResponse \<Rightarrow> json" where
  "json_of_ErrorDetailResponse x =
     JObj ([(''error'', JStr (ed_Error x))] @ omit_empty_str ''detail'' (ed_Detail x))"

definition json_of_AuthUser :: "AuthUser \<Rightarrow> json" where
  "json_of_AuthUser x = JObj [(''id'', JStr (au_ID x)), (''email'', JStr (au_Email x))]"

definition json_of_AuthResponse :: "AuthResponse \<Rightarrow> json" where
  "json_of_AuthResponse x = JObj [(''user'', json_of_AuthUser (ar_User x)),
     (''access_token'', JStr (ar_AccessToken x)), (''refresh_token'', JStr (ar_RefreshToken x))]"

definition json_of_TokenResponse :: "TokenResponse \<Rightarrow> json" where
  "json_of_TokenResponse x =
     JObj [(''access_token'', JStr (tr_AccessToken x)), (''refresh_token'', JStr (tr_RefreshToken x))]"

definition json_of_MeUser :: "MeUser \<Rightarrow> json" where
  "json_of_MeUser x = JObj ([(''id'', JStr (mu_ID x)), (''email'', JStr (mu_Email x))] @
     omit_empty_str ''org_id'' (mu_OrgID x) @ omit_empty_str ''role'' (mu_Role x))"

definition json_of_MeResponse :: "MeResponse \<Rightarrow> json" where
  "json_of_MeResponse x = JObj [(''user'', json_of_MeUser (mr_User x))]"

definition json_of_ContextResponse :: "ContextResponse \<Rightarrow> json" where
  "json_of_ContextResponse x = JObj [(''org_id'', JStr (cr_OrgID x)), (''role'', JStr (cr_Role x))]"

definition json_of_PresignPutResponse :: "PresignPutResponse \<Rightarrow> json" where
  "json_of_PresignPutResponse x = JObj [(''method'', JStr (pp_Method x)), (''url'', JStr (pp_URL x)),
     (''headers'', JObj (map (\<lambda>(k, v). (k, JStr v)) (pp_Headers x)))]"

definition json_of_PresignGetResponse :: "PresignGetResponse \<Rightarrow> json" where
  "json_of_PresignGetResponse x = JObj [(''method'', JStr (pg_Method x)), (''url'', JStr (pg_URL x))]"

lemmas response_defs = json_of_ErrorResponse_def json_of_ErrorDetailResponse_def json_of_AuthUser_def
  json_of_AuthResponse_def json_of_TokenResponse_def json_of_MeUser_def json_of_MeResponse_def
  json_of_ContextResponse_def json_of_PresignPutResponse_def json_of_PresignGetResponse_def

text \<open>The document's definitions are those of the Go types.\<close>

lemma response_types:
  "conforms schema_ErrorResponse (json_of_ErrorResponse e)"
  "conforms schema_ErrorDetailResponse (json_of_ErrorDetailResponse ed)"
  "conforms schema_AuthResponse (json_of_AuthResponse a)"
  "conforms schema_TokenResponse (json_of_TokenResponse t)"
  "conforms schema_MeResponse (json_of_MeResponse m)"
  "conforms schema_ContextResponse (json_of_ContextResponse c)"
  "conforms schema_PresignPutResponse (json_of_PresignPutResponse p)"
  "conforms schema_PresignGetResponse (json_of_PresignGetResponse g)"
  by (simp_all add: response_defs schema_defs list.pred_map o_def case_prod_beta list.pred_True)

end
