(* ===== verification/ApiDocs.thy ===== *)
theory ApiDocs
  imports ApiSchema Router
begin

text \<open>
  The operations of the API document, \<open>docs/swagger/docs.go\<close>: for every path and method the
  security it asks for, what it consumes and produces, its parameters, and the responses with their
  types. Tags, summaries and descriptions are left out. The last part relates the document to the
  routes of \<open>router.go\<close>.
\<close>

datatype location = InHeader | InPath | InQuery | InBody

record param =
  pm_name :: string
  pm_in :: location
  pm_required :: bool
  pm_type :: jtype

record operation =
  op_method :: meth
  op_path :: string
  op_security :: "string list"
  op_consumes :: "string list"
  op_produces :: "string list"
  op_params :: "param list"
  op_responses :: "(int \<times> jtype option) list"


section \<open>The paths\<close>

definition doc_get_api_keys :: operation where
  "doc_get_api_keys = \<lparr>op_method = GET, op_path = ''/api-keys'', op_security = [''BearerAuth''],
     op_consumes = [], op_produces = [''application/json''],
     op_params = [\<lparr>pm_name = ''X-Org-ID'', pm_in = InHeader, pm_required = True, pm_type = TString 0\<rparr>],
     op_responses = [(200, Some (TArray schema_APIKey)), (401, Some schema_ErrorResponse), (500, Some schema_ErrorResponse)]\<rparr>"

definition doc_post_api_keys :: operation where
  "doc_post_api_keys = \<lparr>op_method = POST, op_path = ''/api-keys'', op_security = [''BearerAuth''],
     op_consumes = [''application/json''], op_produces = [''application/json''],
     op_params = [\<lparr>pm_name = ''X-Org-ID'', pm_in = InHeader, pm_required = True, pm_type = TString 0\<rparr>,
       \<lparr>pm_name = ''body'', pm_in = InBody, pm_required = True, pm_type = schema_createKeyIn\<rparr>],
     op_responses = [(201, Some schema_CreateResult), (401, Some schema_ErrorResponse), (422, Some schema_ErrorResponse),
       (500, Some schema_ErrorResponse)]\<rparr>"

definition doc_delete_api_keys_id :: operation where
  "doc_delete_api_keys_id = \<lparr>op_method = DELETE, op_path = ''/api-keys/{id}'', op_security = [''BearerAuth''],
     op_consumes = [], op_produces = [],
     op_params = [\<lparr>pm_name = ''X-Org-ID'', pm_in = InHeader, pm_required = True, pm_type = TString 0\<rparr>,
       \<lparr>pm_name = ''id'', pm_in = InPath, pm_required = True, pm_type = TString 0\<rparr>],
     op_responses = [(204, None), (401, Some schema_ErrorResponse), (500, Some schema_ErrorResponse)]\<rparr>"

definition doc_get_audit :: operation where
  "doc_get_audit = \<lparr>op_method = GET, op_path = ''/audit'', op_security = [''BearerAuth''],
     op_consumes = [], op_produces = [''application/json''],
     op_params = [\<lparr>pm_name = ''X-Org-ID'', pm_in = InHeader, pm_required = True, pm_type = TString 0\<rparr>,
       \<lparr>pm_name = ''page'', pm_in = InQuery, pm_required = False, pm_type = TInteger\<rparr>,
       \<lparr>pm_name = ''page_size'', pm_in = InQuery, pm_required = False, pm_type = TInteger\<rparr>,
       \<lparr>pm_name = ''actor_id'', pm_in = InQuery, pm_required = False, pm_type = TString 0\<rparr>,
       \<lparr>pm_name = ''action'', pm_in = InQuery, pm_required = False, pm_type = TString 0\<rparr>,
       \<lparr>pm_name = ''entity'', pm_in = InQuery, pm_required = False, pm_type = TString 0\<rparr>,
       \<lparr>pm_name = ''since'', pm_in = InQuery, pm_required = False, pm_type = TString 0\<rparr>,
       \<lparr>pm_name = ''until'', pm_in = InQuery, pm_required = False, pm_type = TString 0\<rparr>],
     op_responses = [(200, Some (TMap TAny)), (400, Some schema_ErrorResponse), (401, Some schema_ErrorResponse),
       (403, Some schema_ErrorResponse), (500, Some schema_ErrorResponse)]\<rparr>"

definition doc_post_auth_forgot_password :: operation where
  "doc_post_auth_forgot_password = \<lparr>op_method = POST, op_path = ''/auth/forgot-password'', op_security = [],
     op_consumes = [''application/json''], op_produces = [''application/json''],
     op_params = [\<lparr>pm_name = ''body'', pm_in = InBody, pm_required = True, pm_type = schema_forgotIn\<rparr>],
     op_responses = [(200, Some (TMap (TString 0))), (422, Some schema_ErrorResponse)]\<rparr>"

definition doc_post_auth_login :: operation where
  "doc_post_auth_login = \<lparr>op_method = POST, op_path = ''/auth/login'', op_security = [],
     op_consumes = [''application/json''], op_produces = [''application/json''],
     op_params = [\<lparr>pm_name = ''body'', pm_in = InBody, pm_required = True, pm_type = schema_creds\<rparr>],
     op_responses = [(200, Some schema_AuthResponse), (401, Some schema_ErrorResponse), (422, Some schema_ErrorResponse),
       (500, Some schema_ErrorResponse)]\<rparr>"

definition doc_post_auth_logout :: operation where
  "doc_post_auth_logout = \<lparr>op_method = POST, op_path = ''/auth/logout'', op_security = [],
     op_consumes = [''application/json''], op_produces = [''application/json''],
     op_params = [\<lparr>pm_name = ''body'', pm_in = InBody, pm_required = True, pm_type = schema_refreshReq\<rparr>],
     op_responses = [(204, None), (401, Some schema_ErrorResponse), (422, Some schema_ErrorResponse)]\<rparr>"

definition doc_post_auth_logout_all :: operation where
  "doc_post_auth_logout_all = \<lparr>op_method = POST, op_path = ''/auth/logout-all'', op_security = [''BearerAuth''],
     op_consumes = [], op_produces = [],
     op_params = [],
     op_responses = [(204, None), (401, Some schema_ErrorResponse)]\<rparr>"

definition doc_post_auth_refresh :: operation where
  "doc_post_auth_refresh = \<lparr>op_method = POST, op_path = ''/auth/refresh'', op_security = [],
     op_consumes = [''application/json''], op_produces = [''application/json''],
     op_params = [\<lparr>pm_name = ''body'', pm_in = InBody, pm_required = True, pm_type = schema_refreshReq\<rparr>],
     op_responses = [(200, Some schema_TokenResponse), (401, Some schema_ErrorResponse), (422, Some schema_ErrorResponse),
       (500, Some schema_ErrorResponse)]\<rparr>"

definition doc_post_auth_reset_password :: operation where
  "doc_post_auth_reset_password = \<lparr>op_method = POST, op_path = ''/auth/reset-password'', op_security = [],
     op_consumes = [''application/json''], op_produces = [''application/json''],
     op_params = [\<lparr>pm_name = ''body'', pm_in = InBody, pm_required = True, pm_type = schema_resetIn\<rparr>],
     op_responses = [(200, Some (TMap (TString 0))), (401, Some schema_ErrorResponse), (422, Some schema_ErrorResponse),
       (500, Some schema_ErrorResponse)]\<rparr>"

definition doc_post_auth_signup :: operation where
  "doc_post_auth_signup = \<lparr>op_method = POST, op_path = ''/auth/signup'', op_security = [],
     op_consumes = [''application/json''], op_produces = [''application/json''],
     op_params = [\<lparr>pm_name = ''body'', pm_in = InBody, pm_required = True, pm_type = schema_creds\<rparr>],
     op_responses = [(201, Some schema_AuthResponse), (409, Some schema_ErrorResponse), (422, Some schema_ErrorResponse),
       (500, Some schema_ErrorResponse)]\<rparr>"

definition doc_post_billing_checkout_session :: operation where
  "doc_post_billing_checkout_session = \<lparr>op_method = POST, op_path = ''/billing/checkout-session'', op_security = [''BearerAuth''],
     op_consumes = [''application/json''], op_produces = [''application/json''],
     op_params = [\<lparr>pm_name = ''X-Org-ID'', pm_in = InHeader, pm_required = True, pm_type = TString 0\<rparr>,
       \<lparr>pm_name = ''body'', pm_in = InBody, pm_required = True, pm_type = schema_checkoutIn\<rparr>],
     op_responses = [(200, Some (TMap (TString 0))), (401, Some schema_ErrorResponse), (422, Some schema_ErrorResponse),
       (500, Some schema_ErrorResponse)]\<rparr>"

definition doc_get_billing_subscription :: operation where
  "doc_get_billing_subscription = \<lparr>op_method = GET, op_path = ''/billing/subscription'', op_security = [''BearerAuth''],
     op_consumes = [], op_produces = [''application/json''],
     op_params = [\<lparr>pm_name = ''X-Org-ID'', pm_in = InHeader, pm_required = True, pm_type = TString 0\<rparr>],
     op_responses = [(200, Some schema_Subscription), (401, Some schema_ErrorResponse), (500, Some schema_ErrorResponse)]\<rparr>"

definition doc_get_billing_usage :: operation where
  "doc_get_billing_usage = \<lparr>op_method = GET, op_path = ''/billing/usage'', op_security = [''BearerAuth''],
     op_consumes = [], op_produces = [''application/json''],
     op_params = [\<lparr>pm_name = ''X-Org-ID'', pm_in = InHeader, pm_required = True, pm_type = TString 0\<rparr>],
     op_responses = [(200, Some (TMap TAny)), (401, Some schema_ErrorResponse), (500, Some schema_ErrorResponse)]\<rparr>"

definition doc_post_billing_webhook :: operation where
  "doc_post_billing_webhook = \<lparr>op_method = POST, op_path = ''/billing/webhook'', op_security = [],
     op_consumes = [''application/json''], op_produces = [''application/json''],
     op_params = [],
     op_responses = [(200, Some (TMap (TString 0))), (400, Some schema_ErrorResponse)]\<rparr>"

definition doc_get_context :: operation where
  "doc_get_context = \<lparr>op_method = GET, op_path = ''/context'', op_security = [''BearerAuth''],
     op_consumes = [], op_produces = [''application/json''],
     op_params = [],
     op_responses = [(200, Some schema_ContextResponse), (204, None), (401, Some schema_ErrorResponse),
       (500, Some schema_ErrorDetailResponse)]\<rparr>"

definition doc_post_context :: operation where
  "doc_post_context = \<lparr>op_method = POST, op_path = ''/context'', op_security = [''BearerAuth''],
     op_consumes = [''application/json''], op_produces = [''application/json''],
     op_params = [\<lparr>pm_name = ''body'', pm_in = InBody, pm_required = True, pm_type = schema_setContectIn\<rparr>],
     op_responses = [(204, None), (401, Some schema_ErrorResponse), (403, Some schema_ErrorResponse),
       (422, Some schema_ErrorResponse), (500, Some schema_ErrorDetailResponse)]\<rparr>"

definition doc_get_me :: operation where
  "doc_get_me = \<lparr>op_method = GET, op_path = ''/me'', op_security = [''BearerAuth''],
     op_consumes = [], op_produces = [''application/json''],
     op_params = [\<lparr>pm_name = ''X-Org-ID'', pm_in = InHeader, pm_required = False, pm_type = TString 0\<rparr>],
     op_responses = [(200, Some schema_MeResponse), (401, Some schema_ErrorResponse)]\<rparr>"

definition doc_post_orgs :: operation where
  "doc_post_orgs = \<lparr>op_method = POST, op_path = ''/orgs'', op_security = [''BearerAuth''],
     op_consumes = [''application/json''], op_produces = [''application/json''],
     op_params = [\<lparr>pm_name = ''body'', pm_in = InBody, pm_required = True, pm_type = schema_createOrgIn\<rparr>],
     op_responses = [(201, Some schema_Organization), (401, Some schema_ErrorResponse), (422, Some schema_ErrorResponse),
       (500, Some schema_ErrorResponse)]\<rparr>"

definition doc_get_orgs_id :: operation where
  "doc_get_orgs_id = \<lparr>op_method = GET, op_path = ''/orgs/{id}'', op_security = [''BearerAuth''],
     op_consumes = [], op_produces = [''application/json''],
     op_params = [\<lparr>pm_name = ''id'', pm_in = InPath, pm_required = True, pm_type = TString 0\<rparr>],
     op_responses = [(200, Some schema_Organization), (404, Some schema_ErrorResponse)]\<rparr>"

definition doc_delete_orgs_id :: operation where
  "doc_delete_orgs_id = \<lparr>op_method = DELETE, op_path = ''/orgs/{id}'', op_security = [''BearerAuth''],
     op_consumes = [], op_produces = [''application/json''],
     op_params = [\<lparr>pm_name = ''X-Org-ID'', pm_in = InHeader, pm_required = True, pm_type = TString 0\<rparr>,
       \<lparr>pm_name = ''id'', pm_in = InPath, pm_required = True, pm_type = TString 0\<rparr>],
     op_responses = [(204, None), (401, Some schema_ErrorResponse), (403, Some schema_ErrorResponse),
       (404, Some schema_ErrorDetailResponse)]\<rparr>"

definition doc_post_orgs_id_members :: operation where
  "doc_post_orgs_id_members = \<lparr>op_method = POST, op_path = ''/orgs/{id}/members'', op_security = [''BearerAuth''],
     op_consumes = [''application/json''], op_produces = [''application/json''],
     op_params = [\<lparr>pm_name = ''X-Org-ID'', pm_in = InHeader, pm_required = True, pm_type = TString 0\<rparr>,
       \<lparr>pm_name = ''id'', pm_in = InPath, pm_required = True, pm_type = TString 0\<rparr>,
       \<lparr>pm_name = ''body'', pm_in = InBody, pm_required = True, pm_type = schema_memberIn\<rparr>],
     op_responses = [(204, None), (401, Some schema_ErrorResponse), (403, Some schema_ErrorResponse),
       (422, Some schema_ErrorResponse), (500, Some schema_ErrorResponse)]\<rparr>"

definition doc_delete_orgs_id_members_userId :: operation where
  "doc_delete_orgs_id_members_userId = \<lparr>op_method = DELETE, op_path = ''/orgs/{id}/members/{userId}'', op_security = [''BearerAuth''],
     op_consumes = [], op_produces = [''application/json''],
     op_params = [\<lparr>pm_name = ''X-Org-ID'', pm_in = InHeader, pm_required = True, pm_type = TString 0\<rparr>,
       \<lparr>pm_name = ''id'', pm_in = InPath, pm_required = True, pm_type = TString 0\<rparr>,
       \<lparr>pm_name = ''userId'', pm_in = InPath, pm_required = True, pm_type = TString 0\<rparr>],
     op_responses = [(204, None), (401, Some schema_ErrorResponse), (403, Some schema_ErrorResponse),
       (404, Some schema_ErrorDetailResponse)]\<rparr>"

definition doc_patch_orgs_id_members_userId :: operation where
  "doc_patch_orgs_id_members_userId = \<lparr>op_method = PATCH, op_path = ''/orgs/{id}/members/{userId}'', op_security = [''BearerAuth''],
     op_consumes = [''application/json''], op_produces = [''application/json''],
     op_params = [\<lparr>pm_name = ''X-Org-ID'', pm_in = InHeader, pm_required = True, pm_type = TString 0\<rparr>,
       \<lparr>pm_name = ''id'', pm_in = InPath, pm_required = True, pm_type = TString 0\<rparr>,
       \<lparr>pm_name = ''userId'', pm_in = InPath, pm_required = True, pm_type = TString 0\<rparr>,
       \<lparr>pm_name = ''body'', pm_in = InBody, pm_required = True, pm_type = schema_memberIn\<rparr>],
     op_responses = [(204, None), (401, Some schema_ErrorResponse), (403, Some schema_ErrorResponse),
       (404, Some schema_ErrorDetailResponse), (422, Some schema_ErrorResponse)]\<rparr>"

definition doc_get_projects :: operation where
  "doc_get_projects = \<lparr>op_method = GET, op_path = ''/projects'', op_security = [''BearerAuth''],
     op_consumes = [], op_produces = [''application/json''],
     op_params = [\<lparr>pm_name = ''X-Org-ID'', pm_in = InHeader, pm_required = True, pm_type = TString 0\<rparr>],
     op_responses = [(200, Some (TMap (TArray schema_Project))), (400, Some schema_ErrorResponse),
       (401, Some schema_ErrorResponse), (500, Some schema_ErrorDetailResponse)]\<rparr>"

definition doc_post_projects :: operation where
  "doc_post_projects = \<lparr>op_method = POST, op_path = ''/projects'', op_security = [''BearerAuth''],
     op_consumes = [''application/json''], op_produces = [''application/json''],
     op_params = [\<lparr>pm_name = ''X-Org-ID'', pm_in = InHeader, pm_required = True, pm_type = TString 0\<rparr>,
       \<lparr>pm_name = ''body'', pm_in = InBody, pm_required = True, pm_type = schema_ProjectIn\<rparr>],
     op_responses = [(201, Some schema_Project), (400, Some schema_ErrorResponse), (401, Some schema_ErrorResponse),
       (422, Some schema_ErrorResponse), (500, Some schema_ErrorDetailResponse)]\<rparr>"

definition doc_get_projects_id :: operation where
  "doc_get_projects_id = \<lparr>op_method = GET, op_path = ''/projects/{id}'', op_security = [''BearerAuth''],
     op_consumes = [], op_produces = [''application/json''],
     op_params = [\<lparr>pm_name = ''X-Org-ID'', pm_in = InHeader, pm_required = True, pm_type = TString 0\<rparr>,
       \<lparr>pm_name = ''id'', pm_in = InPath, pm_required = True, pm_type = TString 0\<rparr>],
     op_responses = [(200, Some schema_Project), (400, Some schema_ErrorResponse), (404, Some schema_ErrorResponse)]\<rparr>"

definition doc_delete_projects_id :: operation where
  "doc_delete_projects_id = \<lparr>op_method = DELETE, op_path = ''/projects/{id}'', op_security = [''BearerAuth''],
     op_consumes = [], op_produces = [''application/json''],
     op_params = [\<lparr>pm_name = ''X-Org-ID'', pm_in = InHeader, pm_required = True, pm_type = TString 0\<rparr>,
       \<lparr>pm_name = ''id'', pm_in = InPath, pm_required = True, pm_type = TString 0\<rparr>],
     op_responses = [(204, None), (400, Some schema_ErrorResponse), (404, Some schema_ErrorResponse)]\<rparr>"

definition doc_patch_projects_id :: operation where
  "doc_patch_projects_id = \<lparr>op_method = PATCH, op_path = ''/projects/{id}'', op_security = [''BearerAuth''],
     op_consumes = [''application/json''], op_produces = [''application/json''],
     op_params = [\<lparr>pm_name = ''X-Org-ID'', pm_in = InHeader, pm_required = True, pm_type = TString 0\<rparr>,
       \<lparr>pm_name = ''id'', pm_in = InPath, pm_required = True, pm_type = TString 0\<rparr>,
       \<lparr>pm_name = ''body'', pm_in = InBody, pm_required = True, pm_type = schema_ProjectIn\<rparr>],
     op_responses = [(200, Some schema_Project), (400, Some schema_ErrorResponse), (401, Some schema_ErrorResponse),
       (422, Some schema_ErrorResponse), (500, Some schema_ErrorDetailResponse)]\<rparr>"

definition doc_get_storage_files :: operation where
  "doc_get_storage_files = \<lparr>op_method = GET, op_path = ''/storage/files'', op_security = [''BearerAuth''],
     op_consumes = [], op_produces = [''application/json''],
     op_params = [\<lparr>pm_name = ''X-Org-ID'', pm_in = InHeader, pm_required = True, pm_type = TString 0\<rparr>,
       \<lparr>pm_name = ''limit'', pm_in = InQuery, pm_required = False, pm_type = TInteger\<rparr>,
       \<lparr>pm_name = ''offset'', pm_in = InQuery, pm_required = False, pm_type = TInteger\<rparr>],
     op_responses = [(200, Some (TMap TAny)), (400, Some schema_ErrorResponse), (401, Some schema_ErrorResponse),
       (500, Some schema_ErrorResponse)]\<rparr>"

definition doc_post_storage_files :: operation where
  "doc_post_storage_files = \<lparr>op_method = POST, op_path = ''/storage/files'', op_security = [''BearerAuth''],
     op_consumes = [''application/json''], op_produces = [''application/json''],
     op_params = [\<lparr>pm_name = ''X-Org-ID'', pm_in = InHeader, pm_required = True, pm_type = TString 0\<rparr>,
       \<lparr>pm_name = ''body'', pm_in = InBody, pm_required = True, pm_type = schema_fileCreateIn\<rparr>],
     op_responses = [(201, Some schema_File), (400, Some schema_ErrorResponse), (401, Some schema_ErrorResponse),
       (422, Some schema_ErrorResponse), (500, Some schema_ErrorResponse)]\<rparr>"

definition doc_get_storage_files_id :: operation where
  "doc_get_storage_files_id = \<lparr>op_method = GET, op_path = ''/storage/files/{id}'', op_security = [''BearerAuth''],
     op_consumes = [], op_produces = [''application/json''],
     op_params = [\<lparr>pm_name = ''X-Org-ID'', pm_in = InHeader, pm_required = True, pm_type = TString 0\<rparr>,
       \<lparr>pm_name = ''id'', pm_in = InPath, pm_required = True, pm_type = TString 0\<rparr>],
     op_responses = [(200, Some schema_File), (400, Some schema_ErrorResponse), (404, Some schema_ErrorResponse)]\<rparr>"

definition doc_delete_storage_files_id :: operation where
  "doc_delete_storage_files_id = \<lparr>op_method = DELETE, op_path = ''/storage/files/{id}'', op_security = [''BearerAuth''],
     op_consumes = [], op_produces = [''application/json''],
     op_params = [\<lparr>pm_name = ''X-Org-ID'', pm_in = InHeader, pm_required = True, pm_type = TString 0\<rparr>,
       \<lparr>pm_name = ''id'', pm_in = InPath, pm_required = True, pm_type = TString 0\<rparr>],
     op_responses = [(204, None), (400, Some schema_ErrorResponse), (404, Some schema_ErrorResponse),
       (500, Some schema_ErrorResponse)]\<rparr>"

definition doc_post_storage_presign :: operation where
  "doc_post_storage_presign = \<lparr>op_method = POST, op_path = ''/storage/presign'', op_security = [''BearerAuth''],
     op_consumes = [''application/json''], op_produces = [''application/json''],
     op_params = [\<lparr>pm_name = ''X-Org-ID'', pm_in = InHeader, pm_required = True, pm_type = TString 0\<rparr>,
       \<lparr>pm_name = ''body'', pm_in = InBody, pm_required = True, pm_type = schema_presignPutIn\<rparr>],
     op_responses = [(200, Some schema_PresignPutResponse), (401, Some schema_ErrorResponse),
       (422, Some schema_ErrorResponse), (500, Some schema_ErrorDetailResponse)]\<rparr>"

definition doc_post_storage_presign_download :: operation where
  "doc_post_storage_presign_download = \<lparr>op_method = POST, op_path = ''/storage/presign-download'', op_security = [''BearerAuth''],
     op_consumes = [''application/json''], op_produces = [''application/json''],
     op_params = [\<lparr>pm_name = ''X-Org-ID'', pm_in = InHeader, pm_required = True, pm_type = TString 0\<rparr>,
       \<lparr>pm_name = ''body'', pm_in = InBody, pm_required = True, pm_type = schema_presignGetIn\<rparr>],
     op_responses = [(200, Some schema_PresignGetResponse), (401, Some schema_ErrorResponse),
       (422, Some schema_ErrorResponse), (500, Some schema_ErrorDetailResponse)]\<rparr>"

definition doc_get_webhooks_endpoints :: operation where
  "doc_get_webhooks_endpoints = \<lparr>op_method = GET, op_path = ''/webhooks/endpoints'', op_security = [''BearerAuth''],
     op_consumes = [], op_produces = [''application/json''],
     op_params = [\<lparr>pm_name = ''X-Org-ID'', pm_in = InHeader, pm_required = True, pm_type = TString 0\<rparr>],
     op_responses = [(200, Some (TArray schema_Endpoint)), (401, Some schema_ErrorResponse),
       (500, Some schema_ErrorResponse)]\<rparr>"

definition doc_post_webhooks_endpoints :: operation where
  "doc_post_webhooks_endpoints = \<lparr>op_method = POST, op_path = ''/webhooks/endpoints'', op_security = [''BearerAuth''],
     op_consumes = [''application/json''], op_produces = [''application/json''],
     op_params = [\<lparr>pm_name = ''X-Org-ID'', pm_in = InHeader, pm_required = True, pm_type = TString 0\<rparr>,
       \<lparr>pm_name = ''body'', pm_in = InBody, pm_required = True, pm_type = schema_createEndpointIn\<rparr>],
     op_responses = [(201, Some schema_Endpoint), (401, Some schema_ErrorResponse), (422, Some schema_ErrorResponse),
       (500, Some schema_ErrorResponse)]\<rparr>"

definition doc_patch_webhooks_endpoints_id :: operation where
  "doc_patch_webhooks_endpoints_id = \<lparr>op_method = PATCH, op_path = ''/webhooks/endpoints/{id}'', op_security = [''BearerAuth''],
     op_consumes = [''application/json''], op_produces = [''application/json''],
     op_params = [\<lparr>pm_name = ''X-Org-ID'', pm_in = InHeader, pm_required = True, pm_type = TString 0\<rparr>,
       \<lparr>pm_name = ''id'', pm_in = InPath, pm_required = True, pm_type = TString 0\<rparr>,
       \<lparr>pm_name = ''body'', pm_in = InBody, pm_required = True, pm_type = schema_updateEndpointIn\<rparr>],
     op_responses = [(204, None), (401, Some schema_ErrorResponse), (422, Some schema_ErrorResponse),
       (500, Some schema_ErrorResponse)]\<rparr>"

definition doc_post_webhooks_test :: operation where
  "doc_post_webhooks_test = \<lparr>op_method = POST, op_path = ''/webhooks/test'', op_security = [''BearerAuth''],
     op_consumes = [], op_produces = [''application/json''],
     op_params = [\<lparr>pm_name = ''X-Org-ID'', pm_in = InHeader, pm_required = True, pm_type = TString 0\<rparr>,
       \<lparr>pm_name = ''endpoint_id'', pm_in = InQuery, pm_required = True, pm_type = TString 0\<rparr>],
     op_responses = [(200, Some (TMap (TString 0))), (401, Some schema_ErrorResponse), (500, Some schema_ErrorResponse)]\<rparr>"

text \<open>All paths of the document, in its order.\<close>

definition documented :: "operation list" where
  "documented = [doc_get_api_keys, doc_post_api_keys, doc_delete_api_keys_id, doc_get_audit, doc_post_auth_forgot_password, doc_post_auth_login, doc_post_auth_logout, doc_post_auth_logout_all, doc_post_auth_refresh, doc_post_auth_reset_password, doc_post_auth_signup, doc_post_billing_checkout_session, doc_get_billing_subscription, doc_get_billing_usage, doc_post_billing_webhook, doc_get_context, doc_post_context, doc_get_me, doc_post_orgs, doc_get_orgs_id, doc_delete_orgs_id, doc_post_orgs_id_members, doc_delete_orgs_id_members_userId, doc_patch_orgs_id_members_userId, doc_get_projects, doc_post_projects, doc_get_projects_id, doc_delete_projects_id, doc_patch_projects_id, doc_get_storage_files, doc_post_storage_files, doc_get_storage_files_id, doc_delete_storage_files_id, doc_post_storage_presign, doc_post_storage_presign_download, doc_get_webhooks_endpoints, doc_post_webhooks_endpoints, doc_patch_webhooks_endpoints_id, doc_post_webhooks_test]"

lemmas operation_defs = doc_get_api_keys_def doc_post_api_keys_def doc_delete_api_keys_id_def
  doc_get_audit_def doc_post_auth_forgot_password_def doc_post_auth_login_def
  doc_post_auth_logout_def doc_post_auth_logout_all_def doc_post_auth_refresh_def
  doc_post_auth_reset_password_def doc_post_auth_signup_def doc_post_billing_checkout_session_def
  doc_get_billing_subscription_def doc_get_billing_usage_def doc_post_billing_webhook_def
  doc_get_context_def doc_post_context_def doc_get_me_def
  doc_post_orgs_def doc_get_orgs_id_def doc_delete_orgs_id_def
  doc_post_orgs_id_members_def doc_delete_orgs_id_members_userId_def doc_patch_orgs_id_members_userId_def
  doc_get_projects_def doc_post_projects_def doc_get_projects_id_def
  doc_delete_projects_id_def doc_patch_projects_id_def doc_get_storage_files_def
  doc_post_storage_files_def doc_get_storage_files_id_def doc_delete_storage_files_id_def
  doc_post_storage_presign_def doc_post_storage_presign_download_def doc_get_webhooks_endpoints_def
  doc_post_webhooks_endpoints_def doc_patch_webhooks_endpoints_id_def doc_post_webhooks_test_def


section \<open>Paths and routes\<close>

text \<open>\<open>BasePath\<close>, and the pattern of a path: \<open>{name}\<close> is a parameter.\<close>

definition BasePath :: string where
  "BasePath = ''/v1''"

definition seg_of :: "string \<Rightarrow> seg" where
  "seg_of s = (case s of CHR ''{'' # t \<Rightarrow> Par (butlast t) | _ \<Rightarrow> Lit s)"

definition path_segs :: "string \<Rightarrow> seg list" where
  "path_segs p = map seg_of (tl (Split p (CHR ''/'')))"

definition op_route :: "operation \<Rightarrow> meth \<times> seg list" where
  "op_route op = (op_method op, path_segs (BasePath @ op_path op))"

definition rt_key :: "route \<Rightarrow> meth \<times> seg list" where
  "rt_key r = (rt_method r, rt_path r)"

definition path_params :: "operation \<Rightarrow> string list" where
  "path_params op = map pm_name (filter (\<lambda>p. pm_in p = InPath) (op_params op))"

definition body_type :: "operation \<Rightarrow> jtype option" where
  "body_type op = map_option pm_type (List.find (\<lambda>p. pm_in p = InBody) (op_params op))"

definition needs_org :: "operation \<Rightarrow> bool" where
  "needs_org op = list_ex (\<lambda>p. pm_name p = ''X-Org-ID'' \<and> pm_in p = InHeader \<and> pm_required p) (op_params op)"

text \<open>The patterns of the document, computed once.\<close>

lemma op_route_simps [simp]:
  "op_route doc_get_api_keys = (GET, [Lit ''v1'', Lit ''api-keys''])"
  "op_route doc_post_api_keys = (POST, [Lit ''v1'', Lit ''api-keys''])"
  "op_route doc_delete_api_keys_id = (DELETE, [Lit ''v1'', Lit ''api-keys'', Par ''id''])"
  "op_route doc_get_audit = (GET, [Lit ''v1'', Lit ''audit''])"
  "op_route doc_post_auth_forgot_password = (POST, [Lit ''v1'', Lit ''auth'', Lit ''forgot-password''])"
  "op_route doc_post_auth_login = (POST, [Lit ''v1'', Lit ''auth'', Lit ''login''])"
  "op_route doc_post_auth_logout = (POST, [Lit ''v1'', Lit ''auth'', Lit ''logout''])"
  "op_route doc_post_auth_logout_all = (POST, [Lit ''v1'', Lit ''auth'', Lit ''logout-all''])"
  "op_route doc_post_auth_refresh = (POST, [Lit ''v1'', Lit ''auth'', Lit ''refresh''])"
  "op_route doc_post_auth_reset_password = (POST, [Lit ''v1'', Lit ''auth'', Lit ''reset-password''])"
  "op_route doc_post_auth_signup = (POST, [Lit ''v1'', Lit ''auth'', Lit ''signup''])"
  "op_route doc_post_billing_checkout_session = (POST, [Lit ''v1'', Lit ''billing'', Lit ''checkout-session''])"
  "op_route doc_get_billing_subscription = (GET, [Lit ''v1'', Lit ''billing'', Lit ''subscription''])"
  "op_route doc_get_billing_usage = (GET, [Lit ''v1'', Lit ''billing'', Lit ''usage''])"
  "op_route doc_post_billing_webhook = (POST, [Lit ''v1'', Lit ''billing'', Lit ''webhook''])"
  "op_route doc_get_context = (GET, [Lit ''v1'', Lit ''context''])"
  "op_route doc_post_context = (POST, [Lit ''v1'', Lit ''context''])"
  "op_route doc_get_me = (GET, [Lit ''v1'', Lit ''me''])"
  "op_route doc_post_orgs = (POST, [Lit ''v1'', Lit ''orgs''])"
  "op_route doc_get_orgs_id = (GET, [Lit ''v1'', Lit ''orgs'', Par ''id''])"
  "op_route doc_delete_orgs_id = (DELETE, [Lit ''v1'', Lit ''orgs'', Par ''id''])"
  "op_route doc_post_orgs_id_members = (POST, [Lit ''v1'', Lit ''orgs'', Par ''id'', Lit ''members''])"
  "op_route doc_delete_orgs_id_members_userId = (DELETE, [Lit ''v1'', Lit ''orgs'', Par ''id'', Lit ''members'', Par ''userId''])"
  "op_route doc_patch_orgs_id_members_userId = (PATCH, [Lit ''v1'', Lit ''orgs'', Par ''id'', Lit ''members'', Par ''userId''])"
  "op_route doc_get_projects = (GET, [Lit ''v1'', Lit ''projects''])"
  "op_route doc_post_projects = (POST, [Lit ''v1'', Lit ''projects''])"
  "op_route doc_get_projects_id = (GET, [Lit ''v1'', Lit ''projects'', Par ''id''])"
  "op_route doc_delete_projects_id = (DELETE, [Lit ''v1'', Lit ''projects'', Par ''id''])"
  "op_route doc_patch_projects_id = (PATCH, [Lit ''v1'', Lit ''projects'', Par ''id''])"
  "op_route doc_get_storage_files = (GET, [Lit ''v1'', Lit ''storage'', Lit ''files''])"
  "op_route doc_post_storage_files = (POST, [Lit ''v1'', Lit ''storage'', Lit ''files''])"
  "op_route doc_get_storage_files_id = (GET, [Lit ''v1'', Lit ''storage'', Lit ''files'', Par ''id''])"
  "op_route doc_delete_storage_files_id = (DELETE, [Lit ''v1'', Lit ''storage'', Lit ''files'', Par ''id''])"
  "op_route doc_post_storage_presign = (POST, [Lit ''v1'', Lit ''storage'', Lit ''presign''])"
  "op_route doc_post_storage_presign_download = (POST, [Lit ''v1'', Lit ''storage'', Lit ''presign-download''])"
  "op_route doc_get_webhooks_endpoints = (GET, [Lit ''v1'', Lit ''webhooks'', Lit ''endpoints''])"
  "op_route doc_post_webhooks_endpoints = (POST, [Lit ''v1'', Lit ''webhooks'', Lit ''endpoints''])"
  "op_route doc_patch_webhooks_endpoints_id = (PATCH, [Lit ''v1'', Lit ''webhooks'', Lit ''endpoints'', Par ''id''])"
  "op_route doc_post_webhooks_test = (POST, [Lit ''v1'', Lit ''webhooks'', Lit ''test''])"
  by (simp_all add: op_route_def path_segs_def BasePath_def seg_of_def operation_defs)

lemma op_responses_simps [simp]:
  "op_responses doc_get_api_keys = [(200, Some (TArray schema_APIKey)), (401, Some schema_ErrorResponse), (500, Some schema_ErrorResponse)]"
  "op_responses doc_post_api_keys = [(201, Some schema_CreateResult), (401, Some schema_ErrorResponse), (422, Some schema_ErrorResponse),
     (500, Some schema_ErrorResponse)]"
  "op_responses doc_delete_api_keys_id = [(204, None), (401, Some schema_ErrorResponse), (500, Some schema_ErrorResponse)]"
  "op_responses doc_get_audit = [(200, Some (TMap TAny)), (400, Some schema_ErrorResponse), (401, Some schema_ErrorResponse),
     (403, Some schema_ErrorResponse), (500, Some schema_ErrorResponse)]"
  "op_responses doc_post_auth_forgot_password = [(200, Some (TMap (TString 0))), (422, Some schema_ErrorResponse)]"
  "op_responses doc_post_auth_login = [(200, Some schema_AuthResponse), (401, Some schema_ErrorResponse), (422, Some schema_ErrorResponse),
     (500, Some schema_ErrorResponse)]"
  "op_responses doc_post_auth_logout = [(204, None), (401, Some schema_ErrorResponse), (422, Some schema_ErrorResponse)]"
  "op_responses doc_post_auth_logout_all = [(204, None), (401, Some schema_ErrorResponse)]"
  "op_responses doc_post_auth_refresh = [(200, Some schema_TokenResponse), (401, Some schema_ErrorResponse), (422, Some schema_ErrorResponse),
     (500, Some schema_ErrorResponse)]"
  "op_responses doc_post_auth_reset_password = [(200, Some (TMap (TString 0))), (401, Some schema_ErrorResponse), (422, Some schema_ErrorResponse),
     (500, Some schema_ErrorResponse)]"
  "op_responses doc_post_auth_signup = [(201, Some schema_AuthResponse), (409, Some schema_ErrorResponse), (422, Some schema_ErrorResponse),
     (500, Some schema_ErrorResponse)]"
  "op_responses doc_post_billing_checkout_session = [(200, Some (TMap (TString 0))), (401, Some schema_ErrorResponse), (422, Some schema_ErrorResponse),
     (500, Some schema_ErrorResponse)]"
  "op_responses doc_get_billing_subscription = [(200, Some schema_Subscription), (401, Some schema_ErrorResponse), (500, Some schema_ErrorResponse)]"
  "op_responses doc_get_billing_usage = [(200, Some (TMap TAny)), (401, Some schema_ErrorResponse), (500, Some schema_ErrorResponse)]"
  "op_responses doc_post_billing_webhook = [(200, Some (TMap (TString 0))), (400, Some schema_ErrorResponse)]"
  "op_responses doc_get_context = [(200, Some schema_ContextResponse), (204, None), (401, Some schema_ErrorResponse),
     (500, Some schema_ErrorDetailResponse)]"
  "op_responses doc_post_context = [(204, None), (401, Some schema_ErrorResponse), (403, Some schema_ErrorResponse),
     (422, Some schema_ErrorResponse), (500, Some schema_ErrorDetailResponse)]"
  "op_responses doc_get_me = [(200, Some schema_MeResponse), (401, Some schema_ErrorResponse)]"
  "op_responses doc_post_orgs = [(201, Some schema_Organization), (401, Some schema_ErrorResponse), (422, Some schema_ErrorResponse),
     (500, Some schema_ErrorResponse)]"
  "op_responses doc_get_orgs_id = [(200, Some schema_Organization), (404, Some schema_ErrorResponse)]"
  "op_responses doc_delete_orgs_id = [(204, None), (401, Some schema_ErrorResponse), (403, Some schema_ErrorResponse),
     (404, Some schema_ErrorDetailResponse)]"
  "op_responses doc_post_orgs_id_members = [(204, None), (401, Some schema_ErrorResponse), (403, Some schema_ErrorResponse),
     (422, Some schema_ErrorResponse), (500, Some schema_ErrorResponse)]"
  "op_responses doc_delete_orgs_id_members_userId = [(204, None), (401, Some schema_ErrorResponse), (403, Some schema_ErrorResponse),
     (404, Some schema_ErrorDetailResponse)]"
  "op_responses doc_patch_orgs_id_members_userId = [(204, None), (401, Some schema_ErrorResponse), (403, Some schema_ErrorResponse),
     (404, Some schema_ErrorDetailResponse), (422, Some schema_ErrorResponse)]"
  "op_responses doc_get_projects = [(200, Some (TMap (TArray schema_Project))), (400, Some schema_ErrorResponse),
     (401, Some schema_ErrorResponse), (500, Some schema_ErrorDetailResponse)]"
  "op_responses doc_post_projects = [(201, Some schema_Project), (400, Some schema_ErrorResponse), (401, Some schema_ErrorResponse),
     (422, Some schema_ErrorResponse), (500, Some schema_ErrorDetailResponse)]"
  "op_responses doc_get_projects_id = [(200, Some schema_Project), (400, Some schema_ErrorResponse), (404, Some schema_ErrorResponse)]"
  "op_responses doc_delete_projects_id = [(204, None), (400, Some schema_ErrorResponse), (404, Some schema_ErrorResponse)]"
  "op_responses doc_patch_projects_id = [(200, Some schema_Project), (400, Some schema_ErrorResponse), (401, Some schema_ErrorResponse),
     (422, Some schema_ErrorResponse), (500, Some schema_ErrorDetailResponse)]"
  "op_responses doc_get_storage_files = [(200, Some (TMap TAny)), (400, Some schema_ErrorResponse), (401, Some schema_ErrorResponse),
     (500, Some schema_ErrorResponse)]"
  "op_responses doc_post_storage_files = [(201, Some schema_File), (400, Some schema_ErrorResponse), (401, Some schema_ErrorResponse),
     (422, Some schema_ErrorResponse), (500, Some schema_ErrorResponse)]"
  "op_responses doc_get_storage_files_id = [(200, Some schema_File), (400, Some schema_ErrorResponse), (404, Some schema_ErrorResponse)]"
  "op_responses doc_delete_storage_files_id = [(204, None), (400, Some schema_ErrorResponse), (404, Some schema_ErrorResponse),
     (500, Some schema_ErrorResponse)]"
  "op_responses doc_post_storage_presign = [(200, Some schema_PresignPutResponse), (401, Some schema_ErrorResponse),
     (422, Some schema_ErrorResponse), (500, Some schema_ErrorDetailResponse)]"
  "op_responses doc_post_storage_presign_download = [(200, Some schema_PresignGetResponse), (401, Some schema_ErrorResponse),
     (422, Some schema_ErrorResponse), (500, Some schema_ErrorDetailResponse)]"
  "op_responses doc_get_webhooks_endpoints = [(200, Some (TArray schema_Endpoint)), (401, Some schema_ErrorResponse), (500, Some schema_ErrorResponse)]"
  "op_responses doc_post_webhooks_endpoints = [(201, Some schema_Endpoint), (401, Some schema_ErrorResponse), (422, Some schema_ErrorResponse),
     (500, Some schema_ErrorResponse)]"
  "op_responses doc_patch_webhooks_endpoints_id = [(204, None), (401, Some schema_ErrorResponse), (422, Some schema_ErrorResponse),
     (500, Some schema_ErrorResponse)]"
  "op_responses doc_post_webhooks_test = [(200, Some (TMap (TString 0))), (401, Some schema_ErrorResponse), (500, Some schema_ErrorResponse)]"
  by (simp_all add: operation_defs)

end
