(* ===== verification/Conformance.thy ===== *)
theory Conformance
  imports ApiDocs Access
begin

text \<open>
  The server against its document. First the routes: a request matches at most one, so that the
  lookup is the declarative one, and the document describes every route and no other. Then the answers:
  whatever a documented operation writes is of a documented status and type, or one of the few
  answers that the document leaves out.
\<close>


section \<open>The lookup of a route\<close>

text \<open>Two patterns that some path matches.\<close>

fun overlap :: "seg list \<Rightarrow> seg list \<Rightarrow> bool" where
  "overlap [] [] = True"
| "overlap (Lit s # ps) (Lit t # qs) = (s = t \<and> overlap ps qs)"
| "overlap (Par _ # ps) (Lit t # qs) = (t \<noteq> [] \<and> overlap ps qs)"
| "overlap (Lit s # ps) (Par _ # qs) = (s \<noteq> [] \<and> overlap ps qs)"
| "overlap (Par _ # ps) (Par _ # qs) = overlap ps qs"
| "overlap [Rest _] (q # qs) = True"
| "overlap (p # ps) [Rest _] = True"
| "overlap _ _ = False"

lemma match_overlap: "match_path ps xs \<noteq> None \<Longrightarrow> match_path qs xs \<noteq> None \<Longrightarrow> overlap ps qs"
  by (induction ps qs arbitrary: xs rule: overlap.induct; case_tac xs) (auto split: if_splits)

definition apart :: "meth \<times> seg list \<Rightarrow> meth \<times> seg list \<Rightarrow> bool" where
  "apart k l \<longleftrightarrow> \<not> (fst k = fst l \<and> overlap (snd k) (snd l))"

fun unambiguous :: "(meth \<times> seg list) list \<Rightarrow> bool" where
  "unambiguous [] = True"
| "unambiguous (k # ks) = (list_all (apart k) ks \<and> unambiguous ks)"

lemma find_route_spec:
  assumes "unambiguous (map rt_key rs)"
  shows "find_route rs m p = Some (r, b) \<longleftrightarrow>
           r \<in> set rs \<and> rt_method r = m \<and> match_path (rt_path r) p = Some b"
  using assms
proof (induction rs)
  case (Cons x xs)
  have "\<not> overlap (rt_path x) (rt_path r)" if "r \<in> set xs" "rt_method r = rt_method x"
    using Cons.prems that by (auto simp: list.pred_map list_all_iff apart_def rt_key_def)
  then have "match_path (rt_path x) p = None"
    if "r \<in> set xs" "rt_method r = rt_method x" "match_path (rt_path r) p = Some b"
    using that match_overlap [of "rt_path x" p "rt_path r"] by fastforce
  then show ?case
    using Cons by (auto split: option.splits)
qed simp

section \<open>The routes and the document\<close>

lemmas route_defs = routes_def main_routes_def swagger_routes_def register_routes_def public_routes_def auth_routes_def protected_routes_def org_routes_def
  project_routes_def service_routes_def storage_routes_def tenant_chain_def mk_route_def Let_def

definition plain_keys :: "Config \<Rightarrow> (meth \<times> seg list) list" where
  "plain_keys cfg = [(GET, [Lit ''healthz'']), (GET, [Lit ''readyz''])] @
     (if AppEnv cfg \<noteq> ''production'' then [(GET, [Lit ''swagger'', Rest ''any''])] else []) @
     [(GET, [Lit ''v1'', Lit ''_ping''])]"

text \<open>The operations in the order of the routes.\<close>

definition route_ops :: "operation list" where
  "route_ops = [doc_post_auth_signup, doc_post_auth_login, doc_post_auth_refresh, doc_post_auth_logout,
     doc_post_auth_forgot_password, doc_post_auth_reset_password, doc_post_billing_webhook,
     doc_get_me, doc_post_auth_logout_all, doc_get_context, doc_post_context, doc_post_orgs, doc_get_orgs_id,
     doc_post_orgs_id_members, doc_patch_orgs_id_members_userId, doc_delete_orgs_id_members_userId,
     doc_delete_orgs_id, doc_get_projects, doc_post_projects, doc_get_projects_id, doc_patch_projects_id,
     doc_delete_projects_id, doc_get_audit, doc_post_api_keys, doc_get_api_keys, doc_delete_api_keys_id,
     doc_post_webhooks_endpoints, doc_get_webhooks_endpoints, doc_patch_webhooks_endpoints_id,
     doc_post_webhooks_test, doc_post_billing_checkout_session, doc_get_billing_subscription,
     doc_get_billing_usage, doc_post_storage_presign, doc_post_storage_presign_download,
     doc_get_storage_files, doc_post_storage_files, doc_get_storage_files_id, doc_delete_storage_files_id]"

lemma route_ops_documented: "set documented = set route_ops"
  by (simp add: route_ops_def documented_def insert_commute)

lemma route_keys:
  "map rt_key (routes L env) = plain_keys (Load env) @ map op_route route_ops"
  "map rt_key (auth_routes L cfg) = map op_route (take 6 (drop 7 route_ops))"
  "map rt_key (protected_routes L env) = map op_route (drop 13 route_ops)"
  by (simp_all add: route_defs rt_key_def plain_keys_def route_ops_def)

lemma routes_unambiguous: "unambiguous (map rt_key (routes L env))"
  unfolding route_keys by (simp add: apart_def plain_keys_def route_ops_def)

lemma docs_keys: "set (map rt_key (routes L env)) = set (plain_keys (Load env) @ map op_route documented)"
  unfolding route_keys by (simp add: route_ops_documented)

lemma documented_distinct: "distinct (map op_route documented)"
  by (simp add: documented_def)

text \<open>The names of the parameters of a pattern.\<close>

fun par_names :: "seg list \<Rightarrow> string list" where
  "par_names [] = []"
| "par_names (Par n # ps) = n # par_names ps"
| "par_names (Rest n # ps) = n # par_names ps"
| "par_names (Lit _ # ps) = par_names ps"

definition described_by :: "(meth \<times> seg list) list \<Rightarrow> (meth \<times> seg list) list \<Rightarrow> operation \<Rightarrow> bool" where
  "described_by auth tenant op \<longleftrightarrow>
     (op_security op = [''BearerAuth'']) = (op_route op \<in> set (auth @ tenant)) \<and>
     needs_org op = (op_route op \<in> set tenant) \<and>
     path_params op = par_names (snd (op_route op))"

lemma route_ops_described:
  "list_all (described_by (map op_route (take 6 (drop 7 route_ops))) (map op_route (drop 13 route_ops))) route_ops"
  by (simp add: route_ops_def described_by_def)
    (simp add: operation_defs needs_org_def path_params_def)


section \<open>Answers\<close>

text \<open>The statuses with which middleware refuses; their body is an \<open>ErrorResponse\<close>.\<close>

definition refusals :: "int list" where
  "refusals = [400, 401, 403, 429, 500]"

definition op_reply :: "(int \<times> jtype option) list \<Rightarrow> reply \<Rightarrow> bool" where
  "op_reply rs r = (case r of
      Header _ _ \<Rightarrow> True
    | JSON n v \<Rightarrow> list_ex (\<lambda>x. fst x = n \<and> (case snd x of Some t \<Rightarrow> conforms t v | None \<Rightarrow> False)) rs
    | SetStatus n \<Rightarrow> list_ex (\<lambda>x. fst x = n \<and> snd x = None) rs
    | AbortJSON n v \<Rightarrow> n \<in> set refusals \<and> conforms schema_ErrorResponse v)"

locale reply_contract =
  fixes ok :: "reply \<Rightarrow> bool"
  assumes ok_header: "ok (Header k v)"
    and ok_refusal: "n \<in> set refusals \<Longrightarrow> ok (AbortJSON n (error_json s))"
begin

definition answers :: "gctx prog \<Rightarrow> bool" where
  "answers m \<longleftrightarrow> (\<forall>w. list_all ok (g_out (result m w)))"

definition contractual :: "handler \<Rightarrow> bool" where
  "contractual h \<longleftrightarrow> (\<forall>c. list_all ok (g_out c) \<longrightarrow> answers (h c))"

definition contractual_mw :: "middleware \<Rightarrow> bool" where
  "contractual_mw m \<longleftrightarrow> (\<forall>h c. contractual h \<longrightarrow> list_all ok (g_out c) \<longrightarrow> answers (m c h))"

lemma answers_ret: "list_all ok (g_out c) \<Longrightarrow> answers (ret c)"
  by (simp add: answers_def result_def)

lemma answers_bind: "(\<And>a. answers (f a)) \<Longrightarrow> answers (State_Monad.bind m f)"
  by (simp add: answers_def result_bind)

lemma answers_result:
  "(\<And>w. P (result m w)) \<Longrightarrow> (\<And>a. P a \<Longrightarrow> answers (f a)) \<Longrightarrow> answers (State_Monad.bind m f)"
  by (simp add: answers_def result_bind)

lemma answers_after: "answers m \<Longrightarrow> (\<And>c. list_all ok (g_out c) \<Longrightarrow> answers (f c)) \<Longrightarrow> answers (State_Monad.bind m f)"
  by (simp add: answers_def result_bind)

lemma answers_next: "contractual h \<Longrightarrow> list_all ok (g_out c) \<Longrightarrow> answers (h c)"
  by (simp add: contractual_def)

lemma answers_if: "(b \<Longrightarrow> answers m) \<Longrightarrow> (\<not> b \<Longrightarrow> answers n) \<Longrightarrow> answers (if b then m else n)"
  by simp

lemma answers_option:
  "answers m \<Longrightarrow> (\<And>y. answers (g y)) \<Longrightarrow> answers (case x of None \<Rightarrow> m | Some y \<Rightarrow> g y)"
  by (simp split: option.splits)

lemma answers_sum:
  "(\<And>e. answers (f e)) \<Longrightarrow> (\<And>y. answers (g y)) \<Longrightarrow> answers (case x of Inl e \<Rightarrow> f e | Inr y \<Rightarrow> g y)"
  by (simp split: sum.splits)

lemma answers_prod: "(\<And>a b. answers (f a b)) \<Longrightarrow> answers (case x of (a, b) \<Rightarrow> f a b)"
  by (simp split: prod.splits)

lemmas answers_intros = answers_bind answers_if answers_option answers_sum answers_prod answers_ret

lemma contractualI: "(\<And>c. list_all ok (g_out c) \<Longrightarrow> answers (h c)) \<Longrightarrow> contractual h"
  by (simp add: contractual_def)

lemma contractual_mwI:
  "(\<And>h c. contractual h \<Longrightarrow> list_all ok (g_out c) \<Longrightarrow> answers (m c h)) \<Longrightarrow> contractual_mw m"
  by (simp add: contractual_mw_def)

lemma contractual_chain:
  "\<forall>m \<in> set ms. contractual_mw m \<Longrightarrow> contractual h \<Longrightarrow> contractual (run_chain ms h)"
  by (induction ms) (auto simp: contractual_def contractual_mw_def)

lemma refusal_codes: "ok (AbortJSON 400 (error_json s))" "ok (AbortJSON 401 (error_json s))"
    "ok (AbortJSON 403 (error_json s))" "ok (AbortJSON 429 (error_json s))" "ok (AbortJSON 500 (error_json s))"
  by (simp_all add: ok_refusal refusals_def)

lemma contractual_auth: "contractual_mw (AuthWithAPIKeys L cfg k)"
proof (rule contractual_mwI)
  show "answers (AuthWithAPIKeys L cfg k c h)" if "contractual h" "list_all ok (g_out c)" for h c
    unfolding AuthWithAPIKeys_def
    by (intro answers_intros answers_next [OF that(1)]; simp add: emit_def refusal_codes ctx_set_def that(2))
qed

lemma contractual_tenant: "contractual_mw Tenant"
proof (rule contractual_mwI)
  show "answers (Tenant c h)" if "contractual h" "list_all ok (g_out c)" for h c
    unfolding Tenant_def Let_def
    by (intro answers_intros answers_next [OF that(1)]; simp add: emit_def refusal_codes ctx_set_def that(2))
qed

lemma contractual_role: "contractual_mw (RequireRole r)"
proof (rule contractual_mwI)
  show "answers (RequireRole r c h)" if "contractual h" "list_all ok (g_out c)" for h c
    unfolding RequireRole_def Let_def
    by (intro answers_intros answers_next [OF that(1)]; simp add: emit_def refusal_codes that(2))
qed

lemma contractual_global: "contractual_mw Recover" "contractual_mw RateLimit" "contractual_mw Logging"
proof -
  have "answers (Recover c h)" "answers (RateLimit c h)" "answers (Logging c h)"
    if "contractual h" "list_all ok (g_out c)" for h c
  proof -
    show "answers (Recover c h)" unfolding Recover_def
      by (intro answers_after answers_next [OF that(1)] answers_ret; simp add: emit_def refusal_codes that(2))
    show "answers (RateLimit c h)" unfolding RateLimit_def Let_def
      by (intro answers_intros answers_next [OF that(1)]; simp add: emit_def refusal_codes ok_header that(2))
    show "answers (Logging c h)" unfolding Logging_def
      by (rule answers_bind, rule answers_after [OF answers_next [OF that]])
        (intro answers_intros; assumption)
  qed
  then show "contractual_mw Recover" "contractual_mw RateLimit" "contractual_mw Logging"
    by (simp_all add: contractual_mw_def)
qed

lemma contractual_routes:
  "r \<in> set (routes L env) \<Longrightarrow> m \<in> set (rt_chain r) \<Longrightarrow> contractual_mw m"
  by (auto simp: route_defs Auth_def contractual_auth contractual_tenant contractual_role)

lemma serve_contract:
  assumes "find_route (routes L env) m p = Some (r, b)" "contractual (rt_handler r)" "list_all ok (g_out c)"
  shows "list_all ok (g_out (result (serve L env m p c) w))"
proof -
  have "r \<in> set (routes L env)"
    using assms(1) by (simp add: find_route_spec [OF routes_unambiguous])
  then have "contractual (run_chain (global_chain @ rt_chain r) (rt_handler r))"
    using assms(2) contractual_routes contractual_global
    by (intro contractual_chain) (auto simp: global_chain_def)
  then show ?thesis
    using assms(1,3) by (simp add: serve_def contractual_def answers_def)
qed

end

interpretation op: reply_contract "op_reply rs" for rs
  by unfold_locales (auto simp: op_reply_def error_json_def schema_defs refusals_def)


section \<open>The types of the bodies\<close>

lemma conforms_models:
  "conforms schema_Organization (json_of_Organization g)" "conforms schema_Project (json_of_Project p)"
  "conforms schema_File (json_of_File f)" "conforms schema_Endpoint (json_of_Endpoint e)"
  "conforms schema_Subscription (json_of_Subscription s)" "conforms schema_APIKey (JObj (apikey_fields k))"
  "conforms schema_CreateResult (JObj (apikey_fields k @ [(''key'', JStr t)]))"
  by (simp_all add: schema_defs json_of_Organization_def json_of_Project_def json_of_File_def
      json_of_Endpoint_def json_of_Subscription_def apikey_fields_def list.pred_map o_def list.pred_True)

lemma conforms_errors:
  "conforms schema_ErrorResponse (error_json s)" "conforms schema_ErrorDetailResponse (error_detail s e)"
  "conforms schema_AuthResponse (auth_response u a r)"
  by (simp_all add: schema_defs error_json_def error_detail_def auth_response_def)


section \<open>The handlers\<close>

text \<open>
  Answers that the document leaves out: \<open>ContextHandler.Get\<close> writes \<open>details\<close> for
  \<open>detail\<close>, \<open>CreateFile\<close> adds the limit to an error, \<open>Test\<close> answers 422 and adds a
  detail, and the Stripe webhook answers with a boolean where the document has strings.
\<close>

definition undocumented :: "operation \<Rightarrow> (int \<times> jtype option) list" where
  "undocumented op =
     (if op_route op = op_route doc_get_context
      then [(500, Some (TObject [] [(''error'', TString 0), (''details'', TString 0)]))]
      else if op_route op = op_route doc_post_storage_files
      then [(400, Some (TObject [] [(''error'', TString 0), (''max_mb'', TInteger)]))]
      else if op_route op = op_route doc_post_webhooks_test
      then [(422, Some schema_ErrorResponse), (500, Some schema_ErrorDetailResponse)]
      else if op_route op = op_route doc_post_billing_webhook
      then [(200, Some (TMap TBoolean))]
      else [])"

definition op_answers :: "operation \<Rightarrow> (int \<times> jtype option) list" where
  "op_answers op = op_responses op @ undocumented op"

lemma undocumented_simps:
  "undocumented doc_get_context = [(500, Some (TObject [] [(''error'', TString 0), (''details'', TString 0)]))]"
  "undocumented doc_post_storage_files = [(400, Some (TObject [] [(''error'', TString 0), (''max_mb'', TInteger)]))]"
  "undocumented doc_post_webhooks_test = [(422, Some schema_ErrorResponse), (500, Some schema_ErrorDetailResponse)]"
  "undocumented doc_post_billing_webhook = [(200, Some (TMap TBoolean))]"
  by (simp_all add: undocumented_def)

lemmas body_simps = emit_def op_reply_def op_answers_def undocumented_simps conforms_models conforms_errors
  op_responses_simps

lemma auth_answers:
  "op.contractual (op_answers doc_post_auth_signup) (auth_Signup L cfg)"
  "op.contractual (op_answers doc_post_auth_login) (auth_Login L cfg)"
  "op.contractual (op_answers doc_post_auth_refresh) (auth_Refresh L cfg)"
  "op.contractual (op_answers doc_post_auth_logout) (auth_Logout L cfg)"
  "op.contractual (op_answers doc_post_auth_logout_all) auth_LogoutAll"
  "op.contractual (op_answers doc_post_auth_forgot_password) (auth_ForgotPassword L)"
  "op.contractual (op_answers doc_post_auth_reset_password) (auth_ResetPassword L)"
  unfolding auth_Signup_def auth_Login_def auth_Refresh_def auth_Logout_def auth_LogoutAll_def
    auth_ForgotPassword_def auth_ResetPassword_def Let_def
  by (intro op.contractualI op.answers_intros;
      simp add: body_simps schema_TokenResponse_def reset_sent_def)+

lemma org_answers:
  "op.contractual (op_answers doc_post_orgs) orgs_Create"
  "op.contractual (op_answers doc_get_orgs_id) orgs_Get"
  "op.contractual (op_answers doc_delete_orgs_id) orgs_Delete"
  "op.contractual (op_answers doc_post_orgs_id_members) orgs_AddMember"
  "op.contractual (op_answers doc_patch_orgs_id_members_userId) orgs_UpdateMember"
  "op.contractual (op_answers doc_delete_orgs_id_members_userId) orgs_RemoveMember"
  unfolding orgs_Create_def orgs_Get_def orgs_Delete_def orgs_AddMember_def orgs_UpdateMember_def
    orgs_RemoveMember_def Let_def
  by (intro op.contractualI op.answers_intros; simp add: body_simps)+

lemma context_answers:
  "op.contractual (op_answers doc_get_context) context_Get"
  "op.contractual (op_answers doc_post_context) context_Set"
  "op.contractual (op_answers doc_get_me) me_Get"
proof -
  show "op.contractual (op_answers doc_get_context) context_Get" "op.contractual (op_answers doc_post_context) context_Set"
    unfolding context_Get_def context_Set_def Let_def
    by (intro op.contractualI op.answers_intros; simp add: body_simps schema_ContextResponse_def)+
  show "op.contractual (op_answers doc_get_me) me_Get"
    unfolding me_Get_def Let_def
    by (intro op.contractualI op.answers_prod op.answers_if op.answers_ret op.answers_sum
        op.answers_bind [where m = "user_GetByID _"]
        op.answers_result [where P = "\<lambda>out. conforms schema_MeUser (JObj out)"])
      (auto simp: body_simps schema_MeResponse_def schema_MeUser_def result_bind split: sum.splits bool.splits)
qed

lemma project_answers:
  "op.contractual (op_answers doc_get_projects) projects_List"
  "op.contractual (op_answers doc_post_projects) projects_Create"
  "op.contractual (op_answers doc_get_projects_id) projects_Get"
  "op.contractual (op_answers doc_patch_projects_id) projects_Update"
  "op.contractual (op_answers doc_delete_projects_id) projects_Delete"
  unfolding projects_List_def projects_Create_def projects_Get_def projects_Update_def
    projects_Delete_def Let_def
  by (intro op.contractualI op.answers_intros; simp add: body_simps list.pred_map o_def list.pred_True)+

lemma service_answers:
  "op.contractual (op_answers doc_get_audit) (audit_list_handler L)"
  "op.contractual (op_answers doc_post_api_keys) (apikeys_Create L)"
  "op.contractual (op_answers doc_get_api_keys) apikeys_List"
  "op.contractual (op_answers doc_delete_api_keys_id) apikeys_Revoke"
  "op.contractual (op_answers doc_post_webhooks_endpoints) webhooks_CreateEndpoint"
  "op.contractual (op_answers doc_get_webhooks_endpoints) webhooks_ListEndpoints"
  "op.contractual (op_answers doc_patch_webhooks_endpoints_id) webhooks_UpdateEndpoint"
  "op.contractual (op_answers doc_post_webhooks_test) (webhooks_Test L)"
  unfolding audit_list_handler_def apikeys_Create_def apikeys_List_def apikeys_Revoke_def
    webhooks_CreateEndpoint_def webhooks_ListEndpoints_def webhooks_UpdateEndpoint_def webhooks_Test_def Let_def
  by (intro op.contractualI op.answers_intros; simp add: body_simps list.pred_map o_def list.pred_True)+

lemma billing_answers:
  "op.contractual (op_answers doc_post_billing_checkout_session) billing_checkout"
  "op.contractual (op_answers doc_get_billing_subscription) billing_subscription"
  "op.contractual (op_answers doc_get_billing_usage) billing_usage"
  "op.contractual (op_answers doc_post_billing_webhook) (billing_Webhook L s)"
  unfolding billing_checkout_def billing_subscription_def billing_usage_def billing_Webhook_def Let_def
  by (intro op.contractualI op.answers_intros; simp add: body_simps)+

lemma storage_answers:
  "op.contractual (op_answers doc_post_storage_presign) (storage_PresignPut L cfg)"
  "op.contractual (op_answers doc_post_storage_presign_download) (storage_PresignGet L cfg)"
  "op.contractual (op_answers doc_get_storage_files) storage_ListFiles"
  "op.contractual (op_answers doc_post_storage_files) (storage_CreateFile env)"
  "op.contractual (op_answers doc_get_storage_files_id) storage_GetFile"
  "op.contractual (op_answers doc_delete_storage_files_id) (storage_DeleteFile cfg)"
  unfolding storage_PresignPut_def storage_PresignGet_def storage_ListFiles_def storage_CreateFile_def
    storage_GetFile_def storage_DeleteFile_def Let_def
  by (intro op.contractualI op.answers_intros; simp add: body_simps schema_PresignPutResponse_def
      schema_PresignGetResponse_def list.pred_map o_def case_prod_beta list.pred_True)+


text \<open>The answers left out are not covered by what the document says.\<close>

lemma document_gaps:
  "\<not> op_reply (op_responses doc_get_context) (JSON 500 (JObj [(''error'', JStr s), (''details'', JStr t)]))"
  "\<not> op_reply (op_responses doc_post_storage_files) (JSON 400 (JObj [(''error'', JStr s), (''max_mb'', JInt n)]))"
  "\<not> op_reply (op_responses doc_post_webhooks_test) (JSON 422 (error_json s))"
  "\<not> op_reply (op_responses doc_post_webhooks_test) (JSON 500 (error_detail s e))"
  "\<not> op_reply (op_responses doc_post_billing_webhook) (JSON 200 (JObj [(''received'', JBool b)]))"
  by (simp_all add: op_reply_def schema_defs error_json_def error_detail_def)

definition answered :: "operation \<Rightarrow> route \<Rightarrow> bool" where
  "answered op r \<longleftrightarrow> rt_key r = op_route op \<and> op.contractual (op_answers op) (rt_handler r)"

lemma list_all2_mem: "list_all2 P xs ys \<Longrightarrow> y \<in> set ys \<Longrightarrow> \<exists>x \<in> set xs. P x y"
  by (induction rule: list_all2_induct) auto

lemma route_ops_answered: "list_all2 answered route_ops (register_routes L env)"
  by (simp add: route_defs route_ops_def answered_def rt_key_def auth_answers org_answers context_answers
      project_answers service_answers billing_answers storage_answers)

lemma plain_undocumented: "r \<in> set (main_routes L cfg) \<Longrightarrow> rt_key r \<notin> op_route ` set documented"
  by (auto simp: main_routes_def swagger_routes_def mk_route_def rt_key_def documented_def split: if_splits)

text \<open>A relation of operations and routes that holds along the list holds wherever the keys agree.\<close>

lemma along_routes:
  assumes "list_all2 P route_ops (register_routes L env)" "\<And>op r. P op r \<Longrightarrow> rt_key r = op_route op"
    and "op \<in> set documented" "r \<in> set (routes L env)" "rt_key r = op_route op"
  shows "P op r"
proof -
  have "r \<notin> set (main_routes L (Load env))"
    using plain_undocumented [of r L "Load env"] assms by force
  then have "r \<in> set (register_routes L env)"
    using assms(4) by (simp add: routes_def)
  then obtain op' where op': "op' \<in> set route_ops" "P op' r"
    using list_all2_mem [OF assms(1)] by blast
  then have "op_route op' = op_route op"
    using assms(2,5) by force
  with op' have "op' = op"
    using assms(3) route_ops_documented documented_distinct by (auto simp: distinct_map inj_on_def)
  with op' show ?thesis by simp
qed

lemma documented_route:
  assumes "op \<in> set documented" "r \<in> set (routes L env)" "rt_key r = op_route op"
  shows "op.contractual (op_answers op) (rt_handler r)"
  using along_routes [OF route_ops_answered _ assms] by (simp add: answered_def)


section \<open>Properties\<close>

text \<open>The lookup of a route is what the routes say. A request with a method and a path is dispatched to a
route exactly when the route is registered, has the method and its pattern matches the path with these parameters:
no two routes compete for a request, so that their order is of no consequence.\<close>

lemma route_lookup:
  "find_route (routes L env) m p = Some (r, b) \<longleftrightarrow>
     r \<in> set (routes L env) \<and> rt_method r = m \<and> match_path (rt_path r) p = Some b"
  by (rule find_route_spec [OF routes_unambiguous])


text \<open>C12: The server answers as documented. Whatever a request to a documented operation carries, whatever the
tables hold and whatever fails, everything written in response is a header, a refusal of the middleware with an
error body, or a status with a body of the type that the document gives for it, but for the answers of five
branches that the document leaves out.\<close>

theorem answers_as_documented:
  assumes "op \<in> set documented" "match_path (snd (op_route op)) p = Some b" "g_out c = []"
  shows "list_all (op_reply (op_responses op @ undocumented op))
           (g_out (result (serve L env (op_method op) p c) w))"
proof -
  have "op_route op \<in> rt_key ` set (routes L env)"
    using docs_keys assms(1) by auto
  then obtain r where r: "r \<in> set (routes L env)" "rt_key r = op_route op"
    by force
  then have "find_route (routes L env) (op_method op) p = Some (r, b)"
    using assms(2) by (simp add: find_route_spec [OF routes_unambiguous] rt_key_def op_route_def)
  from op.serve_contract [OF this documented_route [OF assms(1) r]] show ?thesis
    using assms(3) by (simp add: op_answers_def)
qed

theorem answers_as_documented_witness:
  "list_all (op_reply (op_responses doc_get_projects_id @ undocumented doc_get_projects_id))
     (g_out (result (serve sample_lib sample_env GET [''v1'', ''projects'', ''p1''] (sample_request None)) (sample_world one_org_db)))"
proof -
  have "op_method doc_get_projects_id = GET"
    by (simp add: doc_get_projects_id_def)
  with answers_as_documented [of doc_get_projects_id "[''v1'', ''projects'', ''p1'']" "[(''id'', ''p1'')]"
      "sample_request None" sample_lib sample_env "sample_world one_org_db"]
  show ?thesis
    by (simp add: documented_def sample_request_def del: op_responses_simps)
qed

end
