(* ===== verification/Validation.thy ===== *)
theory Validation
  imports Conformance
begin

text \<open>
  The bodies of requests against the document: a request without a member that the document requires is refused
  before it has any effect.
\<close>

text \<open>The body has a member of the name, up to case, as \<open>encoding/json\<close> matches names.\<close>

definition body_has :: "string \<Rightarrow> gctx \<Rightarrow> bool" where
  "body_has k c =
     (case body_members c of None \<Rightarrow> False | Some kvs \<Rightarrow> list_ex (\<lambda>kv. EqualFold (fst kv) k) kvs)"

definition required_of :: "operation \<Rightarrow> string list" where
  "required_of op = (case body_type op of Some (TObject req _) \<Rightarrow> req | _ \<Rightarrow> [])"

text \<open>The handler of \<open>UpdateMember\<close> takes the user from the path, not from the body.\<close>

definition unenforced :: "operation \<Rightarrow> string \<Rightarrow> bool" where
  "unenforced op k \<longleftrightarrow> op_route op = op_route doc_patch_orgs_id_members_userId \<and> k = ''user_id''"

definition refused :: "handler \<Rightarrow> gctx \<Rightarrow> bool" where
  "refused h c \<longleftrightarrow> (\<forall>w. w_db (exec (h c) w) = w_db w \<and> w_out (exec (h c) w) = w_out w \<and>
     response_status (result (h c) w) \<in> {400, 401, 422})"

definition validates :: "handler \<Rightarrow> string list \<Rightarrow> bool" where
  "validates h ks \<longleftrightarrow> (\<forall>c k. k \<in> set ks \<longrightarrow> \<not> body_has k c \<longrightarrow> g_out c = [] \<longrightarrow> refused h c)"

lemma decode_absent: "\<not> list_ex (\<lambda>kv. EqualFold (fst kv) k) kvs \<Longrightarrow> decode_field f k kvs cur = Some cur"
  by (induction kvs) (auto split: prod.splits)

lemma decode_ptr_absent: "\<not> list_ex (\<lambda>kv. EqualFold (fst kv) k) kvs \<Longrightarrow> decode_ptr f k kvs cur = Some cur"
  by (induction kvs) (auto split: prod.splits)

lemma bind_absent: "\<not> body_has k c \<Longrightarrow> bind_required k c = None"
  by (auto simp: body_has_def bind_required_def bind_string_def decode_absent bind_eq_None_conv split: option.splits)

lemma refusedI: "(\<And>w. wlp (h c) (\<lambda>c' w'. w_db w' = w_db w \<and> w_out w' = w_out w \<and>
    response_status c' \<in> {400, 401, 422}) w) \<Longrightarrow> refused h c"
  by (simp add: refused_def wlp_run)

lemma validatesI:
  "(\<And>c k w. k \<in> set ks \<Longrightarrow> \<not> body_has k c \<Longrightarrow> g_out c = [] \<Longrightarrow>
     wlp (h c) (\<lambda>c' w'. w_db w' = w_db w \<and> w_out w' = w_out w \<and> response_status c' \<in> {400, 401, 422}) w) \<Longrightarrow>
   validates h ks"
  by (simp add: validates_def refusedI)

lemma string_absent: "\<not> body_has k c \<Longrightarrow> bind_string k c = None \<or> bind_string k c = Some []"
  by (auto simp: body_has_def bind_string_def decode_absent split: option.splits)

lemma creds_absent:
  assumes "\<not> body_has ''email'' c \<or> \<not> body_has ''password'' c"
  shows "bind_creds L c = None"
  using assms string_absent [of "''email''" c] string_absent [of "''password''" c]
  by (auto simp: bind_creds_def bind_eq_None_conv)

lemma events_absent: "\<not> body_has ''events'' c \<Longrightarrow> bind_endpoint c = None"
  by (auto simp: bind_endpoint_def body_has_def bind_eq_None_conv decode_ptr_absent split: option.splits)

lemma binders_absent:
  "\<not> body_has ''email'' c \<Longrightarrow> bind_creds L c = None"
  "\<not> body_has ''password'' c \<Longrightarrow> bind_creds L c = None"
  "\<not> body_has ''token'' c \<Longrightarrow> bind_reset c = None"
  "\<not> body_has ''new_password'' c \<Longrightarrow> bind_reset c = None"
  "\<not> body_has ''user_id'' c \<Longrightarrow> bind_member c = None"
  "\<not> body_has ''role'' c \<Longrightarrow> bind_member c = None"
  "\<not> body_has ''name'' c \<Longrightarrow> bind_project c = None"
  "\<not> body_has ''name'' c \<Longrightarrow> bind_key L c = None"
  "\<not> body_has ''url'' c \<Longrightarrow> bind_endpoint c = None"
  "\<not> body_has ''success_url'' c \<Longrightarrow> bind_checkout c = None"
  "\<not> body_has ''cancel_url'' c \<Longrightarrow> bind_checkout c = None"
  "\<not> body_has ''price_id'' c \<Longrightarrow> bind_checkout c = None"
  "\<not> body_has ''key'' c \<Longrightarrow> bind_file c = None"
  by (simp_all add: creds_absent bind_reset_def bind_member_def bind_project_def bind_key_def
      bind_endpoint_def bind_checkout_def bind_file_def bind_absent bind_eq_None_conv)

lemmas refusal_simps = bind_absent binders_absent events_absent emit_def response_status_def wp

lemma auth_validates:
  "validates (auth_Signup L cfg) [''email'', ''password'']"
  "validates (auth_Login L cfg) [''email'', ''password'']"
  "validates (auth_Refresh L cfg) [''refresh_token'']"
  "validates (auth_Logout L cfg) [''refresh_token'']"
  "validates (auth_ForgotPassword L) [''email'']"
  "validates (auth_ResetPassword L) [''new_password'', ''token'']"
  unfolding auth_Signup_def auth_Login_def auth_Refresh_def auth_Logout_def auth_ForgotPassword_def
    auth_ResetPassword_def
  by (rule validatesI, auto simp: refusal_simps)+

lemma org_validates:
  "validates orgs_Create [''name'']"
  "validates orgs_AddMember [''role'', ''user_id'']"
  "validates orgs_UpdateMember [''role'']"
  "validates context_Set [''org_id'']"
  unfolding orgs_Create_def orgs_AddMember_def orgs_UpdateMember_def context_Set_def
  by (rule validatesI, auto simp: refusal_simps Let_def split: prod.splits)+

lemma service_validates:
  "validates projects_Create [''name'']"
  "validates (apikeys_Create L) [''name'']"
  "validates webhooks_CreateEndpoint [''events'', ''url'']"
  "validates webhooks_UpdateEndpoint [''events'', ''url'']"
  "validates billing_checkout [''cancel_url'', ''price_id'', ''success_url'']"
  "validates (storage_PresignPut L cfg) [''content_type'', ''key'']"
  "validates (storage_PresignGet L cfg) [''key'']"
  "validates (storage_CreateFile env) [''key'']"
  unfolding projects_Create_def apikeys_Create_def webhooks_CreateEndpoint_def webhooks_UpdateEndpoint_def
    billing_checkout_def storage_PresignPut_def storage_PresignGet_def storage_CreateFile_def
  by (rule validatesI, auto simp: refusal_simps Let_def bind_eq_None_conv split: prod.splits option.splits)+

lemma update_validates: "validates projects_Update [''name'']"
  unfolding projects_Update_def
  by (rule validatesI) (auto simp: refusal_simps Let_def project_Get_def GetProject_def wlp_query_row
      split: prod.splits option.splits fault.splits sum.splits)


section \<open>The routes\<close>

text \<open>What the document requires of every body.\<close>

lemma required_simps:
  "required_of doc_get_api_keys = []"
  "required_of doc_post_api_keys = [''name'']"
  "required_of doc_delete_api_keys_id = []"
  "required_of doc_get_audit = []"
  "required_of doc_post_auth_forgot_password = [''email'']"
  "required_of doc_post_auth_login = [''email'', ''password'']"
  "required_of doc_post_auth_logout = [''refresh_token'']"
  "required_of doc_post_auth_logout_all = []"
  "required_of doc_post_auth_refresh = [''refresh_token'']"
  "required_of doc_post_auth_reset_password = [''new_password'', ''token'']"
  "required_of doc_post_auth_signup = [''email'', ''password'']"
  "required_of doc_post_billing_checkout_session = [''cancel_url'', ''price_id'', ''success_url'']"
  "required_of doc_get_billing_subscription = []"
  "required_of doc_get_billing_usage = []"
  "required_of doc_post_billing_webhook = []"
  "required_of doc_get_context = []"
  "required_of doc_post_context = [''org_id'']"
  "required_of doc_get_me = []"
  "required_of doc_post_orgs = [''name'']"
  "required_of doc_get_orgs_id = []"
  "required_of doc_delete_orgs_id = []"
  "required_of doc_post_orgs_id_members = [''role'', ''user_id'']"
  "required_of doc_delete_orgs_id_members_userId = []"
  "required_of doc_patch_orgs_id_members_userId = [''role'', ''user_id'']"
  "required_of doc_get_projects = []"
  "required_of doc_post_projects = [''name'']"
  "required_of doc_get_projects_id = []"
  "required_of doc_delete_projects_id = []"
  "required_of doc_patch_projects_id = [''name'']"
  "required_of doc_get_storage_files = []"
  "required_of doc_post_storage_files = [''key'']"
  "required_of doc_get_storage_files_id = []"
  "required_of doc_delete_storage_files_id = []"
  "required_of doc_post_storage_presign = [''content_type'', ''key'']"
  "required_of doc_post_storage_presign_download = [''key'']"
  "required_of doc_get_webhooks_endpoints = []"
  "required_of doc_post_webhooks_endpoints = [''events'', ''url'']"
  "required_of doc_patch_webhooks_endpoints_id = [''events'', ''url'']"
  "required_of doc_post_webhooks_test = []"
  by (simp_all add: required_of_def body_type_def operation_defs schema_defs)

lemma validates_nil: "validates h []"
  by (simp add: validates_def)

definition checked :: "operation \<Rightarrow> route \<Rightarrow> bool" where
  "checked op r \<longleftrightarrow> rt_key r = op_route op \<and> validates (rt_handler r) (filter (\<lambda>k. \<not> unenforced op k) (required_of op))"

lemma route_ops_checked: "list_all2 checked route_ops (register_routes L env)"
  by (simp add: route_defs route_ops_def checked_def rt_key_def required_simps unenforced_def validates_nil
      auth_validates org_validates service_validates update_validates)

lemma documented_checked:
  assumes "op \<in> set documented" "r \<in> set (routes L env)" "rt_key r = op_route op"
  shows "checked op r"
  by (rule along_routes [OF route_ops_checked _ assms]) (simp add: checked_def)


section \<open>Properties\<close>

text \<open>C15: A request that lacks a member which the document requires is refused without effect: the handler of
a documented operation, given a body without a member of that name, answers 400, 401 or 422, changes no table and
calls no other system. The one member that the document requires in vain is the user of \<open>UpdateMember\<close>.\<close>

theorem missing_field_refused:
  assumes "op \<in> set documented" "r \<in> set (routes L env)" "rt_key r = op_route op"
    and "k \<in> set (required_of op)" "\<not> unenforced op k" "\<not> body_has k c" "g_out c = []"
  shows "w_db (exec (rt_handler r c) w) = w_db w \<and> w_out (exec (rt_handler r c) w) = w_out w \<and>
         response_status (result (rt_handler r c) w) \<in> {400, 401, 422}"
  using documented_checked [OF assms(1-3)] assms(4-7) by (auto simp: checked_def validates_def refused_def)

theorem missing_field_refused_witness:
  "w_db (exec (projects_Create (sample_request (Some (JObj [(''description'', JStr ''x'')])))) (sample_world one_org_db)) = one_org_db"
proof -
  let ?r = "mk_route POST [Lit ''projects''] (tenant_chain sample_lib (Load sample_env) @ [RequireRole ''member'']) projects_Create"
  have "?r \<in> set (routes sample_lib sample_env)"
    by (simp add: routes_def register_routes_def protected_routes_def project_routes_def Let_def)
  moreover have "rt_key ?r = op_route doc_post_projects"
    by (simp add: rt_key_def mk_route_def)
  moreover have "\<not> body_has ''name'' (sample_request (Some (JObj [(''description'', JStr ''x'')])))"
    by code_simp
  ultimately show ?thesis
    using missing_field_refused [of doc_post_projects ?r sample_lib sample_env "''name''"
        "sample_request (Some (JObj [(''description'', JStr ''x'')]))" "sample_world one_org_db"]
    by (simp add: documented_def required_simps unenforced_def mk_route_def sample_request_def sample_world_def)
qed

end
