(* ===== verification/Admission.thy ===== *)
theory Admission
  imports Validation
begin

text \<open>
  The converse of \<open>Validation\<close>: a body of the documented type passes the binding of its handler.
  The document does not say all that the binding checks: a required string must not be empty, an address must be
  one, a time must be in the format of RFC 3339 and a number in the range of its Go type. A client sends no
  value of the type \<open>time\<close> but its text.
\<close>

definition filled :: "lib \<Rightarrow> string list \<Rightarrow> string \<times> json \<Rightarrow> bool" where
  "filled L required kv =
     (case snd kv of
        JStr s \<Rightarrow>
          (fst kv \<in> set required \<longrightarrow> s \<noteq> []) \<and>
          (fst kv = ''email'' \<longrightarrow> validator_email L s) \<and>
          (fst kv = ''expires_at'' \<longrightarrow> time_Parse_RFC3339 L s \<noteq> None)
      | JInt n \<Rightarrow> - (2 ^ 63) \<le> n \<and> n < 2 ^ 63
      | JTime _ \<Rightarrow> False
      | JList vs \<Rightarrow> list_all (\<lambda>v. case v of JTime _ \<Rightarrow> False | _ \<Rightarrow> True) vs
      | _ \<Rightarrow> True)"

fun admissible :: "lib \<Rightarrow> jtype \<Rightarrow> json \<Rightarrow> bool" where
  "admissible L (TObject required ps) (JObj kvs) =
     (conforms (TObject required ps) (JObj kvs) \<and> list_all (filled L required) kvs)"
| "admissible L _ _ = False"


fun required :: "jtype \<Rightarrow> string list" where
  "required (TObject req _) = req"
| "required _ = []"

fun props :: "jtype \<Rightarrow> (string \<times> jtype) list" where
  "props (TObject _ ps) = ps"
| "props _ = []"

lemma admitted_object: "admissible L T v \<Longrightarrow> \<exists>kvs. T = TObject (required T) (props T) \<and> v = JObj kvs"
  by (cases "(L, T, v)" rule: admissible.cases) auto


section \<open>Decoding\<close>

text \<open>All members of the name decode to values with a property; so does the field, if it has one or is set.\<close>

lemma decode_field_sat:
  assumes "\<And>k' v. (k', v) \<in> set kvs \<Longrightarrow> EqualFold k' k \<Longrightarrow> v \<noteq> JNull \<and> (\<exists>x. f v = Some x \<and> P x)"
    and "P cur \<or> (\<exists>kv \<in> set kvs. EqualFold (fst kv) k)"
  shows "\<exists>x. decode_field f k kvs cur = Some x \<and> P x"
  using assms
proof (induction kvs arbitrary: cur)
  case (Cons kv kvs)
  obtain k' v where kv: "kv = (k', v)" by force
  show ?case
  proof (cases "EqualFold k' k")
    case True
    then obtain x where "v \<noteq> JNull" "f v = Some x" "P x"
      using Cons.prems(1) [of k' v] kv by auto
    then show ?thesis
      using Cons.IH [of x] Cons.prems(1) True by (auto simp: kv)
  next
    case False
    then show ?thesis
      using Cons.IH [of cur] Cons.prems by (auto simp: kv)
  qed
qed simp

lemma decode_ptr_sat:
  assumes "\<And>k' v. (k', v) \<in> set kvs \<Longrightarrow> EqualFold k' k \<Longrightarrow> v \<noteq> JNull \<and> f v \<noteq> None"
  shows "\<exists>x. decode_ptr f k kvs cur = Some x \<and> (cur \<noteq> None \<or> (\<exists>kv \<in> set kvs. EqualFold (fst kv) k) \<longrightarrow> x \<noteq> None)"
  using assms
proof (induction kvs arbitrary: cur)
  case (Cons kv kvs)
  obtain k' v where kv: "kv = (k', v)" by force
  show ?case
  proof (cases "EqualFold k' k")
    case True
    then obtain x where "v \<noteq> JNull" "f v = Some x"
      using Cons.prems [of k' v] kv by auto
    then show ?thesis
      using Cons.IH [of "Some x"] Cons.prems True by (auto simp: kv)
  next
    case False
    then show ?thesis
      using Cons.IH [of cur] Cons.prems by (auto simp: kv)
  qed
qed simp

text \<open>The one property of a type whose name is \<open>k\<close> up to case.\<close>

definition sole :: "string \<Rightarrow> jtype \<Rightarrow> (string \<times> jtype) list \<Rightarrow> bool" where
  "sole k t ps \<longleftrightarrow> list_all (\<lambda>p. EqualFold (fst p) k \<longrightarrow> p = (k, t)) ps"

lemma admitted_member:
  assumes "admissible L T (JObj kvs)" "sole k t (props T)" "(k', v) \<in> set kvs" "EqualFold k' k"
  shows "k' = k \<and> conforms t v \<and> filled L (required T) (k, v)"
  using assms by (cases T) (auto simp: sole_def list_all_iff list_ex_iff, fastforce+)

lemma admitted_required:
  "admissible L T (JObj kvs) \<Longrightarrow> k \<in> set (required T) \<Longrightarrow> \<exists>kv \<in> set kvs. EqualFold (fst kv) k"
  by (cases T) (force simp: list_all_iff EqualFold_def)+

lemma admitted_string:
  assumes "admissible L T v" "g_body c = Some v" "sole k (TString n) (props T)"
  shows "\<exists>s. bind_string k c = Some s"
    and "k \<in> set (required T) \<Longrightarrow> \<exists>s. bind_string k c = Some s \<and> s \<noteq> [] \<and> n \<le> rune_count s \<and>
      (k = ''email'' \<longrightarrow> validator_email L s)"
proof -
  obtain kvs where v: "v = JObj kvs"
    using admitted_object [OF assms(1)] by auto
  then have b: "bind_string k c = decode_field as_string k kvs []"
    using assms(2) by (simp add: bind_string_def body_members_def members_def)
  have m: "x \<noteq> JNull \<and> (\<exists>s. as_string x = Some s \<and> (k \<in> set (required T) \<longrightarrow> s \<noteq> []) \<and> n \<le> rune_count s \<and>
      (k = ''email'' \<longrightarrow> validator_email L s))" if "(k', x) \<in> set kvs" "EqualFold k' k" for k' x
    using admitted_member [OF assms(1) [unfolded v] assms(3) that]
    by (auto simp: filled_def as_string_def split: json.splits)
  show "\<exists>s. bind_string k c = Some s"
    unfolding b using decode_field_sat [of kvs k as_string "\<lambda>_. True"] m by blast
  show "\<exists>s. bind_string k c = Some s \<and> s \<noteq> [] \<and> n \<le> rune_count s \<and> (k = ''email'' \<longrightarrow> validator_email L s)"
    if "k \<in> set (required T)"
    unfolding b
    by (rule decode_field_sat) (use m that admitted_required [OF assms(1) [unfolded v] that] in blast)+
qed

lemma admitted_bind_required:
  assumes "admissible L T v" "g_body c = Some v" "sole k (TString n) (props T)" "k \<in> set (required T)"
  shows "\<exists>s. bind_required k c = Some s \<and> n \<le> rune_count s \<and> (k = ''email'' \<longrightarrow> validator_email L s)"
  using admitted_string(2) [OF assms] by (auto simp: bind_required_def)

lemma admitted_ptr:
  assumes "admissible L T v" "g_body c = Some v" "sole k t (props T)"
    and "\<And>x. conforms t x \<Longrightarrow> filled L (required T) (k, x) \<Longrightarrow> x \<noteq> JNull \<and> f x \<noteq> None"
  shows "\<exists>kvs x. body_members c = Some kvs \<and> decode_ptr f k kvs None = Some x \<and> (k \<in> set (required T) \<longrightarrow> x \<noteq> None)"
proof -
  obtain kvs where v: "v = JObj kvs"
    using admitted_object [OF assms(1)] by auto
  have "x \<noteq> JNull \<and> f x \<noteq> None" if "(k', x) \<in> set kvs" "EqualFold k' k" for k' x
    using admitted_member [OF assms(1) [unfolded v] assms(3) that] assms(4) by blast
  then have "\<exists>x. decode_ptr f k kvs None = Some x \<and> ((\<exists>kv \<in> set kvs. EqualFold (fst kv) k) \<longrightarrow> x \<noteq> None)"
    using decode_ptr_sat [of kvs k f None] by blast
  then show ?thesis
    using assms(2) admitted_required [OF assms(1) [unfolded v]] by (auto simp: body_members_def members_def v)
qed

lemma decode_ptr_any: "\<exists>x. decode_ptr Some k kvs cur = Some x"
  by (induction kvs arbitrary: cur) (auto split: prod.splits)

text \<open>Numbers, booleans, lists of strings and times.\<close>

lemma admitted_int64:
  assumes "conforms TInteger x" "filled L req (k, x)"
  shows "x \<noteq> JNull \<and> as_int64 x \<noteq> None"
  using assms by (cases x) (auto simp: filled_def as_int64_def)

lemma admitted_strings:
  assumes "conforms (TArray (TString n)) x" "filled L req (k, x)"
  shows "x \<noteq> JNull \<and> as_strings x \<noteq> None"
proof -
  obtain vs where x: "x = JList vs" "list_all (conforms (TString n)) vs"
      "list_all (\<lambda>v. case v of JTime _ \<Rightarrow> False | _ \<Rightarrow> True) vs"
    using assms by (cases x) (auto simp: filled_def)
  then have "as_string_list vs \<noteq> None"
    by (induction vs arbitrary: x) (auto simp: as_string_def split: json.splits)
  with x(1) show ?thesis
    by (simp add: as_strings_def)
qed

lemma admitted_time:
  assumes "conforms (TString n) x" "filled L req (''expires_at'', x)"
  shows "x \<noteq> JNull \<and> as_rfc3339 L x \<noteq> None"
  using assms by (cases x) (auto simp: filled_def as_rfc3339_def)

lemma admitted_field:
  assumes "admissible L T v" "g_body c = Some v" "sole k t (props T)"
    and "\<And>x. conforms t x \<Longrightarrow> filled L (required T) (k, x) \<Longrightarrow> x \<noteq> JNull \<and> f x \<noteq> None"
  shows "\<exists>kvs x. body_members c = Some kvs \<and> decode_field f k kvs cur = Some x"
proof -
  obtain kvs where v: "v = JObj kvs"
    using admitted_object [OF assms(1)] by auto
  have "\<exists>x. decode_field f k kvs cur = Some x \<and> True"
    by (rule decode_field_sat) (use admitted_member [OF assms(1) [unfolded v] assms(3)] assms(4) in blast)+
  then show ?thesis
    using assms(2) by (auto simp: body_members_def members_def v)
qed


section \<open>The bodies\<close>

lemma admitted_bool: "conforms TBoolean x \<Longrightarrow> x \<noteq> JNull \<and> as_bool x \<noteq> None"
  by (cases x) (auto simp: as_bool_def)

text \<open>The fields of each kind.\<close>

lemma admitted_fields:
  assumes "admissible L T v" "g_body c = Some v"
  shows "sole k TInteger (props T) \<Longrightarrow> \<exists>x. bind_int64 k c = Some x"
    and "sole ''active'' TBoolean (props T) \<Longrightarrow> \<exists>x. bind_active c = Some x"
    and "sole k TInteger (props T) \<Longrightarrow> \<exists>kvs x. body_members c = Some kvs \<and> decode_ptr as_int64 k kvs None = Some x"
    and "sole ''expires_at'' (TString n) (props T) \<Longrightarrow>
      \<exists>kvs x. body_members c = Some kvs \<and> decode_ptr (as_rfc3339 L) ''expires_at'' kvs None = Some x"
    and "sole k (TArray (TString n)) (props T) \<Longrightarrow> k \<in> set (required T) \<Longrightarrow>
      \<exists>kvs x. body_members c = Some kvs \<and> decode_ptr as_strings k kvs None = Some (Some x)"
proof -
  show "\<exists>x. bind_int64 k c = Some x" if "sole k TInteger (props T)"
    using admitted_field [OF assms that, of as_int64 0] admitted_int64 by (fastforce simp: bind_int64_def)
  show "\<exists>x. bind_active c = Some x" if "sole ''active'' TBoolean (props T)"
    using admitted_field [OF assms that, of as_bool False] admitted_bool by (fastforce simp: bind_active_def)
  show "\<exists>kvs x. body_members c = Some kvs \<and> decode_ptr as_int64 k kvs None = Some x" if "sole k TInteger (props T)"
    using admitted_ptr [OF assms that, of as_int64] admitted_int64 by blast
  show "\<exists>kvs x. body_members c = Some kvs \<and> decode_ptr (as_rfc3339 L) ''expires_at'' kvs None = Some x"
    if "sole ''expires_at'' (TString n) (props T)"
    using admitted_ptr [OF assms that, of "as_rfc3339 L"] admitted_time by blast
  show "\<exists>kvs x. body_members c = Some kvs \<and> decode_ptr as_strings k kvs None = Some (Some x)"
    if "sole k (TArray (TString n)) (props T)" "k \<in> set (required T)"
    using admitted_ptr [OF assms that(1), of as_strings] admitted_strings that(2) by blast
qed

lemma required_props:
  "required schema_creds = [''email'', ''password'']"
  "required schema_refreshReq = [''refresh_token'']"
  "required schema_forgotIn = [''email'']"
  "required schema_resetIn = [''new_password'', ''token'']"
  "required schema_createOrgIn = [''name'']"
  "required schema_memberIn = [''role'', ''user_id'']"
  "required schema_setContectIn = [''org_id'']"
  "required schema_ProjectIn = [''name'']"
  "required schema_createKeyIn = [''name'']"
  "required schema_createEndpointIn = [''events'', ''url'']"
  "required schema_updateEndpointIn = [''events'', ''url'']"
  "required schema_checkoutIn = [''cancel_url'', ''price_id'', ''success_url'']"
  "required schema_presignPutIn = [''content_type'', ''key'']"
  "required schema_presignGetIn = [''key'']"
  "required schema_fileCreateIn = [''key'']"
  by (simp_all add: schema_defs)

text \<open>No two properties of a body have the same name up to case.\<close>

lemma sole_props:
  "sole ''email'' (TString 0) (props schema_creds)"
  "sole ''password'' (TString 6) (props schema_creds)"
  "sole ''refresh_token'' (TString 0) (props schema_refreshReq)"
  "sole ''email'' (TString 0) (props schema_forgotIn)"
  "sole ''token'' (TString 0) (props schema_resetIn)"
  "sole ''new_password'' (TString 6) (props schema_resetIn)"
  "sole ''name'' (TString 0) (props schema_createOrgIn)"
  "sole ''role'' (TString 0) (props schema_memberIn)"
  "sole ''user_id'' (TString 0) (props schema_memberIn)"
  "sole ''org_id'' (TString 0) (props schema_setContectIn)"
  "sole ''name'' (TString 0) (props schema_ProjectIn)"
  "sole ''description'' (TString 0) (props schema_ProjectIn)"
  "sole ''name'' (TString 0) (props schema_createKeyIn)"
  "sole ''expires_at'' (TString 0) (props schema_createKeyIn)"
  "sole ''url'' (TString 0) (props schema_createEndpointIn)"
  "sole ''events'' (TArray (TString 0)) (props schema_createEndpointIn)"
  "sole ''url'' (TString 0) (props schema_updateEndpointIn)"
  "sole ''events'' (TArray (TString 0)) (props schema_updateEndpointIn)"
  "sole ''active'' TBoolean (props schema_updateEndpointIn)"
  "sole ''success_url'' (TString 0) (props schema_checkoutIn)"
  "sole ''cancel_url'' (TString 0) (props schema_checkoutIn)"
  "sole ''price_id'' (TString 0) (props schema_checkoutIn)"
  "sole ''key'' (TString 0) (props schema_presignPutIn)"
  "sole ''content_type'' (TString 0) (props schema_presignPutIn)"
  "sole ''bucket'' (TString 0) (props schema_presignPutIn)"
  "sole ''expires'' TInteger (props schema_presignPutIn)"
  "sole ''key'' (TString 0) (props schema_presignGetIn)"
  "sole ''bucket'' (TString 0) (props schema_presignGetIn)"
  "sole ''expires'' TInteger (props schema_presignGetIn)"
  "sole ''key'' (TString 0) (props schema_fileCreateIn)"
  "sole ''bucket'' (TString 0) (props schema_fileCreateIn)"
  "sole ''content_type'' (TString 0) (props schema_fileCreateIn)"
  "sole ''size_bytes'' TInteger (props schema_fileCreateIn)"
  by code_simp+

lemma bind_auth_admitted:
  assumes "g_body c = Some v"
  shows "admissible L schema_creds v \<Longrightarrow> \<exists>x. bind_creds L c = Some x"
    and "admissible L schema_refreshReq v \<Longrightarrow> \<exists>x. bind_required ''refresh_token'' c = Some x"
    and "admissible L schema_forgotIn v \<Longrightarrow> \<exists>x. bind_required ''email'' c = Some x \<and> validator_email L x"
    and "admissible L schema_resetIn v \<Longrightarrow> \<exists>x. bind_reset c = Some x"
proof -
  note s = admitted_string(2) [OF _ assms] and b = admitted_bind_required [OF _ assms]
  show "\<exists>x. bind_creds L c = Some x" if "admissible L schema_creds v"
    using s [OF that, of "''email''" 0]
      s [OF that, of "''password''" 6]
    by (auto simp: bind_creds_def sole_props required_props)
  show "\<exists>x. bind_required ''refresh_token'' c = Some x" if "admissible L schema_refreshReq v"
    using b [OF that, of "''refresh_token''" 0] by (auto simp: sole_props required_props)
  show "\<exists>x. bind_required ''email'' c = Some x \<and> validator_email L x" if "admissible L schema_forgotIn v"
    using b [OF that, of "''email''" 0] by (auto simp: sole_props required_props)
  show "\<exists>x. bind_reset c = Some x" if "admissible L schema_resetIn v"
    using b [OF that, of "''token''" 0]
      b [OF that, of "''new_password''" 6]
    by (auto simp: bind_reset_def sole_props required_props)
qed

lemma bind_org_admitted:
  assumes "g_body c = Some v"
  shows "admissible L schema_createOrgIn v \<Longrightarrow> \<exists>x. bind_required ''name'' c = Some x"
    and "admissible L schema_memberIn v \<Longrightarrow> \<exists>x. bind_member c = Some x"
    and "admissible L schema_memberIn v \<Longrightarrow> \<exists>x. bind_required ''role'' c = Some x"
    and "admissible L schema_setContectIn v \<Longrightarrow> \<exists>x. bind_required ''org_id'' c = Some x"
    and "admissible L schema_ProjectIn v \<Longrightarrow> \<exists>x. bind_project c = Some x"
proof -
  note b = admitted_bind_required [OF _ assms]
  show "\<exists>x. bind_required ''name'' c = Some x" if "admissible L schema_createOrgIn v"
    using b [OF that, of "''name''" 0] by (auto simp: sole_props required_props)
  show "\<exists>x. bind_required ''role'' c = Some x" "\<exists>x. bind_member c = Some x" if "admissible L schema_memberIn v"
    using b [OF that, of "''role''" 0]
      b [OF that, of "''user_id''" 0]
    by (auto simp: bind_member_def sole_props required_props)
  show "\<exists>x. bind_required ''org_id'' c = Some x" if "admissible L schema_setContectIn v"
    using b [OF that, of "''org_id''" 0] by (auto simp: sole_props required_props)
  show "\<exists>x. bind_project c = Some x" if "admissible L schema_ProjectIn v"
    using b [OF that, of "''name''" 0]
      admitted_string(1) [OF that assms, of "''description''" 0]
    by (auto simp: bind_project_def sole_props required_props)
qed

lemma bind_service_admitted:
  assumes "g_body c = Some v"
  shows "admissible L schema_createKeyIn v \<Longrightarrow> \<exists>x. bind_key L c = Some x"
    and "admissible L schema_createEndpointIn v \<Longrightarrow> \<exists>x. bind_endpoint c = Some x"
    and "admissible L schema_updateEndpointIn v \<Longrightarrow> \<exists>x a. bind_endpoint c = Some x \<and> bind_active c = Some a"
    and "admissible L schema_checkoutIn v \<Longrightarrow> \<exists>x. bind_checkout c = Some x"
proof -
  note b = admitted_bind_required [OF _ assms]
  show "\<exists>x. bind_key L c = Some x" if "admissible L schema_createKeyIn v"
    using b [OF that, of "''name''" 0]
      admitted_fields(4) [OF that assms, of 0]
    by (auto simp: bind_key_def sole_props required_props)
  show "\<exists>x. bind_endpoint c = Some x" if "admissible L schema_createEndpointIn v"
    using b [OF that, of "''url''" 0]
      admitted_fields(5) [OF that assms, of "''events''" 0]
    by (auto simp: bind_endpoint_def sole_props required_props)
  show "\<exists>x a. bind_endpoint c = Some x \<and> bind_active c = Some a" if "admissible L schema_updateEndpointIn v"
    using b [OF that, of "''url''" 0]
      admitted_fields(5) [OF that assms, of "''events''" 0]
      admitted_fields(2) [OF that assms]
    by (auto simp: bind_endpoint_def sole_props required_props)
  show "\<exists>x. bind_checkout c = Some x" if "admissible L schema_checkoutIn v"
    using b [OF that, of "''success_url''" 0]
      b [OF that, of "''cancel_url''" 0]
      b [OF that, of "''price_id''" 0]
    by (auto simp: bind_checkout_def sole_props required_props)
qed

lemma bind_storage_admitted:
  assumes "g_body c = Some v"
  shows "admissible L schema_presignPutIn v \<Longrightarrow> \<exists>b k t x. bind_string ''bucket'' c = Some b \<and>
      bind_required ''key'' c = Some k \<and> bind_required ''content_type'' c = Some t \<and> bind_int64 ''expires'' c = Some x"
    and "admissible L schema_presignGetIn v \<Longrightarrow> \<exists>b k x. bind_string ''bucket'' c = Some b \<and>
      bind_required ''key'' c = Some k \<and> bind_int64 ''expires'' c = Some x"
    and "admissible L schema_fileCreateIn v \<Longrightarrow> \<exists>x. bind_file c = Some x"
proof -
  note b = admitted_bind_required [OF _ assms] and s = admitted_string(1) [OF _ assms]
  show "\<exists>b k t x. bind_string ''bucket'' c = Some b \<and> bind_required ''key'' c = Some k \<and>
      bind_required ''content_type'' c = Some t \<and> bind_int64 ''expires'' c = Some x" if "admissible L schema_presignPutIn v"
    using b [OF that, of "''key''" 0]
      b [OF that, of "''content_type''" 0]
      s [OF that, of "''bucket''" 0]
      admitted_fields(1) [OF that assms, of "''expires''"]
    by (auto simp: sole_props required_props)
  show "\<exists>b k x. bind_string ''bucket'' c = Some b \<and> bind_required ''key'' c = Some k \<and>
      bind_int64 ''expires'' c = Some x" if "admissible L schema_presignGetIn v"
    using b [OF that, of "''key''" 0]
      s [OF that, of "''bucket''" 0]
      admitted_fields(1) [OF that assms, of "''expires''"]
    by (auto simp: sole_props required_props)
  show "\<exists>x. bind_file c = Some x" if adm: "admissible L schema_fileCreateIn v"
  proof -
    obtain kvs x where "body_members c = Some kvs" "decode_ptr as_int64 ''size_bytes'' kvs None = Some x"
      using admitted_fields(3) [OF adm assms] sole_props by blast
    moreover obtain y where "decode_ptr Some ''metadata'' kvs None = Some y"
      using decode_ptr_any by blast
    ultimately show ?thesis
      using b [OF adm, of "''key''" 0] s [OF adm, of "''bucket''" 0] s [OF adm, of "''content_type''" 0]
      by (auto simp: bind_file_def sole_props required_props)
  qed
qed


section \<open>The handlers\<close>

text \<open>Binding is all that answers 422.\<close>

definition not_422 :: "reply \<Rightarrow> bool" where
  "not_422 r = (case r of Header _ _ \<Rightarrow> True | JSON n _ \<Rightarrow> n \<noteq> 422 | SetStatus n \<Rightarrow> n \<noteq> 422 | AbortJSON n _ \<Rightarrow> n \<noteq> 422)"

context reply_contract
begin

lemma answers_option_eq:
  "(x = None \<Longrightarrow> answers m) \<Longrightarrow> (\<And>y. x = Some y \<Longrightarrow> answers (g y)) \<Longrightarrow>
     answers (case x of None \<Rightarrow> m | Some y \<Rightarrow> g y)"
  by (simp split: option.splits)

end

interpretation bound: reply_contract not_422
  by unfold_locales (auto simp: not_422_def refusals_def)

lemmas bound_intros = bound.answers_bind bound.answers_if bound.answers_option_eq bound.answers_sum
  bound.answers_prod bound.answers_ret

lemma auth_bound:
  assumes "list_all not_422 (g_out c)"
  shows "bind_creds L c = Some x \<Longrightarrow> bound.answers (auth_Signup L cfg c)"
    and "bind_creds L c = Some x \<Longrightarrow> bound.answers (auth_Login L cfg c)"
    and "bind_required ''refresh_token'' c = Some y \<Longrightarrow> bound.answers (auth_Refresh L cfg c)"
    and "bind_required ''refresh_token'' c = Some y \<Longrightarrow> bound.answers (auth_Logout L cfg c)"
    and "bind_required ''email'' c = Some y \<Longrightarrow> validator_email L y \<Longrightarrow> bound.answers (auth_ForgotPassword L c)"
    and "bind_reset c = Some x \<Longrightarrow> bound.answers (auth_ResetPassword L c)"
  unfolding auth_Signup_def auth_Login_def auth_Refresh_def auth_Logout_def auth_ForgotPassword_def
    auth_ResetPassword_def Let_def
  by (intro bound_intros; simp add: emit_def not_422_def assms reset_sent_def)+

lemma org_bound:
  assumes "list_all not_422 (g_out c)"
  shows "bind_required ''name'' c = Some y \<Longrightarrow> bound.answers (orgs_Create c)"
    and "bind_member c = Some x \<Longrightarrow> bound.answers (orgs_AddMember c)"
    and "bind_required ''role'' c = Some y \<Longrightarrow> bound.answers (orgs_UpdateMember c)"
    and "bind_required ''org_id'' c = Some y \<Longrightarrow> bound.answers (context_Set c)"
    and "bind_project c = Some x \<Longrightarrow> bound.answers (projects_Create c)"
    and "bind_project c = Some x \<Longrightarrow> bound.answers (projects_Update c)"
  unfolding orgs_Create_def orgs_AddMember_def orgs_UpdateMember_def context_Set_def projects_Create_def
    projects_Update_def Let_def
  by (intro bound_intros; simp add: emit_def not_422_def assms)+

lemma service_bound:
  assumes "list_all not_422 (g_out c)"
  shows "bind_key L c = Some k \<Longrightarrow> bound.answers (apikeys_Create L c)"
    and "bind_endpoint c = Some e \<Longrightarrow> bound.answers (webhooks_CreateEndpoint c)"
    and "bind_checkout c = Some x \<Longrightarrow> bound.answers (billing_checkout c)"
    and "bind_file c = Some f \<Longrightarrow> bound.answers (storage_CreateFile env c)"
  unfolding apikeys_Create_def webhooks_CreateEndpoint_def billing_checkout_def storage_CreateFile_def Let_def
  by (intro bound_intros; simp add: emit_def not_422_def assms)+

lemma update_bound:
  assumes "list_all not_422 (g_out c)" "bind_endpoint c = Some e" "bind_active c = Some a"
  shows "bound.answers (webhooks_UpdateEndpoint c)"
  unfolding webhooks_UpdateEndpoint_def Let_def assms(2,3) prod.case option.case
  by (intro bound_intros; simp add: emit_def not_422_def assms)

lemma presign_bound:
  assumes "list_all not_422 (g_out c)" "bind_string ''bucket'' c = Some b" "bind_required ''key'' c = Some y"
    and "bind_int64 ''expires'' c = Some n"
  shows "bind_required ''content_type'' c = Some t \<Longrightarrow> bound.answers (storage_PresignPut L cfg c)"
    and "bound.answers (storage_PresignGet L cfg c)"
  unfolding storage_PresignPut_def storage_PresignGet_def
  by (simp add: assms, intro bound_intros; simp add: emit_def not_422_def assms)+


section \<open>The routes\<close>

definition takes :: "lib \<Rightarrow> operation \<Rightarrow> route \<Rightarrow> bool" where
  "takes L op r \<longleftrightarrow> rt_key r = op_route op \<and>
     (\<forall>T c v. body_type op = Some T \<longrightarrow> g_body c = Some v \<longrightarrow> admissible L T v \<longrightarrow> list_all not_422 (g_out c) \<longrightarrow>
       bound.answers (rt_handler r c))"

lemma body_types:
  "body_type doc_post_auth_signup = Some schema_creds" "body_type doc_post_auth_login = Some schema_creds"
  "body_type doc_post_auth_refresh = Some schema_refreshReq" "body_type doc_post_auth_logout = Some schema_refreshReq"
  "body_type doc_post_auth_forgot_password = Some schema_forgotIn"
  "body_type doc_post_auth_reset_password = Some schema_resetIn"
  "body_type doc_post_context = Some schema_setContectIn" "body_type doc_post_orgs = Some schema_createOrgIn"
  "body_type doc_post_orgs_id_members = Some schema_memberIn"
  "body_type doc_patch_orgs_id_members_userId = Some schema_memberIn"
  "body_type doc_post_projects = Some schema_ProjectIn" "body_type doc_patch_projects_id = Some schema_ProjectIn"
  "body_type doc_post_api_keys = Some schema_createKeyIn"
  "body_type doc_post_webhooks_endpoints = Some schema_createEndpointIn"
  "body_type doc_patch_webhooks_endpoints_id = Some schema_updateEndpointIn"
  "body_type doc_post_billing_checkout_session = Some schema_checkoutIn"
  "body_type doc_post_storage_presign = Some schema_presignPutIn"
  "body_type doc_post_storage_presign_download = Some schema_presignGetIn"
  "body_type doc_post_storage_files = Some schema_fileCreateIn"
  by (simp_all add: body_type_def operation_defs)

lemma no_body:
  "body_type doc_post_billing_webhook = None" "body_type doc_get_me = None" "body_type doc_post_auth_logout_all = None"
  "body_type doc_get_context = None" "body_type doc_get_orgs_id = None"
  "body_type doc_delete_orgs_id_members_userId = None" "body_type doc_delete_orgs_id = None"
  "body_type doc_get_projects = None" "body_type doc_get_projects_id = None" "body_type doc_delete_projects_id = None"
  "body_type doc_get_audit = None" "body_type doc_get_api_keys = None" "body_type doc_delete_api_keys_id = None"
  "body_type doc_get_webhooks_endpoints = None" "body_type doc_post_webhooks_test = None"
  "body_type doc_get_billing_subscription = None" "body_type doc_get_billing_usage = None"
  "body_type doc_get_storage_files = None" "body_type doc_get_storage_files_id = None"
  "body_type doc_delete_storage_files_id = None"
  by (simp_all add: body_type_def operation_defs)

lemma route_ops_take: "list_all2 (takes L) route_ops (register_routes L env)"
  unfolding takes_def route_ops_def route_defs append.simps list_all2_Cons list_all2_Nil
  by (auto simp: rt_key_def body_types no_body
      dest: bind_auth_admitted bind_org_admitted bind_service_admitted bind_storage_admitted
      intro: auth_bound org_bound service_bound update_bound presign_bound)

lemma answers_status:
  assumes "bound.answers m"
  shows "response_status (result m w) \<noteq> 422"
proof -
  have "body_status rs \<noteq> Some 422 \<and> last_status rs n \<noteq> 422" if "list_all not_422 rs" "n \<noteq> 422" for rs n
    using that by (induction rs arbitrary: n) (auto simp: not_422_def split: reply.splits)
  from this [of _ 200] show ?thesis
    using assms by (auto simp: bound.answers_def response_status_def split: option.splits)
qed


section \<open>Properties\<close>

text \<open>C16: A body that the document admits passes the binding of its handler: when it has the documented type, with no
required string empty, addresses and times in their formats and numbers in the range of 64 bits, the handler never
answers 422, whatever the tables hold and whatever fails.\<close>

theorem documented_body_accepted:
  assumes "op \<in> set documented" "r \<in> set (routes L env)" "rt_key r = op_route op"
    and "body_type op = Some T" "g_body c = Some v" "admissible L T v" "g_out c = []"
  shows "response_status (result (rt_handler r c) w) \<noteq> 422"
proof (rule answers_status)
  have "takes L op r"
    by (rule along_routes [OF route_ops_take _ assms(1-3)]) (simp add: takes_def)
  with assms(4-7) show "bound.answers (rt_handler r c)"
    by (simp add: takes_def)
qed

theorem documented_body_accepted_witness:
  "response_status (result (projects_Create (sample_request (Some (JObj [(''name'', JStr ''x'')])))) (sample_world one_org_db)) \<noteq> 422"
proof -
  let ?r = "mk_route POST [Lit ''projects''] (tenant_chain sample_lib (Load sample_env) @ [RequireRole ''member'']) projects_Create"
  have "?r \<in> set (routes sample_lib sample_env)"
    by (simp add: routes_def register_routes_def protected_routes_def project_routes_def Let_def)
  moreover have "rt_key ?r = op_route doc_post_projects"
    by (simp add: rt_key_def mk_route_def)
  moreover have "admissible sample_lib schema_ProjectIn (JObj [(''name'', JStr ''x'')])"
    by (simp add: schema_ProjectIn_def filled_def)
  ultimately show ?thesis
    using documented_body_accepted [of doc_post_projects ?r sample_lib sample_env schema_ProjectIn
        "sample_request (Some (JObj [(''name'', JStr ''x'')]))" "JObj [(''name'', JStr ''x'')]" "sample_world one_org_db"]
    by (simp add: documented_def body_types mk_route_def sample_request_def)
qed

end
