(* ===== verification/Dispatcher.thy ===== *)
theory Dispatcher
  imports Webhooks
begin

text \<open>
  The dispatcher's retries come to an end: every pass uses up as many of the attempts that are left as it
  finds deliveries, so that only finitely many passes find any.
\<close>

text \<open>The attempts that the undelivered rows have left.\<close>

definition attempts_of :: "repo_WebhookDelivery \<Rightarrow> nat" where
  "attempts_of r = (if webhook_deliveries_delivered r then 0 else nat (5 - webhook_deliveries_attempts r))"

definition remaining_attempts :: "db \<Rightarrow> nat" where
  "remaining_attempts d = sum_list (map attempts_of (webhook_deliveries d))"

definition due :: "db \<Rightarrow> string \<Rightarrow> bool" where
  "due d i \<longleftrightarrow> (\<exists>r \<in> set (webhook_deliveries d). webhook_deliveries_id r = i \<and> 0 < attempts_of r) \<and>
     (\<forall>r \<in> set (webhook_deliveries d). webhook_deliveries_id r = i \<longrightarrow> webhook_deliveries_attempts r < 5)"

lemma sum_update_le:
  assumes "\<And>r. r \<in> set t \<Longrightarrow> P r \<Longrightarrow> f (g r) \<le> (f r :: nat)"
  shows "sum_list (map f (update_where P g t)) \<le> sum_list (map f t)"
  using assms by (induction t) (auto simp: update_where_def add_mono)

lemma sum_update_less:
  assumes "\<And>r. r \<in> set t \<Longrightarrow> P r \<Longrightarrow> f (g r) \<le> (f r :: nat)"
    and "x \<in> set t" "P x" "f (g x) < f x"
  shows "sum_list (map f (update_where P g t)) < sum_list (map f t)"
  using assms
proof (induction t)
  case (Cons r t)
  have "sum_list (map f (update_where P g t)) \<le> sum_list (map f t)"
    using Cons.prems(1) by (intro sum_update_le) simp
  moreover have "f (if P r then g r else r) \<le> f r"
    using Cons.prems(1) by simp
  ultimately show ?case
    using Cons by (cases "x = r") (auto simp: update_where_def add_less_le_mono add_le_less_mono)
qed simp

text \<open>Marking a delivery uses an attempt of it and leaves the others due.\<close>

definition uses_attempt :: "string \<Rightarrow> db \<Rightarrow> db \<Rightarrow> bool" where
  "uses_attempt i d d' \<longleftrightarrow> remaining_attempts d' < remaining_attempts d \<and> (\<forall>j. j \<noteq> i \<longrightarrow> due d j \<longrightarrow> due d' j)"

lemma count_attempt_uses:
  assumes "due d i" "\<And>r. webhook_deliveries_id (f r) = webhook_deliveries_id r"
    and "\<And>r. webhook_deliveries_attempts (f r) = webhook_deliveries_attempts r"
    and "\<And>r. webhook_deliveries_delivered r \<Longrightarrow> webhook_deliveries_delivered (f r)"
  shows "\<exists>d'. count_attempt i f now k d = Inr ((), d') \<and> uses_attempt i d d'"
proof -
  let ?g = "\<lambda>r. f (r\<lparr>webhook_deliveries_attempts := webhook_deliveries_attempts r + 1\<rparr>)"
  let ?d = "d\<lparr>webhook_deliveries := update_where (\<lambda>r. webhook_deliveries_id r = i) ?g (webhook_deliveries d)\<rparr>"
  from assms(1) obtain x where x: "x \<in> set (webhook_deliveries d)" "webhook_deliveries_id x = i" "0 < attempts_of x"
    by (auto simp: due_def)
  have le: "attempts_of (?g r) \<le> attempts_of r" for r
    by (auto simp: attempts_of_def assms(3) dest: assms(4) [of "r\<lparr>webhook_deliveries_attempts := webhook_deliveries_attempts r + 1\<rparr>", simplified])
  have "attempts_of (?g x) < attempts_of x"
    using x(3) by (auto simp: attempts_of_def assms(3) split: if_splits)
  then have "remaining_attempts ?d < remaining_attempts d"
    using x le unfolding remaining_attempts_def
    by (simp add: sum_update_less [where x = x])
  moreover have "due ?d j" if "j \<noteq> i" "due d j" for j
    using that by (auto simp: due_def set_update_where assms(2) split: if_splits)
  moreover have "count_attempt i f now k d = Inr ((), ?d)"
    using assms(1) by (fastforce simp: count_attempt_def due_def)
  ultimately show ?thesis
    by (auto simp: uses_attempt_def)
qed

lemma process_one_uses:
  assumes "w_fault w = (\<lambda>_. None)" "due (w_db w) (pending_ID r)"
  shows "wlp (process_one L r) (\<lambda>_ w'. w_fault w' = (\<lambda>_. None) \<and>
           uses_attempt (pending_ID r) (w_db w) (w_db w')) w"
proof -
  have d: "wlp (deliver L url sec ev pay) (\<lambda>_ w'. w_db w' = w_db w \<and> w_fault w' = w_fault w) w" for url sec ev pay
    by (auto simp: deliver_def wp wlp_http_Do split: option.splits fault.splits sum.splits)
  have mark: "wlp (sql (count_attempt (pending_ID r) f)) (\<lambda>_ w'. w_fault w' = (\<lambda>_. None) \<and>
      uses_attempt (pending_ID r) (w_db w) (w_db w')) u"
    if "w_db u = w_db w" "w_fault u = (\<lambda>_. None)" "\<And>r. webhook_deliveries_id (f r) = webhook_deliveries_id r"
      "\<And>r. webhook_deliveries_attempts (f r) = webhook_deliveries_attempts r"
      "\<And>r. webhook_deliveries_delivered r \<Longrightarrow> webhook_deliveries_delivered (f r)" for u f
    using count_attempt_uses [OF assms(2) that(3-5), of "pg_time (w_clock u (w_tick u))" "w_rand u (w_tick u)"] that(1,2)
    by (auto simp: wlp_sql_ok stmt_result_def)
  show ?thesis
    unfolding process_one_def MarkDelivered_def MarkRetry_def mark_delivered_def mark_retry_def wlp_bind
    by (rule wlp_mono [OF d]) (auto simp: wp assms(1) split: sum.splits intro!: mark)
qed

lemma process_all_uses:
  assumes "w_fault w = (\<lambda>_. None)" "distinct (map pending_ID rows)"
    and "\<And>r. r \<in> set rows \<Longrightarrow> due (w_db w) (pending_ID r)"
  shows "wlp (for_each rows (process_one L)) (\<lambda>_ w'.
           remaining_attempts (w_db w') + length rows \<le> remaining_attempts (w_db w)) w"
  using assms
proof (induction rows arbitrary: w)
  case Nil
  then show ?case by (simp add: wp)
next
  case (Cons r rows)
  have "wlp (for_each rows (process_one L)) (\<lambda>_ w''.
      remaining_attempts (w_db w'') + length (r # rows) \<le> remaining_attempts (w_db w)) w'"
    if "w_fault w' = (\<lambda>_. None)" "uses_attempt (pending_ID r) (w_db w) (w_db w')" for w'
  proof (rule wlp_mono [OF Cons.IH])
    fix r'
    assume r': "r' \<in> set rows"
    then have "pending_ID r' \<noteq> pending_ID r"
      using Cons.prems(2) by (metis distinct.simps(2) image_eqI list.set_map list.simps(9))
    with r' that(2) Cons.prems(3) show "due (w_db w') (pending_ID r')"
      by (simp add: uses_attempt_def)
  qed (use that Cons.prems(2) in \<open>auto simp: uses_attempt_def\<close>)
  then show ?case
    unfolding for_each.simps wlp_bind
    by (intro wlp_mono [OF process_one_uses [OF Cons.prems(1,3)]]) simp_all
qed

lemma pending_due:
  assumes "db_ok d" "r \<in> set (pending_deliveries now d)"
  shows "due d (pending_ID r)"
proof -
  from assms(2) obtain s where "s \<in> set (webhook_deliveries d)" "is_pending now s" "pending_ID r = webhook_deliveries_id s"
    by (auto simp: pending_deliveries_def pending_row_def)
  moreover have "attempts_left d (pending_ID r)"
    by (rule pending_batch(2) [OF assms])
  ultimately show ?thesis
    by (auto simp: due_def attempts_left_def attempts_of_def is_pending_def)
qed


section \<open>Properties\<close>

text \<open>C13: The retries of webhook deliveries terminate. When the database answers, a pass of the dispatcher uses
up at least one of the attempts left, five for each undelivered row, for every delivery of its batch: the attempts
left after it and the number of deliveries that it found, of which it takes fifty at most, are together no more than
the attempts left before. So at most as many passes as there are attempts left can find a delivery, whatever the
endpoints answer.\<close>

theorem dispatcher_terminates:
  assumes "db_ok (w_db w)" "w_fault w = (\<lambda>_. None)" "now = pg_time (w_clock w (w_tick w))"
  shows "remaining_attempts (w_db (exec (ProcessPending L) w)) + min 50 (length (pending_deliveries now (w_db w)))
           \<le> remaining_attempts (w_db w)"
proof -
  let ?rows = "take 50 (pending_deliveries now (w_db w))"
  have "wlp (for_each ?rows (process_one L)) (\<lambda>_ w'.
      remaining_attempts (w_db w') + length ?rows \<le> remaining_attempts (w_db w)) u"
    if "w_db u = w_db w" "w_fault u = (\<lambda>_. None)" for u
    using process_all_uses [of u ?rows L] that pending_batch(1) [OF assms(1)] pending_due [OF assms(1)]
    by (auto simp: take_map [symmetric] dest: in_set_takeD)
  then have "wlp (ProcessPending L) (\<lambda>_ w'.
      remaining_attempts (w_db w') + length ?rows \<le> remaining_attempts (w_db w)) w"
    using assms by (auto simp: ProcessPending_def GetPendingDeliveries_def wp wlp_sql_ok stmt_result_def
        get_pending_deliveries_def limit_offset_def)
  then show ?thesis
    by (simp add: wlp_exec min.commute)
qed

theorem dispatcher_terminates_witness:
  "remaining_attempts (w_db (exec (ProcessPending sample_lib) (sample_world one_delivery_db))) < 5"
proof -
  have "length (pending_deliveries (pg_time (w_clock (sample_world one_delivery_db) 0)) one_delivery_db) = 1"
    by code_simp
  moreover have "remaining_attempts one_delivery_db = 5"
    by code_simp
  ultimately show ?thesis
    using dispatcher_terminates [of "sample_world one_delivery_db" _ sample_lib, OF _ _ refl] one_delivery_db_ok
    by (simp add: sample_world_def)
qed

end
