(* ===== verification/LimiterFloat.thy ===== *)
theory LimiterFloat
  imports RateLimiter
begin

text \<open>
  The limiter as it runs, in double precision. Rounding can add to a bucket, but by no more than a part in
  \<open>2 ^ 50\<close> of the burst for a request, so that the bound on what a key is granted holds up to that.
\<close>


section \<open>The error of one operation\<close>

definition ulp :: rat where
  "ulp = 1 / 2 ^ 53"

locale accurate = rounding +
  assumes fl_upper: "0 \<le> x \<Longrightarrow> fl x \<le> x * (1 + ulp)"

lemma round_even_upper: "of_int (round_even y) \<le> y + 1 / 2"
  by (auto simp: round_even_def Let_def) linarith+

lemma round_pos_upper:
  assumes "0 < x"
  shows "round_pos x \<le> x * (1 + ulp)"
proof -
  define u :: rat where "u = power_int 2 (exponent x - 52)"
  have u: "0 < u" by (simp add: u_def)
  have "power_int 2 (exponent x) = 2 ^ 52 * u"
    by (simp add: u_def power_int_diff)
  with exponent_bounds(1) [OF assms] have "u / 2 \<le> x * ulp"
    by (simp add: ulp_def)
  moreover have "round_pos x \<le> (x / u + 1 / 2) * u"
    unfolding round_pos_def Let_def u_def [symmetric] using u by (intro mult_right_mono round_even_upper) auto
  ultimately show ?thesis
    using u by (simp add: algebra_simps)
qed

interpretation ieee: accurate float64
  by unfold_locales (auto simp: float64_def round_pos_upper)


section \<open>A bucket with losses\<close>

text \<open>
  The contract of a token bucket in which a request may leave up to \<open>eps\<close> more than it should. An exact bucket
  is one without loss.
\<close>

fun requests :: "string \<Rightarrow> (time \<times> lim_event) list \<Rightarrow> nat" where
  "requests k [] = 0"
| "requests k (e # es) = (if snd e = Request k then 1 else 0) + requests k es"

locale lossy_bucket =
  fixes good :: "time \<Rightarrow> 'l \<Rightarrow> bool"
    and level :: "'l \<Rightarrow> time \<Rightarrow> string \<Rightarrow> rat"
    and step :: "time \<times> lim_event \<Rightarrow> 'l \<Rightarrow> bool \<times> 'l"
    and rate :: rat
    and eps :: rat
  assumes good_step: "good t l \<Longrightarrow> t \<le> now \<Longrightarrow> good now (snd (step (now, ev) l))"
    and level_nonneg: "good t l \<Longrightarrow> t \<le> now \<Longrightarrow> 0 \<le> level l now k"
    and level_later: "good t l \<Longrightarrow> t \<le> now \<Longrightarrow>
      level l now k \<le> level l t k + of_int (now - t) / 10 ^ 9 * rate"
    and level_step: "good t l \<Longrightarrow> t \<le> now \<Longrightarrow>
      level (snd (step (now, ev) l)) now k + (if ev = Request k \<and> fst (step (now, ev) l) then 1 else 0) \<le>
        level l now k + (if ev = Request k then eps else 0)"
begin

lemma window_bound:
  "good t l \<Longrightarrow> sorted_wrt (\<le>) (t # map fst es) \<Longrightarrow>
     of_nat (accepted step k es l) \<le>
       level l t k + of_int (last (t # map fst es) - t) / 10 ^ 9 * rate + of_nat (requests k es) * eps"
proof (induction es arbitrary: t l)
  case Nil
  then show ?case using level_nonneg [of t l t k] by simp
next
  case (Cons e es)
  obtain now ev where e: "e = (now, ev)" by fastforce
  define l' where "l' = snd (step e l)"
  define T where "T = last (now # map fst es)"
  have tn: "t \<le> now" using Cons.prems by (simp add: e)
  define grow where "grow d = of_int d / 10 ^ 9 * rate" for d :: int
  define taken :: nat where "taken = (if ev = Request k \<and> fst (step e l) then 1 else 0)"
  define mine :: nat where "mine = (if ev = Request k then 1 else 0)"
  have "of_nat (accepted step k es l') \<le> level l' now k + grow (T - now) + of_nat (requests k es) * eps"
    using Cons.IH [of now l'] Cons.prems good_step [OF _ tn] by (simp add: e l'_def T_def grow_def)
  moreover have "level l' now k + of_nat taken \<le> level l now k + of_nat mine * eps"
    using level_step [OF Cons.prems(1) tn, of ev k] by (auto simp: e l'_def taken_def mine_def)
  moreover have "level l now k \<le> level l t k + grow (now - t)"
    unfolding grow_def by (rule level_later [OF Cons.prems(1) tn])
  moreover have "grow (now - t) + grow (T - now) = grow (T - t)"
    by (simp add: grow_def algebra_simps add_divide_distrib diff_divide_distrib)
  moreover have "of_nat (mine + requests k es) * eps = of_nat mine * eps + of_nat (requests k es) * eps"
    by (simp add: distrib_right)
  ultimately have "of_nat (taken + accepted step k es l') \<le>
      level l t k + grow (T - t) + of_nat (mine + requests k es) * eps"
    by simp
  moreover have "last (t # map fst (e # es)) = T" by (simp add: T_def e)
  moreover have "accepted step k (e # es) l = taken + accepted step k es l'"
    by (simp add: e l'_def taken_def)
  moreover have "requests k (e # es) = mine + requests k es"
    by (simp add: e mine_def)
  ultimately show ?case by (simp only: grow_def)
qed

end

sublocale token_bucket \<subseteq> exact: lossy_bucket good level step rate 0
  by unfold_locales (use good_step level_bounds level_later level_step in auto)



section \<open>The limiter's losses\<close>

definition loss :: "int \<Rightarrow> rat" where
  "loss burst = of_int burst / 2 ^ 50"

lemma ulp_powers: "(1 + ulp) ^ 5 + ulp \<le> 1 + 1 / 2 ^ 50" "1 \<le> 1 + ulp"
  by (simp_all add: ulp_def power_divide eval_nat_numeral)

context accurate
begin

lemma fl_upper_le: "0 \<le> x \<Longrightarrow> x \<le> y \<Longrightarrow> fl x \<le> y * (1 + ulp)"
  using fl_upper [of x] mult_right_mono [of x y "1 + ulp"] ulp_powers(2) by linarith

lemma Seconds_upper:
  assumes "0 \<le> d"
  shows "Seconds fl d \<le> of_int d / 10 ^ 9 * (1 + ulp) ^ 3"
proof -
  define s n where "s = d div Second" and "n = d mod Second"
  have sn: "0 \<le> s" "0 \<le> n"
    using assms by (simp_all add: s_def n_def Second_def pos_imp_zdiv_nonneg_iff)
  have d: "of_int d / 10 ^ 9 = (of_int s + of_int n / 10 ^ 9 :: rat)"
    using Seconds_exactly [OF assms] Seconds_pos [OF assms, of "\<lambda>x. x"] by (simp add: s_def n_def)
  have "fl (fl (of_int n) / 10 ^ 9) \<le> (of_int n * (1 + ulp) / 10 ^ 9) * (1 + ulp)"
    using sn fl_upper [of "of_int n"] by (intro fl_upper_le divide_right_mono divide_nonneg_nonneg fl_nonneg) auto
  moreover have "fl (of_int s) \<le> of_int s * (1 + ulp) ^ 2"
  proof -
    have "fl (of_int s) \<le> of_int s * (1 + ulp)"
      using sn by (intro fl_upper) simp
    also have "\<dots> \<le> of_int s * (1 + ulp) ^ 2"
      using sn ulp_powers(2) by (intro mult_left_mono self_le_power) auto
    finally show ?thesis .
  qed
  ultimately have "fl (of_int s) + fl (fl (of_int n) / 10 ^ 9) \<le> (of_int s + of_int n / 10 ^ 9) * (1 + ulp) ^ 2"
    by (simp add: algebra_simps power2_eq_square add_divide_distrib)
  then have "fl (fl (of_int s) + fl (fl (of_int n) / 10 ^ 9)) \<le> (of_int s + of_int n / 10 ^ 9) * (1 + ulp) ^ 2 * (1 + ulp)"
    using sn by (intro fl_upper_le add_nonneg_nonneg divide_nonneg_nonneg fl_nonneg) auto
  then show ?thesis
    unfolding Seconds_pos [OF assms] s_def [symmetric] n_def [symmetric] d
    by (simp add: power2_eq_square power3_eq_cube mult.assoc)
qed

text \<open>What a refill may add: nothing above the burst, and otherwise five roundings.\<close>

lemma refilled_upper:
  assumes "lim_ok now l" "b_lastSeen b \<le> now" "0 \<le> b_tokens b"
    and "x = b_tokens b + of_int (now - b_lastSeen b) / 10 ^ 9 * l_rate l"
  shows "refilled fl l b now \<le> min (of_int (l_burst l)) (x * (1 + ulp) ^ 5)"
proof -
  define e where "e = (of_int (now - b_lastSeen b) / 10 ^ 9 :: rat)"
  have l: "0 \<le> l_rate l" "0 \<le> l_burst l" "l_burst l \<le> 2 ^ 53"
    using assms(1) by (auto simp: lim_ok_def)
  have e0: "0 \<le> e"
    using assms(2) by (simp add: e_def)
  have p: "1 \<le> (1 + ulp) ^ n" for n
    using ulp_powers(2) by (rule one_le_power)
  have "Seconds fl (now - b_lastSeen b) * l_rate l \<le> e * (1 + ulp) ^ 3 * l_rate l"
    unfolding e_def using l assms(2) by (intro mult_right_mono Seconds_upper) auto
  then have "fl (Seconds fl (now - b_lastSeen b) * l_rate l) \<le> e * (1 + ulp) ^ 3 * l_rate l * (1 + ulp)"
    using l assms(2) by (intro fl_upper_le mult_nonneg_nonneg Seconds_nonneg) auto
  also have "\<dots> = e * l_rate l * (1 + ulp) ^ 4"
    by (simp add: eval_nat_numeral)
  finally have f: "fl (Seconds fl (now - b_lastSeen b) * l_rate l) \<le> e * l_rate l * (1 + ulp) ^ 4" .
  have "b_tokens b \<le> b_tokens b * (1 + ulp) ^ 4"
    using mult_left_mono [OF p assms(3), of 4] by simp
  with f have "b_tokens b + fl (Seconds fl (now - b_lastSeen b) * l_rate l) \<le> x * (1 + ulp) ^ 4"
    unfolding assms(4) e_def [symmetric] by (simp add: distrib_right)
  then have "fl (b_tokens b + fl (Seconds fl (now - b_lastSeen b) * l_rate l)) \<le> x * (1 + ulp) ^ 4 * (1 + ulp)"
    using l assms(2,3) by (intro fl_upper_le add_nonneg_nonneg fl_nonneg mult_nonneg_nonneg Seconds_nonneg) auto
  moreover have "fl (of_int (l_burst l)) = of_int (l_burst l)"
    using l by (intro fl_int) auto
  ultimately show ?thesis
    by (auto simp: refilled_def Let_def eval_nat_numeral mult.assoc)
qed

lemma refilled_loss:
  assumes "lim_ok now l" "b = (case l_buckets l k of
      None \<Rightarrow> \<lparr>b_tokens = fl (of_int (l_burst l)), b_lastSeen = now\<rparr> | Some b \<Rightarrow> b)"
  shows "refilled fl l b now + of_int (l_burst l) * ulp \<le> lim_level l now k + loss (l_burst l)"
proof -
  define m where "m = (of_int (l_burst l) :: rat)"
  define x where "x = b_tokens b + of_int (now - b_lastSeen b) / 10 ^ 9 * l_rate l"
  have l: "0 \<le> m" "l_burst l \<le> 2 ^ 53" "0 \<le> l_burst l"
    using assms(1) by (auto simp: lim_ok_def m_def)
  have m: "fl m = m"
    using l unfolding m_def by (intro fl_int) auto
  have b: "b_lastSeen b \<le> now" "0 \<le> b_tokens b" "lim_level l now k = min m x"
    using lim_ok_bucket [OF assms(1), of k] l m
    by (auto simp: assms(2) x_def lim_level_def m_def split: option.splits)
  have r: "refilled fl l b now \<le> min m (x * (1 + ulp) ^ 5)"
    using refilled_upper [OF assms(1) b(1,2) x_def] by (simp add: m_def)
  have loss: "((1 + ulp) ^ 5 - 1) * m + m * ulp \<le> loss (l_burst l)" and "m * ulp \<le> loss (l_burst l)"
  proof -
    have "((1 + ulp) ^ 5 - 1 + ulp) * m \<le> 1 / 2 ^ 50 * m"
      using ulp_powers(1) l by (intro mult_right_mono) auto
    then show "((1 + ulp) ^ 5 - 1) * m + m * ulp \<le> loss (l_burst l)"
      by (simp add: loss_def m_def algebra_simps)
    have "m * ulp \<le> m * (1 / 2 ^ 50)"
      using l by (intro mult_left_mono) (auto simp: ulp_def)
    then show "m * ulp \<le> loss (l_burst l)"
      by (simp add: loss_def m_def)
  qed
  show ?thesis
  proof (cases "x \<le> m")
    case True
    then have "x * ((1 + ulp) ^ 5 - 1) \<le> m * ((1 + ulp) ^ 5 - 1)"
      using one_le_power [OF ulp_powers(2), of 5] by (intro mult_right_mono) auto
    moreover have "refilled fl l b now \<le> x + x * ((1 + ulp) ^ 5 - 1)"
      using r by (simp add: right_diff_distrib)
    moreover have "((1 + ulp) ^ 5 - 1) * m = m * ((1 + ulp) ^ 5 - 1)"
      by (rule mult.commute)
    ultimately show ?thesis
      using loss unfolding b(3) m_def [symmetric] min_absorb2 [OF True] by linarith
  next
    case False
    with r \<open>m * ulp \<le> loss (l_burst l)\<close> show ?thesis
      unfolding b(3) m_def [symmetric] by (simp add: min_def split: if_splits)
  qed
qed

lemma Allow_loss:
  assumes "lim_ok t l" "t \<le> now"
  shows "lim_level (snd (Allow fl now k l)) now k + (if fst (Allow fl now k l) then 1 else 0) \<le>
      lim_level l now k + loss (l_burst l)"
    and "j \<noteq> k \<Longrightarrow> lim_level (snd (Allow fl now k l)) now j = lim_level l now j"
proof -
  define b where "b = (case l_buckets l k of
      None \<Rightarrow> \<lparr>b_tokens = fl (of_int (l_burst l)), b_lastSeen = now\<rparr> | Some b \<Rightarrow> b)"
  define r where "r = refilled fl l b now"
  have ok: "lim_ok now l" by (rule lim_ok_later [OF assms])
  then have l: "0 \<le> l_rate l" "0 \<le> l_burst l" "l_burst l \<le> 2 ^ 53"
    by (auto simp: lim_ok_def)
  have b: "0 \<le> b_tokens b" "b_lastSeen b \<le> now"
    using lim_ok_bucket [OF ok, of k] l by (auto simp: b_def fl_nonneg split: option.splits)
  have r: "0 \<le> r" "r \<le> of_int (l_burst l)"
    using refilled_bounds [OF l b] by (simp_all add: r_def)
  have lev: "r + of_int (l_burst l) * ulp \<le> lim_level l now k + loss (l_burst l)"
    using refilled_loss [OF ok b_def] by (simp add: r_def)
  have "0 \<le> of_int (l_burst l) * ulp"
    using l by (simp add: ulp_def)
  moreover have "fl (r - 1) + 1 \<le> r + of_int (l_burst l) * ulp" if "1 \<le> r"
  proof -
    have "fl (r - 1) \<le> (r - 1) * (1 + ulp)"
      using that by (intro fl_upper) simp
    also have "\<dots> = r - 1 + (r - 1) * ulp"
      by (simp add: distrib_left)
    also have "(r - 1) * ulp \<le> of_int (l_burst l) * ulp"
      using r ulp_powers(2) by (intro mult_right_mono) auto
    finally show ?thesis by simp
  qed
  moreover have "Allow fl now k l =
      (if r < 1
       then (False, l\<lparr>l_buckets := (l_buckets l)(k \<mapsto> \<lparr>b_tokens = r, b_lastSeen = now\<rparr>)\<rparr>)
       else (True, l\<lparr>l_buckets := (l_buckets l)(k \<mapsto> \<lparr>b_tokens = fl (r - 1), b_lastSeen = now\<rparr>)\<rparr>))"
    by (simp add: Allow_def Let_def r_def b_def)
  ultimately show "lim_level (snd (Allow fl now k l)) now k + (if fst (Allow fl now k l) then 1 else 0) \<le>
      lim_level l now k + loss (l_burst l)"
    and "j \<noteq> k \<Longrightarrow> lim_level (snd (Allow fl now k l)) now j = lim_level l now j"
    using lev by (auto simp: lim_level_def min_def split: option.splits)
qed

end

interpretation fb: lossy_bucket "lim_good rate burst" lim_level "lim_step float64" rate "loss burst"
  for rate burst
proof
  fix t l now ev k
  assume g: "lim_good rate burst t l" and tn: "t \<le> now"
  then have ok: "lim_ok t l" and r: "l_rate l = rate" "l_burst l = burst"
    by (auto simp: lim_good_def)
  show "lim_good rate burst now (snd (lim_step float64 (now, ev) l))"
    using ieee.step_ok [OF ok, of "(now, ev)"] g tn by (simp add: lim_good_def)
  show "0 \<le> lim_level l now k"
    by (rule lim_level_bounds [OF ok tn])
  show "lim_level l now k \<le> lim_level l t k + of_int (now - t) / 10 ^ 9 * rate"
    using level_wait [OF ok tn] r by simp
  show "lim_level (snd (lim_step float64 (now, ev) l)) now k +
      (if ev = Request k \<and> fst (lim_step float64 (now, ev) l) then 1 else 0) \<le>
      lim_level l now k + (if ev = Request k then loss burst else 0)"
  proof (cases ev)
    case (Request j)
    then show ?thesis
      using ieee.Allow_loss [OF ok tn, of k] ieee.Allow_loss(2) [OF ok tn, of k j] r by (cases "j = k") auto
  qed (use level_evict [OF g tn] in \<open>auto simp: level_Stop\<close>)
qed


section \<open>Properties\<close>

text \<open>C6: The limiter as it runs, with every operation rounded to double precision, grants a key no more than
the burst plus the rate times the time that passed, and a part in \<open>2 ^ 50\<close> of the burst for every request
of the key: over any run in time order, with requests of any keys, cleanups and a stop, when the rate refills the
burst within the five minutes after which an idle bucket is dropped.\<close>

theorem limiter_window_float64:
  assumes "0 \<le> rate" "0 \<le> burst" "burst \<le> 2 ^ 53" "of_int burst \<le> 300 * rate"
    and "sorted_wrt (\<le>) (t # map fst es)"
  shows "of_nat (accepted (lim_step float64) k es (New rate burst)) \<le>
           of_int burst + of_int (last (t # map fst es) - t) / 10 ^ 9 * rate +
           of_nat (requests k es) * (of_int burst / 2 ^ 50)"
  using fb.window_bound [OF New_good [OF assms(1-4)] assms(5), of k] by (simp add: loss_def)

theorem limiter_window_float64_witness:
  "of_nat (accepted (lim_step float64) ''a'' [(0, Request ''a''), (0, Request ''b''), (Second, Tick), (Second, Request ''a'')]
     (New (1 / 3) 2)) \<le> (of_int 2 + of_int (Second - 0) / 10 ^ 9 * (1 / 3) + of_nat 2 * (of_int 2 / 2 ^ 50) :: rat)"
  using limiter_window_float64 [of "1 / 3" 2 0
      "[(0, Request ''a''), (0, Request ''b''), (Second, Tick), (Second, Request ''a'')]" "''a''"]
  by (simp add: Second_def)

end
