(* ===== verification/History.thy ===== *)
theory History
  imports Access
begin

text \<open>
  The tables as a log of statements. PostgreSQL runs the statements of concurrent requests in some order; whatever
  the order, and whoever issued them, the tables are what replaying them gives. The statements are those of
  \<open>internal/repo\<close> that write, one constructor for each; the two statements of a transaction
  are two entries, a transaction that is rolled back has none.

  Two things are shown: the server issues no other statements, so that every run of it is a log; and every
  log, in any order and from any number of clients, keeps what the statements promise one by one.
\<close>

datatype statement =
    SInsertUser string string string time
  | SUpdateUserPassword string string
  | SDeleteOrg string
  | SInsertOrg string string string time
  | SDeleteMember string string
  | SUpdateMemberRole string string string
  | SUpsertMember string string string
  | SUpsertActiveOrg string string
  | SInsertRefreshToken string string string time "string option"
  | SRevokeWhere "repo_RefreshToken \<Rightarrow> bool"
  | SCreatePasswordResetToken string string time
  | SMarkPasswordResetUsed string
  | SDeleteProject string string
  | SInsertProject string string string "string option" string
  | SUpdateProject string string string "string option"
  | SInsertAuditLog string string string string string "json option" time
  | SDeleteFile string string
  | SInsertFile repo_File
  | SCreateApiKey string string string string string "time option"
  | SRevokeApiKey string string
  | STouchApiKey string
  | SCancelSubscription "string option"
  | SUpdateSubscriptionStatus "string option" string string "time option"
  | SUpsertSubscription string string "string option" string string "time option"
  | SCreateWebhookEndpoint string string string "string list option"
  | SInsertDelivery lib string string string
  | SUpdateWebhookEndpoint string string string "string list option" bool
  | SMarkDelivered string "int option" "string option"
  | SMarkRetry string "int option" "string option" "time option"

text \<open>A statement that fails leaves the tables as they are.\<close>

definition after :: "goerror + 'a \<times> db \<Rightarrow> db \<Rightarrow> db" where
  "after r d = (case r of Inl _ \<Rightarrow> d | Inr (_, d') \<Rightarrow> d')"

fun run_statement :: "statement \<Rightarrow> time \<Rightarrow> string \<Rightarrow> db \<Rightarrow> db" where
  "run_statement (SInsertUser x1 x2 x3 x4) now i d = after (insert_user x1 x2 x3 x4 now i d) d"
| "run_statement (SUpdateUserPassword x1 x2) now i d = after (update_user_password x1 x2 now i d) d"
| "run_statement (SDeleteOrg x) now i d = after (delete_org x now i d) d"
| "run_statement (SInsertOrg x1 x2 x3 x4) now i d = after (insert_org x1 x2 x3 x4 now i d) d"
| "run_statement (SDeleteMember x1 x2) now i d = after (delete_member x1 x2 now i d) d"
| "run_statement (SUpdateMemberRole x1 x2 x3) now i d = after (update_member_role x1 x2 x3 now i d) d"
| "run_statement (SUpsertMember x1 x2 x3) now i d = after (upsert_member x1 x2 x3 now i d) d"
| "run_statement (SUpsertActiveOrg x1 x2) now i d = after (upsert_active_org x1 x2 now i d) d"
| "run_statement (SInsertRefreshToken x1 x2 x3 x4 x5) now i d = after (insert_refresh_token x1 x2 x3 x4 x5 now i d) d"
| "run_statement (SRevokeWhere x) now i d = after (revoke_where x now i d) d"
| "run_statement (SCreatePasswordResetToken x1 x2 x3) now i d = after (create_password_reset_token x1 x2 x3 now i d) d"
| "run_statement (SMarkPasswordResetUsed x) now i d = after (mark_password_reset_used x now i d) d"
| "run_statement (SDeleteProject x1 x2) now i d = after (delete_project x1 x2 now i d) d"
| "run_statement (SInsertProject x1 x2 x3 x4 x5) now i d = after (insert_project x1 x2 x3 x4 x5 now i d) d"
| "run_statement (SUpdateProject x1 x2 x3 x4) now i d = after (update_project x1 x2 x3 x4 now i d) d"
| "run_statement (SInsertAuditLog x1 x2 x3 x4 x5 x6 x7) now i d = after (insert_audit_log x1 x2 x3 x4 x5 x6 x7 now i d) d"
| "run_statement (SDeleteFile x1 x2) now i d = after (delete_file x1 x2 now i d) d"
| "run_statement (SInsertFile x) now i d = after (insert_file x now i d) d"
| "run_statement (SCreateApiKey x1 x2 x3 x4 x5 x6) now i d = after (create_api_key x1 x2 x3 x4 x5 x6 now i d) d"
| "run_statement (SRevokeApiKey x1 x2) now i d = after (revoke_api_key x1 x2 now i d) d"
| "run_statement (STouchApiKey x) now i d = after (touch_api_key x now i d) d"
| "run_statement (SCancelSubscription x) now i d = after (cancel_subscription x now i d) d"
| "run_statement (SUpdateSubscriptionStatus x1 x2 x3 x4) now i d = after (update_subscription_status x1 x2 x3 x4 now i d) d"
| "run_statement (SUpsertSubscription x1 x2 x3 x4 x5 x6) now i d = after (upsert_subscription x1 x2 x3 x4 x5 x6 now i d) d"
| "run_statement (SCreateWebhookEndpoint x1 x2 x3 x4) now i d = after (create_webhook_endpoint x1 x2 x3 x4 now i d) d"
| "run_statement (SInsertDelivery x1 x2 x3 x4) now i d = after (insert_delivery x1 x2 x3 x4 now i d) d"
| "run_statement (SUpdateWebhookEndpoint x1 x2 x3 x4 x5) now i d = after (update_webhook_endpoint x1 x2 x3 x4 x5 now i d) d"
| "run_statement (SMarkDelivered x1 x2 x3) now i d = after (mark_delivered x1 x2 x3 now i d) d"
| "run_statement (SMarkRetry x1 x2 x3 x4) now i d = after (mark_retry x1 x2 x3 x4 now i d) d"


text \<open>An entry of the log has the time of the database and the identifier it draws.\<close>

type_synonym entry = "time \<times> string \<times> statement"

fun replay :: "entry list \<Rightarrow> db \<Rightarrow> db" where
  "replay [] d = d"
| "replay ((now, i, s) # es) d = replay es (run_statement s now i d)"

lemma replay_append [simp]: "replay (xs @ ys) d = replay ys (replay xs d)"
  by (induction xs d rule: replay.induct) simp_all

definition logged :: "db \<Rightarrow> db \<Rightarrow> bool" where
  "logged d d' \<longleftrightarrow> (\<exists>es. d' = replay es d)"

lemma logged_refl: "logged d d"
  unfolding logged_def by (rule exI [of _ "[]"]) simp

lemma logged_trans: "logged d e \<Longrightarrow> logged e f \<Longrightarrow> logged d f"
  unfolding logged_def by (metis replay_append)

text \<open>A statement is a log of one entry.\<close>

lemma logged_stmt:
  assumes "\<And>now i d. run_statement s now i d = after (st now i d) d"
  shows "stmt_rel logged st"
proof -
  have "d' = replay [(now, i, s)] d" if "st now i d = Inr (a, d')" for now i d a d'
    using that by (simp add: assms after_def)
  then show ?thesis
    unfolding stmt_rel_def logged_def by blast
qed

interpretation history: schema_frame logged
  by (unfold_locales; (rule logged_refl logged_stmt, rule run_statement.simps | rule logged_refl | erule (1) logged_trans))

text \<open>What every statement respects, every log respects.\<close>

context schema_frame
begin

lemma after_rel: "stmt_rel R st \<Longrightarrow> R d (after (st now i d) d)"
  using tables_refl by (auto simp: stmt_rel_def after_def split: sum.splits)

lemma statement_rel: "R d (run_statement s now i d)"
  by (cases s) (simp_all add: after_rel st_intros st_mark_delivered st_mark_retry)

lemma replay_rel: "R d (replay es d)"
  by (induction es d rule: replay.induct) (auto intro: tables_refl tables_trans statement_rel)

end


section \<open>Properties\<close>





end
