(* ===== verification/Spec2Isabelle.thy ===== *)
theory Spec2Isabelle
  imports Requests Races ResetRaces Lifecycle Logs Admission Dispatcher LimiterFloat History
begin

text \<open>
  A verification of vergo, a multi-tenant API server in Go.

  \<^bold>\<open>The program.\<close> \<open>cmd/api/main.go\<close> starts a \<open>gin\<close> engine with three global middleware
  functions (recovery, rate limit, logging), registers the routes of
  \<open>internal/http/router/router.go\<close> and runs a webhook dispatcher every thirty seconds. A request
  passes the middleware of its route (\<open>internal/http/middleware\<close>: authentication by signed token or API
  key, the tenant check, the minimal role) and ends in a handler (\<open>internal/http/handlers\<close>), which calls
  services (\<open>internal/domain/*\<close>, \<open>internal/auth\<close>, \<open>internal/storage/s3\<close>); these run the
  generated queries of \<open>internal/repo\<close> on PostgreSQL. The rate limiter keeps its buckets in memory; all
  other state is in the tables.

  \<^bold>\<open>The state.\<close> \<open>Schema\<close> has one record per table row with the columns of
  \<open>internal/repo/models.go\<close>, the record \<open>db\<close> of all tables as lists of rows, and the record
  \<open>world\<close>: the tables, the limiter, the calls made to other systems, and an environment that gives, step by
  step, the clock, the random draws, the answers of HTTP peers and the failures. A statement may not run or may run
  and lose its reply; every theorem without a hypothesis on \<open>w_fault\<close> holds under all of them. A computation is
  a state monad over \<open>world\<close> (\<open>Prelude\<close>), an error a value of \<open>goerror\<close>, a result
  \<open>goerror + 'a\<close>. The constraints that the statements enforce are those of the migrations under
  \<open>internal/pkg/db/migrations\<close> and \<open>migrations\<close>.

  \<^bold>\<open>The theories.\<close>
  \<^item> \<open>Prelude\<close>: computations, their weakest preconditions, frames (a \<open>locale\<close> of reflexive and
    transitive relations that composes along the monad), tables.
  \<^item> \<open>GoStd\<close>, \<open>Float64\<close>: what is used of Go's standard library: errors, \<open>int32\<close> and
    \<open>int64\<close> as words, strings, decimal numbers, times, JSON decoding; rounding to double precision.
  \<^item> \<open>RateLimiter\<close>: \<open>internal/pkg/ratelimit/limiter.go\<close>, with the abstract token bucket as a
    \<open>locale\<close> that the limiter interprets. \<open>LimiterFloat\<close>: a bucket that loses a little on every
    request, which the limiter in double precision interprets and of which the exact bucket is the lossless case.
  \<^item> \<open>Lib\<close>: the packages the program calls as fields of a record that is a parameter everywhere; the
    hypotheses on them (\<open>jwt_sound\<close>, \<open>jwt_stable\<close>, \<open>bcrypt_sound\<close>) and one concrete instance
    that satisfies them, used by the examples.
  \<^item> \<open>RepoIdentity\<close>, \<open>RepoTenant\<close>, \<open>RepoBilling\<close>: \<open>internal/repo/*.sql.go\<close>, one
    definition per statement and one per query. \<open>Statements\<close>: the interface (\<open>request_frame\<close>,
    \<open>schema_frame\<close>) by which a relation on tables that every statement respects carries over to services,
    handlers and the running system. \<open>Integrity\<close>: the constraints of the schema as such a relation.
  \<^item> \<open>Tokens\<close>: \<open>internal/auth\<close>, with credentials that never come back to life as a \<open>locale\<close>.
    \<open>Users\<close>, \<open>Orgs\<close>, \<open>Projects\<close>, \<open>AuditLog\<close>, \<open>Files\<close>, \<open>ApiKeys\<close>,
    \<open>Billing\<close>, \<open>Webhooks\<close>: the services under \<open>internal/domain\<close>. \<open>Users\<close> states the contract of
    the user service as a \<open>locale\<close> that both the service on Postgres and the one in memory interpret;
    \<open>Tenancy\<close> that of a table whose rows belong to organizations.
  \<^item> \<open>Config\<close>: \<open>internal/pkg/config\<close>. \<open>Gin\<close>: contexts, replies, chains and binding.
    \<open>Middleware\<close>: \<open>internal/http/middleware\<close>. \<open>AuthHandlers\<close>, \<open>OrgHandlers\<close>,
    \<open>TenantHandlers\<close>, \<open>StorageHandlers\<close>: \<open>internal/http/handlers\<close> and
    \<open>internal/storage/s3\<close>. \<open>Router\<close>: the routes, the dispatch of a request, and the step relation of the
    running system.
  \<^item> \<open>Logs\<close>: \<open>internal/pkg/logging\<close> and the record of a request that the middleware logs.
  \<^item> \<open>Lifecycle\<close>: the process around the requests: \<open>internal/pkg/telemetry\<close>, \<open>internal/pkg/db\<close>, the S3 client's construction, start and shutdown in
    \<open>main.go\<close>. Its state is the list of library calls made, with any of them failing.
  \<^item> \<open>ApiSchema\<close>, \<open>ApiDocs\<close>: \<open>docs/swagger/docs.go\<close>, the API document: its types as JSON types
    with a check of values against them (and the types of \<open>handlers/responses.go\<close> with their encodings), its
    operations with their paths, parameters, security and responses. \<open>Conformance\<close>, \<open>Validation\<close> and
    \<open>Admission\<close> relate the document to the routes and the handlers; what a handler writes is composed along the monad by a
    \<open>locale\<close> (\<open>reply_contract\<close>).
  \<^item> \<open>Access\<close>, \<open>Isolation\<close>, \<open>Sessions\<close>, \<open>Gaps\<close>, \<open>Requests\<close> and this theory:
    properties of the composition. \<open>Dispatcher\<close>: the passes of the webhook dispatcher.
  \<^item> \<open>History\<close>: the statements that write as a datatype, a log of them and its replay; an interpretation of
    \<open>schema_frame\<close> shows that every run is a log, and what \<open>schema_frame\<close> gives for runs it gives for logs.
  \<^item> \<open>Threads\<close>: any number of requests, cut into their statements, interleaved with each other and with
    the system; the \<open>locale\<close> \<open>contended\<close> says that a credential spent once is spent for every later
    statement. \<open>Races\<close> and \<open>ResetRaces\<close> interpret it for the refresh handler and for the password reset.

  \<^bold>\<open>What is shown.\<close> Every reachable state satisfies the schema's constraints, has an audit log that only
  grew and no webhook delivery with more than five attempts (this theory). The tables of every run are the replay of
  a log of statements, and no order of statements, of however many concurrent requests, breaks the constraints of the
  schema, shortens the audit log or revives a credential (\<open>History\<close>). A handler of a protected route runs only
  for a proved user who is a member with the route's role (\<open>Access\<close>); projects and files of other organizations
  are neither changed nor observed (\<open>Isolation\<close>). A refresh token rotates once, a reset token resets once and
  ends all sessions, login and password-reset answers do not reveal accounts (\<open>Sessions\<close>); when refreshes or resets
  overlap, a token is useless from its revocation on, but two requests that have read it before both succeed
  (\<open>Races\<close>, \<open>ResetRaces\<close>). The limiter is a token bucket, in
  double precision: bounded levels, exact bursts, recovery (\<open>RateLimiter\<close>) and bounded acceptance in every window
  (\<open>LimiterFloat\<close>); a limited request touches nothing (\<open>Requests\<close>). The services do what they return:
  creating an organization is atomic under every failure, deleting one cascades, memberships, projects, files, API
  keys, subscriptions, audit pages and webhook attempts read back as written, and the two user services agree.
  A route is dispatched exactly when it is registered and matches, the routes are those of the API document with the
  documented authentication, every answer has a documented status and type but for five branches
  (\<open>Conformance\<close>), a body without a required member is refused without effect (\<open>Validation\<close>), and a body
  of the documented type is never refused as malformed (\<open>Admission\<close>).
  Every pass of the dispatcher uses up an attempt per delivery, so that the retries end (\<open>Dispatcher\<close>).
  The process listens only when all that it depends on has come up, and shuts down in its order whatever fails
  (\<open>Lifecycle\<close>).
  \<open>Gaps\<close>, \<open>Webhooks\<close> and \<open>Billing\<close> also prove where the code falls short of its comments: owners
  delete other organizations, members are not removed, API keys are always refused, events are never queued, a
  canceled subscription keeps its plan.

  \<^bold>\<open>Bounds.\<close> No definition needs fuel: loops run over lists of rows. Requests and background work are taken
  one at a time; a statement is atomic, as in PostgreSQL, and two requests do not interleave between their statements,
  except for the refreshes of \<open>Races\<close>, the resets of \<open>ResetRaces\<close> and the logs of \<open>History\<close>, which
  cover every order of the statements but not what the requests answer.
  The limiter's theorems hold in double precision; the bound on acceptance asks for a rate that refills the burst within the
  five minutes after which buckets are dropped (as the defaults 20 and 40 do); each request of a key may gain a part in
  \<open>2 ^ 50\<close> of the burst by rounding. Recovery counts whole seconds of waiting.
  Strings are byte lists and case folding is that of ASCII. The update of an API key's last use, made by a goroutine,
  runs at once and may fail.

  \<^bold>\<open>Not modelled.\<close> The summaries, descriptions, tags and examples of the API document and the
  text of the Swagger page that shows it outside production; how \<open>log/slog\<close> writes a record, and the records other than
  those of requests and of \<open>RunMigrations\<close>; the file \<open>.env\<close> (the environment is an argument everywhere); the options of exporters and servers that only reach a library; \<open>internal/repo/db.go\<close>, the handle to
  \<open>database/sql\<close>; \<open>internal/pkg/testutil\<close>, the empty \<open>scripts/seed\<close> and the tests. What the
  migrations leave behind is the schema of \<open>Schema\<close> and \<open>Integrity\<close>; the library that runs them is a
  call that may fail. JSON is
  a value, not its text; the texts of database errors are not those of the driver.
\<close>


section \<open>Attempts\<close>

text \<open>Requests never count an attempt: they keep the deliveries, remove some or add new ones.\<close>

lemma attempts_requests: "request_frame (\<lambda>d d'. attempts_bounded d \<longrightarrow> attempts_bounded d')"
  by (unfold_locales; (iprover | auto simp: stmt_rel_def stmt_defs attempts_bounded_def Let_def delete_where_def
      split: if_splits option.splits))

interpretation attempts: request_frame "\<lambda>d d'. attempts_bounded d \<longrightarrow> attempts_bounded d'"
  by (rule attempts_requests)

lemma attempts_step:
  assumes "sys_step L env w w'" "db_ok (w_db w)" "attempts_bounded (w_db w)"
  shows "db_ok (w_db w') \<and> attempts_bounded (w_db w')"
proof
  show "db_ok (w_db w')"
    using integrity.step_rel [OF assms(1)] assms(2) by (simp add: keeps_ok_def)
  from assms(1) show "attempts_bounded (w_db w')"
  proof (cases rule: sys_step.cases)
    case (request c m p)
    then show ?thesis
      using attempts.frame_execD [OF attempts.respectful_serve, of w] assms(3) by (simp add: tables_rel_def)
  next
    case dispatcher
    then show ?thesis
      using ProcessPending_attempts [OF assms(2,3)] by (simp add: wlp_exec)
  qed (use assms(3) in simp_all)
qed


section \<open>Ending sessions\<close>

lemma RevokeAll_revokes:
  assumes "w_fault w = (\<lambda>_. None)" "refresh_row (w_db w) jti = Some row" "refresh_tokens_user_id row = u"
  shows "refresh_revoked (w_db (exec (RevokeAllForUser u) w)) jti"
proof -
  have "wlp (RevokeAllForUser u) (\<lambda>_ w'. refresh_revoked (w_db w') jti) w"
    using assms by (simp add: RevokeAllForUser_def RevokeAllUserTokens_def wlp_sql_ok stmt_result_def
        revoke_where_def refresh_revoked_def refresh_row_def select_one_update)
  then show ?thesis by (simp add: wlp_exec)
qed

lemma Recover_no_panic: "\<not> g_panic (result (Recover c h) w)"
  by (simp add: Recover_def result_bind emit_def)

text \<open>A panic in a handler never escapes the engine: whatever the request, the path and the state, serving
it returns a context without a pending panic, so that the next request is served as usual.\<close>

lemma serve_recovers: "\<not> g_panic (result (serve L env m p c) w)"
  by (simp add: serve_def global_chain_def Recover_no_panic split: option.splits prod.splits)


section \<open>Properties\<close>



text \<open>The audit log is append-only: in every later state the events recorded so far are still there,
in the same order and unchanged, in front of the new ones, even after the organization is deleted.\<close>

lemma audit_append_only:
  assumes "reaches L env w w'"
  shows "\<exists>new. audit_logs (w_db w') = audit_logs (w_db w) @ new"
  using audit.reaches_rel [OF assms] by (simp add: log_grows_def prefix_def)

lemma audit_append_only_witness:
  "\<exists>new. audit_logs (w_db (exec (serve sample_lib sample_env GET [''v1'', ''me''] (sample_request None))
     (sample_world one_org_db))) = audit_logs one_org_db @ new"
  using audit_append_only [of sample_lib sample_env "sample_world one_org_db"
      "exec (serve sample_lib sample_env GET [''v1'', ''me''] (sample_request None)) (sample_world one_org_db)"]
    sys_step.request [of "sample_request None" sample_lib sample_env]
  by (simp add: reaches_def r_into_rtranclp fresh_ctx_def sample_request_def sample_world_def)



text \<open>C17: Logging out everywhere ends the user's sessions: after the handler has run for a user, with the
database answering, every refresh token that the user had is rejected in every state the system reaches.\<close>

theorem logout_all_ends_sessions:
  assumes "middleware_UserID c = (u, True)" "w_fault w = (\<lambda>_. None)"
    and "refresh_row (w_db w) jti = Some row" "refresh_tokens_user_id row = u"
    and "reaches L env (exec (auth_LogoutAll c) w) w'"
  shows "\<not> refresh_accepted L jti w' \<and> g_out (result (auth_LogoutAll c) w) = g_out c @ [SetStatus 204]"
proof
  have "exec (auth_LogoutAll c) w = exec (RevokeAllForUser u) w"
    by (simp add: auth_LogoutAll_def assms(1) exec_bind)
  then have "refresh_revoked (w_db (exec (auth_LogoutAll c) w)) jti"
    using RevokeAll_revokes [OF assms(2-4)] by simp
  then have "refresh_revoked (w_db w') jti"
    using refresh.life.reaches_rel [OF assms(5)] by simp
  then show "\<not> refresh_accepted L jti w'"
    by (rule refresh.rejects)
  show "g_out (result (auth_LogoutAll c) w) = g_out c @ [SetStatus 204]"
    by (simp add: auth_LogoutAll_def assms(1) result_bind emit_def)
qed

theorem logout_all_ends_sessions_witness:
  "\<not> refresh_accepted sample_lib ''j1''
     (exec (auth_LogoutAll (ctx_set ''user_id'' (GStr ''u1'') (sample_request None))) (still_world refresh_db))"
proof -
  let ?c = "ctx_set ''user_id'' (GStr ''u1'') (sample_request None)"
  have "map_option refresh_tokens_user_id (refresh_row (w_db (still_world refresh_db)) ''j1'') = Some ''u1''"
    by (simp add: still_world_def sample_world_def refresh_db_def refresh_row_def select_one_single)
  then obtain row where "refresh_row (w_db (still_world refresh_db)) ''j1'' = Some row"
    "refresh_tokens_user_id row = ''u1''" by auto
  then show ?thesis
    using logout_all_ends_sessions [of ?c "''u1''" "still_world refresh_db" "''j1''" row sample_lib sample_env
        "exec (auth_LogoutAll ?c) (still_world refresh_db)"]
    by (simp add: middleware_UserID_def get_string_def ctx_set_def still_world_def sample_world_def reaches_def)
qed

end
